(* ===== verification/Zm_Prelude.thy ===== *)
theory Zm_Prelude
  imports Main "HOL-Library.Word" "HOL-Library.Char_ord" "HOL-Library.List_Lexorder"
begin

text \<open>
  Shared vocabulary of the development: the fixed-width integers, the result type and the string
  operations of the Rust standard library that the sources use, with the generic lemmas about
  lists, options, maps and words on which the component theories rely.

  Text is modelled as \<^typ>\<open>string\<close>, a list of 8-bit characters. The case conversions and the
  notion of white space are those of Rust on ASCII text; a character outside ASCII is left
  unchanged by every conversion and is never white space.
\<close>

section \<open>Collections of facts\<close>

named_theorems str_simps \<open>evaluation rules of the string operations\<close>
named_theorems row_simps \<open>projections and updates of stored rows\<close>

section \<open>Integers and results\<close>

type_synonym u64 = "64 word"
type_synonym u32 = "32 word"
type_synonym u16 = "16 word"
type_synonym usize = "64 word"

type_synonym ('a, 'e) result = "'e + 'a"

abbreviation Ok :: "'a \<Rightarrow> ('a, 'e) result" where "Ok \<equiv> Inr"
abbreviation Err :: "'e \<Rightarrow> ('a, 'e) result" where "Err \<equiv> Inl"

definition is_ok :: "('a, 'e) result \<Rightarrow> bool" where
  "is_ok r = (case r of Inl _ \<Rightarrow> False | Inr _ \<Rightarrow> True)"

definition ok_or :: "'e \<Rightarrow> 'a option \<Rightarrow> ('a, 'e) result" where
  "ok_or e x = (case x of None \<Rightarrow> Err e | Some v \<Rightarrow> Ok v)"

definition result_ok :: "('a, 'e) result \<Rightarrow> 'a option" where
  "result_ok r = (case r of Inl _ \<Rightarrow> None | Inr v \<Rightarrow> Some v)"

definition unwrap_or :: "'a \<Rightarrow> 'a option \<Rightarrow> 'a" where
  "unwrap_or d x = (case x of None \<Rightarrow> d | Some v \<Rightarrow> v)"

text \<open>Rust's \<open>saturating_sub\<close>, \<open>saturating_add\<close> and \<open>saturating_mul\<close> on an unsigned word.\<close>

definition saturating_sub :: "'a::len word \<Rightarrow> 'a word \<Rightarrow> 'a word" where
  "saturating_sub a b = (if a < b then 0 else a - b)"

definition saturating_add :: "'a::len word \<Rightarrow> 'a word \<Rightarrow> 'a word" where
  "saturating_add a b = (if unat a + unat b < 2 ^ LENGTH('a) then a + b else - 1)"

definition saturating_mul :: "'a::len word \<Rightarrow> 'a word \<Rightarrow> 'a word" where
  "saturating_mul a b = (if unat a * unat b < 2 ^ LENGTH('a) then a * b else - 1)"

text \<open>Rust's \<open>clamp\<close> on a totally ordered type.\<close>

definition clamp :: "'a::linorder \<Rightarrow> 'a \<Rightarrow> 'a \<Rightarrow> 'a" where
  "clamp lo hi x = (if x < lo then lo else if hi < x then hi else x)"

section \<open>Characters and strings\<close>

definition is_whitespace :: "char \<Rightarrow> bool" where
  "is_whitespace c \<longleftrightarrow> c \<in> {CHR 0x09, CHR 0x0A, CHR 0x0B, CHR 0x0C, CHR 0x0D, CHR 0x20}"

definition char_to_lower :: "char \<Rightarrow> char" where
  "char_to_lower c =
     (if CHR ''A'' \<le> c \<and> c \<le> CHR ''Z'' then char_of (of_char c + (32 :: nat)) else c)"

definition char_to_upper :: "char \<Rightarrow> char" where
  "char_to_upper c =
     (if CHR ''a'' \<le> c \<and> c \<le> CHR ''z'' then char_of (of_char c - (32 :: nat)) else c)"


definition to_ascii_lowercase :: "string \<Rightarrow> string" where
  "to_ascii_lowercase s = map char_to_lower s"

definition to_lowercase :: "string \<Rightarrow> string" where
  "to_lowercase s = map char_to_lower s"

definition to_ascii_uppercase :: "string \<Rightarrow> string" where
  "to_ascii_uppercase s = map char_to_upper s"

definition eq_ignore_ascii_case :: "string \<Rightarrow> string \<Rightarrow> bool" where
  "eq_ignore_ascii_case a b \<longleftrightarrow> to_ascii_lowercase a = to_ascii_lowercase b"

definition trim_start_matches :: "(char \<Rightarrow> bool) \<Rightarrow> string \<Rightarrow> string" where
  "trim_start_matches P s = dropWhile P s"

definition trim_end_matches :: "(char \<Rightarrow> bool) \<Rightarrow> string \<Rightarrow> string" where
  "trim_end_matches P s = rev (dropWhile P (rev s))"

definition trim_matches :: "(char \<Rightarrow> bool) \<Rightarrow> string \<Rightarrow> string" where
  "trim_matches P s = trim_end_matches P (trim_start_matches P s)"

definition trim :: "string \<Rightarrow> string" where
  "trim s = trim_matches is_whitespace s"

definition starts_with :: "string \<Rightarrow> string \<Rightarrow> bool" where
  "starts_with p s \<longleftrightarrow> take (length p) s = p"

text \<open>
  \<open>str::split\<close> with a character or a class of characters: always at least one piece, and pieces
  may be empty. \<open>split_whitespace\<close> drops the empty ones. \<open>split_once\<close> cuts at the first separator.
\<close>

fun split_by :: "(char \<Rightarrow> bool) \<Rightarrow> string \<Rightarrow> string list" where
  "split_by P [] = [[]]"
| "split_by P (x # xs) =
     (if P x then [] # split_by P xs
      else (case split_by P xs of [] \<Rightarrow> [[x]] | p # ps \<Rightarrow> (x # p) # ps))"

definition split_char :: "char \<Rightarrow> string \<Rightarrow> string list" where
  "split_char c s = split_by (\<lambda>x. x = c) s"

definition split_whitespace :: "string \<Rightarrow> string list" where
  "split_whitespace s = filter (\<lambda>p. p \<noteq> []) (split_by is_whitespace s)"

definition split_once :: "char \<Rightarrow> string \<Rightarrow> (string \<times> string) option" where
  "split_once c s =
     (case dropWhile (\<lambda>x. x \<noteq> c) s of
        [] \<Rightarrow> None
      | _ # rest \<Rightarrow> Some (takeWhile (\<lambda>x. x \<noteq> c) s, rest))"

section \<open>Decimal numerals\<close>

definition digit_char :: "nat \<Rightarrow> char" where
  "digit_char d = char_of (48 + d)"

definition digit_val :: "char \<Rightarrow> nat option" where
  "digit_val c = (let n = of_char c in if 48 \<le> n \<and> n \<le> 57 then Some (n - 48) else None)"

text \<open>The \<open>Display\<close> form of an unsigned integer.\<close>

fun dec :: "nat \<Rightarrow> string" where
  "dec n = (if n < 10 then [digit_char n] else dec (n div 10) @ [digit_char (n mod 10)])"

declare dec.simps [simp del]

fun parse_digits :: "nat \<Rightarrow> string \<Rightarrow> nat option" where
  "parse_digits acc [] = Some acc"
| "parse_digits acc (c # cs) =
     (case digit_val c of None \<Rightarrow> None | Some d \<Rightarrow> parse_digits (10 * acc + d) cs)"

text \<open>
  \<open>u16::from_str\<close> and \<open>u64::from_str\<close>: an optional plus sign, at least one digit, and a value that
  fits the type.
\<close>

definition parse_unsigned :: "nat \<Rightarrow> string \<Rightarrow> nat option" where
  "parse_unsigned bound s =
     (let ds = (case s of c # cs \<Rightarrow> (if c = CHR ''+'' then cs else s) | [] \<Rightarrow> [])
      in if ds = [] then None
         else case parse_digits 0 ds of
             None \<Rightarrow> None
           | Some n \<Rightarrow> if n < bound then Some n else None)"

definition parse_u16 :: "string \<Rightarrow> u16 option" where
  "parse_u16 s = map_option of_nat (parse_unsigned (2 ^ 16) s)"

section \<open>Lemmas: results and integers\<close>

lemma is_ok_simps [simp]: "is_ok (Ok v)" "\<not> is_ok (Err e)"
  by (simp_all add: is_ok_def)

lemma result_ok_simps [simp]: "result_ok (Ok v) = Some v" "result_ok (Err e) = None"
  by (simp_all add: result_ok_def)

lemma ok_or_simps [simp]: "ok_or e None = Err e" "ok_or e (Some v) = Ok v"
  by (simp_all add: ok_or_def)

lemma unwrap_or_simps [simp]: "unwrap_or d None = d" "unwrap_or d (Some v) = v"
  by (simp_all add: unwrap_or_def)

lemma is_ok_iff: "is_ok r \<longleftrightarrow> (\<exists>v. r = Ok v)"
  by (cases r) auto

lemma unat_saturating_sub: "unat (saturating_sub a b) = unat a - unat b"
proof (cases "a < b")
  case True
  then have "unat a < unat b" by (simp add: word_less_nat_alt)
  with True show ?thesis by (simp add: saturating_sub_def)
next
  case False
  then show ?thesis by (simp add: saturating_sub_def unat_sub not_less)
qed

lemma unat_minus_one_word [simp]: "unat (- 1 :: 'a::len word) = 2 ^ LENGTH('a) - 1"
  by (simp only: unsigned_minus_1_eq_mask mask_eq_exp_minus_1)

lemma unat_saturating_add:
  "unat (saturating_add a b) = min (unat a + unat b) (2 ^ LENGTH('a) - 1)"
  for a b :: "'a::len word"
  by (auto simp: saturating_add_def unat_word_ariths)

lemma unat_saturating_mul:
  "unat (saturating_mul a b) = min (unat a * unat b) (2 ^ LENGTH('a) - 1)"
  for a b :: "'a::len word"
  by (auto simp: saturating_mul_def unat_word_ariths)

lemma clamp_bounds: "lo \<le> hi \<Longrightarrow> lo \<le> clamp lo hi x \<and> clamp lo hi x \<le> hi"
  by (auto simp: clamp_def)

lemma clamp_id: "lo \<le> x \<Longrightarrow> x \<le> hi \<Longrightarrow> clamp lo hi x = x"
  by (auto simp: clamp_def)


section \<open>Lemmas: strings\<close>

lemma char_to_lower_idem [simp]: "char_to_lower (char_to_lower c) = char_to_lower c"
  by (auto simp: char_to_lower_def less_eq_char_def)

lemma to_lowercase_idem [simp]: "to_lowercase (to_lowercase s) = to_lowercase s"
  by (simp add: to_lowercase_def)

lemma to_ascii_lowercase_idem [simp]:
  "to_ascii_lowercase (to_ascii_lowercase s) = to_ascii_lowercase s"
  by (simp add: to_ascii_lowercase_def)

lemma to_lowercase_Nil [simp]: "to_lowercase s = [] \<longleftrightarrow> s = []"
  by (simp add: to_lowercase_def)

lemma to_ascii_lowercase_Nil [simp]: "to_ascii_lowercase s = [] \<longleftrightarrow> s = []"
  by (simp add: to_ascii_lowercase_def)

lemma trim_end_matches_idem [simp]:
  "trim_end_matches P (trim_end_matches P s) = trim_end_matches P s"
  by (simp add: trim_end_matches_def)

lemma trim_end_matches_Cons:
  "\<not> P x \<Longrightarrow> trim_end_matches P (x # s) = x # trim_end_matches P s"
  by (simp add: trim_end_matches_def dropWhile_append)

lemma trim_matches_idem [simp]: "trim_matches P (trim_matches P s) = trim_matches P s"
proof (cases "trim_start_matches P s")
  case Nil
  then have e: "trim_matches P s = []" by (simp add: trim_matches_def trim_end_matches_def)
  show ?thesis
    by (simp only: e) (simp add: trim_matches_def trim_end_matches_def trim_start_matches_def)
next
  case (Cons x xs)
  then have "\<not> P x" using hd_dropWhile [of P s] by (simp add: trim_start_matches_def)
  with Cons show ?thesis
    by (simp add: trim_matches_def trim_end_matches_Cons)
       (simp add: trim_start_matches_def trim_end_matches_Cons)
qed

lemma trim_idem [simp]: "trim (trim s) = trim s"
  by (simp add: trim_def)

lemma split_by_not_Nil [simp]: "split_by P s \<noteq> []"
  by (induction s) (auto split: list.splits)

lemma split_by_pieces: "p \<in> set (split_by P s) \<Longrightarrow> c \<in> set p \<Longrightarrow> \<not> P c"
proof (induction s arbitrary: p)
  case Nil
  then show ?case by simp
next
  case (Cons x xs)
  then show ?case
    by (cases "split_by P xs") (fastforce split: if_splits)+
qed

lemma split_by_none: "\<forall>c \<in> set s. \<not> P c \<Longrightarrow> split_by P s = [s]"
  by (induction s) auto

lemma split_by_append:
  "\<forall>c \<in> set a. \<not> P c \<Longrightarrow> P x \<Longrightarrow> split_by P (a @ x # b) = a # split_by P b"
  by (induction a) auto

lemma split_once_append:
  "c \<notin> set a \<Longrightarrow> split_once c (a @ c # b) = Some (a, b)"
  by (auto simp: split_once_def takeWhile_append dropWhile_append)

lemma split_once_Some:
  "split_once c s = Some (a, b) \<Longrightarrow> s = a @ c # b \<and> c \<notin> set a"
proof (induction s arbitrary: a)
  case Nil
  then show ?case by (simp add: split_once_def)
next
  case (Cons x xs)
  then show ?case
    by (cases "x = c") (auto simp: split_once_def split: list.splits)
qed

section \<open>Lemmas: decimal numerals\<close>

lemma digit_val_digit_char [simp]: "d < 10 \<Longrightarrow> digit_val (digit_char d) = Some d"
  by (simp add: digit_val_def digit_char_def Let_def)

lemma parse_digits_append:
  "parse_digits acc (a @ b) =
     (case parse_digits acc a of None \<Rightarrow> None | Some n \<Rightarrow> parse_digits n b)"
  by (induction a arbitrary: acc) (auto split: option.splits)

lemma dec_not_Nil [simp]: "dec n \<noteq> []"
  by (subst dec.simps) simp

lemma parse_digits_dec: "parse_digits 0 (dec n) = Some n"
proof (induction n rule: dec.induct)
  case (1 n)
  show ?case
  proof (cases "n < 10")
    case True
    then show ?thesis by (simp add: dec.simps [of n])
  next
    case False
    with "1.IH" have "parse_digits 0 (dec (n div 10)) = Some (n div 10)" by simp
    with False show ?thesis
      by (simp add: dec.simps [of n] parse_digits_append)
  qed
qed

lemma dec_digits: "c \<in> set (dec n) \<Longrightarrow> \<exists>d < 10. c = digit_char d"
proof (induction n rule: dec.induct)
  case (1 n)
  show ?case
  proof (cases "n < 10")
    case True
    with "1.prems" show ?thesis by (auto simp: dec.simps [of n])
  next
    case False
    with "1.prems" have "c \<in> set (dec (n div 10)) \<or> c = digit_char (n mod 10)"
      by (auto simp: dec.simps [of n])
    moreover have "n mod 10 < 10" by simp
    ultimately show ?thesis using "1.IH" False by blast
  qed
qed

lemma digit_char_neq:
  "d < 10 \<Longrightarrow> digit_char d \<noteq> CHR ''+''" "d < 10 \<Longrightarrow> digit_char d \<noteq> CHR ''.''"
  "d < 10 \<Longrightarrow> digit_char d \<noteq> CHR '':''"
proof -
  have sep: "digit_val (CHR ''+'') = None" "digit_val (CHR ''.'') = None"
    "digit_val (CHR '':'') = None" by (simp_all add: digit_val_def)
  show "digit_char d \<noteq> CHR ''+''" "digit_char d \<noteq> CHR ''.''" "digit_char d \<noteq> CHR '':''"
    if "d < 10"
    using that sep digit_val_digit_char [OF that] by (metis option.distinct(1))+
qed

lemma dec_no_sep: "CHR ''.'' \<notin> set (dec n)" "CHR '':'' \<notin> set (dec n)" "CHR ''+'' \<notin> set (dec n)"
  by (metis dec_digits digit_char_neq(2), metis dec_digits digit_char_neq(3),
      metis dec_digits digit_char_neq(1))

lemma parse_unsigned_dec: "n < b \<Longrightarrow> parse_unsigned b (dec n) = Some n"
proof -
  assume "n < b"
  obtain c cs where dn: "dec n = c # cs" by (cases "dec n") auto
  then have "c \<noteq> CHR ''+''" using dec_no_sep(3) [of n] by auto
  with dn have "parse_unsigned b (dec n) =
      (case parse_digits 0 (dec n) of None \<Rightarrow> None | Some n \<Rightarrow> if n < b then Some n else None)"
    by (simp add: parse_unsigned_def)
  with \<open>n < b\<close> show ?thesis by (simp add: parse_digits_dec)
qed

lemma parse_u16_dec [simp]: "parse_u16 (dec (unat w)) = Some w"
proof -
  have "unat w < 2 ^ 16" using unsigned_less [of w] by simp
  then show ?thesis by (simp add: parse_u16_def parse_unsigned_dec)
qed

lemma dec_no_whitespace: "c \<in> set (dec n) \<Longrightarrow> \<not> is_whitespace c"
proof -
  assume "c \<in> set (dec n)"
  then obtain d where d: "d < 10" "c = digit_char d" using dec_digits by blast
  then have "of_char c = 48 + d" by (simp add: digit_char_def)
  then have "of_char c \<noteq> (9 :: nat) \<and> of_char c \<noteq> (10 :: nat) \<and> of_char c \<noteq> (11 :: nat) \<and>
      of_char c \<noteq> (12 :: nat) \<and> of_char c \<noteq> (13 :: nat) \<and> of_char c \<noteq> (32 :: nat)" by simp
  then show ?thesis by (auto simp: is_whitespace_def)
qed

lemma split_whitespace_pair:
  assumes "\<And>c. c \<in> set a \<Longrightarrow> \<not> is_whitespace c" and "a \<noteq> []"
    and "\<And>c. c \<in> set b \<Longrightarrow> \<not> is_whitespace c" and "b \<noteq> []"
  shows "split_whitespace (a @ CHR '' '' # b) = [a, b]"
proof -
  have "is_whitespace (CHR '' '')" by (simp add: is_whitespace_def)
  with assms have "split_by is_whitespace (a @ CHR '' '' # b) = [a, b]"
    by (subst split_by_append) (auto simp: split_by_none)
  with assms show ?thesis by (simp add: split_whitespace_def)
qed

end
