(* ===== verification/Zm_Db.thy ===== *)
theory Zm_Db
  imports Zm_Prelude
begin

text \<open>
  The data model of \<^verbatim>\<open>src/db.rs\<close>: the record types and their bridge to the resolver library's
  enumeration, the rows of the seven tables, and the conversions between rows, transfer objects and
  strings. A row's \<open>Deferred\<close> relation fields are lazy handles that no code under
  \<^verbatim>\<open>src/\<close> loads, so they carry no data here. Every field keeps its name, prefixed with the
  table's, because record fields share one name space.
\<close>

section \<open>Record types\<close>

datatype RecordType =
    RT_A | RT_AAAA | RT_ANAME | RT_ANY | RT_AXFR | RT_CAA | RT_CDS | RT_CDNSKEY | RT_CERT
    | RT_CNAME | RT_DNAME | RT_CSYNC | RT_DNSKEY | RT_DS | RT_HINFO | RT_HTTPS | RT_IXFR
    | RT_KEY | RT_MX | RT_NAPTR | RT_NS | RT_NSEC | RT_NSEC3 | RT_NSEC3PARAM | RT_NULL
    | RT_OPENPGPKEY | RT_OPT | RT_PTR | RT_RRSIG | RT_SIG | RT_SMIMEA | RT_SOA | RT_SRV
    | RT_SSHFP | RT_SVCB | RT_TLSA | RT_TSIG | RT_TXT | RT_Unknown | RT_ZERO

text \<open>
  The enumeration \<open>hickory_proto::rr::RecordType\<close> as far as the sources name it. It is open
  (\<open>non_exhaustive\<close>): \<open>H_Other\<close> stands for any variant the sources do not name.
\<close>

datatype HickoryRecordType =
    H_A | H_AAAA | H_ANAME | H_ANY | H_AXFR | H_CAA | H_CDS | H_CDNSKEY | H_CNAME | H_CSYNC
    | H_DNSKEY | H_DS | H_HINFO | H_HTTPS | H_IXFR | H_KEY | H_MX | H_NAPTR | H_NS | H_NSEC
    | H_NSEC3 | H_NSEC3PARAM | H_NULL | H_OPENPGPKEY | H_OPT | H_PTR | H_RRSIG | H_SIG | H_SOA
    | H_SRV | H_SSHFP | H_SVCB | H_TLSA | H_TSIG | H_TXT | H_ZERO | H_Unknown u16 | H_Other nat

text \<open>\<open>impl From<HickoryRecordType> for RecordType\<close>; \<^const>\<open>None\<close> is the panic of its last arm.\<close>

fun RecordType_from_hickory :: "HickoryRecordType \<Rightarrow> RecordType option" where
  "RecordType_from_hickory H_A = Some RT_A"
| "RecordType_from_hickory H_AAAA = Some RT_AAAA"
| "RecordType_from_hickory H_ANAME = Some RT_ANAME"
| "RecordType_from_hickory H_ANY = Some RT_ANY"
| "RecordType_from_hickory H_AXFR = Some RT_AXFR"
| "RecordType_from_hickory H_CAA = Some RT_CAA"
| "RecordType_from_hickory H_CDS = Some RT_CDS"
| "RecordType_from_hickory H_CDNSKEY = Some RT_CDNSKEY"
| "RecordType_from_hickory H_CNAME = Some RT_CNAME"
| "RecordType_from_hickory H_CSYNC = Some RT_CSYNC"
| "RecordType_from_hickory H_DNSKEY = Some RT_DNSKEY"
| "RecordType_from_hickory H_DS = Some RT_DS"
| "RecordType_from_hickory H_HINFO = Some RT_HINFO"
| "RecordType_from_hickory H_HTTPS = Some RT_HTTPS"
| "RecordType_from_hickory H_IXFR = Some RT_IXFR"
| "RecordType_from_hickory H_KEY = Some RT_KEY"
| "RecordType_from_hickory H_MX = Some RT_MX"
| "RecordType_from_hickory H_NAPTR = Some RT_NAPTR"
| "RecordType_from_hickory H_NS = Some RT_NS"
| "RecordType_from_hickory H_NSEC = Some RT_NSEC"
| "RecordType_from_hickory H_NSEC3 = Some RT_NSEC3"
| "RecordType_from_hickory H_NSEC3PARAM = Some RT_NSEC3PARAM"
| "RecordType_from_hickory H_NULL = Some RT_NULL"
| "RecordType_from_hickory H_OPENPGPKEY = Some RT_OPENPGPKEY"
| "RecordType_from_hickory H_OPT = Some RT_OPT"
| "RecordType_from_hickory H_PTR = Some RT_PTR"
| "RecordType_from_hickory H_RRSIG = Some RT_RRSIG"
| "RecordType_from_hickory H_SIG = Some RT_SIG"
| "RecordType_from_hickory H_SOA = Some RT_SOA"
| "RecordType_from_hickory H_SRV = Some RT_SRV"
| "RecordType_from_hickory H_SSHFP = Some RT_SSHFP"
| "RecordType_from_hickory H_SVCB = Some RT_SVCB"
| "RecordType_from_hickory H_TLSA = Some RT_TLSA"
| "RecordType_from_hickory H_TSIG = Some RT_TSIG"
| "RecordType_from_hickory H_TXT = Some RT_TXT"
| "RecordType_from_hickory H_ZERO = Some RT_ZERO"
| "RecordType_from_hickory (H_Unknown _) = Some RT_Unknown"
| "RecordType_from_hickory (H_Other _) = None"

text \<open>\<open>impl From<RecordType> for HickoryRecordType\<close>.\<close>

fun hickory_from_RecordType :: "RecordType \<Rightarrow> HickoryRecordType" where
  "hickory_from_RecordType RT_A = H_A"
| "hickory_from_RecordType RT_AAAA = H_AAAA"
| "hickory_from_RecordType RT_ANAME = H_ANAME"
| "hickory_from_RecordType RT_ANY = H_ANY"
| "hickory_from_RecordType RT_AXFR = H_AXFR"
| "hickory_from_RecordType RT_CAA = H_CAA"
| "hickory_from_RecordType RT_CDS = H_CDS"
| "hickory_from_RecordType RT_CDNSKEY = H_CDNSKEY"
| "hickory_from_RecordType RT_CERT = H_Unknown 0x000A"
| "hickory_from_RecordType RT_CNAME = H_CNAME"
| "hickory_from_RecordType RT_DNAME = H_Unknown 0x0027"
| "hickory_from_RecordType RT_CSYNC = H_CSYNC"
| "hickory_from_RecordType RT_DNSKEY = H_DNSKEY"
| "hickory_from_RecordType RT_DS = H_DS"
| "hickory_from_RecordType RT_HINFO = H_HINFO"
| "hickory_from_RecordType RT_HTTPS = H_HTTPS"
| "hickory_from_RecordType RT_IXFR = H_IXFR"
| "hickory_from_RecordType RT_KEY = H_KEY"
| "hickory_from_RecordType RT_MX = H_MX"
| "hickory_from_RecordType RT_NAPTR = H_NAPTR"
| "hickory_from_RecordType RT_NS = H_NS"
| "hickory_from_RecordType RT_NSEC = H_NSEC"
| "hickory_from_RecordType RT_NSEC3 = H_NSEC3"
| "hickory_from_RecordType RT_NSEC3PARAM = H_NSEC3PARAM"
| "hickory_from_RecordType RT_NULL = H_NULL"
| "hickory_from_RecordType RT_OPENPGPKEY = H_OPENPGPKEY"
| "hickory_from_RecordType RT_OPT = H_OPT"
| "hickory_from_RecordType RT_PTR = H_PTR"
| "hickory_from_RecordType RT_RRSIG = H_RRSIG"
| "hickory_from_RecordType RT_SIG = H_SIG"
| "hickory_from_RecordType RT_SMIMEA = H_Unknown 0x0041"
| "hickory_from_RecordType RT_SOA = H_SOA"
| "hickory_from_RecordType RT_SRV = H_SRV"
| "hickory_from_RecordType RT_SSHFP = H_SSHFP"
| "hickory_from_RecordType RT_SVCB = H_SVCB"
| "hickory_from_RecordType RT_TLSA = H_TLSA"
| "hickory_from_RecordType RT_TSIG = H_TSIG"
| "hickory_from_RecordType RT_TXT = H_TXT"
| "hickory_from_RecordType RT_Unknown = H_Unknown 0xFFFF"
| "hickory_from_RecordType RT_ZERO = H_ZERO"

section \<open>Rows\<close>

text \<open>
  Instants are counted in nanoseconds since the epoch, the resolution of \<open>jiff::Timestamp\<close>. The
  numeric primary keys are the database's own; they are only compared and copied, and are natural
  numbers here. Each table has a record of the columns an insert supplies, extended by the columns
  marked \<open>auto\<close>, which the database fills in.
\<close>

type_synonym timestamp = int
type_synonym row_id = nat
type_synonym bytes = "8 word list"

record Domain =
  domain_id :: string
  domain_created_at :: timestamp
  domain_updated_at :: timestamp

record record_fields =
  record_domain_id :: string
  record_type :: RecordType
  record_value :: string
  record_ttl :: u32

record Record = record_fields +
  record_id :: row_id
  record_created_at :: timestamp
  record_updated_at :: timestamp

record RecordDTO =
  dto_domain_id :: string
  dto_record_type :: RecordType
  dto_value :: string
  dto_ttl :: u32

record mailbox_fields =
  mailbox_id :: string
  mailbox_domain_id :: string
  mailbox_forward_to :: "string option"

record Mailbox = mailbox_fields +
  mailbox_created_at :: timestamp
  mailbox_updated_at :: timestamp

record message_fields =
  message_mail_from :: string
  message_raw :: bytes
  message_subject :: "string option"
  message_id_header :: "string option"
  message_content_type :: "string option"
  message_from_address :: "string option"
  message_to :: "string list"
  message_cc :: "string list"
  message_bcc :: "string list"

record Message = message_fields +
  message_id :: row_id
  message_created_at :: timestamp
  message_updated_at :: timestamp

record inbound_fields =
  inbound_message_id :: row_id
  inbound_rcpt_to :: string

record Inbound = inbound_fields +
  inbound_id :: row_id
  inbound_created_at :: timestamp
  inbound_updated_at :: timestamp

datatype OutboundStatus = Queued | InProgress | Delivered | Failed

record outbound_fields =
  outbound_message_id :: row_id
  outbound_rcpt_to :: string
  outbound_sender_id :: string
  outbound_status :: OutboundStatus
  outbound_attempts :: u64
  outbound_next_attempt_at :: "timestamp option"
  outbound_last_error :: "string option"

record Outbound = outbound_fields +
  outbound_id :: row_id
  outbound_created_at :: timestamp
  outbound_updated_at :: timestamp

record delivery_fields =
  delivery_outbound_id :: row_id
  delivery_peer_host :: string
  delivery_code :: "u64 option"
  delivery_message :: "string option"

record DeliveryStatus = delivery_fields +
  delivery_id :: row_id
  delivery_created_at :: timestamp
  delivery_updated_at :: timestamp

section \<open>Conversions\<close>

text \<open>The constructors that stamp a row read the clock; \<open>now\<close> is the instant they read.\<close>

definition Domain_from_String :: "timestamp \<Rightarrow> string \<Rightarrow> Domain" where
  "Domain_from_String now s =
     \<lparr>domain_id = s, domain_created_at = now, domain_updated_at = now\<rparr>"

definition String_from_Domain :: "Domain \<Rightarrow> string" where
  "String_from_Domain d = domain_id d"

definition Record_from_RecordDTO :: "timestamp \<Rightarrow> RecordDTO \<Rightarrow> Record" where
  "Record_from_RecordDTO now dto =
     \<lparr>record_domain_id = dto_domain_id dto, record_type = dto_record_type dto,
      record_value = dto_value dto, record_ttl = dto_ttl dto, record_id = 0,
      record_created_at = now, record_updated_at = now\<rparr>"

definition RecordDTO_from_Record :: "Record \<Rightarrow> RecordDTO" where
  "RecordDTO_from_Record r =
     \<lparr>dto_domain_id = record_domain_id r, dto_record_type = record_type r,
      dto_value = record_value r, dto_ttl = record_ttl r\<rparr>"

datatype MailboxError = InvalidFormat

definition Mailbox_try_from :: "timestamp \<Rightarrow> string \<Rightarrow> (Mailbox, MailboxError) result" where
  "Mailbox_try_from now s =
     (case drop 1 (split_char (CHR ''@'') s) of
        [] \<Rightarrow> Err InvalidFormat
      | d # _ \<Rightarrow>
          if d = [] then Err InvalidFormat
          else Ok \<lparr>mailbox_id = s, mailbox_domain_id = d, mailbox_forward_to = None,
                   mailbox_created_at = now, mailbox_updated_at = now\<rparr>)"

definition String_from_Mailbox :: "Mailbox \<Rightarrow> string" where
  "String_from_Mailbox m = mailbox_id m"

section \<open>Record types through the resolver library\<close>

text \<open>
  Mapping a record type to the resolver library's enumeration and back gives the same type, for
  every type except the three that have no variant there (\<open>CERT\<close>, \<open>DNAME\<close>, \<open>SMIMEA\<close>), which come
  back as \<open>Unknown\<close>; the conversion of a stored type never panics.
\<close>

lemma record_type_hickory_roundtrip:
  "RecordType_from_hickory (hickory_from_RecordType t) =
     Some (if t \<in> {RT_CERT, RT_DNAME, RT_SMIMEA} then RT_Unknown else t)"
  by (cases t) simp_all

lemma hickory_record_type_roundtrip:
  assumes "RecordType_from_hickory h = Some t" and "\<forall>c. h \<noteq> H_Unknown c"
  shows "hickory_from_RecordType t = h"
  using assms by (cases h) auto

section \<open>Transfer objects\<close>

lemma record_dto_roundtrip: "RecordDTO_from_Record (Record_from_RecordDTO now dto) = dto"
  by (simp add: RecordDTO_from_Record_def Record_from_RecordDTO_def)

section \<open>Addresses\<close>

lemma split_at_no_sep: "c \<notin> set s \<Longrightarrow> split_char c s = [s]"
  unfolding split_char_def by (rule split_by_none) auto

lemma split_at_append: "c \<notin> set a \<Longrightarrow> split_char c (a @ c # b) = a # split_char c b"
  unfolding split_char_def by (rule split_by_append) auto

lemma split_at_hd: "hd (split_char c s) = takeWhile (\<lambda>x. x \<noteq> c) s"
  by (induction s) (auto simp: split_char_def split: list.splits)

text \<open>The domain part of an address: what stands between its first \<open>@\<close> and the next one, if any.\<close>

lemma Mailbox_try_from_address:
  assumes "CHR ''@'' \<notin> set l"
  shows "Mailbox_try_from now (l @ CHR ''@'' # rest) =
    (let d = takeWhile (\<lambda>x. x \<noteq> CHR ''@'') rest
     in if d = [] then Err InvalidFormat
        else Ok \<lparr>mailbox_id = l @ CHR ''@'' # rest, mailbox_domain_id = d,
                 mailbox_forward_to = None, mailbox_created_at = now, mailbox_updated_at = now\<rparr>)"
proof -
  obtain d ds where s: "split_char (CHR ''@'') rest = d # ds"
    by (cases "split_char (CHR ''@'') rest") (auto simp: split_char_def)
  then have "d = takeWhile (\<lambda>x. x \<noteq> CHR ''@'') rest"
    using split_at_hd [of "CHR ''@''" rest] by simp
  with s assms show ?thesis by (simp add: Mailbox_try_from_def split_at_append Let_def)
qed

lemma Mailbox_try_from_no_at: "CHR ''@'' \<notin> set s \<Longrightarrow> Mailbox_try_from now s = Err InvalidFormat"
  by (simp add: Mailbox_try_from_def split_at_no_sep)

lemma Mailbox_try_from_Ok:
  assumes "Mailbox_try_from now s = Ok m"
  shows "mailbox_id m = s" "mailbox_domain_id m \<noteq> []" "mailbox_forward_to m = None"
    "CHR ''@'' \<notin> set (mailbox_domain_id m)" "CHR ''@'' \<in> set s"
proof -
  have at: "CHR ''@'' \<in> set s" using assms Mailbox_try_from_no_at [of s now] by auto
  then obtain l rest where s: "s = l @ CHR ''@'' # rest" and l: "CHR ''@'' \<notin> set l"
    by (meson split_list_first)
  from assms show "mailbox_id m = s" "mailbox_domain_id m \<noteq> []" "mailbox_forward_to m = None"
    "CHR ''@'' \<notin> set (mailbox_domain_id m)" "CHR ''@'' \<in> set s"
    unfolding s Mailbox_try_from_address [OF l]
    by (auto simp: Let_def split: if_splits dest: set_takeWhileD)
qed

end
