(* ===== verification/Zm_Net.thy ===== *)
theory Zm_Net
  imports Zm_Prelude
begin

text \<open>
  Socket addresses as \<open>std::net\<close> parses them from text. The listeners bind the addresses that the
  configuration spells as \<open>host:port\<close>, so whether a configuration can be bound at all is decided
  by this grammar. A reader consumes a prefix of its input or fails.
\<close>

section \<open>Readers\<close>

type_synonym 'a reader = "string \<Rightarrow> ('a \<times> string) option"

datatype IpAddr = V4 "8 word" "8 word" "8 word" "8 word" | V6 "u16 list"

datatype SocketAddr = SocketAddr (addr_ip: IpAddr) (addr_scope: u32) (addr_port: u16)

definition radix_val :: "nat \<Rightarrow> char \<Rightarrow> nat option" where
  "radix_val radix c =
     (let n = of_char (char_to_lower c);
          v = (if 48 \<le> n \<and> n \<le> 57 then Some (n - 48)
               else if 97 \<le> n \<and> n \<le> 122 then Some (n - 87) else None)
      in case v of Some d \<Rightarrow> if d < radix then Some d else None | None \<Rightarrow> None)"

definition read_given_char :: "char \<Rightarrow> unit reader" where
  "read_given_char c s = (case s of x # xs \<Rightarrow> if x = c then Some ((), xs) else None | [] \<Rightarrow> None)"

text \<open>
  An unsigned number: at least one digit, at most \<open>max_digits\<close> when that is given, a value below
  the bound, and no superfluous leading zero unless \<open>zeros\<close> allows them.
\<close>

definition read_number :: "nat \<Rightarrow> nat option \<Rightarrow> bool \<Rightarrow> nat \<Rightarrow> nat reader" where
  "read_number radix max_digits zeros bound s =
     (let ds = takeWhile (\<lambda>c. radix_val radix c \<noteq> None) s;
          n = foldl (\<lambda>acc c. acc * radix + the (radix_val radix c)) 0 ds
      in if ds = [] then None
         else if (case max_digits of Some m \<Rightarrow> m < length ds | None \<Rightarrow> False) then None
         else if \<not> zeros \<and> hd ds = CHR ''0'' \<and> 1 < length ds then None
         else if bound \<le> n then None
         else Some (n, drop (length ds) s))"

definition read_separator :: "char \<Rightarrow> nat \<Rightarrow> 'a reader \<Rightarrow> 'a reader" where
  "read_separator sep i p s =
     (if 0 < i then Option.bind (read_given_char sep s) (\<lambda>(_, r). p r) else p s)"

definition read_octet :: "nat \<Rightarrow> nat reader" where
  "read_octet i = read_separator (CHR ''.'') i (read_number 10 (Some 3) False 256)"

definition read_ipv4_addr :: "(nat \<times> nat \<times> nat \<times> nat) reader" where
  "read_ipv4_addr s =
     Option.bind (read_octet 0 s) (\<lambda>(a, r0).
     Option.bind (read_octet 1 r0) (\<lambda>(b, r1).
     Option.bind (read_octet 2 r1) (\<lambda>(c, r2).
     Option.bind (read_octet 3 r2) (\<lambda>(d, r3). Some ((a, b, c, d), r3)))))"

text \<open>
  The groups of an IPv6 address: \<open>i\<close> of \<open>limit\<close> groups have been read; two groups may be spelt as
  a trailing IPv4 address, which ends the run.
\<close>

function read_groups :: "nat \<Rightarrow> nat \<Rightarrow> string \<Rightarrow> u16 list \<times> bool \<times> string" where
  "read_groups limit i s =
     (if limit \<le> i then ([], False, s)
      else case (if i < limit - 1 then read_separator (CHR '':'') i read_ipv4_addr s else None) of
          Some ((a, b, c, d), r) \<Rightarrow>
            ([of_nat (a * 256 + b), of_nat (c * 256 + d)], True, r)
        | None \<Rightarrow>
            (case read_separator (CHR '':'') i (read_number 16 (Some 4) True 65536) s of
               None \<Rightarrow> ([], False, s)
             | Some (g, r) \<Rightarrow>
                 (let (gs, v4, r') = read_groups limit (Suc i) r in (of_nat g # gs, v4, r'))))"
  by pat_completeness auto
termination by (relation "measure (\<lambda>(limit, i, s). limit - i)") auto

declare read_groups.simps [simp del]

definition read_ipv6_addr :: "u16 list reader" where
  "read_ipv6_addr s =
     (let (head, head_ipv4, r) = read_groups 8 0 s
      in if length head = 8 then Some (head, r)
         else if head_ipv4 then None
         else Option.bind (read_given_char (CHR '':'') r) (\<lambda>(_, r1).
              Option.bind (read_given_char (CHR '':'') r1) (\<lambda>(_, r2).
                let (tail, _, r3) = read_groups (8 - (length head + 1)) 0 r2
                in Some (head @ replicate (8 - length head - length tail) 0 @ tail, r3))))"

definition read_port :: "u16 reader" where
  "read_port s =
     Option.bind (read_given_char (CHR '':'') s) (\<lambda>(_, r).
     map_option (\<lambda>(n, r'). (of_nat n, r')) (read_number 10 None True 65536 r))"

definition read_scope_id :: "u32 reader" where
  "read_scope_id s =
     Option.bind (read_given_char (CHR ''%'') s) (\<lambda>(_, r).
     map_option (\<lambda>(n, r'). (of_nat n, r')) (read_number 10 None True (2 ^ 32) r))"

definition read_socket_addr_v4 :: "SocketAddr reader" where
  "read_socket_addr_v4 s =
     Option.bind (read_ipv4_addr s) (\<lambda>((a, b, c, d), r).
     Option.bind (read_port r) (\<lambda>(p, r').
       Some (SocketAddr (V4 (of_nat a) (of_nat b) (of_nat c) (of_nat d)) 0 p, r')))"

definition read_socket_addr_v6 :: "SocketAddr reader" where
  "read_socket_addr_v6 s =
     Option.bind (read_given_char (CHR ''['') s) (\<lambda>(_, r0).
     Option.bind (read_ipv6_addr r0) (\<lambda>(gs, r1).
       let (sc, r2) = (case read_scope_id r1 of Some x \<Rightarrow> x | None \<Rightarrow> (0, r1))
       in Option.bind (read_given_char (CHR '']'') r2) (\<lambda>(_, r3).
          Option.bind (read_port r3) (\<lambda>(p, r4). Some (SocketAddr (V6 gs) sc p, r4)))))"

definition parse_SocketAddr :: "string \<Rightarrow> SocketAddr option" where
  "parse_SocketAddr s =
     (case (case read_socket_addr_v4 s of Some x \<Rightarrow> Some x | None \<Rightarrow> read_socket_addr_v6 s) of
        Some (a, []) \<Rightarrow> Some a
      | _ \<Rightarrow> None)"

definition show_ipv4 :: "8 word \<Rightarrow> 8 word \<Rightarrow> 8 word \<Rightarrow> 8 word \<Rightarrow> string" where
  "show_ipv4 a b c d =
     dec (unat a) @ ''.'' @ dec (unat b) @ ''.'' @ dec (unat c) @ ''.'' @ dec (unat d)"

text \<open>
  Printing: an IPv6 address shows its first longest run of at least two zero groups as \<open>::\<close>, an
  IPv4-mapped one ends in a dotted quad; a socket address puts an IPv6 address in brackets, with its
  scope when that is not zero.
\<close>

fun hex :: "nat \<Rightarrow> string" where
  "hex n =
     (let d = (\<lambda>k. if k < 10 then digit_char k else char_of (k + 87))
      in if n < 16 then [d n] else hex (n div 16) @ [d (n mod 16)])"

declare hex.simps [simp del]

fun join_groups :: "u16 list \<Rightarrow> string" where
  "join_groups [] = []"
| "join_groups [g] = hex (unat g)"
| "join_groups (g # gs) = hex (unat g) @ '':'' @ join_groups gs"

fun zero_run :: "nat \<Rightarrow> u16 list \<Rightarrow> nat \<times> nat \<Rightarrow> nat \<times> nat \<Rightarrow> nat \<times> nat" where
  "zero_run i [] cur longest = longest"
| "zero_run i (g # gs) (st, len) longest =
     (if g = 0 then
        (let cur = (if len = 0 then i else st, Suc len)
         in zero_run (Suc i) gs cur (if snd longest < snd cur then cur else longest))
      else zero_run (Suc i) gs (0, 0) longest)"

definition show_compressed :: "u16 list \<Rightarrow> string" where
  "show_compressed gs =
     (let (st, len) = zero_run 0 gs (0, 0) (0, 0)
      in if 1 < len then join_groups (take st gs) @ ''::'' @ join_groups (drop (st + len) gs)
         else join_groups gs)"

definition show_ipv6 :: "u16 list \<Rightarrow> string" where
  "show_ipv6 gs =
     (case drop 6 gs of
        [ab, cd] \<Rightarrow>
          if take 6 gs = [0, 0, 0, 0, 0, 0xFFFF]
          then ''::ffff:'' @ show_ipv4 (ucast (drop_bit 8 ab)) (ucast ab) (ucast (drop_bit 8 cd)) (ucast cd)
          else show_compressed gs
      | _ \<Rightarrow> show_compressed gs)"

definition SocketAddr_to_string :: "SocketAddr \<Rightarrow> string" where
  "SocketAddr_to_string a =
     (case addr_ip a of
        V4 w x y z \<Rightarrow> show_ipv4 w x y z @ '':'' @ dec (unat (addr_port a))
      | V6 gs \<Rightarrow>
          ''['' @ show_ipv6 gs
            @ (if addr_scope a = 0 then [] else ''%'' @ dec (unat (addr_scope a)))
            @ '']:'' @ dec (unat (addr_port a)))"

text \<open>\<open>Ipv4Addr::from_str\<close>: the whole text is one dotted quad.\<close>

definition parse_Ipv4Addr :: "string \<Rightarrow> ((8 word \<times> 8 word \<times> 8 word \<times> 8 word)) option" where
  "parse_Ipv4Addr s =
     (if 15 < length s then None
      else case read_ipv4_addr s of
          Some ((a, b, c, d), []) \<Rightarrow> Some (of_nat a, of_nat b, of_nat c, of_nat d)
        | _ \<Rightarrow> None)"

section \<open>Printing and reading back\<close>

lemma radix_val_digit: "d < 10 \<Longrightarrow> radix_val 10 (digit_char d) = Some d"
proof -
  assume "d < 10"
  then have "d \<in> {0,1,2,3,4,5,6,7,8,9}" by auto
  then show ?thesis
    by (auto simp: radix_val_def digit_char_def char_to_lower_def less_eq_char_def Let_def)
qed

lemma radix_val_sep [simp]:
  "radix_val 10 (CHR ''.'') = None" "radix_val 10 (CHR '':'') = None"
  by (simp_all add: radix_val_def char_to_lower_def less_eq_char_def)

lemma dec_value:
  "foldl (\<lambda>acc c. acc * 10 + the (radix_val 10 c)) 0 (dec n) = n"
proof (induction n rule: dec.induct)
  case (1 n)
  then show ?case
    by (cases "n < 10") (simp_all add: dec.simps [of n] radix_val_digit)
qed

lemma dec_radix: "c \<in> set (dec n) \<Longrightarrow> radix_val 10 c \<noteq> None"
  using dec_digits [of c n] by (auto simp: radix_val_digit)

lemma digit_char_zero: "d < 10 \<Longrightarrow> digit_char d = CHR ''0'' \<longleftrightarrow> d = 0"
proof -
  assume d: "d < 10"
  have z: "digit_val (CHR ''0'') = Some 0" by (simp add: digit_val_def)
  have "digit_char 0 = CHR ''0''" unfolding digit_char_def by code_simp
  with z digit_val_digit_char [OF d] show ?thesis by auto
qed

lemma dec_no_leading_zero: "1 < length (dec n) \<Longrightarrow> hd (dec n) \<noteq> CHR ''0''"
proof (induction n rule: dec.induct)
  case (1 n)
  then have n: "\<not> n < 10" by (auto simp: dec.simps [of n])
  show ?case
  proof (cases "n div 10 < 10")
    case True
    with n have "dec n = [digit_char (n div 10), digit_char (n mod 10)]"
      by (simp add: dec.simps [of n] dec.simps [of "n div 10"])
    moreover have "n div 10 \<noteq> 0" using n by auto
    ultimately show ?thesis using True by (simp add: digit_char_zero)
  next
    case False
    then have "1 < length (dec (n div 10))"
      by (subst dec.simps) (simp add: Suc_lessI)
    with 1 n have "hd (dec (n div 10)) \<noteq> CHR ''0''" by simp
    then show ?thesis using n by (simp add: dec.simps [of n])
  qed
qed

lemma dec_length_octet: "n < 256 \<Longrightarrow> length (dec n) \<le> 3"
  by (simp add: dec.simps [of n] dec.simps [of "n div 10"] dec.simps [of "n div 10 div 10"])

lemma takeWhile_dec:
  assumes "rest = [] \<or> radix_val 10 (hd rest) = None"
  shows "takeWhile (\<lambda>c. radix_val 10 c \<noteq> None) (dec n @ rest) = dec n"
proof -
  have "takeWhile (\<lambda>c. radix_val 10 c \<noteq> None) rest = []" using assms by (cases rest) auto
  then show ?thesis using dec_radix [of _ n] by (subst takeWhile_append2) auto
qed

lemma read_number_dec:
  assumes "rest = [] \<or> radix_val 10 (hd rest) = None" and "n < bound"
    and "\<And>m. md = Some m \<Longrightarrow> length (dec n) \<le> m"
  shows "read_number 10 md z bound (dec n @ rest) = Some (n, rest)"
proof -
  have "read_number 10 md z bound (dec n @ rest) =
      (if dec n = [] then None
       else if (case md of Some m \<Rightarrow> m < length (dec n) | None \<Rightarrow> False) then None
       else if \<not> z \<and> hd (dec n) = CHR ''0'' \<and> 1 < length (dec n) then None
       else if bound \<le> n then None
       else Some (n, rest))"
    unfolding read_number_def takeWhile_dec [OF assms(1)] dec_value Let_def by simp
  then show ?thesis
    using assms(2,3) dec_no_leading_zero [of n] by (cases md) (auto simp: not_less)
qed

lemma read_octet_dec:
  assumes "rest = [] \<or> radix_val 10 (hd rest) = None"
  shows "read_octet 0 (dec (unat (a :: 8 word)) @ rest) = Some (unat a, rest)"
    "0 < i \<Longrightarrow> read_octet i (CHR ''.'' # dec (unat a) @ rest) = Some (unat a, rest)"
proof -
  have b: "unat a < 256" using unsigned_less [of a] by simp
  show "read_octet 0 (dec (unat a) @ rest) = Some (unat a, rest)"
    "0 < i \<Longrightarrow> read_octet i (CHR ''.'' # dec (unat a) @ rest) = Some (unat a, rest)"
    using read_number_dec [OF assms b, of "Some 3" False] dec_length_octet [OF b]
    by (simp_all add: read_octet_def read_separator_def read_given_char_def)
qed

lemma read_ipv4_show:
  assumes "rest = [] \<or> radix_val 10 (hd rest) = None"
  shows "read_ipv4_addr (show_ipv4 a b c d @ rest) =
    Some ((unat a, unat b, unat c, unat d), rest)"
  by (simp add: read_ipv4_addr_def show_ipv4_def read_octet_dec assms)

lemma parse_SocketAddr_ipv4:
  "parse_SocketAddr (show_ipv4 a b c d @ CHR '':'' # dec (unat p)) =
     Some (SocketAddr (V4 a b c d) 0 p)"
proof -
  have "unat p < 65536" using unsigned_less [of p] by simp
  then have "read_port (CHR '':'' # dec (unat p)) = Some (p, [])"
    using read_number_dec [of "[]" "unat p" 65536 None True]
    by (simp add: read_port_def read_given_char_def)
  then show ?thesis
    by (simp add: parse_SocketAddr_def read_socket_addr_v4_def read_ipv4_show)
qed

lemma parse_SocketAddr_to_string:
  "addr_ip a = V4 w x y z \<Longrightarrow> addr_scope a = 0 \<Longrightarrow> parse_SocketAddr (SocketAddr_to_string a) = Some a"
  by (cases a) (simp add: SocketAddr_to_string_def parse_SocketAddr_ipv4)

lemma parse_Ipv4Addr_show: "parse_Ipv4Addr (show_ipv4 a b c d) = Some (a, b, c, d)"
proof -
  have "length (dec (unat x)) \<le> 3" for x :: "8 word"
    using unsigned_less [of x, where 'a = nat] by (simp add: dec_length_octet)
  from this [of a] this [of b] this [of c] this [of d]
  have "length (show_ipv4 a b c d) \<le> 15" by (simp add: show_ipv4_def)
  then show ?thesis using read_ipv4_show [of "[]" a b c d] by (simp add: parse_Ipv4Addr_def)
qed

end
