(* ===== verification/Zm_Config.thy ===== *)
theory Zm_Config
  imports Zm_Db Zm_Net
begin

text \<open>
  Configuration (\<^verbatim>\<open>src/config.rs\<close>) and the enumerations of the controllable listeners it
  mentions (\<^verbatim>\<open>src/services.rs\<close>). Reading the file and the environment into these values is in
  \<open>Zm_Load\<close>; every other function is here. The process
  environment, the file system and the TLS library's certificate decoder are arguments.
\<close>

section \<open>Listeners and boot modes\<close>

datatype Service = Api | Smtp | Smtps | Dns

definition Service_all :: "Service list" where
  "Service_all = [Api, Smtp, Smtps, Dns]"

definition Service_parse :: "string \<Rightarrow> Service option" where
  "Service_parse s =
     (let t = to_ascii_lowercase (trim s)
      in if t = ''api'' then Some Api
         else if t = ''smtp'' then Some Smtp
         else if t = ''smtps'' then Some Smtps
         else if t = ''dns'' then Some Dns
         else None)"

fun Service_as_str :: "Service \<Rightarrow> string" where
  "Service_as_str Api = ''api''"
| "Service_as_str Smtp = ''smtp''"
| "Service_as_str Smtps = ''smtps''"
| "Service_as_str Dns = ''dns''"

datatype BootMode = Mode_Full | Mode_Api | Mode_Smtp | Mode_Dns | Mode_Off

definition BootMode_default :: BootMode where
  "BootMode_default = Mode_Full"

fun BootMode_services :: "BootMode \<Rightarrow> Service set" where
  "BootMode_services Mode_Full = {Api, Smtp, Dns}"
| "BootMode_services Mode_Api = {Api}"
| "BootMode_services Mode_Smtp = {Smtp}"
| "BootMode_services Mode_Dns = {Dns}"
| "BootMode_services Mode_Off = {}"

section \<open>Mailbox entries\<close>

datatype MailboxEntry = Simple string | Detailed string "string option"

fun MailboxEntry_address :: "MailboxEntry \<Rightarrow> string" where
  "MailboxEntry_address (Simple s) = s"
| "MailboxEntry_address (Detailed i _) = i"

fun MailboxEntry_forward_to :: "MailboxEntry \<Rightarrow> string option" where
  "MailboxEntry_forward_to (Simple _) = None"
| "MailboxEntry_forward_to (Detailed _ f) = f"

section \<open>Authentication settings\<close>

text \<open>JSON values, as inline key sets and token claims carry them; a number is kept as its literal.\<close>

datatype json =
    JNull
  | JBool bool
  | JNumber string
  | JString string
  | JArray "json list"
  | JObject "(string \<times> json) list"

datatype KeysKind = Secret | Jwks | JwksRemote | Issuer

definition KeysKind_default :: KeysKind where
  "KeysKind_default = Secret"

definition KeysKind_from_str :: "string \<Rightarrow> (KeysKind, string) result" where
  "KeysKind_from_str s =
     (let t = to_ascii_lowercase (trim s)
      in if t = ''secret'' then Ok Secret
         else if t = ''jwks'' then Ok Jwks
         else if t = ''jwks_remote'' \<or> t = ''remote'' then Ok JwksRemote
         else if t = ''issuer'' \<or> t = ''oidc'' then Ok Issuer
         else Err (''unknown auth keys.kind '' @ [CHR 0x27] @ t @ [CHR 0x27]
                @ ''; expected one of secret|jwks|jwks_remote|issuer''))"

record KeyConfig =
  key_kind :: KeysKind
  key_secret :: "string option"
  key_secret_b64 :: "string option"
  key_secret_env :: "string option"
  key_jwks :: "json option"
  key_jwks_url :: "string option"
  key_issuer :: "string option"
  key_discovery_path :: "string option"
  key_jwks_path :: "string option"
  key_janux_token :: "string option"
  key_janux_auth_header :: "string option"
  key_janux_bearer :: bool
  key_refresh_interval_secs :: u64
  key_cache_ttl_secs :: u64
  key_fail_closed :: bool
  key_algorithms :: "string list"

definition KeyConfig_default :: KeyConfig where
  "KeyConfig_default =
     \<lparr>key_kind = KeysKind_default, key_secret = None, key_secret_b64 = None, key_secret_env = None, key_jwks = None,
      key_jwks_url = None, key_issuer = None, key_discovery_path = None, key_jwks_path = None,
      key_janux_token = None, key_janux_auth_header = None, key_janux_bearer = True,
      key_refresh_interval_secs = 300, key_cache_ttl_secs = 300, key_fail_closed = True, key_algorithms = []\<rparr>"

definition default_algorithms :: "KeyConfig \<Rightarrow> string list" where
  "default_algorithms c = (case key_kind c of Secret \<Rightarrow> [''HS256''] | _ \<Rightarrow> [''RS256'', ''ES256''])"

record RoleConfig =
  role_grants :: "string list"
  role_extends :: "string list"

definition RoleConfig_default :: RoleConfig where
  "RoleConfig_default = \<lparr>role_grants = [], role_extends = []\<rparr>"

text \<open>The role table is a hash map: an association list in some iteration order of the map.\<close>

record AuthConfig =
  auth_enabled :: bool
  auth_issuer :: "string option"
  auth_audience :: "string list"
  auth_clock_skew_secs :: u64
  auth_subject_claim :: string
  auth_role_claims :: "string list"
  auth_public :: "string list"
  auth_keys :: KeyConfig
  auth_roles :: "(string \<times> RoleConfig) list"

datatype OneOrManyStrings = Single string | Many "string list"

fun deserialize_audience :: "OneOrManyStrings \<Rightarrow> string list" where
  "deserialize_audience (Single s) = [s]"
| "deserialize_audience (Many v) = v"

definition default_public :: "string list" where
  "default_public = [''health'', ''doc'']"

definition AuthConfig_default :: AuthConfig where
  "AuthConfig_default =
     \<lparr>auth_enabled = False, auth_issuer = None, auth_audience = [], auth_clock_skew_secs = 30,
      auth_subject_claim = ''sub'', auth_role_claims = [''role''], auth_public = default_public,
      auth_keys = KeyConfig_default, auth_roles = []\<rparr>"

section \<open>Inbound transport security\<close>

datatype StartTlsMode = Tls_None | Tls_Optional | Tls_Required

datatype CertSource =
    Files (cert_path: string) (key_path: string)
  | Acme (acme_server: "string option") (account_key_path: "string option")
      (dns_domain: "string option")

record SmtpTlsConfig =
  starttls_mode :: StartTlsMode
  smtps_port :: u16
  cert_source :: "CertSource option"

definition SmtpTlsConfig_default :: SmtpTlsConfig where
  "SmtpTlsConfig_default = \<lparr>starttls_mode = Tls_None, smtps_port = 0, cert_source = None\<rparr>"

definition needs_cert :: "SmtpTlsConfig \<Rightarrow> bool" where
  "needs_cert c \<longleftrightarrow> starttls_mode c \<noteq> Tls_None \<or> smtps_port c \<noteq> 0"

definition smtps_enabled :: "SmtpTlsConfig \<Rightarrow> bool" where
  "smtps_enabled c \<longleftrightarrow> smtps_port c \<noteq> 0"

definition smtps_addr :: "SmtpTlsConfig \<Rightarrow> string \<Rightarrow> SocketAddr option" where
  "smtps_addr c h =
     (if \<not> smtps_enabled c then None
      else parse_SocketAddr (h @ '':'' @ dec (unat (smtps_port c))))"

definition is_acme :: "CertSource option \<Rightarrow> bool" where
  "is_acme c = (case c of Some (Acme _ _ _) \<Rightarrow> True | _ \<Rightarrow> False)"

text \<open>
  \<open>fs_read\<close> is the file system, \<open>from_pkcs8\<close> the TLS library's decoder. The apostrophes around the
  paths in the messages are spelt as character codes.
\<close>

definition quoted :: "string \<Rightarrow> string" where
  "quoted s = [CHR 0x27] @ s @ [CHR 0x27]"

definition identity ::
  "(string \<Rightarrow> (bytes, string) result) \<Rightarrow> (bytes \<Rightarrow> bytes \<Rightarrow> ('id, string) result) \<Rightarrow>
   SmtpTlsConfig \<Rightarrow> ('id option, string) result" where
  "identity fs_read from_pkcs8 c =
     (if is_acme (cert_source c) then
        Err (''smtp_tls cert_source '' @ quoted ''acme''
          @ '' is not yet implemented; ACME/DNS-01 issuance is a planned feature'')
      else if \<not> needs_cert c then Ok None
      else case cert_source c of
          None \<Rightarrow> Err (''smtp_tls requires a `cert_source` when `mode` is not `none` or ''
                 @ ''`smtps_port` is non-zero'')
        | Some (Acme _ _ _) \<Rightarrow>
            Err (''smtp_tls cert_source '' @ quoted ''acme'' @ '' is not yet implemented'')
        | Some (Files cp kp) \<Rightarrow>
            (case fs_read cp of
               Err e \<Rightarrow> Err (''failed to read smtp_tls cert '' @ quoted cp @ '': '' @ e)
             | Ok cert \<Rightarrow>
            (case fs_read kp of
               Err e \<Rightarrow> Err (''failed to read smtp_tls key '' @ quoted kp @ '': '' @ e)
             | Ok key \<Rightarrow>
            (case from_pkcs8 cert key of
               Err e \<Rightarrow> Err (''failed to build TLS identity from '' @ quoted cp @ ''/'' @ quoted kp
                           @ '': '' @ e @ '' (key must be PKCS#8 PEM)'')
             | Ok i \<Rightarrow> Ok (Some i)))))"

section \<open>Outbound delivery settings\<close>

datatype OutboundTlsMode = Plain | Opportunistic | Required | Implicit

record OutboundRelay =
  relay_host :: "string option"
  relay_port :: u16
  relay_user :: "string option"
  relay_password :: "string option"
  relay_password_env :: "string option"

definition is_configured :: "OutboundRelay \<Rightarrow> bool" where
  "is_configured r \<longleftrightarrow> relay_host r \<noteq> None"

definition credentials :: "(string \<Rightarrow> string option) \<Rightarrow> OutboundRelay \<Rightarrow> (string \<times> string) option"
where
  "credentials env_var r =
     Option.bind (relay_user r) (\<lambda>user.
       map_option (\<lambda>pass. (user, pass))
         (case relay_password_env r of
            Some env \<Rightarrow> env_var env
          | None \<Rightarrow> relay_password r))"

record OutboundTransport =
  transport_tls :: OutboundTlsMode
  transport_relay :: "OutboundRelay option"
  transport_insecure :: bool

definition OutboundTransport_default :: OutboundTransport where
  "OutboundTransport_default =
     \<lparr>transport_tls = Plain, transport_relay = None, transport_insecure = False\<rparr>"

definition tls_enabled :: "OutboundTransport \<Rightarrow> bool" where
  "tls_enabled t \<longleftrightarrow> transport_tls t \<noteq> Plain"

definition relay_configured :: "OutboundTransport \<Rightarrow> bool" where
  "relay_configured t = (case transport_relay t of None \<Rightarrow> False | Some r \<Rightarrow> is_configured r)"

section \<open>The configuration\<close>

record Config =
  cfg_host :: string
  cfg_dns :: u16
  cfg_smtp :: u16
  cfg_api :: u16
  cfg_database_url :: string
  cfg_domains :: "string list"
  cfg_records :: "RecordDTO list"
  cfg_mailboxes :: "MailboxEntry list"
  cfg_mode :: "BootMode option"
  cfg_auth :: AuthConfig
  cfg_smtp_tls :: SmtpTlsConfig
  cfg_outbound :: OutboundTransport

definition Config_default :: Config where
  "Config_default =
     \<lparr>cfg_host = ''0.0.0.0'', cfg_dns = 53, cfg_smtp = 25, cfg_api = 8081,
      cfg_database_url = ''turso:zonemail.db'', cfg_domains = [], cfg_records = [], cfg_mailboxes = [],
      cfg_mode = None, cfg_auth = AuthConfig_default, cfg_smtp_tls = SmtpTlsConfig_default,
      cfg_outbound = OutboundTransport_default\<rparr>"

definition host_port :: "string \<Rightarrow> u16 \<Rightarrow> string" where
  "host_port h p = h @ '':'' @ dec (unat p)"

definition api_addr :: "Config \<Rightarrow> SocketAddr option" where
  "api_addr c = parse_SocketAddr (host_port (cfg_host c) (cfg_api c))"

definition smtp_addr :: "Config \<Rightarrow> SocketAddr option" where
  "smtp_addr c = parse_SocketAddr (host_port (cfg_host c) (cfg_smtp c))"

definition dns_addr :: "Config \<Rightarrow> SocketAddr option" where
  "dns_addr c = parse_SocketAddr (host_port (cfg_host c) (cfg_dns c))"

definition resolved_mode :: "Config \<Rightarrow> BootMode" where
  "resolved_mode c = (case cfg_mode c of None \<Rightarrow> BootMode_default | Some m \<Rightarrow> m)"

section \<open>Properties\<close>

lemma Service_all_complete: "s \<in> set Service_all"
  by (cases s) (simp_all add: Service_all_def)

lemma Service_parse_as_str: "Service_parse (Service_as_str s) = Some s"
proof -
  have "\<forall>s \<in> set Service_all. Service_parse (Service_as_str s) = Some s" by code_simp
  then show ?thesis using Service_all_complete by blast
qed

text \<open>
  A host given as a dotted quad yields bindable listener addresses for every port number: the
  three listeners and, when enabled, the implicit-TLS one, each on that host and its own port.
\<close>

lemma listener_addresses:
  assumes "cfg_host c = show_ipv4 q1 q2 q3 q4"
  shows "api_addr c = Some (SocketAddr (V4 q1 q2 q3 q4) 0 (cfg_api c)) \<and>
    smtp_addr c = Some (SocketAddr (V4 q1 q2 q3 q4) 0 (cfg_smtp c)) \<and>
    dns_addr c = Some (SocketAddr (V4 q1 q2 q3 q4) 0 (cfg_dns c)) \<and>
    smtps_addr (cfg_smtp_tls c) (cfg_host c) =
      (if smtps_port (cfg_smtp_tls c) = 0 then None
       else Some (SocketAddr (V4 q1 q2 q3 q4) 0 (smtps_port (cfg_smtp_tls c))))"
  using assms
  by (simp add: api_addr_def smtp_addr_def dns_addr_def smtps_addr_def smtps_enabled_def
      host_port_def parse_SocketAddr_ipv4)

lemma listener_addresses_witness:
  "smtp_addr Config_default = Some (SocketAddr (V4 0 0 0 0) 0 25) \<and>
   cfg_host Config_default = show_ipv4 0 0 0 0"
proof -
  have "cfg_host Config_default = show_ipv4 0 0 0 0"
    by (simp add: Config_default_def show_ipv4_def dec.simps digit_char_def) code_simp
  from listener_addresses [OF this] this show ?thesis by (simp add: Config_default_def)
qed

text \<open>
  The TLS identity is built exactly when a listener needs one: a plain configuration never reads
  a file, and a configuration that asks for TLS either yields an identity decoded from the two
  configured files or an error, never a silent fallback to clear text.
\<close>

lemma identity_no_silent_fallback:
  "(identity fs_read from_pkcs8 c = Ok None \<longleftrightarrow>
      \<not> is_acme (cert_source c) \<and> \<not> needs_cert c) \<and>
   (identity fs_read from_pkcs8 c = Ok (Some i) \<longleftrightarrow>
      needs_cert c \<and> (\<exists>cp kp cert key. cert_source c = Some (Files cp kp) \<and>
        fs_read cp = Ok cert \<and> fs_read kp = Ok key \<and> from_pkcs8 cert key = Ok i))"
  by (auto simp: identity_def is_acme_def split: option.splits CertSource.splits sum.splits)

lemma credentials_env_preferred:
  "relay_password_env r = Some v \<Longrightarrow> env_var v = None \<Longrightarrow> credentials env_var r = None"
  by (cases "relay_user r") (simp_all add: credentials_def)

lemma KeyConfig_default_secure:
  "key_fail_closed KeyConfig_default" "default_algorithms KeyConfig_default = [''HS256'']"
  by (simp_all add: KeyConfig_default_def default_algorithms_def KeysKind_default_def)

end
