(* ===== verification/Zm_Store.thy ===== *)
theory Zm_Store
  imports Zm_Db
begin

text \<open>
  The database as the sources see it. The object-relational mapper (\<open>toasty\<close>) and its driver are
  third-party code: a record of operations, one field per kind of call under \<^verbatim>\<open>src/\<close>, is a
  parameter of every definition that touches the database, and the state \<open>'s\<close> of the database is
  opaque to them. The locales state what the sources rely on, in terms of a view of the state as
  seven tables: lookups are exact, an insert adds one row or changes nothing, an update rewrites
  the named columns of one row, a delete cascades over the \<open>has_many\<close> relations, and a transaction
  that does not commit leaves no trace. A state is \<open>healthy\<close> when the driver answers.

  The last part is an executable in-memory database that follows the schema attributes of
  \<^verbatim>\<open>src/db.rs\<close> (\<open>key\<close>, \<open>auto\<close>, \<open>unique\<close>, \<open>has_many\<close>), and the interpretation of the locales on it.
\<close>

section \<open>The operations\<close>

type_synonym db_error = string

text \<open>\<open>Timestamp_to_string\<close> is the \<open>Display\<close> form of an instant, which the transfer objects carry.\<close>

record 's toasty =
  Timestamp_to_string :: "timestamp \<Rightarrow> string"
  Domain_get_by_id :: "string \<Rightarrow> 's \<Rightarrow> (Domain, db_error) result"
  Domain_all :: "'s \<Rightarrow> (Domain list, db_error) result"
  Domain_create :: "string \<Rightarrow> 's \<Rightarrow> (Domain, db_error) result \<times> 's"
  Domain_delete :: "string \<Rightarrow> 's \<Rightarrow> (unit, db_error) result \<times> 's"
  Mailbox_get_by_id :: "string \<Rightarrow> 's \<Rightarrow> (Mailbox, db_error) result"
  Mailbox_all :: "'s \<Rightarrow> (Mailbox list, db_error) result"
  Mailbox_filter_domain :: "string \<Rightarrow> 's \<Rightarrow> (Mailbox list, db_error) result"
  Mailbox_create :: "mailbox_fields \<Rightarrow> 's \<Rightarrow> (Mailbox, db_error) result \<times> 's"
  Mailbox_update :: "string \<Rightarrow> (Mailbox \<Rightarrow> Mailbox) \<Rightarrow> 's \<Rightarrow> (Mailbox, db_error) result \<times> 's"
  Mailbox_delete :: "string \<Rightarrow> 's \<Rightarrow> (unit, db_error) result \<times> 's"
  Record_get_by_id :: "row_id \<Rightarrow> 's \<Rightarrow> (Record, db_error) result"
  Record_all :: "'s \<Rightarrow> (Record list, db_error) result"
  Record_filter_domain :: "string \<Rightarrow> 's \<Rightarrow> (Record list, db_error) result"
  Record_filter_domain_type :: "string \<Rightarrow> RecordType \<Rightarrow> 's \<Rightarrow> (Record list, db_error) result"
  Record_create :: "record_fields \<Rightarrow> 's \<Rightarrow> (Record, db_error) result \<times> 's"
  Record_update :: "row_id \<Rightarrow> (Record \<Rightarrow> Record) \<Rightarrow> 's \<Rightarrow> (Record, db_error) result \<times> 's"
  Record_delete :: "row_id \<Rightarrow> 's \<Rightarrow> (unit, db_error) result \<times> 's"
  Message_get_by_id :: "row_id \<Rightarrow> 's \<Rightarrow> (Message, db_error) result"
  Message_first_by_header :: "string \<Rightarrow> 's \<Rightarrow> (Message option, db_error) result"
  Message_create :: "message_fields \<Rightarrow> 's \<Rightarrow> (Message, db_error) result \<times> 's"
  Message_delete :: "row_id \<Rightarrow> 's \<Rightarrow> (unit, db_error) result \<times> 's"
  Inbound_filter_rcpt :: "string \<Rightarrow> 's \<Rightarrow> (Inbound list, db_error) result"
  Inbound_create :: "inbound_fields \<Rightarrow> 's \<Rightarrow> (Inbound, db_error) result \<times> 's"
  Inbound_delete_message :: "row_id \<Rightarrow> 's \<Rightarrow> (unit, db_error) result \<times> 's"
  Outbound_filter_status :: "OutboundStatus \<Rightarrow> 's \<Rightarrow> (Outbound list, db_error) result"
  Outbound_filter_sender :: "string \<Rightarrow> 's \<Rightarrow> (Outbound list, db_error) result"
  Outbound_first_by_id :: "row_id \<Rightarrow> 's \<Rightarrow> (Outbound option, db_error) result"
  Outbound_create :: "outbound_fields \<Rightarrow> 's \<Rightarrow> (Outbound, db_error) result \<times> 's"
  Outbound_update :: "row_id \<Rightarrow> (Outbound \<Rightarrow> Outbound) \<Rightarrow> 's \<Rightarrow> (Outbound, db_error) result \<times> 's"
  Outbound_delete_message :: "row_id \<Rightarrow> 's \<Rightarrow> (unit, db_error) result \<times> 's"
  DeliveryStatus_create :: "delivery_fields \<Rightarrow> 's \<Rightarrow> (DeliveryStatus, db_error) result \<times> 's"
  Tx_begin_immediate :: "'s \<Rightarrow> (unit, db_error) result \<times> 's"
  Tx_commit :: "'s \<Rightarrow> (unit, db_error) result \<times> 's"
  Tx_drop :: "'s \<Rightarrow> 's"

section \<open>The tables a state shows\<close>

record tables =
  t_domains :: "string \<rightharpoonup> Domain"
  t_mailboxes :: "string \<rightharpoonup> Mailbox"
  t_records :: "row_id \<rightharpoonup> Record"
  t_messages :: "row_id \<rightharpoonup> Message"
  t_inbound :: "row_id \<rightharpoonup> Inbound"
  t_outbound :: "row_id \<rightharpoonup> Outbound"
  t_delivery :: "row_id \<rightharpoonup> DeliveryStatus"

text \<open>The rows that stay when those satisfying \<open>P\<close> are deleted.\<close>

definition without :: "('r \<Rightarrow> bool) \<Rightarrow> ('k \<rightharpoonup> 'r) \<Rightarrow> ('k \<rightharpoonup> 'r)" where
  "without P t = (\<lambda>k. case t k of None \<Rightarrow> None | Some r \<Rightarrow> if P r then None else Some r)"

text \<open>
  The cascades: deleting jobs takes their delivery records with them, deleting mailboxes takes
  their inbound links and jobs, deleting a domain takes its mailboxes and records.
\<close>

definition delete_outbounds :: "(Outbound \<Rightarrow> bool) \<Rightarrow> tables \<Rightarrow> tables" where
  "delete_outbounds P t =
     t\<lparr>t_outbound := without P (t_outbound t),
       t_delivery := without
         (\<lambda>d. \<exists>j. t_outbound t (delivery_outbound_id d) = Some j \<and> P j) (t_delivery t)\<rparr>"

definition delete_mailboxes :: "(Mailbox \<Rightarrow> bool) \<Rightarrow> tables \<Rightarrow> tables" where
  "delete_mailboxes P t =
     (let gone = (\<lambda>k. \<exists>m. t_mailboxes t k = Some m \<and> P m)
      in (delete_outbounds (\<lambda>j. gone (outbound_sender_id j)) t)
           \<lparr>t_mailboxes := without P (t_mailboxes t),
            t_inbound := without (\<lambda>i. gone (inbound_rcpt_to i)) (t_inbound t)\<rparr>)"

definition delete_domains :: "string \<Rightarrow> tables \<Rightarrow> tables" where
  "delete_domains d t =
     (delete_mailboxes (\<lambda>m. mailbox_domain_id m = d) t)
       \<lparr>t_domains := (t_domains t)(d := None),
        t_records := without (\<lambda>r. record_domain_id r = d) (t_records t)\<rparr>"

text \<open>Rows inserted one after the other: each carries the given columns under a key that was free.\<close>

fun rows_added ::
  "('r \<Rightarrow> 'k) \<Rightarrow> ('r \<Rightarrow> 'f) \<Rightarrow> ('k \<rightharpoonup> 'r) \<Rightarrow> 'f list \<Rightarrow> ('k \<rightharpoonup> 'r) \<Rightarrow> bool" where
  "rows_added key columns t [] t' \<longleftrightarrow> t' = t"
| "rows_added key columns t (f # fs) t' \<longleftrightarrow>
     (\<exists>r. columns r = f \<and> t (key r) = None \<and> rows_added key columns (t(key r \<mapsto> r)) fs t')"

text \<open>The triple that \<open>unique(domain_id, record_type, value)\<close> constrains.\<close>

definition record_triple :: "'a record_fields_scheme \<Rightarrow> string \<times> RecordType \<times> string" where
  "record_triple r = (record_domain_id r, record_type r, record_value r)"

lemma without_Some_iff [simp]: "without P t k = Some r \<longleftrightarrow> t k = Some r \<and> \<not> P r"
  by (auto simp: without_def split: option.splits)

lemma rows_added_append:
  "rows_added key columns t (fs @ gs) t' \<longleftrightarrow>
     (\<exists>u. rows_added key columns t fs u \<and> rows_added key columns u gs t')"
  by (induction fs arbitrary: t) auto

lemma rows_added_mono: "rows_added key columns t fs t' \<Longrightarrow> t \<subseteq>\<^sub>m t'"
proof (induction fs arbitrary: t)
  case (Cons f fs)
  then obtain r where "t (key r) = None" "t(key r \<mapsto> r) \<subseteq>\<^sub>m t'" by auto
  moreover from this(1) have "t \<subseteq>\<^sub>m t(key r \<mapsto> r)" by (auto simp: map_le_def)
  ultimately show ?case by (blast intro: map_le_trans)
qed simp

text \<open>Every added row is there at the end, with the columns it was given.\<close>

lemma rows_added_in:
  "rows_added key columns t fs t' \<Longrightarrow> f \<in> set fs \<Longrightarrow>
   \<exists>r. t (key r) = None \<and> t' (key r) = Some r \<and> columns r = f"
proof (induction fs arbitrary: t)
  case (Cons g fs)
  then obtain r where r: "columns r = g" "t (key r) = None"
    and rest: "rows_added key columns (t(key r \<mapsto> r)) fs t'" by auto
  show ?case
  proof (cases "f = g")
    case True
    have "t' (key r) = Some r" using rows_added_mono [OF rest] by (auto simp: map_le_def)
    with r True show ?thesis by blast
  next
    case False
    with Cons.prems have "f \<in> set fs" by simp
    from Cons.IH [OF rest this] show ?thesis by (auto split: if_splits)
  qed
qed simp

text \<open>Nothing else appears.\<close>

lemma rows_added_new:
  "rows_added key columns t fs t' \<Longrightarrow> t' k = Some r \<Longrightarrow> t k = Some r \<or> columns r \<in> set fs"
proof (induction fs arbitrary: t)
  case (Cons g fs)
  then obtain q where "columns q = g" and "rows_added key columns (t(key q \<mapsto> q)) fs t'" by auto
  with Cons.IH [OF this(2) Cons.prems(2)] show ?case by (auto split: if_splits)
qed simp

lemma ran_without: "ran (without P t) = {r \<in> ran t. \<not> P r}"
  by (auto simp: ran_def)

section \<open>The laws\<close>

text \<open>A keyed read: exact when it answers, and it answers whenever the state is healthy.\<close>

locale keyed_read =
  fixes get :: "'k \<Rightarrow> 's \<Rightarrow> ('r, db_error) result"
    and tbl :: "'s \<Rightarrow> 'k \<rightharpoonup> 'r"
    and healthy :: "'s \<Rightarrow> bool"
  assumes get_sound: "get k s = Ok r \<Longrightarrow> tbl s k = Some r"
    and get_complete: "healthy s \<Longrightarrow> tbl s k = Some r \<Longrightarrow> get k s = Ok r"
begin

lemma get_Err: "tbl s k = None \<Longrightarrow> \<exists>e. get k s = Err e"
  using get_sound [of k s] by (cases "get k s") auto

lemma is_ok_get: "healthy s \<Longrightarrow> is_ok (get k s) \<longleftrightarrow> tbl s k \<noteq> None"
proof (cases "tbl s k")
  case None
  then show ?thesis using get_Err [of s k] by auto
next
  case (Some r)
  assume "healthy s"
  with Some have "get k s = Ok r" by (rule get_complete [rotated])
  with Some show ?thesis by simp
qed

lemma is_ok_getD: "is_ok (get k s) \<Longrightarrow> tbl s k \<noteq> None"
  using get_Err [of s k] by (cases "tbl s k") auto

end

text \<open>A filtered read returns the rows that match, each once.\<close>

locale filtered_read =
  fixes query :: "'q \<Rightarrow> 's \<Rightarrow> ('r list, db_error) result"
    and tbl :: "'s \<Rightarrow> 'k \<rightharpoonup> 'r"
    and matches :: "'q \<Rightarrow> 'r \<Rightarrow> bool"
    and key :: "'r \<Rightarrow> 'k"
    and healthy :: "'s \<Rightarrow> bool"
  assumes query_set: "query q s = Ok rs \<Longrightarrow> set rs = {r \<in> ran (tbl s). matches q r}"
    and query_distinct: "query q s = Ok rs \<Longrightarrow> distinct (map key rs)"
    and query_complete: "healthy s \<Longrightarrow> is_ok (query q s)"

text \<open>
  An insert: on success the row carries the given columns under a key that was free, and is the
  only change; a refusal changes nothing; a healthy state accepts every row that \<open>admits\<close> allows.
\<close>

locale insertable =
  fixes create :: "'new \<Rightarrow> 's \<Rightarrow> ('r, db_error) result \<times> 's"
    and tbl :: "tables \<Rightarrow> 'k \<rightharpoonup> 'r"
    and upd :: "(('k \<rightharpoonup> 'r) \<Rightarrow> ('k \<rightharpoonup> 'r)) \<Rightarrow> tables \<Rightarrow> tables"
    and key :: "'r \<Rightarrow> 'k"
    and columns :: "'r \<Rightarrow> 'new"
    and admits :: "'new \<Rightarrow> tables \<Rightarrow> bool"
    and view :: "'s \<Rightarrow> tables"
    and healthy :: "'s \<Rightarrow> bool"
  assumes create_Ok: "create f s = (Ok r, s') \<Longrightarrow>
      columns r = f \<and> tbl (view s) (key r) = None \<and> admits f (view s) \<and>
      view s' = upd (\<lambda>t. t(key r \<mapsto> r)) (view s)"
    and create_Err: "create f s = (Err e, s') \<Longrightarrow> view s' = view s"
    and create_complete: "healthy s \<Longrightarrow> admits f (view s) \<Longrightarrow> create f s = (x, s') \<Longrightarrow> is_ok x"
    and create_healthy: "healthy s \<Longrightarrow> create f s = (x, s') \<Longrightarrow> healthy s'"
begin

lemma create_success:
  assumes "healthy s" and "admits f (view s)"
  obtains r s' where "create f s = (Ok r, s')" "columns r = f" "tbl (view s) (key r) = None"
    "view s' = upd (\<lambda>t. t(key r \<mapsto> r)) (view s)" "healthy s'"
proof -
  obtain x s' where c: "create f s = (x, s')" by (cases "create f s")
  from create_complete [OF assms c] obtain r where "x = Ok r" by (auto simp: is_ok_iff)
  with c have c': "create f s = (Ok r, s')" by simp
  show thesis
    using that [OF c'] create_Ok [OF c'] create_healthy [OF assms(1) c'] by simp
qed

end

text \<open>
  An update of one row by primary key: columns that \<open>f\<close> does not name keep their stored values, and
  the database stamps the row.
\<close>

locale updatable =
  fixes update :: "'k \<Rightarrow> ('r \<Rightarrow> 'r) \<Rightarrow> 's \<Rightarrow> ('r, db_error) result \<times> 's"
    and tbl :: "tables \<Rightarrow> 'k \<rightharpoonup> 'r"
    and upd :: "(('k \<rightharpoonup> 'r) \<Rightarrow> ('k \<rightharpoonup> 'r)) \<Rightarrow> tables \<Rightarrow> tables"
    and key :: "'r \<Rightarrow> 'k"
    and stamp :: "timestamp \<Rightarrow> 'r \<Rightarrow> 'r"
    and admits :: "'r \<Rightarrow> tables \<Rightarrow> bool"
    and view :: "'s \<Rightarrow> tables"
    and healthy :: "'s \<Rightarrow> bool"
  assumes update_Ok: "update k f s = (Ok r', s') \<Longrightarrow> (\<And>r. key (f r) = key r) \<Longrightarrow>
      \<exists>r ts. tbl (view s) k = Some r \<and> r' = stamp ts (f r) \<and>
        view s' = upd (\<lambda>t. t(k \<mapsto> r')) (view s)"
    and update_Err: "update k f s = (Err e, s') \<Longrightarrow> view s' = view s"
    and update_complete: "healthy s \<Longrightarrow> tbl (view s) k = Some r \<Longrightarrow> admits (f r) (view s) \<Longrightarrow>
      update k f s = (x, s') \<Longrightarrow> is_ok x"
    and update_healthy: "healthy s \<Longrightarrow> update k f s = (x, s') \<Longrightarrow> healthy s'"

text \<open>A delete by filter: the effect on the tables, or none at all.\<close>

locale deletable =
  fixes delete :: "'q \<Rightarrow> 's \<Rightarrow> (unit, db_error) result \<times> 's"
    and effect :: "'q \<Rightarrow> tables \<Rightarrow> tables"
    and view :: "'s \<Rightarrow> tables"
    and healthy :: "'s \<Rightarrow> bool"
  assumes delete_Ok: "delete q s = (Ok u, s') \<Longrightarrow> view s' = effect q (view s)"
    and delete_Err: "delete q s = (Err e, s') \<Longrightarrow> view s' = view s"
    and delete_complete: "healthy s \<Longrightarrow> delete q s = (x, s') \<Longrightarrow> is_ok x"
    and delete_healthy: "healthy s \<Longrightarrow> delete q s = (x, s') \<Longrightarrow> healthy s'"


section \<open>The store\<close>

text \<open>
  The laws of all tables together. \<open>snapshot\<close> is what an open transaction would fall back to. A
  table's rows are filed under their own keys.
\<close>

locale store =
  domain: keyed_read "Domain_get_by_id T" "\<lambda>s. t_domains (view s)" healthy +
  domain: filtered_read "\<lambda>_ :: unit. Domain_all T" "\<lambda>s. t_domains (view s)"
    "\<lambda>_ _. True" domain_id healthy +
  domain: insertable "Domain_create T" t_domains t_domains_update domain_id domain_id
    "\<lambda>k t. t_domains t k = None" view healthy +
  domain: deletable "Domain_delete T" delete_domains view healthy +
  mailbox: keyed_read "Mailbox_get_by_id T" "\<lambda>s. t_mailboxes (view s)" healthy +
  mailbox_all: filtered_read "\<lambda>_ :: unit. Mailbox_all T" "\<lambda>s. t_mailboxes (view s)"
    "\<lambda>_ _. True" mailbox_id healthy +
  mailbox: filtered_read "Mailbox_filter_domain T" "\<lambda>s. t_mailboxes (view s)"
    "\<lambda>d m. mailbox_domain_id m = d" mailbox_id healthy +
  mailbox: insertable "Mailbox_create T" t_mailboxes t_mailboxes_update mailbox_id
    mailbox_fields.truncate "\<lambda>f t. t_mailboxes t (mailbox_id f) = None" view healthy +
  mailbox: updatable "Mailbox_update T" t_mailboxes t_mailboxes_update mailbox_id
    "\<lambda>ts m. m\<lparr>mailbox_updated_at := ts\<rparr>" "\<lambda>_ _. True" view healthy +
  mailbox: deletable "Mailbox_delete T" "\<lambda>k. delete_mailboxes (\<lambda>m. mailbox_id m = k)" view healthy +
  rec: keyed_read "Record_get_by_id T" "\<lambda>s. t_records (view s)" healthy +
  rec_all: filtered_read "\<lambda>_ :: unit. Record_all T" "\<lambda>s. t_records (view s)"
    "\<lambda>_ _. True" record_id healthy +
  rec: filtered_read "Record_filter_domain T" "\<lambda>s. t_records (view s)"
    "\<lambda>d r. record_domain_id r = d" record_id healthy +
  rec_typed: filtered_read "\<lambda>(d, t). Record_filter_domain_type T d t"
    "\<lambda>s. t_records (view s)" "\<lambda>(d, t) r. record_domain_id r = d \<and> record_type r = t"
    record_id healthy +
  rec: insertable "Record_create T" t_records t_records_update record_id record_fields.truncate
    "\<lambda>f t. \<forall>r \<in> ran (t_records t). record_triple r \<noteq> record_triple f" view healthy +
  rec: updatable "Record_update T" t_records t_records_update record_id
    "\<lambda>ts r. r\<lparr>record_updated_at := ts\<rparr>"
    "\<lambda>r t. \<forall>r' \<in> ran (t_records t). record_id r' \<noteq> record_id r \<longrightarrow>
       record_triple r' \<noteq> record_triple r" view healthy +
  rec: deletable "Record_delete T" "\<lambda>k t. t\<lparr>t_records := (t_records t)(k := None)\<rparr>" view healthy +
  message: keyed_read "Message_get_by_id T" "\<lambda>s. t_messages (view s)" healthy +
  message: insertable "Message_create T" t_messages t_messages_update message_id
    message_fields.truncate "\<lambda>_ _. True" view healthy +
  message: deletable "Message_delete T" "\<lambda>k t. t\<lparr>t_messages := (t_messages t)(k := None)\<rparr>"
    view healthy +
  inbound: filtered_read "Inbound_filter_rcpt T" "\<lambda>s. t_inbound (view s)"
    "\<lambda>a i. inbound_rcpt_to i = a" inbound_id healthy +
  inbound: insertable "Inbound_create T" t_inbound t_inbound_update inbound_id
    inbound_fields.truncate "\<lambda>_ _. True" view healthy +
  inbound: deletable "Inbound_delete_message T"
    "\<lambda>k t. t\<lparr>t_inbound := without (\<lambda>i. inbound_message_id i = k) (t_inbound t)\<rparr>" view healthy +
  outbound: filtered_read "Outbound_filter_status T" "\<lambda>s. t_outbound (view s)"
    "\<lambda>st j. outbound_status j = st" outbound_id healthy +
  outbound_sender: filtered_read "Outbound_filter_sender T" "\<lambda>s. t_outbound (view s)"
    "\<lambda>a j. outbound_sender_id j = a" outbound_id healthy +
  outbound: insertable "Outbound_create T" t_outbound t_outbound_update outbound_id
    outbound_fields.truncate "\<lambda>_ _. True" view healthy +
  outbound: updatable "Outbound_update T" t_outbound t_outbound_update outbound_id
    "\<lambda>ts j. j\<lparr>outbound_updated_at := ts\<rparr>" "\<lambda>_ _. True" view healthy +
  outbound: deletable "Outbound_delete_message T"
    "\<lambda>k. delete_outbounds (\<lambda>j. outbound_message_id j = k)" view healthy +
  delivery: insertable "DeliveryStatus_create T" t_delivery t_delivery_update delivery_id
    delivery_fields.truncate "\<lambda>_ _. True" view healthy
  for T :: "('s, 'z) toasty_scheme"
    and view :: "'s \<Rightarrow> tables"
    and snapshot :: "'s \<Rightarrow> tables"
    and healthy :: "'s \<Rightarrow> bool" +
  assumes domain_keyed: "t_domains (view s) k = Some d \<Longrightarrow> domain_id d = k"
    and mailbox_keyed: "t_mailboxes (view s) k = Some m \<Longrightarrow> mailbox_id m = k"
    and record_keyed: "t_records (view s) i = Some r \<Longrightarrow> record_id r = i"
    and message_keyed: "t_messages (view s) i = Some y \<Longrightarrow> message_id y = i"
    and inbound_keyed: "t_inbound (view s) i = Some l \<Longrightarrow> inbound_id l = i"
    and outbound_keyed: "t_outbound (view s) i = Some j \<Longrightarrow> outbound_id j = i"
    and header_sound: "Message_first_by_header T h s = Ok (Some y) \<Longrightarrow>
      y \<in> ran (t_messages (view s)) \<and> message_id_header y = Some h"
    and header_complete: "Message_first_by_header T h s = Ok None \<Longrightarrow>
      y \<in> ran (t_messages (view s)) \<Longrightarrow> message_id_header y \<noteq> Some h"
    and header_healthy: "healthy s \<Longrightarrow> is_ok (Message_first_by_header T h s)"
    and job_sound: "Outbound_first_by_id T i s = Ok jo \<Longrightarrow> jo = t_outbound (view s) i"
    and job_complete: "healthy s \<Longrightarrow> is_ok (Outbound_first_by_id T i s)"
    and begin_view: "Tx_begin_immediate T s = (x, s') \<Longrightarrow> view s' = view s"
    and begin_snapshot: "Tx_begin_immediate T s = (Ok u, s') \<Longrightarrow> snapshot s' = view s"
    and begin_complete: "healthy s \<Longrightarrow> Tx_begin_immediate T s = (x, s') \<Longrightarrow> is_ok x \<and> healthy s'"
    and update_snapshot: "Outbound_update T i f s = (jr, s') \<Longrightarrow> snapshot s' = snapshot s"
    and commit_Ok: "Tx_commit T s = (Ok u, s') \<Longrightarrow> view s' = view s"
    and commit_Err: "Tx_commit T s = (Err e, s') \<Longrightarrow> view s' = snapshot s"
    and commit_complete: "healthy s \<Longrightarrow> Tx_commit T s = (x, s') \<Longrightarrow> is_ok x \<and> healthy s'"
    and drop_view: "view (Tx_drop T s) = snapshot s"
begin

lemmas mailbox_lookup = mailbox.is_ok_get mailbox.is_ok_getD
lemmas domain_lookup = domain.is_ok_get domain.is_ok_getD

end

text \<open>The laws only speak about the database operations, so they survive any extension of the record.\<close>

lemma toasty_extend_sel:
  "Timestamp_to_string (toasty.extend T m) = Timestamp_to_string T"
  "Domain_get_by_id (toasty.extend T m) = Domain_get_by_id T"
  "Domain_all (toasty.extend T m) = Domain_all T"
  "Domain_create (toasty.extend T m) = Domain_create T"
  "Domain_delete (toasty.extend T m) = Domain_delete T"
  "Mailbox_get_by_id (toasty.extend T m) = Mailbox_get_by_id T"
  "Mailbox_all (toasty.extend T m) = Mailbox_all T"
  "Mailbox_filter_domain (toasty.extend T m) = Mailbox_filter_domain T"
  "Mailbox_create (toasty.extend T m) = Mailbox_create T"
  "Mailbox_update (toasty.extend T m) = Mailbox_update T"
  "Mailbox_delete (toasty.extend T m) = Mailbox_delete T"
  "Record_get_by_id (toasty.extend T m) = Record_get_by_id T"
  "Record_all (toasty.extend T m) = Record_all T"
  "Record_filter_domain (toasty.extend T m) = Record_filter_domain T"
  "Record_filter_domain_type (toasty.extend T m) = Record_filter_domain_type T"
  "Record_create (toasty.extend T m) = Record_create T"
  "Record_update (toasty.extend T m) = Record_update T"
  "Record_delete (toasty.extend T m) = Record_delete T"
  "Message_get_by_id (toasty.extend T m) = Message_get_by_id T"
  "Message_first_by_header (toasty.extend T m) = Message_first_by_header T"
  "Message_create (toasty.extend T m) = Message_create T"
  "Message_delete (toasty.extend T m) = Message_delete T"
  "Inbound_filter_rcpt (toasty.extend T m) = Inbound_filter_rcpt T"
  "Inbound_create (toasty.extend T m) = Inbound_create T"
  "Inbound_delete_message (toasty.extend T m) = Inbound_delete_message T"
  "Outbound_filter_status (toasty.extend T m) = Outbound_filter_status T"
  "Outbound_filter_sender (toasty.extend T m) = Outbound_filter_sender T"
  "Outbound_first_by_id (toasty.extend T m) = Outbound_first_by_id T"
  "Outbound_create (toasty.extend T m) = Outbound_create T"
  "Outbound_update (toasty.extend T m) = Outbound_update T"
  "Outbound_delete_message (toasty.extend T m) = Outbound_delete_message T"
  "DeliveryStatus_create (toasty.extend T m) = DeliveryStatus_create T"
  "Tx_begin_immediate (toasty.extend T m) = Tx_begin_immediate T"
  "Tx_commit (toasty.extend T m) = Tx_commit T"
  "Tx_drop (toasty.extend T m) = Tx_drop T"
  by (simp_all add: toasty.defs)

lemma store_extend:
  assumes "store T view snapshot healthy"
  shows "store (toasty.extend T m) view snapshot healthy"
proof (rule store.intro, goal_cases)
  case 30
  show ?case
    using store.axioms(30) [OF assms] unfolding store_axioms_def toasty_extend_sel .
qed (unfold toasty_extend_sel, (rule store.axioms [OF assms])+)
end
