(* ===== verification/Zm_Send.thy ===== *)
theory Zm_Send
  imports Zm_Config Zm_Store
begin

text \<open>
  Outbound delivery (\<^verbatim>\<open>src/send.rs\<close>): the producers that put a job on the queue, the claim of a
  job under a write-locked transaction, one delivery attempt over a list of hosts, and the decision
  to re-queue with a backoff or to give up. The outside world (mail parser, address grammar,
  resolver, TLS stack, SMTP transport, clock) is a record of functions that extends the record of
  database operations; the state \<open>'s\<close> is the database together with the network.

  Counters are 64-bit words; \<open>attempts + 1\<close> wraps, as it does in a release build.
\<close>

section \<open>The outside world\<close>

record parsed_addr =
  pa_address :: "string option"

record parsed_group =
  pg_addresses :: "parsed_addr list"

datatype ParsedAddress = List "parsed_addr list" | Group "parsed_group list"

text \<open>What the sources read of a parsed message.\<close>

record parsed_mail =
  pm_subject :: "string option"
  pm_content_type :: "string option"
  pm_message_id :: "string option"
  pm_from :: "ParsedAddress option"
  pm_to :: "ParsedAddress option"
  pm_cc :: "ParsedAddress option"
  pm_bcc :: "ParsedAddress option"

text \<open>A message as the builder library hands it over: envelope sender and wire form.\<close>

record lettre_message =
  lm_envelope_from :: "string option"
  lm_formatted :: bytes

datatype Envelope = Envelope (reverse_path: "string option") (forward_path: "string list")

record mx_record =
  mx_preference :: u16
  mx_exchange :: string

text \<open>Settings of a TLS client; the parameters built from them are identified with them.\<close>

record tls_parameters =
  tls_domain :: string
  accept_invalid_hostnames :: bool
  accept_invalid_certs :: bool

datatype Tls =
    No_Tls
  | Tls_opportunistic tls_parameters
  | Tls_required tls_parameters
  | Tls_wrapper tls_parameters

record smtp_transport =
  st_host :: string
  st_port :: u16
  st_tls :: Tls
  st_credentials :: "(string \<times> string) option"

record 's world = "'s toasty" +
  env_var :: "string \<Rightarrow> string option"
  Timestamp_now :: "'s \<Rightarrow> timestamp"
  Timestamp_plus_seconds :: "timestamp \<Rightarrow> int \<Rightarrow> timestamp option"
  parse_mail :: "bytes \<Rightarrow> parsed_mail option"
  parse_Address :: "string \<Rightarrow> (string, string) result"
  Envelope_new :: "string option \<Rightarrow> string list \<Rightarrow> (Envelope, string) result"
  resolver_from_system_conf :: "'s \<Rightarrow> (unit, string) result"
  mx_lookup :: "string \<Rightarrow> 's \<Rightarrow> (mx_record list, string) result \<times> 's"
  build_native :: "tls_parameters \<Rightarrow> (tls_parameters, string) result"
  send_raw :: "smtp_transport \<Rightarrow> Envelope \<Rightarrow> bytes \<Rightarrow> 's \<Rightarrow> (string, string) result \<times> 's"

text \<open>
  An error is a boxed message, or a panic of the library that adds a span to an instant, which no
  caller catches.
\<close>

datatype fault = Fault string | Panic string

definition err :: "string \<Rightarrow> string \<Rightarrow> fault" where
  "err prefix e = Fault (prefix @ '': '' @ e)"

section \<open>Addresses of a parsed header\<close>

fun find_map :: "('a \<Rightarrow> 'b option) \<Rightarrow> 'a list \<Rightarrow> 'b option" where
  "find_map f [] = None"
| "find_map f (x # xs) = (case f x of None \<Rightarrow> find_map f xs | Some y \<Rightarrow> Some y)"

definition first_of :: "'a list \<Rightarrow> 'a option" where
  "first_of xs = (case xs of [] \<Rightarrow> None | x # _ \<Rightarrow> Some x)"

fun first_address :: "ParsedAddress \<Rightarrow> string" where
  "first_address (List l) = unwrap_or [] (Option.bind (first_of l) pa_address)"
| "first_address (Group gs) =
     unwrap_or [] (find_map (\<lambda>g. Option.bind (first_of (pg_addresses g)) pa_address) gs)"

fun addrs_to_strings :: "ParsedAddress \<Rightarrow> string list" where
  "addrs_to_strings (List l) = List.map_filter pa_address l"
| "addrs_to_strings (Group gs) = List.map_filter pa_address (concat (map pg_addresses gs))"

section \<open>Queue configuration\<close>

definition SUBMISSION_PORT :: u16 where
  "SUBMISSION_PORT = 25"

text \<open>Durations are kept in whole seconds, the only unit that is read from them.\<close>

record OutboundWorkerConfig =
  poll_interval :: u64
  max_attempts :: u64
  base_backoff :: u64
  max_backoff :: u64
  worker_transport :: OutboundTransport
  submission_port :: u16

definition OutboundWorkerConfig_default :: OutboundWorkerConfig where
  "OutboundWorkerConfig_default =
     \<lparr>poll_interval = 5, max_attempts = 8, base_backoff = 60, max_backoff = 3600,
      worker_transport = OutboundTransport_default, submission_port = SUBMISSION_PORT\<rparr>"

definition with_submission_port :: "u16 \<Rightarrow> OutboundWorkerConfig \<Rightarrow> OutboundWorkerConfig" where
  "with_submission_port port c = c\<lparr>submission_port := port\<rparr>"

section \<open>Producers\<close>

text \<open>The job both producers insert: queued, never attempted, due at once.\<close>

definition queued_job :: "row_id \<Rightarrow> string \<Rightarrow> string \<Rightarrow> outbound_fields" where
  "queued_job mid recipient sender =
     \<lparr>outbound_message_id = mid, outbound_rcpt_to = recipient, outbound_sender_id = sender,
      outbound_status = Queued, outbound_attempts = 0, outbound_next_attempt_at = None,
      outbound_last_error = None\<rparr>"

definition parsed_fields :: "parsed_mail option \<Rightarrow> string \<Rightarrow> bytes \<Rightarrow> message_fields" where
  "parsed_fields parsed mail_from raw =
     \<lparr>message_mail_from = mail_from,
      message_raw = raw,
      message_subject = Option.bind parsed pm_subject,
      message_id_header = Option.bind parsed pm_message_id,
      message_content_type = Option.bind parsed pm_content_type,
      message_from_address = map_option first_address (Option.bind parsed pm_from),
      message_to = (case Option.bind parsed pm_to of None \<Rightarrow> [] | Some a \<Rightarrow> addrs_to_strings a),
      message_cc = (case Option.bind parsed pm_cc of None \<Rightarrow> [] | Some a \<Rightarrow> addrs_to_strings a),
      message_bcc = (case Option.bind parsed pm_bcc of None \<Rightarrow> [] | Some a \<Rightarrow> addrs_to_strings a)\<rparr>"

definition enqueue_outbound ::
  "('s, 'z) world_scheme \<Rightarrow> string \<Rightarrow> string \<Rightarrow> lettre_message \<Rightarrow> 's \<Rightarrow>
   (row_id \<times> row_id, fault) result \<times> 's" where
  "enqueue_outbound W sender recipient m s =
     (let mail_from = unwrap_or [] (lm_envelope_from m);
          raw = lm_formatted m;
          parsed = parse_mail W raw
      in case Message_create W (parsed_fields parsed mail_from raw) s of
           (Err e, s1) \<Rightarrow> (Err (err ''failed to store outbound Message'' e), s1)
         | (Ok created, s1) \<Rightarrow>
             (case Outbound_create W (queued_job (message_id created) recipient sender) s1 of
                (Err e, s2) \<Rightarrow> (Err (err ''failed to enqueue Outbound'' e), s2)
              | (Ok job, s2) \<Rightarrow> (Ok (message_id created, outbound_id job), s2)))"

definition enqueue_forward ::
  "('s, 'z) toasty_scheme \<Rightarrow> row_id \<Rightarrow> string \<Rightarrow> string \<Rightarrow> 's \<Rightarrow> (row_id, fault) result \<times> 's" where
  "enqueue_forward T mid sender_id forward_to s =
     (case Outbound_create T (queued_job mid forward_to sender_id) s of
        (Err e, s1) \<Rightarrow> (Err (err ''failed to enqueue forward Outbound'' e), s1)
      | (Ok job, s1) \<Rightarrow> (Ok (outbound_id job), s1))"

section \<open>Retrying\<close>

definition backoff_delay :: "OutboundWorkerConfig \<Rightarrow> u64 \<Rightarrow> u64" where
  "backoff_delay config attempts =
     (let shift = min (saturating_sub attempts 1) 62;
          multiplier = push_bit (unat shift) 1;
          seconds = saturating_mul (base_backoff config) multiplier
      in min seconds (max_backoff config))"

text \<open>The cast of the delay to a signed integer reads its two's complement.\<close>

definition fail_or_requeue ::
  "('s, 'z) world_scheme \<Rightarrow> OutboundWorkerConfig \<Rightarrow> timestamp \<Rightarrow> string \<Rightarrow> Outbound \<Rightarrow> 's \<Rightarrow>
   (unit, fault) result \<times> 's" where
  "fail_or_requeue W config now reason job s =
     (let attempts = outbound_attempts job + 1
      in if max_attempts config < attempts then
           (case Outbound_update W (outbound_id job)
                   (\<lambda>j. j\<lparr>outbound_status := Failed, outbound_attempts := attempts,
                        outbound_next_attempt_at := None, outbound_last_error := Some reason\<rparr>) s of
              (Err e, s1) \<Rightarrow> (Err (err ''failed to mark Outbound Failed'' e), s1)
            | (Ok _, s1) \<Rightarrow> (Ok (), s1))
         else
           (case Timestamp_plus_seconds W now (sint (backoff_delay config attempts)) of
              None \<Rightarrow> (Err (Panic ''adding span to timestamp overflowed''), s)
            | Some next \<Rightarrow>
                (case Outbound_update W (outbound_id job)
                        (\<lambda>j. j\<lparr>outbound_status := Queued, outbound_attempts := attempts,
                             outbound_next_attempt_at := Some next,
                             outbound_last_error := Some reason\<rparr>) s of
                   (Err e, s1) \<Rightarrow> (Err (err ''failed to requeue Outbound'' e), s1)
                 | (Ok _, s1) \<Rightarrow> (Ok (), s1))))"

definition record_delivery ::
  "('s, 'z) toasty_scheme \<Rightarrow> row_id \<Rightarrow> string \<Rightarrow> u64 option \<Rightarrow> string option \<Rightarrow> 's \<Rightarrow>
   (unit, fault) result \<times> 's" where
  "record_delivery T oid peer_host code msg s =
     (case DeliveryStatus_create T
             \<lparr>delivery_outbound_id = oid, delivery_peer_host = peer_host, delivery_code = code,
              delivery_message = msg\<rparr> s of
        (Err e, s1) \<Rightarrow> (Err (err ''failed to record DeliveryStatus'' e), s1)
      | (Ok _, s1) \<Rightarrow> (Ok (), s1))"

section \<open>One delivery attempt\<close>

definition build_outbound_tls ::
  "('s, 'z) world_scheme \<Rightarrow> OutboundTransport \<Rightarrow> string \<Rightarrow> (Tls, fault) result" where
  "build_outbound_tls W t domain =
     (if \<not> tls_enabled t then Ok No_Tls
      else
        let params = \<lparr>tls_domain = domain, accept_invalid_hostnames = False,
                      accept_invalid_certs = False\<rparr>;
            params' = (if transport_insecure t
                       then params\<lparr>accept_invalid_hostnames := True, accept_invalid_certs := True\<rparr>
                       else params)
        in case build_native W params' of
             Err e \<Rightarrow> Err (Fault e)
           | Ok p \<Rightarrow>
               Ok (case transport_tls t of
                     Opportunistic \<Rightarrow> Tls_opportunistic p
                   | Required \<Rightarrow> Tls_required p
                   | Implicit \<Rightarrow> Tls_wrapper p
                   | Plain \<Rightarrow> No_Tls))"

definition target_port :: "OutboundWorkerConfig \<Rightarrow> u16" where
  "target_port config =
     (case transport_relay (worker_transport config) of
        None \<Rightarrow> submission_port config
      | Some r \<Rightarrow> if relay_port r = 0 then submission_port config else relay_port r)"

definition build_transport ::
  "('s, 'z) world_scheme \<Rightarrow> OutboundWorkerConfig \<Rightarrow> string \<Rightarrow> (smtp_transport, fault) result" where
  "build_transport W config host =
     (case build_outbound_tls W (worker_transport config) host of
        Err e \<Rightarrow> Err e
      | Ok tls \<Rightarrow>
          Ok \<lparr>st_host = host, st_port = target_port config, st_tls = tls,
              st_credentials = Option.bind (transport_relay (worker_transport config))
                (credentials (env_var W))\<rparr>)"

definition delivery_targets :: "OutboundWorkerConfig \<Rightarrow> string list \<Rightarrow> (string list, fault) result"
where
  "delivery_targets config hosts =
     (if relay_configured (worker_transport config) then
        (case Option.bind (transport_relay (worker_transport config)) relay_host of
           None \<Rightarrow> Err (Fault ''outbound relay is configured but has no `host`'')
         | Some h \<Rightarrow> Ok [h])
      else Ok hosts)"

text \<open>
  The loop over the targets. \<open>last_error\<close> is the reason of the latest failure; the loop ends at the
  first acceptance, at the first error of the database or the TLS stack, or when the list is used
  up.
\<close>

fun deliver_targets ::
  "('s, 'z) world_scheme \<Rightarrow> OutboundWorkerConfig \<Rightarrow> timestamp \<Rightarrow> Message \<Rightarrow> Envelope \<Rightarrow> Outbound \<Rightarrow>
   string option \<Rightarrow> string list \<Rightarrow> 's \<Rightarrow> (unit, fault) result \<times> 's" where
  "deliver_targets W config now message envelope job last_error [] s =
     fail_or_requeue W config now (unwrap_or ''all MX attempts failed'' last_error) job s"
| "deliver_targets W config now message envelope job last_error (host # hosts) s =
     (case build_transport W config host of
        Err e \<Rightarrow> (Err e, s)
      | Ok tr \<Rightarrow>
          (case send_raw W tr envelope (message_raw message) s of
             (Ok response, s1) \<Rightarrow>
               (case record_delivery W (outbound_id job) host (Some 250) (Some response) s1 of
                  (Err e, s2) \<Rightarrow> (Err e, s2)
                | (Ok _, s2) \<Rightarrow>
                    (let attempts = outbound_attempts job + 1
                     in case Outbound_update W (outbound_id job)
                               (\<lambda>j. j\<lparr>outbound_status := Delivered, outbound_attempts := attempts,
                                    outbound_next_attempt_at := None,
                                    outbound_last_error := None\<rparr>) s2 of
                          (Err e, s3) \<Rightarrow> (Err (err ''failed to mark Outbound Delivered'' e), s3)
                        | (Ok _, s3) \<Rightarrow> (Ok (), s3)))
           | (Err e, s1) \<Rightarrow>
               (case record_delivery W (outbound_id job) host None (Some e) s1 of
                  (Err e', s2) \<Rightarrow> (Err e', s2)
                | (Ok _, s2) \<Rightarrow>
                    deliver_targets W config now message envelope job
                      (Some (''via '' @ host @ '': '' @ e)) hosts s2)))"

definition deliver_hosts ::
  "('s, 'z) world_scheme \<Rightarrow> OutboundWorkerConfig \<Rightarrow> timestamp \<Rightarrow> string list \<Rightarrow> Message \<Rightarrow> Envelope \<Rightarrow>
   Outbound \<Rightarrow> 's \<Rightarrow> (unit, fault) result \<times> 's" where
  "deliver_hosts W config now hosts message envelope job s =
     (case delivery_targets config hosts of
        Err e \<Rightarrow> (Err e, s)
      | Ok targets \<Rightarrow>
          if targets = [] then fail_or_requeue W config now ''no MX records for domain'' job s
          else deliver_targets W config now message envelope job None targets s)"

definition build_envelope ::
  "('s, 'z) world_scheme \<Rightarrow> string \<Rightarrow> string \<Rightarrow> (Envelope, fault) result" where
  "build_envelope W mail_from recipient =
     (case (if trim mail_from = [] then Ok None
            else case parse_Address W mail_from of
                Err e \<Rightarrow> Err (err ''invalid MAIL FROM'' e)
              | Ok a \<Rightarrow> Ok (Some a)) of
        Err e \<Rightarrow> Err e
      | Ok from \<Rightarrow>
          (case parse_Address W recipient of
             Err e \<Rightarrow> Err (err ''invalid RCPT TO'' e)
           | Ok to \<Rightarrow>
               (case Envelope_new W from [to] of
                  Err e \<Rightarrow> Err (err ''failed to build envelope'' e)
                | Ok env \<Rightarrow> Ok env)))"

definition mx_hosts :: "mx_record list \<Rightarrow> string list" where
  "mx_hosts response =
     filter (\<lambda>h. h \<noteq> [])
       (map (\<lambda>mx. trim_end_matches (\<lambda>c. c = CHR ''.'') (mx_exchange mx))
         (sort_key mx_preference response))"

text \<open>The domain is what follows the last \<open>@\<close>; splitting never gives an empty list.\<close>

definition lookup_mx_hosts ::
  "('s, 'z) world_scheme \<Rightarrow> string \<Rightarrow> 's \<Rightarrow> (string list, fault) result \<times> 's" where
  "lookup_mx_hosts W recipient s =
     (case split_char (CHR ''@'') recipient of
        [] \<Rightarrow> (Err (err ''invalid RCPT TO: no domain part'' ''recipient''), s)
      | parts \<Rightarrow>
          (case resolver_from_system_conf W s of
             Err e \<Rightarrow> (Err (err ''failed to build DNS resolver'' e), s)
           | Ok _ \<Rightarrow>
               (case mx_lookup W (last parts) s of
                  (Err e, s1) \<Rightarrow> (Err (err ''MX lookup failed'' e), s1)
                | (Ok response, s1) \<Rightarrow> (Ok (mx_hosts response), s1))))"

text \<open>The wrapper that prefixes an error with its context a second time.\<close>

definition err_fault :: "string \<Rightarrow> fault \<Rightarrow> fault" where
  "err_fault prefix f = (case f of Fault e \<Rightarrow> err prefix e | Panic e \<Rightarrow> Panic e)"

definition deliver_one ::
  "('s, 'z) world_scheme \<Rightarrow> OutboundWorkerConfig \<Rightarrow> timestamp \<Rightarrow> Outbound \<Rightarrow> 's \<Rightarrow>
   (unit, fault) result \<times> 's" where
  "deliver_one W config now job s =
     (case Message_get_by_id W (outbound_message_id job) s of
        Err e \<Rightarrow> (Err (err ''failed to load Message for Outbound'' e), s)
      | Ok message \<Rightarrow>
          (case build_envelope W (message_mail_from message) (outbound_rcpt_to job) of
             Err e \<Rightarrow> (Err e, s)
           | Ok envelope \<Rightarrow>
               (case lookup_mx_hosts W (outbound_rcpt_to job) s of
                  (Err e, s1) \<Rightarrow> (Err (err_fault ''failed to look up MX hosts'' e), s1)
                | (Ok hosts, s1) \<Rightarrow>
                    deliver_hosts W config now hosts message envelope job s1)))"

section \<open>The worker\<close>

definition claim ::
  "('s, 'z) toasty_scheme \<Rightarrow> row_id \<Rightarrow> 's \<Rightarrow> (Outbound option, fault) result \<times> 's" where
  "claim T i s =
     (case Tx_begin_immediate T s of
        (Err e, s1) \<Rightarrow> (Err (err ''failed to begin claim transaction'' e), s1)
      | (Ok _, s1) \<Rightarrow>
          (case Outbound_first_by_id T i s1 of
             Err e \<Rightarrow> (Err (err ''failed to load job for claim'' e), Tx_drop T s1)
           | Ok None \<Rightarrow>
               (case Tx_commit T s1 of
                  (Err e, s2) \<Rightarrow> (Err (err ''failed to commit empty claim'' e), s2)
                | (Ok _, s2) \<Rightarrow> (Ok None, s2))
           | Ok (Some job) \<Rightarrow>
               if outbound_status job \<noteq> Queued then
                 (case Tx_commit T s1 of
                    (Err e, s2) \<Rightarrow> (Err (err ''failed to commit discarded claim'' e), s2)
                  | (Ok _, s2) \<Rightarrow> (Ok None, s2))
               else
                 (case Outbound_update T (outbound_id job)
                         (\<lambda>j. j\<lparr>outbound_status := InProgress\<rparr>) s1 of
                    (Err e, s2) \<Rightarrow>
                      (Err (err ''failed to flip Outbound InProgress'' e), Tx_drop T s2)
                  | (Ok job', s2) \<Rightarrow>
                      (case Tx_commit T s2 of
                         (Err e, s3) \<Rightarrow> (Err (err ''failed to commit claim'' e), s3)
                       | (Ok _, s3) \<Rightarrow> (Ok (Some job'), s3)))))"

fun reclaim_rows :: "('s, 'z) toasty_scheme \<Rightarrow> Outbound list \<Rightarrow> 's \<Rightarrow> 's" where
  "reclaim_rows T [] s = s"
| "reclaim_rows T (job # rows) s =
     reclaim_rows T rows (snd (Outbound_update T (outbound_id job)
       (\<lambda>j. j\<lparr>outbound_status := Queued, outbound_next_attempt_at := None,
            outbound_last_error := None\<rparr>) s))"

definition reclaim_in_progress :: "('s, 'z) toasty_scheme \<Rightarrow> 's \<Rightarrow> 's" where
  "reclaim_in_progress T s =
     (case Outbound_filter_status T InProgress s of
        Err e \<Rightarrow> s
      | Ok rows \<Rightarrow> reclaim_rows T rows s)"

definition due :: "timestamp \<Rightarrow> 'a outbound_fields_scheme \<Rightarrow> bool" where
  "due now job = (case outbound_next_attempt_at job of None \<Rightarrow> True | Some next \<Rightarrow> next \<le> now)"

fun drain_rows ::
  "('s, 'z) world_scheme \<Rightarrow> OutboundWorkerConfig \<Rightarrow> timestamp \<Rightarrow> Outbound list \<Rightarrow> 's \<Rightarrow>
   (unit, fault) result \<times> 's" where
  "drain_rows W config now [] s = (Ok (), s)"
| "drain_rows W config now (job # rows) s =
     (if \<not> due now job then drain_rows W config now rows s
      else case claim W (outbound_id job) s of
          (Err e, s1) \<Rightarrow> (Err e, s1)
        | (Ok None, s1) \<Rightarrow> drain_rows W config now rows s1
        | (Ok (Some claimed), s1) \<Rightarrow>
            (case deliver_one W config now claimed s1 of
               (Err (Panic e), s2) \<Rightarrow> (Err (Panic e), s2)
             | (Err (Fault e), s2) \<Rightarrow> drain_rows W config now rows s2
             | (Ok _, s2) \<Rightarrow> drain_rows W config now rows s2))"

definition drain_once ::
  "('s, 'z) world_scheme \<Rightarrow> OutboundWorkerConfig \<Rightarrow> 's \<Rightarrow> (unit, fault) result \<times> 's" where
  "drain_once W config s =
     (let now = Timestamp_now W s
      in case Outbound_filter_status W Queued s of
           Err e \<Rightarrow> (Err (err ''failed to fetch queued Outbound rows'' e), s)
         | Ok rows \<Rightarrow> drain_rows W config now rows s)"

text \<open>One tick of the poll loop: an error of the tick is logged, a panic ends the task.\<close>

definition worker_tick ::
  "('s, 'z) world_scheme \<Rightarrow> OutboundWorkerConfig \<Rightarrow> 's \<Rightarrow> 's option" where
  "worker_tick W config s =
     (case drain_once W config (reclaim_in_progress W s) of
        (Err (Panic e), s1) \<Rightarrow> None
      | (_, s1) \<Rightarrow> Some s1)"

text \<open>\<open>n\<close> ticks of the worker, with what happens to the world between two ticks in \<open>pause\<close>.\<close>

fun run_outbound_worker ::
  "('s, 'z) world_scheme \<Rightarrow> OutboundWorkerConfig \<Rightarrow> ('s \<Rightarrow> 's) \<Rightarrow> nat \<Rightarrow> 's \<Rightarrow> 's option" where
  "run_outbound_worker W config pause 0 s = Some s"
| "run_outbound_worker W config pause (Suc n) s =
     (case worker_tick W config s of
        None \<Rightarrow> None
      | Some s1 \<Rightarrow> run_outbound_worker W config pause n (pause s1))"

end
