(* ===== verification/Zm_Queue.thy ===== *)
theory Zm_Queue
  imports Zm_Send
begin

text \<open>
  What the outbound queue promises, and that the worker of \<^verbatim>\<open>src/send.rs\<close> keeps it. The promise is
  an abstract state machine on one job (\<open>job_step\<close>); a change of the tables is a change of the queue
  (\<open>queue_evolves\<close>) when every job moves along it, no job appears or vanishes, delivery records are
  only added, and every other table is left alone. Every operation of the worker refines it, in
  every outcome, whether the database answers or not.
\<close>

section \<open>The job state machine\<close>

inductive job_step :: "OutboundWorkerConfig \<Rightarrow> Outbound \<Rightarrow> Outbound \<Rightarrow> bool"
  for config :: OutboundWorkerConfig where
  claim: "outbound_status j = Queued \<Longrightarrow>
    job_step config j (j\<lparr>outbound_status := InProgress, outbound_updated_at := ts\<rparr>)"
| reclaim: "outbound_status j = InProgress \<Longrightarrow>
    job_step config j (j\<lparr>outbound_status := Queued, outbound_next_attempt_at := None,
      outbound_last_error := None, outbound_updated_at := ts\<rparr>)"
| deliver: "outbound_status j = InProgress \<Longrightarrow>
    job_step config j (j\<lparr>outbound_status := Delivered, outbound_attempts := outbound_attempts j + 1,
      outbound_next_attempt_at := None, outbound_last_error := None, outbound_updated_at := ts\<rparr>)"
| retry: "outbound_status j = InProgress \<Longrightarrow> outbound_attempts j + 1 \<le> max_attempts config \<Longrightarrow>
    job_step config j (j\<lparr>outbound_status := Queued, outbound_attempts := outbound_attempts j + 1,
      outbound_next_attempt_at := Some next, outbound_last_error := Some reason,
      outbound_updated_at := ts\<rparr>)"
| give_up: "outbound_status j = InProgress \<Longrightarrow> max_attempts config < outbound_attempts j + 1 \<Longrightarrow>
    job_step config j (j\<lparr>outbound_status := Failed, outbound_attempts := outbound_attempts j + 1,
      outbound_next_attempt_at := None, outbound_last_error := Some reason,
      outbound_updated_at := ts\<rparr>)"

definition terminal :: "'a outbound_fields_scheme \<Rightarrow> bool" where
  "terminal j \<longleftrightarrow> outbound_status j \<in> {Delivered, Failed}"

definition jobs_evolve ::
  "OutboundWorkerConfig \<Rightarrow> (row_id \<rightharpoonup> Outbound) \<Rightarrow> (row_id \<rightharpoonup> Outbound) \<Rightarrow> bool" where
  "jobs_evolve config t t' \<longleftrightarrow> (\<forall>i. rel_option (job_step config)\<^sup>*\<^sup>* (t i) (t' i))"

definition queue_evolves :: "OutboundWorkerConfig \<Rightarrow> tables \<Rightarrow> tables \<Rightarrow> bool" where
  "queue_evolves config t t' \<longleftrightarrow>
     jobs_evolve config (t_outbound t) (t_outbound t') \<and>
     t_delivery t \<subseteq>\<^sub>m t_delivery t' \<and>
     t' = t\<lparr>t_outbound := t_outbound t', t_delivery := t_delivery t'\<rparr>"

section \<open>The state machine itself\<close>

inductive_cases job_stepE: "job_step config j j'"

lemma rtranclp_invariant: "R\<^sup>*\<^sup>* x y \<Longrightarrow> (\<And>a b. R a b \<Longrightarrow> f a = f b) \<Longrightarrow> f x = f y"
  by (induction rule: rtranclp_induct) auto

lemma job_step_not_terminal: "job_step config j j' \<Longrightarrow> \<not> terminal j"
  by (auto simp: terminal_def elim!: job_stepE)

lemma job_steps_terminal: "(job_step config)\<^sup>*\<^sup>* j j' \<Longrightarrow> terminal j \<Longrightarrow> j' = j"
  by (metis converse_rtranclpE job_step_not_terminal)

lemma job_steps_fixed:
  assumes "(job_step config)\<^sup>*\<^sup>* j j'"
  shows "outbound_id j' = outbound_id j" "outbound_message_id j' = outbound_message_id j"
    "outbound_rcpt_to j' = outbound_rcpt_to j" "outbound_sender_id j' = outbound_sender_id j"
    "outbound_created_at j' = outbound_created_at j"
  using assms by (induction rule: rtranclp_induct) (auto elim!: job_stepE)

text \<open>
  As long as the cap leaves room in the counter, the number of attempts never wraps: a job that has
  not failed has used at most the cap, a failed one exactly one more.
\<close>

definition attempts_ok :: "OutboundWorkerConfig \<Rightarrow> 'a outbound_fields_scheme \<Rightarrow> bool" where
  "attempts_ok config j \<longleftrightarrow>
     (if outbound_status j \<in> {Queued, InProgress}
      then outbound_attempts j \<le> max_attempts config
      else unat (outbound_attempts j) \<le> unat (max_attempts config) + 1)"

lemma unat_attempt_plus:
  "a \<le> (b :: u64) \<Longrightarrow> b < - 1 \<Longrightarrow> unat (a + 1) = unat a + 1"
proof -
  assume "a \<le> b" and "b < - 1"
  then have "a \<noteq> - 1" by auto
  then have "a + 1 \<noteq> 0" using eq_neg_iff_add_eq_0 by blast
  then show ?thesis by (metis Suc_eq_plus1 unatSuc add.commute)
qed

lemma job_step_attempts_ok:
  assumes "job_step config j j'" and "attempts_ok config j" and "max_attempts config < - 1"
  shows "attempts_ok config j'"
  using assms(1)
proof (cases rule: job_step.cases)
  case (deliver ts)
  then have "outbound_attempts j \<le> max_attempts config" using assms(2) by (simp add: attempts_ok_def)
  with unat_attempt_plus [OF this assms(3)] deliver show ?thesis
    by (simp add: attempts_ok_def word_le_nat_alt)
next
  case (give_up reason ts)
  then have "outbound_attempts j \<le> max_attempts config" using assms(2) by (simp add: attempts_ok_def)
  with unat_attempt_plus [OF this assms(3)] give_up show ?thesis
    by (simp add: attempts_ok_def word_le_nat_alt)
qed (use assms(2) in \<open>auto simp: attempts_ok_def\<close>)

lemma job_steps_attempts_ok:
  "(job_step config)\<^sup>*\<^sup>* j j' \<Longrightarrow> attempts_ok config j \<Longrightarrow> max_attempts config < - 1 \<Longrightarrow>
   attempts_ok config j'"
  by (induction rule: rtranclp_induct) (auto intro: job_step_attempts_ok)

section \<open>Evolution of the tables\<close>

lemma jobs_evolve_refl [simp]: "jobs_evolve config t t"
  by (auto simp: jobs_evolve_def intro!: option.rel_refl)

lemma jobs_evolve_trans:
  "jobs_evolve config t u \<Longrightarrow> jobs_evolve config u v \<Longrightarrow> jobs_evolve config t v"
proof -
  have "rel_option (job_step config)\<^sup>*\<^sup>* x z"
    if "rel_option (job_step config)\<^sup>*\<^sup>* x y" "rel_option (job_step config)\<^sup>*\<^sup>* y z" for x y z
    using that by (cases x; cases y; cases z) (auto intro: rtranclp_trans)
  then show "jobs_evolve config t u \<Longrightarrow> jobs_evolve config u v \<Longrightarrow> jobs_evolve config t v"
    unfolding jobs_evolve_def by blast
qed

lemma jobs_evolve_step:
  "t i = Some j \<Longrightarrow> job_step config j j' \<Longrightarrow> jobs_evolve config t (t(i \<mapsto> j'))"
  by (auto simp: jobs_evolve_def intro!: option.rel_refl)

lemma queue_evolves_refl [simp]: "queue_evolves config t t"
  by (simp add: queue_evolves_def)

lemma queue_evolves_trans:
  assumes "queue_evolves config t u" and "queue_evolves config u v"
  shows "queue_evolves config t v"
proof -
  have "u = t\<lparr>t_outbound := t_outbound u, t_delivery := t_delivery u\<rparr>"
    and "v = u\<lparr>t_outbound := t_outbound v, t_delivery := t_delivery v\<rparr>"
    using assms by (simp_all add: queue_evolves_def)
  then have "v = t\<lparr>t_outbound := t_outbound v, t_delivery := t_delivery v\<rparr>"
    by (cases t; cases u; cases v) simp
  then show ?thesis using assms
    by (auto simp: queue_evolves_def intro: jobs_evolve_trans map_le_trans)
qed

lemma queue_evolves_step:
  assumes "t_outbound t i = Some j" and "job_step config j j'"
  shows "queue_evolves config t (t_outbound_update (\<lambda>m. m(i \<mapsto> j')) t)"
  using jobs_evolve_step [where t = "t_outbound t", OF assms]
  by (cases t) (simp add: queue_evolves_def)

lemma queue_evolves_delivery:
  "t_delivery t k = None \<Longrightarrow> queue_evolves config t (t_delivery_update (\<lambda>m. m(k \<mapsto> d)) t)"
  by (cases t) (auto simp: queue_evolves_def map_le_def)

lemma queue_evolves_job:
  assumes "queue_evolves config t t'" and "t_outbound t i = Some j"
  obtains j' where "t_outbound t' i = Some j'" "(job_step config)\<^sup>*\<^sup>* j j'"
proof -
  have "rel_option (job_step config)\<^sup>*\<^sup>* (Some j) (t_outbound t' i)"
    using assms by (auto simp: queue_evolves_def jobs_evolve_def dest: spec [of _ i])
  then show thesis using that by (cases "t_outbound t' i") auto
qed

lemma queue_evolves_new_job:
  assumes "queue_evolves config t t'" and "t_outbound t' i = Some j'"
  obtains j where "t_outbound t i = Some j" "(job_step config)\<^sup>*\<^sup>* j j'"
proof -
  have "rel_option (job_step config)\<^sup>*\<^sup>* (t_outbound t i) (Some j')"
    using assms by (auto simp: queue_evolves_def jobs_evolve_def dest: spec [of _ i])
  then show thesis using that by (cases "t_outbound t i") auto
qed


lemma queue_evolves_others:
  assumes "queue_evolves config t t'"
  shows "t_messages t' = t_messages t" "t_mailboxes t' = t_mailboxes t" "t_domains t' = t_domains t"
    "t_records t' = t_records t" "t_inbound t' = t_inbound t"
proof -
  have "t' = t\<lparr>t_outbound := t_outbound t', t_delivery := t_delivery t'\<rparr>"
    using assms by (simp add: queue_evolves_def)
  then show "t_messages t' = t_messages t" "t_mailboxes t' = t_mailboxes t"
    "t_domains t' = t_domains t" "t_records t' = t_records t" "t_inbound t' = t_inbound t"
    by (cases t; cases t'; simp)+
qed

section \<open>The worker keeps the promise\<close>

text \<open>What the worker needs of the network: asking it never changes a table.\<close>

locale mta = store W view snapshot healthy
  for W :: "('s, 'z) world_scheme"
    and view :: "'s \<Rightarrow> tables"
    and snapshot :: "'s \<Rightarrow> tables"
    and healthy :: "'s \<Rightarrow> bool" +
  assumes mx_view: "mx_lookup W d s = (mr, s') \<Longrightarrow> view s' = view s"
    and mx_healthy: "mx_lookup W d s = (mr, s') \<Longrightarrow> healthy s \<Longrightarrow> healthy s'"
    and send_view: "send_raw W tr env raw s = (sr, s') \<Longrightarrow> view s' = view s"
    and send_healthy: "send_raw W tr env raw s = (sr, s') \<Longrightarrow> healthy s \<Longrightarrow> healthy s'"
begin

lemma job_update_evolves:
  assumes "Outbound_update W (outbound_id job) f s = (x, s')"
    and "\<And>r. outbound_id (f r) = outbound_id r"
    and "t_outbound (view s) (outbound_id job) = Some job"
    and "\<And>ts. job_step config job ((f job)\<lparr>outbound_updated_at := ts\<rparr>)"
  shows "queue_evolves config (view s) (view s')"
proof (cases x)
  case (Inl e)
  with assms(1) have "view s' = view s" using outbound.update_Err by blast
  then show ?thesis by simp
next
  case (Inr r')
  with outbound.update_Ok [of "outbound_id job" f s r' s'] assms
  obtain ts where "r' = (f job)\<lparr>outbound_updated_at := ts\<rparr>"
    and "view s' = t_outbound_update (\<lambda>t. t(outbound_id job \<mapsto> r')) (view s)" by auto
  then show ?thesis using queue_evolves_step [OF assms(3)] assms(4) by simp
qed

lemma fail_or_requeue_evolves:
  assumes "fail_or_requeue W config now reason job s = (x, s')"
    and "t_outbound (view s) (outbound_id job) = Some job" and "outbound_status job = InProgress"
  shows "queue_evolves config (view s) (view s')"
proof (cases "max_attempts config < outbound_attempts job + 1")
  case True
  with assms(1) obtain y where "Outbound_update W (outbound_id job)
      (\<lambda>j. j\<lparr>outbound_status := Failed, outbound_attempts := outbound_attempts job + 1,
           outbound_next_attempt_at := None, outbound_last_error := Some reason\<rparr>) s = (y, s')"
    by (auto simp: fail_or_requeue_def Let_def split: prod.splits sum.splits)
  then show ?thesis
    by (rule job_update_evolves) (use assms True in \<open>auto intro: job_step.give_up\<close>)
next
  case False
  show ?thesis
  proof (cases "Timestamp_plus_seconds W now (sint (backoff_delay config (outbound_attempts job + 1)))")
    case None
    with False assms(1) show ?thesis by (simp add: fail_or_requeue_def Let_def)
  next
    case (Some t)
    with False assms(1) obtain y where "Outbound_update W (outbound_id job)
        (\<lambda>j. j\<lparr>outbound_status := Queued, outbound_attempts := outbound_attempts job + 1,
             outbound_next_attempt_at := Some t, outbound_last_error := Some reason\<rparr>) s = (y, s')"
      by (auto simp: fail_or_requeue_def Let_def split: prod.splits sum.splits)
    then show ?thesis
      by (rule job_update_evolves) (use assms False in \<open>auto intro: job_step.retry\<close>)
  qed
qed

lemma record_delivery_view:
  assumes "record_delivery W oid h code msg s = (x, s')"
  shows "queue_evolves config (view s) (view s')" "t_outbound (view s') = t_outbound (view s)"
proof -
  obtain y where c: "DeliveryStatus_create W
      \<lparr>delivery_outbound_id = oid, delivery_peer_host = h, delivery_code = code,
       delivery_message = msg\<rparr> s = (y, s')"
    using assms by (auto simp: record_delivery_def split: prod.splits sum.splits)
  have "queue_evolves config (view s) (view s') \<and> t_outbound (view s') = t_outbound (view s)"
  proof (cases y)
    case (Inl e)
    with c have "view s' = view s" using delivery.create_Err by blast
    then show ?thesis by simp
  next
    case (Inr r)
    with c delivery.create_Ok [of _ s r s'] have "t_delivery (view s) (delivery_id r) = None"
      and "view s' = t_delivery_update (\<lambda>t. t(delivery_id r \<mapsto> r)) (view s)" by blast+
    then show ?thesis using queue_evolves_delivery by simp
  qed
  then show "queue_evolves config (view s) (view s')" "t_outbound (view s') = t_outbound (view s)"
    by simp_all
qed

text \<open>The paths through the attempt at one host.\<close>

lemma deliver_targets_paths:
  assumes "deliver_targets W config now message envelope job le (h # hosts) s = (x, s')"
  obtains (unbuilt) e where "build_transport W config h = Err e" "x = Err e" "s' = s"
  | (unrecorded) tr a s1 code msg e where "send_raw W tr envelope (message_raw message) s = (a, s1)"
      "record_delivery W (outbound_id job) h code msg s1 = (Err e, s')" "x = Err e"
  | (refused) tr a s1 code msg s2 le' where "send_raw W tr envelope (message_raw message) s = (a, s1)"
      "record_delivery W (outbound_id job) h code msg s1 = (Ok (), s2)"
      "deliver_targets W config now message envelope job le' hosts s2 = (x, s')"
  | (delivered) tr a s1 code msg s2 y where "send_raw W tr envelope (message_raw message) s = (a, s1)"
      "record_delivery W (outbound_id job) h code msg s1 = (Ok (), s2)"
      "Outbound_update W (outbound_id job)
        (\<lambda>j. j\<lparr>outbound_status := Delivered, outbound_attempts := outbound_attempts job + 1,
             outbound_next_attempt_at := None, outbound_last_error := None\<rparr>) s2 = (y, s')"
      "x = (case y of Err e \<Rightarrow> Err (err ''failed to mark Outbound Delivered'' e) | Ok _ \<Rightarrow> Ok ())"
proof (cases "build_transport W config h")
  case (Inl e)
  with assms show thesis by (intro unbuilt) auto
next
  case tr: (Inr tr)
  obtain a s1 where send: "send_raw W tr envelope (message_raw message) s = (a, s1)" by fastforce
  show thesis
  proof (cases a)
    case (Inl e)
    obtain y s2 where rd: "record_delivery W (outbound_id job) h None (Some e) s1 = (y, s2)" by fastforce
    show thesis
      by (cases y) (use assms tr send rd Inl unrecorded [OF send] refused [OF send] in auto)
  next
    case (Inr resp)
    obtain y s2 where rd: "record_delivery W (outbound_id job) h (Some 250) (Some resp) s1 = (y, s2)" by fastforce
    show thesis
    proof (cases y)
      case (Inl e)
      with assms tr send rd Inr show thesis by (intro unrecorded [OF send]) auto
    next
      case y: (Inr u)
      obtain z s3 where "Outbound_update W (outbound_id job)
        (\<lambda>j. j\<lparr>outbound_status := Delivered, outbound_attempts := outbound_attempts job + 1,
             outbound_next_attempt_at := None, outbound_last_error := None\<rparr>) s2 = (z, s3)" by fastforce
      with assms tr send rd Inr y show thesis
        by (intro delivered [OF send, of "Some 250" "Some resp" s2 z]) (auto split: sum.splits)
    qed
  qed
qed

lemma deliver_targets_evolves:
  assumes "deliver_targets W config now message envelope job le hosts s = (x, s')"
    and "t_outbound (view s) (outbound_id job) = Some job" and "outbound_status job = InProgress"
  shows "queue_evolves config (view s) (view s')"
  using assms
proof (induction hosts arbitrary: le s)
  case Nil
  then show ?case by (auto intro: fail_or_requeue_evolves)
next
  case (Cons h hosts)
  from Cons.prems(1) show ?case
  proof (cases rule: deliver_targets_paths)
    case unbuilt
    then show ?thesis by simp
  next
    case unrecorded
    with record_delivery_view(1) [OF unrecorded(2)] send_view [OF unrecorded(1)] show ?thesis by simp
  next
    case (refused tr a s1 code msg s2 le')
    note rd = record_delivery_view [OF refused(2)] and v1 = send_view [OF refused(1)]
    have "t_outbound (view s2) (outbound_id job) = Some job" using rd(2) v1 Cons.prems(2) by simp
    from queue_evolves_trans [OF rd(1) Cons.IH [OF refused(3) this Cons.prems(3)]] v1 show ?thesis by simp
  next
    case (delivered tr a s1 code msg s2 y)
    note rd = record_delivery_view [OF delivered(2)] and v1 = send_view [OF delivered(1)]
    have st: "t_outbound (view s2) (outbound_id job) = Some job" using rd(2) v1 Cons.prems(2) by simp
    from delivered(3) have "queue_evolves config (view s2) (view s')"
      by (rule job_update_evolves) (use st Cons.prems(3) in \<open>auto intro: job_step.deliver\<close>)
    with rd(1) v1 show ?thesis using queue_evolves_trans by metis
  qed
qed

lemma deliver_hosts_evolves:
  assumes "deliver_hosts W config now hosts message envelope job s = (x, s')"
    and "t_outbound (view s) (outbound_id job) = Some job" and "outbound_status job = InProgress"
  shows "queue_evolves config (view s) (view s')"
  using assms fail_or_requeue_evolves deliver_targets_evolves
  by (auto simp: deliver_hosts_def split: sum.splits if_splits)

lemma lookup_mx_hosts_view:
  assumes "lookup_mx_hosts W r s = (x, s')"
  shows "view s' = view s" "healthy s \<Longrightarrow> healthy s'"
  using assms mx_view mx_healthy
  by (auto simp: lookup_mx_hosts_def split: list.splits sum.splits prod.splits)

lemma deliver_one_evolves:
  assumes "deliver_one W config now job s = (x, s')"
    and "t_outbound (view s) (outbound_id job) = Some job" and "outbound_status job = InProgress"
  shows "queue_evolves config (view s) (view s')"
proof (cases "\<exists>message envelope hosts s1. lookup_mx_hosts W (outbound_rcpt_to job) s = (Ok hosts, s1)
    \<and> deliver_hosts W config now hosts message envelope job s1 = (x, s')")
  case True
  then obtain message envelope hosts s1
    where l: "lookup_mx_hosts W (outbound_rcpt_to job) s = (Ok hosts, s1)"
      and d: "deliver_hosts W config now hosts message envelope job s1 = (x, s')" by blast
  from deliver_hosts_evolves [OF d] lookup_mx_hosts_view(1) [OF l] assms(2,3) show ?thesis by simp
next
  case False
  with assms(1) have "s' = s \<or> (\<exists>e. lookup_mx_hosts W (outbound_rcpt_to job) s = (Err e, s'))"
    by (auto simp: deliver_one_def split: sum.splits prod.splits)
  then have "view s' = view s" using lookup_mx_hosts_view(1) by auto
  then show ?thesis by simp
qed


lemma claim_Some:
  assumes "claim W i s = (Ok (Some j'), s')"
  obtains j ts where "t_outbound (view s) i = Some j" "outbound_status j = Queued"
    "j' = j\<lparr>outbound_status := InProgress, outbound_updated_at := ts\<rparr>"
    "view s' = t_outbound_update (\<lambda>t. t(i \<mapsto> j')) (view s)"
proof -
  from assms obtain s1 j s2 u v where b: "Tx_begin_immediate W s = (Ok u, s1)"
    and l: "Outbound_first_by_id W i s1 = Ok (Some j)" and q: "outbound_status j = Queued"
    and up: "Outbound_update W (outbound_id j) (\<lambda>j. j\<lparr>outbound_status := InProgress\<rparr>) s1
      = (Ok j', s2)"
    and c: "Tx_commit W s2 = (Ok v, s')"
    by (auto simp: claim_def split: prod.splits sum.splits option.splits if_splits)
  have v1: "view s1 = view s" using b by (rule begin_view)
  from job_sound [OF l] v1 have j: "t_outbound (view s) i = Some j" by simp
  then have i: "outbound_id j = i" by (rule outbound_keyed)
  from outbound.update_Ok [OF up] obtain ts where
    "j' = j\<lparr>outbound_status := InProgress, outbound_updated_at := ts\<rparr>"
    "view s2 = t_outbound_update (\<lambda>t. t(i \<mapsto> j')) (view s)"
    using j i v1 by auto
  with commit_Ok [OF c] that j q show thesis by simp
qed

text \<open>A claim that takes nothing leaves its transaction by one of these ways, none of which keeps a write.\<close>

lemma claim_paths:
  assumes "claim W i s = (x, s')" and "\<And>j. x \<noteq> Ok (Some j)"
  obtains (unopened) e where "Tx_begin_immediate W s = (Err e, s')"
  | (unread) s1 where "Tx_begin_immediate W s = (Ok (), s1)" "s' = Tx_drop W s1"
  | (nothing) s1 y where "Tx_begin_immediate W s = (Ok (), s1)" "Tx_commit W s1 = (y, s')"
  | (unwritten) s1 k f y s2 where "Tx_begin_immediate W s = (Ok (), s1)"
      "Outbound_update W k f s1 = (y, s2)" "s' = Tx_drop W s2"
  | (uncommitted) s1 k f y s2 e where "Tx_begin_immediate W s = (Ok (), s1)"
      "Outbound_update W k f s1 = (y, s2)" "Tx_commit W s2 = (Err e, s')"
  using assms by (auto simp: claim_def split: prod.splits sum.splits option.splits if_splits)

lemma claim_other:
  assumes "claim W i s = (x, s')" and "\<And>j. x \<noteq> Ok (Some j)"
  shows "view s' = view s"
  using assms
proof (cases rule: claim_paths)
  case unopened
  then show ?thesis by (rule begin_view)
next
  case unread
  with begin_snapshot drop_view show ?thesis by simp
next
  case (nothing s1 y)
  with begin_snapshot [of s "()" s1] begin_view [of s "Ok ()" s1] commit_Ok [of s1 _ s'] commit_Err [of s1 _ s']
  show ?thesis by (cases y) auto
next
  case unwritten
  with begin_snapshot update_snapshot drop_view show ?thesis by metis
next
  case uncommitted
  with begin_snapshot update_snapshot commit_Err show ?thesis by metis
qed

lemma claim_evolves:
  assumes "claim W i s = (x, s')"
  shows "queue_evolves config (view s) (view s')"
proof (cases "\<exists>j. x = Ok (Some j)")
  case True
  then obtain j' where "claim W i s = (Ok (Some j'), s')" using assms by blast
  then show ?thesis
    by (rule claim_Some) (auto intro: queue_evolves_step job_step.claim)
next
  case False
  then show ?thesis using claim_other [OF assms] by simp
qed

lemma claim_stored:
  assumes "claim W i s = (Ok (Some j'), s')"
  shows "outbound_id j' = i" "t_outbound (view s') (outbound_id j') = Some j'"
    "outbound_status j' = InProgress"
proof -
  from claim_Some [OF assms] obtain j ts where j: "t_outbound (view s) i = Some j"
    "j' = j\<lparr>outbound_status := InProgress, outbound_updated_at := ts\<rparr>"
    "view s' = t_outbound_update (\<lambda>t. t(i \<mapsto> j')) (view s)" by blast
  from outbound_keyed [OF j(1)] j show "outbound_id j' = i"
    "t_outbound (view s') (outbound_id j') = Some j'" "outbound_status j' = InProgress" by simp_all
qed

lemma claim_healthy:
  assumes "healthy s" and "claim W i s = (x, s')"
  shows "healthy s'" "is_ok x"
    "t_outbound (view s) i = Some j \<Longrightarrow> outbound_status j = Queued \<Longrightarrow> \<exists>j'. x = Ok (Some j')"
proof -
  obtain y1 s1 where b: "Tx_begin_immediate W s = (y1, s1)" by fastforce
  from begin_complete [OF assms(1) b] obtain u where y1: "y1 = Ok u" and h1: "healthy s1"
    by (auto simp: is_ok_iff)
  have v1: "view s1 = view s" using b by (rule begin_view)
  from job_complete [OF h1, of i] obtain jo where l: "Outbound_first_by_id W i s1 = Ok jo"
    by (auto simp: is_ok_iff)
  have jo: "jo = t_outbound (view s) i" using job_sound [OF l] v1 by simp
  have key: "outbound_id j = i" if "jo = Some j" for j using that jo outbound_keyed by auto
  have up: "\<exists>j' s2. Outbound_update W i f s1 = (Ok j', s2) \<and> healthy s2" if "jo = Some j" for j f
  proof -
    obtain z s2 where u: "Outbound_update W i f s1 = (z, s2)" by fastforce
    have "t_outbound (view s1) i = Some j" using that jo v1 by simp
    with outbound.update_complete [OF h1 _ _ u] outbound.update_healthy [OF h1 u] u
    show ?thesis by (auto simp: is_ok_iff)
  qed
  have cm: "\<exists>u s3. Tx_commit W s2 = (Ok u, s3) \<and> healthy s3" if "healthy s2" for s2
    using commit_complete [OF that] by (cases "Tx_commit W s2") (auto simp: is_ok_iff)
  have "\<exists>r. x = Ok r \<and> healthy s' \<and>
      (\<forall>j. jo = Some j \<longrightarrow> outbound_status j = Queued \<longrightarrow> r \<noteq> None)"
  proof (cases "\<exists>j. jo = Some j \<and> outbound_status j = Queued")
    case True
    then obtain j where j: "jo = Some j" "outbound_status j = Queued" by blast
    from up [OF j(1)] obtain j' s2 where
      "Outbound_update W i (\<lambda>j. j\<lparr>outbound_status := InProgress\<rparr>) s1 = (Ok j', s2)" "healthy s2"
      by blast
    with cm [OF this(2)] assms(2) b y1 l j key [OF j(1)] show ?thesis
      by (auto simp: claim_def)
  next
    case False
    with cm [OF h1] assms(2) b y1 l show ?thesis
      by (auto simp: claim_def split: option.splits)
  qed
  then show "healthy s'" "is_ok x"
    "t_outbound (view s) i = Some j \<Longrightarrow> outbound_status j = Queued \<Longrightarrow> \<exists>j'. x = Ok (Some j')"
    using jo by auto
qed

lemma reclaim_rows_evolves:
  assumes "distinct (map outbound_id rows)"
    and "\<forall>j \<in> set rows. t_outbound (view s) (outbound_id j) = Some j \<and> outbound_status j = InProgress"
  shows "queue_evolves config (view s) (view (reclaim_rows W rows s))"
  using assms
proof (induction rows arbitrary: s)
  case (Cons j rows)
  let ?f = "\<lambda>j. j\<lparr>outbound_status := Queued, outbound_next_attempt_at := None,
      outbound_last_error := None\<rparr>"
  obtain x s1 where u: "Outbound_update W (outbound_id j) ?f s = (x, s1)" by fastforce
  have e1: "queue_evolves config (view s) (view s1)"
    by (rule job_update_evolves [OF u]) (use Cons.prems in \<open>auto intro: job_step.reclaim\<close>)
  have "t_outbound (view s1) i = t_outbound (view s) i" if "i \<noteq> outbound_id j" for i
    using that outbound.update_Err [of "outbound_id j" ?f s _ s1]
      outbound.update_Ok [of "outbound_id j" ?f s _ s1] u by (cases x) auto
  with Cons.prems have "\<forall>j \<in> set rows.
      t_outbound (view s1) (outbound_id j) = Some j \<and> outbound_status j = InProgress"
    by (metis distinct.simps(2) image_eqI image_set list.set_intros(2) list.simps(9))
  with Cons.IH [of s1] Cons.prems(1) u e1 show ?case by (auto intro: queue_evolves_trans)
qed simp

lemma queried_job:
  assumes "Outbound_filter_status W st s = Ok rows" and "j \<in> set rows"
  shows "t_outbound (view s) (outbound_id j) = Some j" "outbound_status j = st"
proof -
  from outbound.query_set [OF assms(1)] assms(2)
  obtain i where "t_outbound (view s) i = Some j" "outbound_status j = st" by (auto simp: ran_def)
  with outbound_keyed show "t_outbound (view s) (outbound_id j) = Some j" "outbound_status j = st"
    by blast+
qed

lemma reclaim_evolves: "queue_evolves config (view s) (view (reclaim_in_progress W s))"
proof (cases "Outbound_filter_status W InProgress s")
  case (Inr rows)
  then show ?thesis
    using reclaim_rows_evolves [OF outbound.query_distinct [OF Inr]] queried_job [OF Inr]
    by (simp add: reclaim_in_progress_def)
qed (simp add: reclaim_in_progress_def)

lemma drain_rows_evolves:
  "drain_rows W config now rows s = (x, s') \<Longrightarrow> queue_evolves config (view s) (view s')"
proof (induction rows arbitrary: s)
  case (Cons j rows)
  show ?case
  proof (cases "due now j")
    case False
    with Cons show ?thesis by simp
  next
    case True
    obtain y s1 where c: "claim W (outbound_id j) s = (y, s1)" by fastforce
    note e1 = claim_evolves [OF c, of config]
    show ?thesis
    proof (cases "\<exists>k. y = Ok (Some k)")
      case True
      then obtain k where y: "y = Ok (Some k)" by blast
      obtain z s2 where d: "deliver_one W config now k s1 = (z, s2)" by fastforce
      have "queue_evolves config (view s1) (view s2)"
        using deliver_one_evolves [OF d] claim_stored [of "outbound_id j" s k s1] c y by simp
      with e1 have e2: "queue_evolves config (view s) (view s2)" by (rule queue_evolves_trans)
      from Cons.prems \<open>due now j\<close> c y d
      have "s' = s2 \<or> drain_rows W config now rows s2 = (x, s')"
        by (auto split: sum.splits fault.splits)
      with e2 Cons.IH show ?thesis by (auto intro: queue_evolves_trans)
    next
      case False
      with Cons.prems \<open>due now j\<close> c have "s' = s1 \<or> drain_rows W config now rows s1 = (x, s')"
        by (auto split: sum.splits option.splits)
      with e1 Cons.IH show ?thesis by (auto intro: queue_evolves_trans)
    qed
  qed
qed simp

lemma drain_once_evolves:
  "drain_once W config s = (x, s') \<Longrightarrow> queue_evolves config (view s) (view s')"
  using drain_rows_evolves by (auto simp: drain_once_def Let_def split: sum.splits)

lemma worker_tick_evolves:
  assumes "worker_tick W config s = Some s'"
  shows "queue_evolves config (view s) (view s')"
proof -
  obtain x s1 where d: "drain_once W config (reclaim_in_progress W s) = (x, s1)" by fastforce
  with assms have "s' = s1"
    by (auto simp: worker_tick_def split: sum.splits fault.splits)
  with d show ?thesis
    using queue_evolves_trans [OF reclaim_evolves drain_once_evolves] by blast
qed

end

end
