(* ===== verification/Zm_Memory.thy ===== *)
theory Zm_Memory
  imports Zm_Store
begin

text \<open>
  An executable in-memory database that obeys the schema attributes of \<^verbatim>\<open>src/db.rs\<close>, in the
  spirit of \<open>AppState::connect_in_memory\<close>: keys are unique, \<open>auto\<close> columns are filled in, the
  \<open>unique\<close> triple of a record is enforced, deletes cascade along \<open>has_many\<close>, and a transaction keeps
  the tables to fall back to. It interprets the store locale, so every law assumed there can hold
  at once, and it is the store on which the witnesses run.
\<close>

section \<open>Tables as lists of rows\<close>

definition lookup_row :: "('r \<Rightarrow> 'k) \<Rightarrow> 'r list \<Rightarrow> 'k \<rightharpoonup> 'r" where
  "lookup_row key rows k = map_of (map (\<lambda>r. (key r, r)) rows) k"

fun live_rows :: "('r \<Rightarrow> 'k) \<Rightarrow> 'r list \<Rightarrow> 'r list" where
  "live_rows key [] = []"
| "live_rows key (r # rows) = r # filter (\<lambda>x. key x \<noteq> key r) (live_rows key rows)"

definition fresh_id :: "('r \<Rightarrow> nat) \<Rightarrow> 'r list \<Rightarrow> nat" where
  "fresh_id key rows = Suc (foldr max (map key rows) 0)"

lemma lookup_row_Nil [simp]: "lookup_row key [] k = None"
  by (simp add: lookup_row_def)

lemma lookup_row_Cons [simp]:
  "lookup_row key (r # rows) k = (if key r = k then Some r else lookup_row key rows k)"
  by (simp add: lookup_row_def)

lemma lookup_row_keyed: "lookup_row key rows k = Some r \<Longrightarrow> key r = k"
  by (induction rows) (auto split: if_splits)

lemma lookup_row_in: "lookup_row key rows k = Some r \<Longrightarrow> r \<in> set rows"
  by (induction rows) (auto split: if_splits)

lemma lookup_row_None: "lookup_row key rows k = None \<longleftrightarrow> k \<notin> key ` set rows"
  by (induction rows) auto

lemma lookup_row_snoc:
  "lookup_row key rows (key r) = None \<Longrightarrow>
   lookup_row key (rows @ [r]) = (lookup_row key rows)(key r \<mapsto> r)"
  by (induction rows) (auto split: if_splits)

lemma lookup_row_map:
  assumes "\<And>r. key (g r) = key r"
  shows "lookup_row key (map g rows) k = map_option g (lookup_row key rows k)"
  by (induction rows) (auto simp: assms)

lemma fresh_id_free: "lookup_row key rows (fresh_id key rows) = None"
proof -
  have "i \<le> foldr max (map key rows) 0" if "i \<in> key ` set rows" for i
    using that by (induction rows) auto
  then have "fresh_id key rows \<notin> key ` set rows" by (fastforce simp: fresh_id_def)
  then show ?thesis by (simp add: lookup_row_None)
qed

lemma lookup_filter_other:
  "k \<noteq> k' \<Longrightarrow> lookup_row key (filter (\<lambda>x. key x \<noteq> k) rows) k' = lookup_row key rows k'"
  by (induction rows) auto

lemma lookup_live_rows: "lookup_row key (live_rows key rows) = lookup_row key rows"
  by (induction rows) (auto simp: fun_eq_iff lookup_filter_other)

lemma distinct_live_rows: "distinct (map key (live_rows key rows))"
  by (induction rows) (auto simp: distinct_map intro: inj_on_subset)

lemma lookup_row_distinct:
  "distinct (map key rows) \<Longrightarrow> r \<in> set rows \<Longrightarrow> lookup_row key rows (key r) = Some r"
  by (induction rows) auto

lemma ran_lookup_distinct: "distinct (map key rows) \<Longrightarrow> ran (lookup_row key rows) = set rows"
  by (auto simp: ran_def intro: lookup_row_in lookup_row_distinct)

lemma set_live_rows: "set (live_rows key rows) = ran (lookup_row key rows)"
  using ran_lookup_distinct [OF distinct_live_rows [of key rows]]
  by (simp add: lookup_live_rows)

lemma lookup_filter_distinct:
  "distinct (map key rows) \<Longrightarrow>
   lookup_row key (filter P rows) = without (\<lambda>r. \<not> P r) (lookup_row key rows)"
proof (induction rows)
  case Nil
  then show ?case by (auto simp: without_def)
next
  case (Cons r rows)
  then have "lookup_row key rows (key r) = None"
    by (auto simp: lookup_row_None)
  with Cons show ?case by (auto simp: without_def fun_eq_iff)
qed

lemma lookup_filter_live:
  "lookup_row key (filter P (live_rows key rows)) = without (\<lambda>r. \<not> P r) (lookup_row key rows)"
  using lookup_filter_distinct [OF distinct_live_rows [of key rows]]
  by (simp add: lookup_live_rows)


section \<open>The state\<close>

record mem_tables =
  m_domains :: "Domain list"
  m_mailboxes :: "Mailbox list"
  m_records :: "Record list"
  m_messages :: "Message list"
  m_inbound :: "Inbound list"
  m_outbound :: "Outbound list"
  m_delivery :: "DeliveryStatus list"

text \<open>\<open>mem_up\<close> is whether the driver answers, \<open>mem_saved\<close> the tables an open transaction started from.\<close>

record mem = mem_tables +
  mem_up :: bool
  mem_clock :: timestamp
  mem_saved :: mem_tables

definition mem_tables_view :: "'a mem_tables_scheme \<Rightarrow> tables" where
  "mem_tables_view s =
     \<lparr>t_domains = lookup_row domain_id (m_domains s),
      t_mailboxes = lookup_row mailbox_id (m_mailboxes s),
      t_records = lookup_row record_id (m_records s),
      t_messages = lookup_row message_id (m_messages s),
      t_inbound = lookup_row inbound_id (m_inbound s),
      t_outbound = lookup_row outbound_id (m_outbound s),
      t_delivery = lookup_row delivery_id (m_delivery s)\<rparr>"

abbreviation mem_view :: "mem \<Rightarrow> tables" where
  "mem_view \<equiv> mem_tables_view"

definition mem_snapshot :: "mem \<Rightarrow> tables" where
  "mem_snapshot s = mem_tables_view (mem_saved s)"

definition no_rows :: mem_tables where
  "no_rows = \<lparr>m_domains = [], m_mailboxes = [], m_records = [], m_messages = [],
     m_inbound = [], m_outbound = [], m_delivery = []\<rparr>"

definition mem_empty :: mem where
  "mem_empty = mem_tables.extend no_rows \<lparr>mem_up = True, mem_clock = 0, mem_saved = no_rows\<rparr>"

section \<open>The operations\<close>

definition mem_get :: "(mem \<Rightarrow> 'r list) \<Rightarrow> ('r \<Rightarrow> 'k) \<Rightarrow> 'k \<Rightarrow> mem \<Rightarrow> ('r, db_error) result" where
  "mem_get rows key k s =
     (if mem_up s then ok_or ''record not found'' (lookup_row key (rows s) k)
      else Err ''connection lost'')"

definition mem_query ::
  "(mem \<Rightarrow> 'r list) \<Rightarrow> ('r \<Rightarrow> 'k) \<Rightarrow> ('r \<Rightarrow> bool) \<Rightarrow> mem \<Rightarrow> ('r list, db_error) result" where
  "mem_query rows key P s =
     (if mem_up s then Ok (filter P (live_rows key (rows s))) else Err ''connection lost'')"

definition mem_insert ::
  "(('r list \<Rightarrow> 'r list) \<Rightarrow> mem \<Rightarrow> mem) \<Rightarrow> bool \<Rightarrow> 'r \<Rightarrow> mem \<Rightarrow> ('r, db_error) result \<times> mem" where
  "mem_insert rows_update admitted r s =
     (if \<not> mem_up s then (Err ''connection lost'', s)
      else if \<not> admitted then (Err ''UNIQUE constraint failed'', s)
      else (Ok r, rows_update (\<lambda>rs. rs @ [r]) s))"

definition mem_update ::
  "(mem \<Rightarrow> 'r list) \<Rightarrow> (('r list \<Rightarrow> 'r list) \<Rightarrow> mem \<Rightarrow> mem) \<Rightarrow> ('r \<Rightarrow> 'k) \<Rightarrow>
   (timestamp \<Rightarrow> 'r \<Rightarrow> 'r) \<Rightarrow> ('r \<Rightarrow> mem \<Rightarrow> bool) \<Rightarrow> 'k \<Rightarrow> ('r \<Rightarrow> 'r) \<Rightarrow> mem \<Rightarrow>
   ('r, db_error) result \<times> mem" where
  "mem_update rows rows_update key stamp admitted k f s =
     (if \<not> mem_up s then (Err ''connection lost'', s)
      else case lookup_row key (rows s) k of
          None \<Rightarrow> (Err ''record not found'', s)
        | Some r \<Rightarrow>
            if \<not> admitted (f r) s then (Err ''UNIQUE constraint failed'', s)
            else let r' = stamp (mem_clock s) (f r)
                 in (Ok r', rows_update (map (\<lambda>x. if key x = k then r' else x)) s))"

definition mem_delete :: "(mem \<Rightarrow> mem) \<Rightarrow> mem \<Rightarrow> (unit, db_error) result \<times> mem" where
  "mem_delete effect s = (if mem_up s then (Ok (), effect s) else (Err ''connection lost'', s))"

definition mem_delete_outbounds :: "(Outbound \<Rightarrow> bool) \<Rightarrow> mem \<Rightarrow> mem" where
  "mem_delete_outbounds P s =
     (let js = live_rows outbound_id (m_outbound s)
      in s\<lparr>m_outbound := filter (\<lambda>j. \<not> P j) js,
           m_delivery := filter (\<lambda>d. \<not> (\<exists>j \<in> set js. outbound_id j = delivery_outbound_id d \<and> P j))
             (live_rows delivery_id (m_delivery s))\<rparr>)"

definition mem_delete_mailboxes :: "(Mailbox \<Rightarrow> bool) \<Rightarrow> mem \<Rightarrow> mem" where
  "mem_delete_mailboxes P s =
     (let ms = live_rows mailbox_id (m_mailboxes s);
          gone = (\<lambda>k. \<exists>m \<in> set ms. mailbox_id m = k \<and> P m)
      in (mem_delete_outbounds (\<lambda>j. gone (outbound_sender_id j)) s)
           \<lparr>m_mailboxes := filter (\<lambda>m. \<not> P m) ms,
            m_inbound := filter (\<lambda>i. \<not> gone (inbound_rcpt_to i))
              (live_rows inbound_id (m_inbound s))\<rparr>)"

definition mem_delete_domains :: "string \<Rightarrow> mem \<Rightarrow> mem" where
  "mem_delete_domains d s =
     (mem_delete_mailboxes (\<lambda>m. mailbox_domain_id m = d) s)
       \<lparr>m_domains := filter (\<lambda>x. domain_id x \<noteq> d) (live_rows domain_id (m_domains s)),
        m_records := filter (\<lambda>r. record_domain_id r \<noteq> d) (live_rows record_id (m_records s))\<rparr>"

definition mem_restore :: "mem \<Rightarrow> mem" where
  "mem_restore s = mem_tables.extend (mem_saved s) (mem_tables.more s)"

definition mem_ops :: "mem toasty" where
  "mem_ops =
    \<lparr>Timestamp_to_string = (\<lambda>t. dec (nat t)),
     Domain_get_by_id = mem_get m_domains domain_id,
     Domain_all = mem_query m_domains domain_id (\<lambda>_. True),
     Domain_create = (\<lambda>k s. mem_insert m_domains_update
        (lookup_row domain_id (m_domains s) k = None)
        \<lparr>domain_id = k, domain_created_at = mem_clock s, domain_updated_at = mem_clock s\<rparr> s),
     Domain_delete = (\<lambda>d. mem_delete (mem_delete_domains d)),
     Mailbox_get_by_id = mem_get m_mailboxes mailbox_id,
     Mailbox_all = mem_query m_mailboxes mailbox_id (\<lambda>_. True),
     Mailbox_filter_domain = (\<lambda>d. mem_query m_mailboxes mailbox_id (\<lambda>m. mailbox_domain_id m = d)),
     Mailbox_create = (\<lambda>f s. mem_insert m_mailboxes_update
        (lookup_row mailbox_id (m_mailboxes s) (mailbox_id f) = None)
        (mailbox_fields.extend f
          \<lparr>mailbox_created_at = mem_clock s, mailbox_updated_at = mem_clock s\<rparr>) s),
     Mailbox_update = mem_update m_mailboxes m_mailboxes_update mailbox_id
        (\<lambda>ts m. m\<lparr>mailbox_updated_at := ts\<rparr>) (\<lambda>_ _. True),
     Mailbox_delete = (\<lambda>k. mem_delete (mem_delete_mailboxes (\<lambda>m. mailbox_id m = k))),
     Record_get_by_id = mem_get m_records record_id,
     Record_all = mem_query m_records record_id (\<lambda>_. True),
     Record_filter_domain = (\<lambda>d. mem_query m_records record_id (\<lambda>r. record_domain_id r = d)),
     Record_filter_domain_type = (\<lambda>d t. mem_query m_records record_id
        (\<lambda>r. record_domain_id r = d \<and> record_type r = t)),
     Record_create = (\<lambda>f s. mem_insert m_records_update
        (\<forall>r \<in> set (live_rows record_id (m_records s)). record_triple r \<noteq> record_triple f)
        (record_fields.extend f
          \<lparr>record_id = fresh_id record_id (m_records s),
           record_created_at = mem_clock s, record_updated_at = mem_clock s\<rparr>) s),
     Record_update = mem_update m_records m_records_update record_id
        (\<lambda>ts r. r\<lparr>record_updated_at := ts\<rparr>)
        (\<lambda>r s. \<forall>r' \<in> set (live_rows record_id (m_records s)).
           record_id r' \<noteq> record_id r \<longrightarrow> record_triple r' \<noteq> record_triple r),
     Record_delete = (\<lambda>k. mem_delete (\<lambda>s. s\<lparr>m_records :=
        filter (\<lambda>r. record_id r \<noteq> k) (live_rows record_id (m_records s))\<rparr>)),
     Message_get_by_id = mem_get m_messages message_id,
     Message_first_by_header = (\<lambda>h s. if mem_up s
        then Ok (find (\<lambda>m. message_id_header m = Some h) (live_rows message_id (m_messages s)))
        else Err ''connection lost''),
     Message_create = (\<lambda>f s. mem_insert m_messages_update True
        (message_fields.extend f
          \<lparr>message_id = fresh_id message_id (m_messages s),
           message_created_at = mem_clock s, message_updated_at = mem_clock s\<rparr>) s),
     Message_delete = (\<lambda>k. mem_delete (\<lambda>s. s\<lparr>m_messages :=
        filter (\<lambda>m. message_id m \<noteq> k) (live_rows message_id (m_messages s))\<rparr>)),
     Inbound_filter_rcpt = (\<lambda>a. mem_query m_inbound inbound_id (\<lambda>i. inbound_rcpt_to i = a)),
     Inbound_create = (\<lambda>f s. mem_insert m_inbound_update True
        (inbound_fields.extend f
          \<lparr>inbound_id = fresh_id inbound_id (m_inbound s),
           inbound_created_at = mem_clock s, inbound_updated_at = mem_clock s\<rparr>) s),
     Inbound_delete_message = (\<lambda>k. mem_delete (\<lambda>s. s\<lparr>m_inbound :=
        filter (\<lambda>i. inbound_message_id i \<noteq> k) (live_rows inbound_id (m_inbound s))\<rparr>)),
     Outbound_filter_status = (\<lambda>st. mem_query m_outbound outbound_id (\<lambda>j. outbound_status j = st)),
     Outbound_filter_sender = (\<lambda>a. mem_query m_outbound outbound_id (\<lambda>j. outbound_sender_id j = a)),
     Outbound_first_by_id = (\<lambda>i s. if mem_up s then Ok (lookup_row outbound_id (m_outbound s) i)
        else Err ''connection lost''),
     Outbound_create = (\<lambda>f s. mem_insert m_outbound_update True
        (outbound_fields.extend f
          \<lparr>outbound_id = fresh_id outbound_id (m_outbound s),
           outbound_created_at = mem_clock s, outbound_updated_at = mem_clock s\<rparr>) s),
     Outbound_update = mem_update m_outbound m_outbound_update outbound_id
        (\<lambda>ts j. j\<lparr>outbound_updated_at := ts\<rparr>) (\<lambda>_ _. True),
     Outbound_delete_message = (\<lambda>k. mem_delete (mem_delete_outbounds (\<lambda>j. outbound_message_id j = k))),
     DeliveryStatus_create = (\<lambda>f s. mem_insert m_delivery_update True
        (delivery_fields.extend f
          \<lparr>delivery_id = fresh_id delivery_id (m_delivery s),
           delivery_created_at = mem_clock s, delivery_updated_at = mem_clock s\<rparr>) s),
     Tx_begin_immediate = (\<lambda>s. if mem_up s then (Ok (), s\<lparr>mem_saved := mem_tables.truncate s\<rparr>)
        else (Err ''database is locked'', s)),
     Tx_commit = (\<lambda>s. if mem_up s then (Ok (), s)
        else (Err ''database is locked'', mem_restore s)),
     Tx_drop = (\<lambda>s. mem_restore s)\<rparr>"


section \<open>The laws hold\<close>

lemma mem_tables_view_sel [simp]:
  "t_domains (mem_tables_view s) = lookup_row domain_id (m_domains s)"
  "t_mailboxes (mem_tables_view s) = lookup_row mailbox_id (m_mailboxes s)"
  "t_records (mem_tables_view s) = lookup_row record_id (m_records s)"
  "t_messages (mem_tables_view s) = lookup_row message_id (m_messages s)"
  "t_inbound (mem_tables_view s) = lookup_row inbound_id (m_inbound s)"
  "t_outbound (mem_tables_view s) = lookup_row outbound_id (m_outbound s)"
  "t_delivery (mem_tables_view s) = lookup_row delivery_id (m_delivery s)"
  by (simp_all add: mem_tables_view_def)

lemma mem_view_update [simp]:
  "mem_view (m_domains_update g s) =
     (mem_view s)\<lparr>t_domains := lookup_row domain_id (g (m_domains s))\<rparr>"
  "mem_view (m_mailboxes_update g2 s) =
     (mem_view s)\<lparr>t_mailboxes := lookup_row mailbox_id (g2 (m_mailboxes s))\<rparr>"
  "mem_view (m_records_update g3 s) =
     (mem_view s)\<lparr>t_records := lookup_row record_id (g3 (m_records s))\<rparr>"
  "mem_view (m_messages_update g4 s) =
     (mem_view s)\<lparr>t_messages := lookup_row message_id (g4 (m_messages s))\<rparr>"
  "mem_view (m_inbound_update g5 s) =
     (mem_view s)\<lparr>t_inbound := lookup_row inbound_id (g5 (m_inbound s))\<rparr>"
  "mem_view (m_outbound_update g6 s) =
     (mem_view s)\<lparr>t_outbound := lookup_row outbound_id (g6 (m_outbound s))\<rparr>"
  "mem_view (m_delivery_update g7 s) =
     (mem_view s)\<lparr>t_delivery := lookup_row delivery_id (g7 (m_delivery s))\<rparr>"
  by (simp_all add: mem_tables_view_def)

lemma mem_view_saved [simp]: "mem_view (mem_saved_update g s) = mem_view s"
  by (cases s) (simp add: mem_tables_view_def)

lemma mem_view_restore [simp]: "mem_view (mem_restore s) = mem_snapshot s"
  by (cases s) (simp add: mem_restore_def mem_snapshot_def mem_tables_view_def mem_tables.defs)

lemma mem_up_update [simp]:
  "mem_up (m_domains_update g s) = mem_up s" "mem_up (m_mailboxes_update g2 s) = mem_up s"
  "mem_up (m_records_update g3 s) = mem_up s" "mem_up (m_messages_update g4 s) = mem_up s"
  "mem_up (m_inbound_update g5 s) = mem_up s" "mem_up (m_outbound_update g6 s) = mem_up s"
  "mem_up (m_delivery_update g7 s) = mem_up s"
  by simp_all

lemma mem_keyed_read:
  "keyed_read (mem_get rows key) (\<lambda>s. lookup_row key (rows s)) mem_up"
  by unfold_locales (auto simp: mem_get_def ok_or_def split: if_splits option.splits)

lemma mem_filtered_read:
  "filtered_read (\<lambda>q. mem_query rows key (matches q)) (\<lambda>s. lookup_row key (rows s)) matches key mem_up"
  by unfold_locales
    (auto simp: mem_query_def set_live_rows distinct_live_rows distinct_map_filter split: if_splits)

lemma mem_insertable:
  assumes view: "\<And>g s. mem_view (rows_update g s) = upd (\<lambda>_. lookup_row key (g (rows s))) (mem_view s)"
    and tbl: "\<And>s. tbl (mem_view s) = lookup_row key (rows s)"
    and upd: "\<And>f g t. f (tbl t) = g (tbl t) \<Longrightarrow> upd f t = upd g t"
    and up: "\<And>g s. mem_up (rows_update g s) = mem_up s"
    and adm: "\<And>f s. admitted f s = admits f (mem_view s)"
    and cols: "\<And>f s. columns (mk f s) = f"
    and free: "\<And>f s. admitted f s \<Longrightarrow> lookup_row key (rows s) (key (mk f s)) = None"
  shows "insertable (\<lambda>f s. mem_insert rows_update (admitted f s) (mk f s) s) tbl upd key columns
    admits mem_view mem_up"
proof unfold_locales
  fix f s r s'
  assume c: "mem_insert rows_update (admitted f s) (mk f s) s = (Ok r, s')"
  then have r: "admitted f s" "r = mk f s" "s' = rows_update (\<lambda>rs. rs @ [r]) s"
    by (auto simp: mem_insert_def split: if_splits)
  then have "upd (\<lambda>_. lookup_row key (rows s @ [r])) (mem_view s) =
      upd (\<lambda>t. t(key r \<mapsto> r)) (mem_view s)"
    using free [of f s] by (intro upd) (simp add: tbl lookup_row_snoc)
  with r free [of f s] show "columns r = f \<and> tbl (mem_view s) (key r) = None \<and>
      admits f (mem_view s) \<and> mem_view s' = upd (\<lambda>t. t(key r \<mapsto> r)) (mem_view s)"
    by (simp add: cols tbl view adm)
qed (auto simp: mem_insert_def adm up split: if_splits)

lemma mem_updatable:
  assumes view: "\<And>g s. mem_view (rows_update g s) = upd (\<lambda>_. lookup_row key (g (rows s))) (mem_view s)"
    and tbl: "\<And>s. tbl (mem_view s) = lookup_row key (rows s)"
    and upd: "\<And>f g t. f (tbl t) = g (tbl t) \<Longrightarrow> upd f t = upd g t"
    and up: "\<And>g s. mem_up (rows_update g s) = mem_up s"
    and adm: "\<And>r s. admitted r s = admits r (mem_view s)"
    and stamp: "\<And>ts r. key (stamp ts r) = key r"
  shows "updatable (mem_update rows rows_update key stamp admitted) tbl upd key stamp admits
    mem_view mem_up"
proof unfold_locales
  fix k f s r' s'
  assume c: "mem_update rows rows_update key stamp admitted k f s = (Ok r', s')"
    and kf: "\<And>r. key (f r) = key r"
  then obtain r where r: "lookup_row key (rows s) k = Some r" "r' = stamp (mem_clock s) (f r)"
    and s': "s' = rows_update (map (\<lambda>x. if key x = k then r' else x)) s"
    by (auto simp: mem_update_def Let_def split: if_splits option.splits)
  have kr: "key r' = k" using r lookup_row_keyed [OF r(1)] by (simp add: stamp kf)
  have "lookup_row key (map (\<lambda>x. if key x = k then r' else x) rs) k' =
      (if k' = k then map_option (\<lambda>_. r') (lookup_row key rs k) else lookup_row key rs k')" for rs k'
    by (induction rs) (auto simp: kr)
  then have "lookup_row key (map (\<lambda>x. if key x = k then r' else x) (rows s)) =
      (lookup_row key (rows s))(k \<mapsto> r')"
    using r(1) by (auto simp: fun_eq_iff)
  then have "mem_view s' = upd (\<lambda>t. t(k \<mapsto> r')) (mem_view s)"
    by (auto simp: s' view tbl intro: upd)
  with r show "\<exists>r ts. tbl (mem_view s) k = Some r \<and> r' = stamp ts (f r) \<and>
      mem_view s' = upd (\<lambda>t. t(k \<mapsto> r')) (mem_view s)"
    by (auto simp: tbl)
qed (auto simp: mem_update_def Let_def adm up tbl split: if_splits option.splits)

lemma mem_deletable:
  assumes "\<And>q s. mem_view (effect q s) = eff q (mem_view s)"
    and "\<And>q s. mem_up (effect q s) = mem_up s"
  shows "deletable (\<lambda>q. mem_delete (effect q)) eff mem_view mem_up"
  by unfold_locales (auto simp: mem_delete_def assms split: if_splits)


lemma mem_view_delete_outbounds:
  "mem_view (mem_delete_outbounds P s) = delete_outbounds P (mem_view s)"
proof -
  have "(\<exists>j \<in> set (live_rows outbound_id (m_outbound s)). outbound_id j = k \<and> P j) \<longleftrightarrow>
      (\<exists>j. lookup_row outbound_id (m_outbound s) k = Some j \<and> P j)" for k
    by (auto simp: set_live_rows ran_def dest: lookup_row_keyed)
  then show ?thesis
    by (simp add: mem_delete_outbounds_def delete_outbounds_def Let_def lookup_filter_live)
qed

lemma mem_gone_mailboxes:
  "(\<exists>m \<in> set (live_rows mailbox_id (m_mailboxes s)). mailbox_id m = k \<and> P m) \<longleftrightarrow>
   (\<exists>m. lookup_row mailbox_id (m_mailboxes s) k = Some m \<and> P m)"
  by (auto simp: set_live_rows ran_def dest: lookup_row_keyed)

lemma mem_view_delete_mailboxes:
  "mem_view (mem_delete_mailboxes P s) = delete_mailboxes P (mem_view s)"
  by (simp add: mem_delete_mailboxes_def delete_mailboxes_def Let_def lookup_filter_live
      mem_view_delete_outbounds mem_gone_mailboxes)

lemma without_key:
  "without (\<lambda>r. key r = k) (lookup_row key rows) = (lookup_row key rows)(k := None)"
  by (auto simp: without_def fun_eq_iff dest: lookup_row_keyed split: option.splits)

lemma mem_view_delete_domains:
  "mem_view (mem_delete_domains d s) = delete_domains d (mem_view s)"
  by (simp add: mem_delete_domains_def delete_domains_def lookup_filter_live
      mem_view_delete_mailboxes without_key)

lemma mem_up_delete [simp]:
  "mem_up (mem_delete_outbounds P s) = mem_up s"
  "mem_up (mem_delete_mailboxes Q s) = mem_up s"
  "mem_up (mem_delete_domains d s) = mem_up s"
  by (simp_all add: mem_delete_outbounds_def mem_delete_mailboxes_def mem_delete_domains_def Let_def)

lemma fields_truncate_extend [simp]:
  "mailbox_fields.truncate (mailbox_fields.extend f m) = f"
  "record_fields.truncate (record_fields.extend f2 m2) = f2"
  "message_fields.truncate (message_fields.extend f3 m3) = f3"
  "inbound_fields.truncate (inbound_fields.extend f4 m4) = f4"
  "outbound_fields.truncate (outbound_fields.extend f5 m5) = f5"
  "delivery_fields.truncate (delivery_fields.extend f6 m6) = f6"
  by (simp_all add: mailbox_fields.defs record_fields.defs message_fields.defs inbound_fields.defs
      outbound_fields.defs delivery_fields.defs)

lemma fields_key_extend [simp]:
  "mailbox_id (mailbox_fields.extend f m) = mailbox_id f"
  "record_id (record_fields.extend f2 \<lparr>record_id = i, record_created_at = a, record_updated_at = b\<rparr>) = i"
  "message_id (message_fields.extend f3 \<lparr>message_id = i, message_created_at = a, message_updated_at = b\<rparr>) = i"
  "inbound_id (inbound_fields.extend f4 \<lparr>inbound_id = i, inbound_created_at = a, inbound_updated_at = b\<rparr>) = i"
  "outbound_id (outbound_fields.extend f5 \<lparr>outbound_id = i, outbound_created_at = a, outbound_updated_at = b\<rparr>) = i"
  "delivery_id (delivery_fields.extend f6 \<lparr>delivery_id = i, delivery_created_at = a, delivery_updated_at = b\<rparr>) = i"
  by (simp_all add: mailbox_fields.defs record_fields.defs message_fields.defs inbound_fields.defs
      outbound_fields.defs delivery_fields.defs)

lemmas mem_law_simps = mem_ops_def set_live_rows fresh_id_free lookup_filter_live without_key
  mem_view_delete_outbounds mem_view_delete_mailboxes mem_view_delete_domains

lemma mem_store_axioms: "store_axioms mem_ops mem_view mem_snapshot mem_up"
proof (rule store_axioms.intro, goal_cases)
  case 1 then show ?case
    by simp (erule lookup_row_keyed)
next
  case 2 then show ?case
    by simp (erule lookup_row_keyed)
next
  case 3 then show ?case
    by simp (erule lookup_row_keyed)
next
  case 4 then show ?case
    by simp (erule lookup_row_keyed)
next
  case 5 then show ?case
    by simp (erule lookup_row_keyed)
next
  case 6 then show ?case
    by simp (erule lookup_row_keyed)
next
  case 7 then show ?case
    by (auto simp: mem_ops_def find_Some_iff simp flip: set_live_rows split: if_splits)
next
  case 8 then show ?case
    by (auto simp: mem_ops_def find_None_iff simp flip: set_live_rows split: if_splits)
next
  case 9 then show ?case
    by (simp add: mem_ops_def)
next
  case 10 then show ?case
    by (simp add: mem_ops_def split: if_splits)
next
  case 11 then show ?case
    by (simp add: mem_ops_def)
next
  case 12 then show ?case
    by (auto simp: mem_ops_def split: if_splits)
next
  case (13 s u s') then show ?case
    by (cases s) (auto simp: mem_ops_def mem_snapshot_def mem_tables_view_def mem_tables.defs split: if_splits)
next
  case 14 then show ?case
    by (auto simp: mem_ops_def)
next
  case (15 i f s jr s') then show ?case
    by (cases s) (auto simp: mem_ops_def mem_update_def mem_snapshot_def Let_def split: if_splits option.splits)
next
  case 16 then show ?case
    by (auto simp: mem_ops_def split: if_splits)
next
  case 17 then show ?case
    by (auto simp: mem_ops_def split: if_splits)
next
  case 18 then show ?case
    by (auto simp: mem_ops_def split: if_splits)
next
  case 19 then show ?case
    by (simp add: mem_ops_def)
qed

interpretation mem: store mem_ops mem_view mem_snapshot mem_up
proof (rule store.intro, goal_cases)
  case 1 show ?case
    by (simp add: mem_ops_def mem_keyed_read)
next
  case 2 show ?case
    using mem_filtered_read [of m_domains domain_id "\<lambda>_ _. True"] by (simp add: mem_ops_def)
next
  case 3 show ?case
    unfolding mem_ops_def by simp (rule mem_insertable; simp add: mem_law_simps)
next
  case 4 show ?case
    unfolding mem_ops_def by simp (rule mem_deletable; simp add: mem_law_simps)
next
  case 5 show ?case
    by (simp add: mem_ops_def mem_keyed_read)
next
  case 6 show ?case
    using mem_filtered_read [of m_mailboxes mailbox_id "\<lambda>_ _. True"] by (simp add: mem_ops_def)
next
  case 7 show ?case
    using mem_filtered_read [of m_mailboxes mailbox_id "\<lambda>d m. mailbox_domain_id m = d"] by (simp add: mem_ops_def)
next
  case 8 show ?case
    unfolding mem_ops_def by simp (rule mem_insertable; simp add: mem_law_simps)
next
  case 9 show ?case
    unfolding mem_ops_def by simp (rule mem_updatable; simp add: mem_law_simps)
next
  case 10 show ?case
    unfolding mem_ops_def by simp (rule mem_deletable; simp add: mem_law_simps)
next
  case 11 show ?case
    by (simp add: mem_ops_def mem_keyed_read)
next
  case 12 show ?case
    using mem_filtered_read [of m_records record_id "\<lambda>_ _. True"] by (simp add: mem_ops_def)
next
  case 13 show ?case
    using mem_filtered_read [of m_records record_id "\<lambda>d r. record_domain_id r = d"] by (simp add: mem_ops_def)
next
  case 14 show ?case
    using mem_filtered_read [of m_records record_id "\<lambda>(d, t) r. record_domain_id r = d \<and> record_type r = t"]
    by (simp add: mem_ops_def split_def)
next
  case 15 show ?case
    unfolding mem_ops_def by simp (rule mem_insertable, simp_all add: set_live_rows, rule fresh_id_free)
next
  case 16 show ?case
    unfolding mem_ops_def by simp (rule mem_updatable; simp add: mem_law_simps)
next
  case 17 show ?case
    unfolding mem_ops_def by simp (rule mem_deletable; simp add: mem_law_simps)
next
  case 18 show ?case
    by (simp add: mem_ops_def mem_keyed_read)
next
  case 19 show ?case
    unfolding mem_ops_def by simp (rule mem_insertable, simp_all, rule fresh_id_free)
next
  case 20 show ?case
    unfolding mem_ops_def by simp (rule mem_deletable; simp add: mem_law_simps)
next
  case 21 show ?case
    using mem_filtered_read [of m_inbound inbound_id "\<lambda>a i. inbound_rcpt_to i = a"] by (simp add: mem_ops_def)
next
  case 22 show ?case
    unfolding mem_ops_def by simp (rule mem_insertable, simp_all, rule fresh_id_free)
next
  case 23 show ?case
    unfolding mem_ops_def by simp (rule mem_deletable; simp add: mem_law_simps)
next
  case 24 show ?case
    using mem_filtered_read [of m_outbound outbound_id "\<lambda>st j. outbound_status j = st"] by (simp add: mem_ops_def)
next
  case 25 show ?case
    using mem_filtered_read [of m_outbound outbound_id "\<lambda>a j. outbound_sender_id j = a"] by (simp add: mem_ops_def)
next
  case 26 show ?case
    unfolding mem_ops_def by simp (rule mem_insertable, simp_all, rule fresh_id_free)
next
  case 27 show ?case
    unfolding mem_ops_def by simp (rule mem_updatable; simp add: mem_law_simps)
next
  case 28 show ?case
    unfolding mem_ops_def by simp (rule mem_deletable; simp add: mem_law_simps)
next
  case 29 show ?case
    unfolding mem_ops_def by simp (rule mem_insertable, simp_all, rule fresh_id_free)
next
  case 30 show ?case
    by (rule mem_store_axioms)
qed

end
