(* ===== verification/Zm_Delivery.thy ===== *)
theory Zm_Delivery
  imports Zm_Queue Zm_Memory
begin

text \<open>
  What one delivery attempt of \<^verbatim>\<open>src/send.rs\<close> does when the database answers: which hosts are tried
  and in which order, what is written down about each, how the job is resolved; the backoff
  arithmetic; and that a job that can be attempted at all is resolved after finitely many ticks.
\<close>

section \<open>Specification of one attempt\<close>

definition delivered_row :: "Outbound \<Rightarrow> Outbound" where
  "delivered_row job =
     job\<lparr>outbound_status := Delivered, outbound_attempts := outbound_attempts job + 1,
         outbound_next_attempt_at := None, outbound_last_error := None\<rparr>"

definition retry_row ::
  "('s, 'z) world_scheme \<Rightarrow> OutboundWorkerConfig \<Rightarrow> timestamp \<Rightarrow> string \<Rightarrow> Outbound \<Rightarrow> Outbound" where
  "retry_row W config now reason job =
     (let attempts = outbound_attempts job + 1
      in if max_attempts config < attempts
         then job\<lparr>outbound_status := Failed, outbound_attempts := attempts,
                  outbound_next_attempt_at := None, outbound_last_error := Some reason\<rparr>
         else job\<lparr>outbound_status := Queued, outbound_attempts := attempts,
                  outbound_next_attempt_at :=
                    Timestamp_plus_seconds W now (sint (backoff_delay config attempts)),
                  outbound_last_error := Some reason\<rparr>)"

text \<open>
  A log is the hosts tried with the answers they gave: a prefix of the targets, in order, refused
  except perhaps by the last one, and cut short only by an acceptance.
\<close>

type_synonym attempt = "string \<times> (string, string) result"

definition attempt_row :: "row_id \<Rightarrow> attempt \<Rightarrow> delivery_fields" where
  "attempt_row oid a =
     \<lparr>delivery_outbound_id = oid, delivery_peer_host = fst a,
      delivery_code = (case snd a of Ok _ \<Rightarrow> Some 250 | Err _ \<Rightarrow> None),
      delivery_message = Some (case snd a of Ok r \<Rightarrow> r | Err e \<Rightarrow> e)\<rparr>"

fun tried :: "string list \<Rightarrow> attempt list \<Rightarrow> bool" where
  "tried [] log \<longleftrightarrow> log = []"
| "tried (h # hosts) [] \<longleftrightarrow> False"
| "tried (h # hosts) (a # log) \<longleftrightarrow>
     fst a = h \<and> (if is_ok (snd a) then log = [] else tried hosts log)"

fun log_reason :: "string option \<Rightarrow> attempt list \<Rightarrow> string option" where
  "log_reason le [] = le"
| "log_reason le ((h, Inl e) # log) = log_reason (Some (''via '' @ h @ '': '' @ e)) log"
| "log_reason le ((h, Inr r) # log) = log_reason le log"

definition accepted :: "attempt list \<Rightarrow> bool" where
  "accepted log \<longleftrightarrow> (\<exists>a \<in> set log. is_ok (snd a))"

definition outcome_row ::
  "('s, 'z) world_scheme \<Rightarrow> OutboundWorkerConfig \<Rightarrow> timestamp \<Rightarrow> string option \<Rightarrow> attempt list \<Rightarrow>
   Outbound \<Rightarrow> Outbound" where
  "outcome_row W config now le log job =
     (if accepted log then delivered_row job
      else retry_row W config now (unwrap_or ''all MX attempts failed'' (log_reason le log)) job)"

abbreviation appended ::
  "(row_id \<rightharpoonup> DeliveryStatus) \<Rightarrow> delivery_fields list \<Rightarrow> (row_id \<rightharpoonup> DeliveryStatus) \<Rightarrow> bool" where
  "appended \<equiv> rows_added delivery_id delivery_fields.truncate"

text \<open>The answers in a log are answers the network gave to the configured transport.\<close>

definition answered ::
  "('s, 'z) world_scheme \<Rightarrow> OutboundWorkerConfig \<Rightarrow> Envelope \<Rightarrow> bytes \<Rightarrow> attempt \<Rightarrow> bool" where
  "answered W config envelope raw a \<longleftrightarrow>
     (\<exists>tr s. build_transport W config (fst a) = Ok tr \<and> fst (send_raw W tr envelope raw s) = snd a)"

text \<open>
  A job can be attempted when nothing before the SMTP handoff stands in its way: its addresses
  parse, its domain can be looked up, and transports can be built.
\<close>

definition attemptable ::
  "('s, 'z) world_scheme \<Rightarrow> OutboundWorkerConfig \<Rightarrow> string \<Rightarrow> string \<Rightarrow> bool" where
  "attemptable W config mail_from rcpt \<longleftrightarrow>
     is_ok (build_envelope W mail_from rcpt) \<and>
     (\<forall>s. is_ok (fst (lookup_mx_hosts W rcpt s))) \<and>
     (\<forall>h. is_ok (build_transport W config h))"

text \<open>How an attempt leaves the job: one more attempt counted, and delivered, failed, or due later.\<close>

definition resolved ::
  "('s, 'z) world_scheme \<Rightarrow> OutboundWorkerConfig \<Rightarrow> timestamp \<Rightarrow> Outbound \<Rightarrow> Outbound \<Rightarrow> bool" where
  "resolved W config now j j' \<longleftrightarrow>
     outbound_attempts j' = outbound_attempts j + 1 \<and>
     (outbound_status j' = Delivered \<or>
      outbound_status j' = Failed \<and> max_attempts config < outbound_attempts j' \<or>
      outbound_status j' = Queued \<and> outbound_attempts j' \<le> max_attempts config \<and>
      outbound_next_attempt_at j' =
        Timestamp_plus_seconds W now (sint (backoff_delay config (outbound_attempts j'))))"

section \<open>Backoff\<close>

lemma unat_two_power: "n \<le> 62 \<Longrightarrow> unat ((2 :: u64) ^ n) = 2 ^ n"
proof -
  assume "n \<le> 62"
  then have "(2 :: nat) ^ n < 2 ^ 64" by (intro power_strict_increasing) auto
  then have "take_bit 64 ((2 :: nat) ^ n) = 2 ^ n" by (rule take_bit_nat_eq_self)
  then have "unat (of_nat (2 ^ n) :: u64) = 2 ^ n" by (simp only: unsigned_of_nat) simp
  then show ?thesis by simp
qed

lemma unat_min: "unat (min a b) = min (unat a) (unat (b :: 'a::len word))"
  by (auto simp: min_def word_le_nat_alt)

lemma unat_backoff_delay:
  "unat (backoff_delay config attempts) =
     min (min (unat (base_backoff config) * 2 ^ min (unat attempts - 1) 62) (2 ^ 64 - 1))
       (unat (max_backoff config))"
  by (simp add: backoff_delay_def Let_def unat_min unat_saturating_mul unat_saturating_sub
      push_bit_eq_mult unat_two_power)

lemma capped_power:
  assumes "m \<le> (2 :: nat) ^ 62"
  shows "min (b * 2 ^ min n 62) m = min (b * 2 ^ n) m"
proof (cases "n \<le> 62 \<or> b = 0")
  case True
  then show ?thesis by (auto simp: min_absorb1)
next
  case False
  then have b: "1 * 2 ^ 62 \<le> b * (2 :: nat) ^ 62" by (intro mult_le_mono1) simp
  have "(2 :: nat) ^ 62 \<le> 2 ^ n" using False by (intro power_increasing) auto
  then have "b * 2 ^ 62 \<le> b * 2 ^ n" by (rule mult_le_mono2)
  with assms b have "m \<le> b * 2 ^ 62" "m \<le> b * 2 ^ n" by (simp_all only: nat_mult_1)
  with False have "m \<le> b * 2 ^ min n 62" "m \<le> b * 2 ^ n" by (simp_all add: min_absorb2)
  then show ?thesis by (simp only: min_absorb2)
qed

text \<open>
  C35. The retry delay is the base delay doubled for every attempt after the first and capped at the
  configured maximum, as an unbounded computation would give it: neither the saturation of the
  product nor the bound on the shift shows, and the cast to a signed integer keeps the value, for
  every maximum up to \<open>2^62\<close> seconds.
\<close>

theorem backoff_delay_exact:
  assumes "unat (max_backoff config) \<le> 2 ^ 62"
  shows "unat (backoff_delay config attempts) =
      min (unat (base_backoff config) * 2 ^ (unat attempts - 1)) (unat (max_backoff config)) \<and>
    sint (backoff_delay config attempts) = int (unat (backoff_delay config attempts))"
proof -
  have "unat (backoff_delay config attempts) =
      min (unat (base_backoff config) * 2 ^ min (unat attempts - 1) 62) (unat (max_backoff config))"
    using assms unfolding unat_backoff_delay by (simp add: min.assoc min_absorb2)
  then have d: "unat (backoff_delay config attempts) =
      min (unat (base_backoff config) * 2 ^ (unat attempts - 1)) (unat (max_backoff config))"
    using capped_power [OF assms] by simp
  then have "unat (backoff_delay config attempts) < 2 ^ 63" using assms by simp
  then have "int (unat (backoff_delay config attempts)) < int (2 ^ 63)"
    by (simp only: of_nat_less_iff)
  then have "uint (backoff_delay config attempts) < 2 ^ 63" by simp
  then have "sint (backoff_delay config attempts) = uint (backoff_delay config attempts)"
    unfolding sint_uint
    by (subst signed_take_bit_int_eq_self) (auto intro: order_trans [OF _ unsigned_greater_eq])
  then show ?thesis by (intro conjI d) (simp only: of_nat_unat)
qed

theorem backoff_delay_exact_witness:
  "unat (backoff_delay OutboundWorkerConfig_default 3) = 240 \<and>
   unat (backoff_delay OutboundWorkerConfig_default 40) = 3600"
  using backoff_delay_exact [of OutboundWorkerConfig_default 3]
    backoff_delay_exact [of OutboundWorkerConfig_default 40]
  by (simp add: OutboundWorkerConfig_default_def)

section \<open>Resolving a job\<close>

lemma delivery_targets_Ok:
  "delivery_targets config hosts =
     Ok (case Option.bind (transport_relay (worker_transport config)) relay_host of
           None \<Rightarrow> hosts | Some h \<Rightarrow> [h])"
  by (auto simp: delivery_targets_def relay_configured_def is_configured_def split: option.splits)

text \<open>
  What a run over some hosts leaves: the hosts of the log were tried and answered so, the attempts are
  on record, and the job is resolved by the outcome; nothing else changes.
\<close>

definition run_recorded ::
  "('s, 'z) world_scheme \<Rightarrow> OutboundWorkerConfig \<Rightarrow> timestamp \<Rightarrow> Envelope \<Rightarrow> Message \<Rightarrow> Outbound \<Rightarrow>
   string option \<Rightarrow> string list \<Rightarrow> tables \<Rightarrow> attempt list \<Rightarrow> tables \<Rightarrow> bool" where
  "run_recorded W config now envelope message job le hosts t log t' \<longleftrightarrow>
     tried hosts log \<and> (\<forall>a \<in> set log. answered W config envelope (message_raw message) a) \<and>
     appended (t_delivery t) (map (attempt_row (outbound_id job)) log) (t_delivery t') \<and>
     (\<exists>ts. t' = t\<lparr>t_outbound := (t_outbound t)(outbound_id job \<mapsto>
         (outcome_row W config now le log job)\<lparr>outbound_updated_at := ts\<rparr>),
       t_delivery := t_delivery t'\<rparr>)"

context mta
begin

lemma job_update_healthy:
  assumes "healthy s" and "t_outbound (view s) i = Some j"
    and "\<And>r. outbound_id (f r) = outbound_id r"
  obtains ts s' where "Outbound_update W i f s = (Ok ((f j)\<lparr>outbound_updated_at := ts\<rparr>), s')"
    "healthy s'"
    "view s' = t_outbound_update (\<lambda>t. t(i \<mapsto> (f j)\<lparr>outbound_updated_at := ts\<rparr>)) (view s)"
proof -
  obtain x s' where u: "Outbound_update W i f s = (x, s')" by (cases "Outbound_update W i f s")
  from outbound.update_complete [OF assms(1,2) _ u] obtain r where x: "x = Ok r"
    by (auto simp: is_ok_iff)
  note u' = u [unfolded x]
  from outbound.update_Ok [OF u' assms(3)] obtain r0 ts where r: "t_outbound (view s) i = Some r0"
    "r = (f r0)\<lparr>outbound_updated_at := ts\<rparr>" "view s' = t_outbound_update (\<lambda>t. t(i \<mapsto> r)) (view s)"
    by blast
  from r(1) assms(2) have "r0 = j" by simp
  show thesis
    by (rule that [OF _ outbound.update_healthy [OF assms(1) u]]) (use u' r(2,3) \<open>r0 = j\<close> in simp_all)
qed

lemma fail_or_requeue_healthy:
  assumes "healthy s" and "t_outbound (view s) (outbound_id job) = Some job"
    and clock: "Timestamp_plus_seconds W now (sint (backoff_delay config (outbound_attempts job + 1)))
      \<noteq> None"
  obtains ts s' where "fail_or_requeue W config now reason job s = (Ok (), s')" "healthy s'"
    "view s' = t_outbound_update (\<lambda>t. t(outbound_id job \<mapsto>
      (retry_row W config now reason job)\<lparr>outbound_updated_at := ts\<rparr>)) (view s)"
proof -
  let ?f = "\<lambda>j. j\<lparr>outbound_status := Failed, outbound_attempts := outbound_attempts job + 1,
      outbound_next_attempt_at := None, outbound_last_error := Some reason\<rparr>"
  let ?r = "\<lambda>j. j\<lparr>outbound_status := Queued, outbound_attempts := outbound_attempts job + 1,
      outbound_next_attempt_at := Timestamp_plus_seconds W now
        (sint (backoff_delay config (outbound_attempts job + 1))),
      outbound_last_error := Some reason\<rparr>"
  show thesis
  proof (cases "max_attempts config < outbound_attempts job + 1")
    case True
    obtain ts s' where u: "Outbound_update W (outbound_id job) ?f s
        = (Ok ((?f job)\<lparr>outbound_updated_at := ts\<rparr>), s')" "healthy s'"
      "view s' = t_outbound_update (\<lambda>t. t(outbound_id job \<mapsto>
         (?f job)\<lparr>outbound_updated_at := ts\<rparr>)) (view s)"
      using job_update_healthy [OF assms(1,2), of ?f] by auto
    show thesis
      by (rule that [of s' ts]) (use True u in \<open>simp_all add: fail_or_requeue_def retry_row_def\<close>)
  next
    case False
    from clock obtain t where "Timestamp_plus_seconds W now
        (sint (backoff_delay config (outbound_attempts job + 1))) = Some t" by blast
    note t = this
    obtain ts s' where u: "Outbound_update W (outbound_id job) ?r s
        = (Ok ((?r job)\<lparr>outbound_updated_at := ts\<rparr>), s')" "healthy s'"
      "view s' = t_outbound_update (\<lambda>t. t(outbound_id job \<mapsto>
         (?r job)\<lparr>outbound_updated_at := ts\<rparr>)) (view s)"
      using job_update_healthy [OF assms(1,2), of ?r] by auto
    show thesis
      by (rule that [of s' ts])
        (use False t u in \<open>simp_all add: fail_or_requeue_def retry_row_def\<close>)
  qed
qed

lemma record_delivery_healthy:
  assumes "healthy s"
  obtains r s' where "record_delivery W oid h code msg s = (Ok (), s')" "healthy s'"
    "delivery_fields.truncate r = \<lparr>delivery_outbound_id = oid, delivery_peer_host = h,
       delivery_code = code, delivery_message = msg\<rparr>"
    "t_delivery (view s) (delivery_id r) = None"
    "view s' = t_delivery_update (\<lambda>t. t(delivery_id r \<mapsto> r)) (view s)"
proof -
  let ?f = "\<lparr>delivery_outbound_id = oid, delivery_peer_host = h, delivery_code = code,
      delivery_message = msg\<rparr>"
  obtain r s' where c: "DeliveryStatus_create W ?f s = (Ok r, s')"
    "delivery_fields.truncate r = ?f" "t_delivery (view s) (delivery_id r) = None"
    "view s' = t_delivery_update (\<lambda>t. t(delivery_id r \<mapsto> r)) (view s)" "healthy s'"
    using delivery.create_success [OF assms, of ?f] by auto
  show thesis by (rule that [of s' r]) (use c in \<open>simp_all add: record_delivery_def\<close>)
qed


text \<open>One host tried: whatever it answers, the attempt is on record and the job untouched.\<close>

lemma attempt_recorded:
  assumes "healthy s" and "build_transport W config h = Ok tr" and "send_raw W tr envelope raw s = (a, s1)"
  obtains r s2 where "record_delivery W oid h (delivery_code (attempt_row oid (h, a)))
      (delivery_message (attempt_row oid (h, a))) s1 = (Ok (), s2)" "healthy s2"
    "delivery_fields.truncate r = attempt_row oid (h, a)" "t_delivery (view s) (delivery_id r) = None"
    "view s2 = t_delivery_update (\<lambda>t. t(delivery_id r \<mapsto> r)) (view s)"
    "answered W config envelope raw (h, a)"
proof -
  let ?row = "attempt_row oid (h, a)"
  note v1 = send_view [OF assms(3)] and h1 = send_healthy [OF assms(3,1)]
  obtain r s2 where rd: "record_delivery W oid h (delivery_code ?row) (delivery_message ?row) s1 = (Ok (), s2)"
    and h2: "healthy s2" and r: "delivery_fields.truncate r = \<lparr>delivery_outbound_id = oid,
      delivery_peer_host = h, delivery_code = delivery_code ?row, delivery_message = delivery_message ?row\<rparr>"
      "t_delivery (view s1) (delivery_id r) = None"
    and v2: "view s2 = t_delivery_update (\<lambda>t. t(delivery_id r \<mapsto> r)) (view s1)"
    using record_delivery_healthy [OF h1] by blast
  have "answered W config envelope raw (h, a)"
    unfolding answered_def using assms(2,3) by (intro exI [of _ tr] exI [of _ s]) simp
  with rd h2 r v2 show thesis by (intro that [of s2 r]) (simp_all add: v1 attempt_row_def)
qed

lemma mark_delivered:
  assumes "healthy s" and "t_outbound (view s) (outbound_id job) = Some job"
  obtains ts s' where "Outbound_update W (outbound_id job)
      (\<lambda>j. j\<lparr>outbound_status := Delivered, outbound_attempts := outbound_attempts job + 1,
           outbound_next_attempt_at := None, outbound_last_error := None\<rparr>) s
      = (Ok ((delivered_row job)\<lparr>outbound_updated_at := ts\<rparr>), s')" "healthy s'"
    "view s' = t_outbound_update (\<lambda>t. t(outbound_id job \<mapsto>
       (delivered_row job)\<lparr>outbound_updated_at := ts\<rparr>)) (view s)"
  using job_update_healthy [OF assms, of "\<lambda>j. j\<lparr>outbound_status := Delivered,
      outbound_attempts := outbound_attempts job + 1, outbound_next_attempt_at := None,
      outbound_last_error := None\<rparr>"] by (auto simp: delivered_row_def)

lemma run_accepted:
  assumes "t1 = t_delivery_update (\<lambda>d. d(delivery_id r \<mapsto> r)) t"
    and "delivery_fields.truncate r = attempt_row (outbound_id job) (h, Inr resp)"
    and "t_delivery t (delivery_id r) = None" and "answered W config envelope (message_raw message) (h, Inr resp)"
    and "t' = t_outbound_update (\<lambda>q. q(outbound_id job \<mapsto> (delivered_row job)\<lparr>outbound_updated_at := ts\<rparr>)) t1"
  shows "run_recorded W config now envelope message job le (h # hosts) t [(h, Inr resp)] t'"
  unfolding run_recorded_def
proof (intro conjI exI)
  show "t' = t\<lparr>t_outbound := (t_outbound t)(outbound_id job \<mapsto>
      (outcome_row W config now le [(h, Inr resp)] job)\<lparr>outbound_updated_at := ts\<rparr>), t_delivery := t_delivery t'\<rparr>"
    using assms(1,5) by (cases t) (simp add: outcome_row_def accepted_def)
qed (use assms in auto)

lemma run_refused:
  assumes "t1 = t_delivery_update (\<lambda>d. d(delivery_id r \<mapsto> r)) t"
    and "delivery_fields.truncate r = attempt_row (outbound_id job) (h, Inl e)"
    and "t_delivery t (delivery_id r) = None" and "answered W config envelope (message_raw message) (h, Inl e)"
    and "run_recorded W config now envelope message job (Some (''via '' @ h @ '': '' @ e)) hosts t1 log t'"
  shows "run_recorded W config now envelope message job le (h # hosts) t ((h, Inl e) # log) t'"
proof -
  from assms(5) obtain ts where v: "t' = t1\<lparr>t_outbound := (t_outbound t1)(outbound_id job \<mapsto>
      (outcome_row W config now (Some (''via '' @ h @ '': '' @ e)) log job)\<lparr>outbound_updated_at := ts\<rparr>),
      t_delivery := t_delivery t'\<rparr>" unfolding run_recorded_def by blast
  have o: "outcome_row W config now le ((h, Inl e) # log) job =
      outcome_row W config now (Some (''via '' @ h @ '': '' @ e)) log job"
    by (simp add: outcome_row_def accepted_def)
  show ?thesis
    unfolding run_recorded_def
  proof (intro conjI exI)
    show "t' = t\<lparr>t_outbound := (t_outbound t)(outbound_id job \<mapsto>
        (outcome_row W config now le ((h, Inl e) # log) job)\<lparr>outbound_updated_at := ts\<rparr>),
        t_delivery := t_delivery t'\<rparr>"
      unfolding o using v assms(1) by (cases t) simp
  qed (use assms in \<open>auto simp: run_recorded_def\<close>)
qed

lemma deliver_targets_healthy:
  assumes "healthy s" and "t_outbound (view s) (outbound_id job) = Some job"
    and "\<forall>h \<in> set hosts. is_ok (build_transport W config h)"
    and "Timestamp_plus_seconds W now (sint (backoff_delay config (outbound_attempts job + 1)))
      \<noteq> None"
  shows "\<exists>log s'. deliver_targets W config now message envelope job le hosts s = (Ok (), s') \<and>
    healthy s' \<and> run_recorded W config now envelope message job le hosts (view s) log (view s')"
  using assms(1-3)
proof (induction hosts arbitrary: le s)
  case Nil
  obtain ts s' where f: "fail_or_requeue W config now
      (unwrap_or ''all MX attempts failed'' le) job s = (Ok (), s')" "healthy s'"
    "view s' = t_outbound_update (\<lambda>t. t(outbound_id job \<mapsto> (retry_row W config now
       (unwrap_or ''all MX attempts failed'' le) job)\<lparr>outbound_updated_at := ts\<rparr>)) (view s)"
    using fail_or_requeue_healthy [OF Nil(1,2) assms(4)] by blast
  then show ?case unfolding run_recorded_def
    by (intro exI [of _ "[]"] exI [of _ s']) (cases "view s", auto simp: outcome_row_def accepted_def)
next
  case (Cons h hosts)
  from Cons.prems obtain tr where tr: "build_transport W config h = Ok tr" by (auto simp: is_ok_iff)
  obtain a s1 where send: "send_raw W tr envelope (message_raw message) s = (a, s1)" by fastforce
  obtain r s2 where rd: "record_delivery W (outbound_id job) h
      (delivery_code (attempt_row (outbound_id job) (h, a)))
      (delivery_message (attempt_row (outbound_id job) (h, a))) s1 = (Ok (), s2)" and h2: "healthy s2"
    and r: "delivery_fields.truncate r = attempt_row (outbound_id job) (h, a)"
      "t_delivery (view s) (delivery_id r) = None"
    and v2: "view s2 = t_delivery_update (\<lambda>t. t(delivery_id r \<mapsto> r)) (view s)"
    and ans: "answered W config envelope (message_raw message) (h, a)"
    by (rule attempt_recorded [OF Cons.prems(1) tr send])
  have st2: "t_outbound (view s2) (outbound_id job) = Some job" using v2 Cons.prems(2) by simp
  show ?case
  proof (cases a)
    case (Inl e)
    have built: "\<forall>h \<in> set hosts. is_ok (build_transport W config h)" using Cons.prems(3) by simp
    obtain log s' where ih: "deliver_targets W config now message envelope job
        (Some (''via '' @ h @ '': '' @ e)) hosts s2 = (Ok (), s')" "healthy s'"
      "run_recorded W config now envelope message job (Some (''via '' @ h @ '': '' @ e)) hosts (view s2) log (view s')"
      using Cons.IH [OF h2 st2 built] by blast
    with run_refused [OF v2 r [unfolded Inl] ans [unfolded Inl] ih(3)] tr send rd Inl show ?thesis
      by (intro exI [of _ "(h, a) # log"] exI [of _ s']) (simp add: attempt_row_def)
  next
    case (Inr resp)
    obtain ts s' where u: "Outbound_update W (outbound_id job)
        (\<lambda>j. j\<lparr>outbound_status := Delivered, outbound_attempts := outbound_attempts job + 1,
             outbound_next_attempt_at := None, outbound_last_error := None\<rparr>) s2
        = (Ok ((delivered_row job)\<lparr>outbound_updated_at := ts\<rparr>), s')" "healthy s'"
      "view s' = t_outbound_update (\<lambda>t. t(outbound_id job \<mapsto>
         (delivered_row job)\<lparr>outbound_updated_at := ts\<rparr>)) (view s2)"
      by (rule mark_delivered [OF h2 st2])
    with run_accepted [OF v2 r [unfolded Inr] ans [unfolded Inr] u(3)] tr send rd Inr show ?thesis
      by (intro exI [of _ "[(h, a)]"] exI [of _ s']) (simp add: attempt_row_def)
  qed
qed

lemma deliver_hosts_healthy:
  assumes "healthy s" and "t_outbound (view s) (outbound_id job) = Some job"
    and "delivery_targets config hosts = Ok targets"
    and "\<forall>h \<in> set targets. is_ok (build_transport W config h)"
    and "Timestamp_plus_seconds W now (sint (backoff_delay config (outbound_attempts job + 1)))
      \<noteq> None"
  shows "\<exists>log s' ts. deliver_hosts W config now hosts message envelope job s = (Ok (), s') \<and>
    healthy s' \<and> tried targets log \<and>
    (\<forall>a \<in> set log. answered W config envelope (message_raw message) a) \<and>
    appended (t_delivery (view s)) (map (attempt_row (outbound_id job)) log) (t_delivery (view s')) \<and>
    view s' = (view s)\<lparr>t_outbound := (t_outbound (view s))(outbound_id job \<mapsto>
        (if targets = [] then retry_row W config now ''no MX records for domain'' job
         else outcome_row W config now None log job)\<lparr>outbound_updated_at := ts\<rparr>),
      t_delivery := t_delivery (view s')\<rparr>"
proof (cases "targets = []")
  case True
  obtain ts s' where f: "fail_or_requeue W config now ''no MX records for domain'' job s
      = (Ok (), s')" "healthy s'"
    "view s' = t_outbound_update (\<lambda>t. t(outbound_id job \<mapsto> (retry_row W config now
       ''no MX records for domain'' job)\<lparr>outbound_updated_at := ts\<rparr>)) (view s)"
    using fail_or_requeue_healthy [OF assms(1,2,5)] by blast
  with True assms(3) show ?thesis
    by (intro exI [of _ "[]"] exI [of _ s'] exI [of _ ts])
      (cases "view s", auto simp: deliver_hosts_def)
next
  case False
  from deliver_targets_healthy [OF assms(1,2,4,5), of message envelope None] obtain log s' where
    d: "deliver_targets W config now message envelope job None targets s = (Ok (), s')" "healthy s'"
      "run_recorded W config now envelope message job None targets (view s) log (view s')" by blast
  with False assms(3) show ?thesis unfolding run_recorded_def deliver_hosts_def
    by (intro exI [of _ log] exI [of _ s']) simp
qed


lemma job_update_frame:
  assumes "Outbound_update W k f s = (x, s')" and "\<And>r. outbound_id (f r) = outbound_id r"
  shows "i \<noteq> k \<Longrightarrow> t_outbound (view s') i = t_outbound (view s) i" "healthy s \<Longrightarrow> healthy s'"
    "t_messages (view s') = t_messages (view s)"
proof -
  have "view s' = view s \<or> (\<exists>r. view s' = t_outbound_update (\<lambda>t. t(k \<mapsto> r)) (view s))"
  proof (cases x)
    case (Inl e)
    with assms(1) outbound.update_Err show ?thesis by blast
  next
    case (Inr r)
    with outbound.update_Ok [of k f s r s'] assms show ?thesis by blast
  qed
  then show "i \<noteq> k \<Longrightarrow> t_outbound (view s') i = t_outbound (view s) i"
    "t_messages (view s') = t_messages (view s)" by auto
  show "healthy s \<Longrightarrow> healthy s'" using assms(1) outbound.update_healthy by blast
qed

lemma fail_or_requeue_frame:
  assumes "fail_or_requeue W config now reason job s = (x, s')"
  shows "i \<noteq> outbound_id job \<Longrightarrow> t_outbound (view s') i = t_outbound (view s) i"
    "healthy s \<Longrightarrow> healthy s'" "(\<And>n. Timestamp_plus_seconds W now n \<noteq> None) \<Longrightarrow> x \<noteq> Err (Panic p)"
proof -
  have "s' = s \<or> (\<exists>f y. Outbound_update W (outbound_id job) f s = (y, s') \<and>
      (\<forall>r. outbound_id (f r) = outbound_id r))"
    using assms by (fastforce simp: fail_or_requeue_def Let_def
        split: if_splits prod.splits sum.splits option.splits)
  then show "i \<noteq> outbound_id job \<Longrightarrow> t_outbound (view s') i = t_outbound (view s) i"
    "healthy s \<Longrightarrow> healthy s'" using job_update_frame(1,2) by blast+
  show "x \<noteq> Err (Panic p)" if "\<And>n. Timestamp_plus_seconds W now n \<noteq> None"
    using assms that [of "sint (backoff_delay config (outbound_attempts job + 1))"]
    by (auto simp: fail_or_requeue_def Let_def err_def
        split: if_splits prod.splits sum.splits option.splits)
qed

lemma record_delivery_frame:
  assumes "record_delivery W oid h code msg s = (x, s')"
  shows "healthy s \<Longrightarrow> healthy s'" "x \<noteq> Err (Panic p)"
  using assms delivery.create_healthy [of s]
  by (auto simp: record_delivery_def err_def split: prod.splits sum.splits)

lemma build_transport_no_panic: "build_transport W config h \<noteq> Err (Panic p)"
  by (auto simp: build_transport_def build_outbound_tls_def Let_def split: sum.splits if_splits)

lemma deliver_targets_frame:
  assumes "deliver_targets W config now message envelope job le hosts s = (x, s')"
  shows "(\<forall>i. i \<noteq> outbound_id job \<longrightarrow> t_outbound (view s') i = t_outbound (view s) i) \<and>
    (healthy s \<longrightarrow> healthy s') \<and>
    ((\<forall>n. Timestamp_plus_seconds W now n \<noteq> None) \<longrightarrow> x \<noteq> Err (Panic p))"
  using assms(1)
proof (induction hosts arbitrary: le s)
  case Nil
  then show ?case using fail_or_requeue_frame [of config now _ job s x s'] by auto
next
  case (Cons h hosts)
  from Cons.prems show ?case
  proof (cases rule: deliver_targets_paths)
    case unbuilt
    with build_transport_no_panic [of config h p] show ?thesis by auto
  next
    case (unrecorded tr a s1 code msg e)
    with record_delivery_view(2) [OF unrecorded(2)] record_delivery_frame [OF unrecorded(2)]
      send_view [OF unrecorded(1)] send_healthy [OF unrecorded(1)] show ?thesis by auto
  next
    case (refused tr a s1 code msg s2 le')
    with Cons.IH [OF refused(3)] record_delivery_view(2) [OF refused(2)]
      record_delivery_frame(1) [OF refused(2)] send_view [OF refused(1)] send_healthy [OF refused(1)]
    show ?thesis by simp
  next
    case (delivered tr a s1 code msg s2 y)
    with job_update_frame(1,2) [OF delivered(3)] record_delivery_view(2) [OF delivered(2)]
      record_delivery_frame(1) [OF delivered(2)] send_view [OF delivered(1)] send_healthy [OF delivered(1)]
    show ?thesis by (auto simp: err_def split: sum.splits)
  qed
qed

lemma deliver_one_frame:
  assumes "deliver_one W config now job s = (x, s')"
  shows "(\<forall>i. i \<noteq> outbound_id job \<longrightarrow> t_outbound (view s') i = t_outbound (view s) i) \<and>
    (healthy s \<longrightarrow> healthy s') \<and>
    ((\<forall>n. Timestamp_plus_seconds W now n \<noteq> None) \<longrightarrow> x \<noteq> Err (Panic p))"
proof -
  have env: "build_envelope W mf r \<noteq> Err (Panic q)" for mf r q
    by (auto simp: build_envelope_def err_def split: sum.splits if_splits)
  have mx: "lookup_mx_hosts W r s \<noteq> (Err (Panic q), s1)" for r s1 q
    by (auto simp: lookup_mx_hosts_def err_def split: sum.splits list.splits prod.splits)
  show ?thesis
  proof (cases "lookup_mx_hosts W (outbound_rcpt_to job) s")
    case (Pair l s1)
    note v1 = lookup_mx_hosts_view [OF Pair]
    consider (early) "s' = s" "x \<noteq> Err (Panic p)"
      | (lookup) "s' = s1" "x \<noteq> Err (Panic p)"
      | (requeue) reason where "fail_or_requeue W config now reason job s1 = (x, s')"
      | (hosts) message envelope le targets where
          "deliver_targets W config now message envelope job le targets s1 = (x, s')"
      using assms(1) Pair env mx
      by (fastforce simp: deliver_one_def deliver_hosts_def delivery_targets_Ok err_def err_fault_def
          split: sum.splits if_splits fault.splits)
    then show ?thesis
    proof cases
      case early
      then show ?thesis by simp
    next
      case lookup
      with v1 show ?thesis by simp
    next
      case requeue
      with fail_or_requeue_frame [OF requeue] v1 show ?thesis by simp
    next
      case hosts
      with deliver_targets_frame [OF hosts] v1 show ?thesis by simp
    qed
  qed
qed


lemma deliver_one_resolves:
  assumes "healthy s" and "t_outbound (view s) (outbound_id job) = Some job"
    and "t_messages (view s) (outbound_message_id job) = Some m"
    and "attemptable W config (message_mail_from m) (outbound_rcpt_to job)"
    and clock: "\<And>n. Timestamp_plus_seconds W now n \<noteq> None"
  obtains j' s' where "deliver_one W config now job s = (Ok (), s')" "healthy s'"
    "t_outbound (view s') (outbound_id job) = Some j'" "resolved W config now job j'"
proof -
  from message.get_complete [OF assms(1,3)] have m: "Message_get_by_id W (outbound_message_id job) s = Ok m" .
  from assms(4) obtain envelope where env:
    "build_envelope W (message_mail_from m) (outbound_rcpt_to job) = Ok envelope"
    by (auto simp: attemptable_def is_ok_iff)
  obtain l s1 where l: "lookup_mx_hosts W (outbound_rcpt_to job) s = (l, s1)" by fastforce
  have "is_ok (fst (lookup_mx_hosts W (outbound_rcpt_to job) s))"
    using assms(4) by (simp add: attemptable_def)
  with l obtain hosts where hosts: "l = Ok hosts" by (auto simp: is_ok_iff)
  note v1 = lookup_mx_hosts_view [OF l]
  obtain targets where t: "delivery_targets config hosts = Ok targets"
    using delivery_targets_Ok by blast
  have built: "\<forall>h \<in> set targets. is_ok (build_transport W config h)"
    using assms(4) by (simp add: attemptable_def)
  have st1: "t_outbound (view s1) (outbound_id job) = Some job" using assms(2) v1 by simp
  obtain log s' ts where d: "deliver_hosts W config now hosts m envelope job s1 = (Ok (), s')"
    "healthy s'"
    "view s' = (view s1)\<lparr>t_outbound := (t_outbound (view s1))(outbound_id job \<mapsto>
        (if targets = [] then retry_row W config now ''no MX records for domain'' job
         else outcome_row W config now None log job)\<lparr>outbound_updated_at := ts\<rparr>),
      t_delivery := t_delivery (view s')\<rparr>"
    using deliver_hosts_healthy [OF v1(2) [OF assms(1)] st1 t built clock] by blast
  let ?j = "(if targets = [] then retry_row W config now ''no MX records for domain'' job
      else outcome_row W config now None log job)\<lparr>outbound_updated_at := ts\<rparr>"
  have "t_outbound (view s') (outbound_id job) = Some ?j" by (subst d(3)) simp
  moreover have "resolved W config now job ?j"
    by (auto simp: resolved_def outcome_row_def retry_row_def delivered_row_def Let_def)
  moreover have "deliver_one W config now job s = (Ok (), s')"
    using m env l hosts d(1) by (simp add: deliver_one_def)
  ultimately show thesis using that d(2) by blast
qed

lemma drain_rows_other:
  assumes "drain_rows W config now rows s = (x, s')" and "healthy s" and "i \<notin> outbound_id ` set rows"
    and clock: "\<And>n. Timestamp_plus_seconds W now n \<noteq> None"
  shows "healthy s' \<and> is_ok x \<and> t_outbound (view s') i = t_outbound (view s) i"
  using assms(1-3)
proof (induction rows arbitrary: s)
  case (Cons j rows)
  show ?case
  proof (cases "due now j")
    case False
    with Cons show ?thesis by simp
  next
    case True
    obtain y s1 where c: "claim W (outbound_id j) s = (y, s1)" by fastforce
    from claim_healthy(1,2) [OF Cons.prems(2) c] obtain jo where h1: "healthy s1" and y: "y = Ok jo"
      by (auto simp: is_ok_iff)
    have ne: "i \<noteq> outbound_id j" using Cons.prems(3) by auto
    have same: "t_outbound (view s1) i = t_outbound (view s) i"
    proof (cases jo)
      case None
      with claim_other [OF c] y show ?thesis by simp
    next
      case (Some k)
      with c y have "claim W (outbound_id j) s = (Ok (Some k), s1)" by simp
      then have "view s1 = t_outbound_update (\<lambda>t. t(outbound_id j \<mapsto> k)) (view s)"
        by (rule claim_Some)
      with ne show ?thesis by simp
    qed
    show ?thesis
    proof (cases jo)
      case None
      with Cons True c y h1 same show ?thesis by simp
    next
      case (Some k)
      obtain z s2 where d: "deliver_one W config now k s1 = (z, s2)" by fastforce
      have k: "outbound_id k = outbound_id j" using claim_stored(1) c y Some by blast
      note fr = deliver_one_frame [OF d]
      from fr have "\<And>p. z \<noteq> Err (Panic p)" using clock by blast
      with Cons.prems(1) True c y Some d have "drain_rows W config now rows s2 = (x, s')"
        by (auto split: sum.splits fault.splits)
      with Cons.IH [OF this] fr h1 same k ne Cons.prems(3) show ?thesis by auto
    qed
  qed
qed auto

lemma drain_rows_resolves:
  assumes "healthy s" and "distinct (map outbound_id rows)" and "job \<in> set rows" and "due now job"
    and "t_outbound (view s) (outbound_id job) = Some job" and "outbound_status job = Queued"
    and "t_messages (view s) (outbound_message_id job) = Some m"
    and "attemptable W config (message_mail_from m) (outbound_rcpt_to job)"
    and clock: "\<And>n. Timestamp_plus_seconds W now n \<noteq> None"
  obtains j' s' where "drain_rows W config now rows s = (Ok (), s')" "healthy s'"
    "t_outbound (view s') (outbound_id job) = Some j'" "resolved W config now job j'"
proof -
  from assms(3) obtain pre post where rows: "rows = pre @ job # post" by (meson split_list)
  have app: "drain_rows W config now (a @ b) u = drain_rows W config now b v"
    if "drain_rows W config now a u = (Ok (), v)" for a b u v
    using that by (induction a arbitrary: u)
      (auto split: if_splits prod.splits sum.splits option.splits fault.splits)
  obtain x s1 where p: "drain_rows W config now pre s = (x, s1)" by fastforce
  have "outbound_id job \<notin> outbound_id ` set pre" using assms(2) rows by auto
  from drain_rows_other [OF p assms(1) this clock] have s1: "healthy s1" "x = Ok ()"
    "t_outbound (view s1) (outbound_id job) = Some job" using assms(5) by (auto simp: is_ok_iff)
  have q1: "queue_evolves config (view s) (view s1)" by (rule drain_rows_evolves [OF p])
  obtain y s2 where c: "claim W (outbound_id job) s1 = (y, s2)" by fastforce
  from claim_healthy [OF s1(1) c] s1(3) assms(6) obtain k where
    k: "y = Ok (Some k)" and h2: "healthy s2" by blast
  from c k have c': "claim W (outbound_id job) s1 = (Ok (Some k), s2)" by simp
  obtain ts where ts: "k = job\<lparr>outbound_status := InProgress, outbound_updated_at := ts\<rparr>"
    using claim_Some [OF c'] s1(3) by (metis option.inject)
  have q2: "queue_evolves config (view s1) (view s2)" by (rule claim_evolves [OF c])
  have "t_messages (view s2) = t_messages (view s)"
    by (rule queue_evolves_others(1) [OF queue_evolves_trans [OF q1 q2]])
  then have msg: "t_messages (view s2) (outbound_message_id k) = Some m" using assms(7) ts by simp
  have att: "attemptable W config (message_mail_from m) (outbound_rcpt_to k)"
    using assms(8) ts by simp
  obtain j' s3 where d: "deliver_one W config now k s2 = (Ok (), s3)" "healthy s3"
    "t_outbound (view s3) (outbound_id k) = Some j'" "resolved W config now k j'"
    by (rule deliver_one_resolves [OF h2 claim_stored(2) [OF c'] msg att clock])
  obtain z s4 where e: "drain_rows W config now post s3 = (z, s4)" by fastforce
  have "outbound_id job \<notin> outbound_id ` set post" using assms(2) rows by auto
  from drain_rows_other [OF e d(2) this clock] have s4: "healthy s4" "z = Ok ()"
    "t_outbound (view s4) (outbound_id job) = Some j'" using d(3) ts by (auto simp: is_ok_iff)
  have "drain_rows W config now rows s = (Ok (), s4)"
    using app [OF p [unfolded s1(2)], of "job # post"] c' d(1) e s4(2) assms(4) rows by simp
  moreover have "resolved W config now job j'" using d(4) ts by (auto simp: resolved_def)
  ultimately show thesis using that s4 by blast
qed


lemma reclaim_rows_frame:
  assumes "healthy s"
  shows "healthy (reclaim_rows W rows s) \<and>
    (i \<notin> outbound_id ` set rows \<longrightarrow> t_outbound (view (reclaim_rows W rows s)) i = t_outbound (view s) i)"
  using assms
proof (induction rows arbitrary: s)
  case (Cons j rows)
  let ?f = "\<lambda>j. j\<lparr>outbound_status := Queued, outbound_next_attempt_at := None,
      outbound_last_error := None\<rparr>"
  obtain x s1 where u: "Outbound_update W (outbound_id j) ?f s = (x, s1)" by fastforce
  have "healthy s1" "i \<noteq> outbound_id j \<Longrightarrow> t_outbound (view s1) i = t_outbound (view s) i"
    using job_update_frame(1,2) [OF u] Cons.prems by auto
  with Cons.IH [of s1] u show ?case by auto
qed simp

lemma reclaim_queued:
  assumes "healthy s" and "t_outbound (view s) i = Some job" and "outbound_status job = Queued"
  shows "healthy (reclaim_in_progress W s)"
    "t_outbound (view (reclaim_in_progress W s)) i = Some job"
    "t_messages (view (reclaim_in_progress W s)) = t_messages (view s)"
proof -
  from outbound.query_complete [OF assms(1), of InProgress] obtain rows
    where rows: "Outbound_filter_status W InProgress s = Ok rows" by (auto simp: is_ok_iff)
  have "i \<notin> outbound_id ` set rows"
    using queried_job [OF rows] assms(2,3) by fastforce
  with reclaim_rows_frame [OF assms(1), of rows i] rows assms(2)
  show "healthy (reclaim_in_progress W s)"
    "t_outbound (view (reclaim_in_progress W s)) i = Some job"
    by (simp_all add: reclaim_in_progress_def)
  have "queue_evolves OutboundWorkerConfig_default (view s) (view (reclaim_in_progress W s))"
    by (rule reclaim_evolves)
  then show "t_messages (view (reclaim_in_progress W s)) = t_messages (view s)"
    by (rule queue_evolves_others(1))
qed

lemma worker_tick_resolves:
  assumes "healthy s" and "t_outbound (view s) i = Some job" and "outbound_status job = Queued"
    and "due (Timestamp_now W (reclaim_in_progress W s)) job"
    and "t_messages (view s) (outbound_message_id job) = Some m"
    and "attemptable W config (message_mail_from m) (outbound_rcpt_to job)"
    and clock: "\<And>t n. Timestamp_plus_seconds W t n \<noteq> None"
  obtains j' s' where "worker_tick W config s = Some s'" "healthy s'"
    "t_outbound (view s') i = Some j'"
    "resolved W config (Timestamp_now W (reclaim_in_progress W s)) job j'"
proof -
  let ?s = "reclaim_in_progress W s"
  note r = reclaim_queued [OF assms(1-3)]
  have i: "outbound_id job = i" using assms(2) by (rule outbound_keyed)
  from outbound.query_complete [OF r(1), of Queued] obtain rows
    where rows: "Outbound_filter_status W Queued ?s = Ok rows" by (auto simp: is_ok_iff)
  have "job \<in> set rows"
    using outbound.query_set [OF rows] r(2) assms(3) by (auto simp: ran_def)
  moreover have "t_outbound (view ?s) (outbound_id job) = Some job" using r(2) i by simp
  moreover have "t_messages (view ?s) (outbound_message_id job) = Some m" using r(3) assms(5) by simp
  ultimately obtain j' s' where "drain_rows W config (Timestamp_now W ?s) rows ?s = (Ok (), s')"
    "healthy s'" "t_outbound (view s') (outbound_id job) = Some j'"
    "resolved W config (Timestamp_now W ?s) job j'"
    using drain_rows_resolves [OF r(1) outbound.query_distinct [OF rows]] assms(3,4,6) clock by metis
  with that rows i show thesis by (simp add: worker_tick_def drain_once_def)
qed

lemma worker_resolves:
  assumes "healthy s" and "t_outbound (view s) i = Some job" and "outbound_status job = Queued"
    and "due (Timestamp_now W (reclaim_in_progress W s)) job"
    and "outbound_attempts job \<le> max_attempts config" and "max_attempts config < - 1"
    and "t_messages (view s) (outbound_message_id job) = Some m"
    and "attemptable W config (message_mail_from m) (outbound_rcpt_to job)"
    and clock: "\<And>t n. Timestamp_plus_seconds W t n \<noteq> None"
    and pause: "\<And>s. view (pause s) = view s" "\<And>s. healthy s \<Longrightarrow> healthy (pause s)"
      "\<And>s j. t_outbound (view s) i = Some j \<Longrightarrow>
        due (Timestamp_now W (reclaim_in_progress W (pause s))) j"
  shows "\<exists>n s' j'. n \<le> unat (max_attempts config) - unat (outbound_attempts job) + 1 \<and>
    run_outbound_worker W config pause n s = Some s' \<and>
    t_outbound (view s') i = Some j' \<and> terminal j'"
  using assms(1-5,7,8)
proof (induction "unat (max_attempts config) - unat (outbound_attempts job)" arbitrary: s job
    rule: less_induct)
  case less
  obtain j' s' where t: "worker_tick W config s = Some s'" "healthy s'"
    "t_outbound (view s') i = Some j'"
    "resolved W config (Timestamp_now W (reclaim_in_progress W s)) job j'"
    by (rule worker_tick_resolves [OF less.prems(1-4,6,7) clock])
  note q = worker_tick_evolves [OF t(1)]
  have fixed: "outbound_message_id j' = outbound_message_id job"
    "outbound_rcpt_to j' = outbound_rcpt_to job"
    using queue_evolves_job [OF q less.prems(2)] t(3) job_steps_fixed(2,3)
    by (metis option.inject)+
  have msg: "t_messages (view s') = t_messages (view s)"
    using q by (rule queue_evolves_others(1))
  have inc: "unat (outbound_attempts j') = unat (outbound_attempts job) + 1"
    using t(4) unat_attempt_plus [OF less.prems(5) assms(6)] by (simp add: resolved_def)
  show ?case
  proof (cases "terminal j'")
    case True
    with t show ?thesis by (intro exI [of _ 1] exI [of _ "pause s'"] exI [of _ j']) (simp add: pause)
  next
    case False
    then have j': "outbound_status j' = Queued" "outbound_attempts j' \<le> max_attempts config"
      using t(4) by (auto simp: resolved_def terminal_def)
    then have lt: "unat (max_attempts config) - unat (outbound_attempts j')
        < unat (max_attempts config) - unat (outbound_attempts job)"
      using inc by (simp add: word_le_nat_alt)
    have "\<exists>n u k. n \<le> unat (max_attempts config) - unat (outbound_attempts j') + 1 \<and>
        run_outbound_worker W config pause n (pause s') = Some u \<and>
        t_outbound (view u) i = Some k \<and> terminal k"
      by (rule less.hyps [OF lt]) (use t less.prems j' fixed msg pause in auto)
    then obtain n u k where n: "n \<le> unat (max_attempts config) - unat (outbound_attempts j') + 1"
      "run_outbound_worker W config pause n (pause s') = Some u"
      "t_outbound (view u) i = Some k" "terminal k" by blast
    with t lt show ?thesis by (intro exI [of _ "Suc n"] exI [of _ u] exI [of _ k]) auto
  qed
qed


lemma deliver_one_unbuildable:
  assumes "deliver_one W config now job s = (x, s')"
    and "t_messages (view s) (outbound_message_id job) = Some m"
    and "\<not> is_ok (build_envelope W (message_mail_from m) (outbound_rcpt_to job))"
  shows "s' = s"
  using assms message.get_sound [of "outbound_message_id job" s]
  by (auto simp: deliver_one_def is_ok_iff split: sum.splits)

text \<open>Neither a claim nor a delivery resolves a job whose envelope cannot be built.\<close>

lemma claim_keeps_open:
  assumes "claim W k s = (y, s1)" and "t_outbound (view s) i = Some j" and "\<not> terminal j"
  obtains j1 where "t_outbound (view s1) i = Some j1" "\<not> terminal j1"
    "outbound_attempts j1 = outbound_attempts j" "outbound_message_id j1 = outbound_message_id j"
    "outbound_rcpt_to j1 = outbound_rcpt_to j" "t_messages (view s1) = t_messages (view s)"
proof -
  have m: "t_messages (view s1) = t_messages (view s)"
    using queue_evolves_others(1) [OF claim_evolves [OF assms(1)]] .
  show thesis
  proof (cases "\<exists>c. y = Ok (Some c)")
    case True
    then obtain c where "claim W k s = (Ok (Some c), s1)" using assms(1) by blast
    then obtain l ts where "t_outbound (view s) k = Some l"
      "c = l\<lparr>outbound_status := InProgress, outbound_updated_at := ts\<rparr>"
      "view s1 = t_outbound_update (\<lambda>t. t(k \<mapsto> c)) (view s)" by (rule claim_Some)
    with assms(2,3) m show thesis by (cases "i = k") (auto simp: terminal_def intro: that)
  next
    case False
    with claim_other [OF assms(1)] assms(2,3) m show thesis by (auto intro: that)
  qed
qed

lemma deliver_one_keeps_unbuildable:
  assumes "deliver_one W config now k s = (z, s')" and "claim W r s0 = (Ok (Some k), s)"
    and "t_outbound (view s) i = Some j" and "t_messages (view s) (outbound_message_id j) = Some m"
    and "\<not> is_ok (build_envelope W (message_mail_from m) (outbound_rcpt_to j))"
  shows "t_outbound (view s') i = Some j" "t_messages (view s') = t_messages (view s)"
proof -
  have k: "t_outbound (view s) (outbound_id k) = Some k" "outbound_status k = InProgress"
    using claim_stored(2,3) assms(2) by blast+
  show "t_outbound (view s') i = Some j"
  proof (cases "i = outbound_id k")
    case True
    with k assms(3) have "k = j" by simp
    with deliver_one_unbuildable [OF assms(1)] assms(3-5) show ?thesis by simp
  next
    case False
    with deliver_one_frame [OF assms(1)] assms(3) show ?thesis by simp
  qed
  show "t_messages (view s') = t_messages (view s)"
    using queue_evolves_others(1) [OF deliver_one_evolves [OF assms(1) k]] .
qed

lemma drain_rows_stuck:
  assumes "drain_rows W config now rows s = (x, s')"
    and "t_outbound (view s) i = Some j" and "\<not> terminal j"
    and "t_messages (view s) (outbound_message_id j) = Some m"
    and "\<not> is_ok (build_envelope W (message_mail_from m) (outbound_rcpt_to j))"
  shows "\<exists>j'. t_outbound (view s') i = Some j' \<and> \<not> terminal j' \<and>
    outbound_attempts j' = outbound_attempts j"
  using assms
proof (induction rows arbitrary: s j)
  case (Cons r rows)
  show ?case
  proof (cases "due now r")
    case False
    with Cons show ?thesis by simp
  next
    case True
    obtain y s1 where c: "claim W (outbound_id r) s = (y, s1)" by fastforce
    obtain j1 where j1: "t_outbound (view s1) i = Some j1" "\<not> terminal j1"
      "outbound_attempts j1 = outbound_attempts j" "outbound_message_id j1 = outbound_message_id j"
      "outbound_rcpt_to j1 = outbound_rcpt_to j" "t_messages (view s1) = t_messages (view s)"
      by (rule claim_keeps_open [OF c Cons.prems(2,3)])
    have msg: "t_messages (view s1) (outbound_message_id j1) = Some m"
      and env: "\<not> is_ok (build_envelope W (message_mail_from m) (outbound_rcpt_to j1))"
      using Cons.prems(4,5) j1 by simp_all
    show ?thesis
    proof (cases "\<exists>k. y = Ok (Some k)")
      case False
      with Cons.prems(1) True c have "s' = s1 \<or> drain_rows W config now rows s1 = (x, s')"
        by (auto split: sum.splits option.splits)
      with Cons.IH [OF _ j1(1,2) msg env] j1 show ?thesis by auto
    next
      case claimed: True
      then obtain k where y: "y = Ok (Some k)" by blast
      obtain z s2 where d: "deliver_one W config now k s1 = (z, s2)" by fastforce
      note s2 = deliver_one_keeps_unbuildable [OF d c [unfolded y] j1(1) msg env]
      from Cons.prems(1) True c y d have "s' = s2 \<or> drain_rows W config now rows s2 = (x, s')"
        by (auto split: sum.splits fault.splits)
      with Cons.IH [OF _ s2(1) j1(2) msg [folded s2(2)] env] s2(1) j1 show ?thesis by auto
    qed
  qed
qed auto

lemma reclaim_rows_keeps:
  assumes "t_outbound (view s) i = Some j" and "outbound_id j \<notin> outbound_id ` set rows \<or> \<not> terminal j"
  shows "\<exists>j'. t_outbound (view (reclaim_rows W rows s)) i = Some j' \<and>
    terminal j' = terminal j \<and> outbound_attempts j' = outbound_attempts j \<and>
    outbound_message_id j' = outbound_message_id j \<and> outbound_rcpt_to j' = outbound_rcpt_to j"
  using assms
proof (induction rows arbitrary: s j)
  case (Cons r rows)
  let ?f = "\<lambda>j. j\<lparr>outbound_status := Queued, outbound_next_attempt_at := None,
      outbound_last_error := None\<rparr>"
  obtain x s1 where u: "Outbound_update W (outbound_id r) ?f s = (x, s1)" by fastforce
  have i: "outbound_id j = i" using Cons.prems(1) by (rule outbound_keyed)
  have "\<exists>j1. t_outbound (view s1) i = Some j1 \<and> terminal j1 = terminal j \<and>
      outbound_id j1 = outbound_id j \<and> outbound_attempts j1 = outbound_attempts j \<and>
      outbound_message_id j1 = outbound_message_id j \<and> outbound_rcpt_to j1 = outbound_rcpt_to j"
  proof (cases x)
    case (Inl e)
    with u Cons.prems(1) outbound.update_Err [of "outbound_id r" ?f s e s1] show ?thesis by simp
  next
    case (Inr r')
    with u obtain r0 ts where "t_outbound (view s) (outbound_id r) = Some r0"
      "r' = (?f r0)\<lparr>outbound_updated_at := ts\<rparr>"
      "view s1 = t_outbound_update (\<lambda>t. t(outbound_id r \<mapsto> r')) (view s)"
      using outbound.update_Ok [of "outbound_id r" ?f s r' s1] by auto
    with Cons.prems i show ?thesis by (cases "i = outbound_id r") (auto simp: terminal_def)
  qed
  then obtain j1 where "t_outbound (view s1) i = Some j1" "terminal j1 = terminal j"
    "outbound_id j1 = outbound_id j" "outbound_attempts j1 = outbound_attempts j"
    "outbound_message_id j1 = outbound_message_id j" "outbound_rcpt_to j1 = outbound_rcpt_to j"
    by blast
  with Cons.IH [of s1 j1] Cons.prems(2) u show ?case by auto
qed auto

lemma worker_tick_stuck:
  assumes "worker_tick W config s = Some s'"
    and "t_outbound (view s) i = Some j" and "\<not> terminal j"
    and "t_messages (view s) (outbound_message_id j) = Some m"
    and "\<not> is_ok (build_envelope W (message_mail_from m) (outbound_rcpt_to j))"
  shows "\<exists>j'. t_outbound (view s') i = Some j' \<and> \<not> terminal j' \<and>
    outbound_attempts j' = outbound_attempts j"
proof -
  let ?s = "reclaim_in_progress W s"
  have "\<exists>j1. t_outbound (view ?s) i = Some j1 \<and> \<not> terminal j1 \<and>
      outbound_attempts j1 = outbound_attempts j \<and>
      outbound_message_id j1 = outbound_message_id j \<and> outbound_rcpt_to j1 = outbound_rcpt_to j"
    using reclaim_rows_keeps [OF assms(2)] assms(2,3)
    by (auto simp: reclaim_in_progress_def split: sum.splits)
  then obtain j1 where j1: "t_outbound (view ?s) i = Some j1" "\<not> terminal j1"
    "outbound_attempts j1 = outbound_attempts j" "outbound_message_id j1 = outbound_message_id j"
    "outbound_rcpt_to j1 = outbound_rcpt_to j" by blast
  have "t_messages (view ?s) = t_messages (view s)"
    by (rule queue_evolves_others(1) [OF reclaim_evolves [of config]])
  with assms(4,5) j1 have msg: "t_messages (view ?s) (outbound_message_id j1) = Some m"
    "\<not> is_ok (build_envelope W (message_mail_from m) (outbound_rcpt_to j1))" by simp_all
  obtain x s1 where d: "drain_once W config ?s = (x, s1)" by fastforce
  with assms(1) have "s' = s1" by (auto simp: worker_tick_def split: sum.splits fault.splits)
  moreover have "s1 = ?s \<or> (\<exists>rows. drain_rows W config (Timestamp_now W ?s) rows ?s = (x, s1))"
    using d by (auto simp: drain_once_def Let_def split: sum.splits)
  ultimately show ?thesis using drain_rows_stuck [OF _ j1(1,2) msg] j1 by auto
qed

lemma worker_stuck:
  assumes "run_outbound_worker W config pause n s = Some s'" and "\<And>s. view (pause s) = view s"
    and "t_outbound (view s) i = Some j" and "\<not> terminal j"
    and "t_messages (view s) (outbound_message_id j) = Some m"
    and "\<not> is_ok (build_envelope W (message_mail_from m) (outbound_rcpt_to j))"
  shows "\<exists>j'. t_outbound (view s') i = Some j' \<and> \<not> terminal j' \<and>
    outbound_attempts j' = outbound_attempts j"
  using assms(1,3-)
proof (induction n arbitrary: s j)
  case (Suc n)
  then obtain s1 where t: "worker_tick W config s = Some s1"
    and r: "run_outbound_worker W config pause n (pause s1) = Some s'"
    by (auto split: option.splits)
  obtain j1 where j1: "t_outbound (view s1) i = Some j1" "\<not> terminal j1"
    "outbound_attempts j1 = outbound_attempts j"
    using worker_tick_stuck [OF t Suc.prems(2-)] by blast
  note q = worker_tick_evolves [OF t]
  obtain j2 where "t_outbound (view s1) i = Some j2" "(job_step config)\<^sup>*\<^sup>* j j2"
    by (rule queue_evolves_job [OF q Suc.prems(2)])
  with j1(1) have "outbound_message_id j1 = outbound_message_id j"
    "outbound_rcpt_to j1 = outbound_rcpt_to j" using job_steps_fixed(2,3) by auto
  with Suc.IH [OF r, of j1] j1 Suc.prems(4,5) assms(2) queue_evolves_others(1) [OF q]
  show ?case by simp
qed auto

end

end
