(* ===== verification/Zm_Outbound.thy ===== *)
theory Zm_Outbound
  imports Zm_Delivery
begin

text \<open>
  The properties of outbound delivery (\<^verbatim>\<open>src/send.rs\<close>), stated over the definitions, and the
  world on which they are exercised: the in-memory database with a network of which a zone function
  says where mail goes and an acceptance function who takes it.
\<close>

section \<open>An executable world\<close>

definition mem_world ::
  "(string \<Rightarrow> mx_record list) \<Rightarrow> (string \<Rightarrow> bool) \<Rightarrow> (bytes \<Rightarrow> parsed_mail option) \<Rightarrow> mem world" where
  "mem_world zone accepts mails =
     toasty.extend mem_ops
       \<lparr>env_var = (\<lambda>_. None),
        Timestamp_now = mem_clock,
        Timestamp_plus_seconds = (\<lambda>t d. Some (t + d * 1000000000)),
        parse_mail = mails,
        parse_Address = (\<lambda>a. if CHR ''@'' \<in> set a then Ok a else Err ''Missing domain or user''),
        Envelope_new = (\<lambda>f t. if t = [] then Err ''missing destination address''
                              else Ok (Envelope f t)),
        resolver_from_system_conf = (\<lambda>_. Ok ()),
        mx_lookup = (\<lambda>d s. (Ok (zone d), s)),
        build_native = Ok,
        send_raw = (\<lambda>tr env raw s.
          (if accepts (st_host tr) then Ok ''250 queued'' else Err ''connection refused'', s))\<rparr>"

lemma mem_world_sel [simp]:
  "env_var (mem_world z a p) = (\<lambda>_. None)"
  "Timestamp_now (mem_world z a p) = mem_clock"
  "Timestamp_plus_seconds (mem_world z a p) = (\<lambda>t d. Some (t + d * 1000000000))"
  "parse_mail (mem_world z a p) = p"
  "parse_Address (mem_world z a p) =
     (\<lambda>x. if CHR ''@'' \<in> set x then Ok x else Err ''Missing domain or user'')"
  "Envelope_new (mem_world z a p) =
     (\<lambda>f t. if t = [] then Err ''missing destination address'' else Ok (Envelope f t))"
  "resolver_from_system_conf (mem_world z a p) = (\<lambda>_. Ok ())"
  "mx_lookup (mem_world z a p) = (\<lambda>d s. (Ok (z d), s))"
  "build_native (mem_world z a p) = Ok"
  "send_raw (mem_world z a p) = (\<lambda>tr env raw s.
     (if a (st_host tr) then Ok ''250 queued'' else Err ''connection refused'', s))"
  by (simp_all add: mem_world_def toasty.defs)

lemma mem_world_ops:
  "Outbound_update (mem_world z a p) = Outbound_update mem_ops"
  "Outbound_filter_status (mem_world z a p) = Outbound_filter_status mem_ops"
  "Outbound_first_by_id (mem_world z a p) = Outbound_first_by_id mem_ops"
  "Outbound_create (mem_world z a p) = Outbound_create mem_ops"
  "Message_create (mem_world z a p) = Message_create mem_ops"
  "Message_get_by_id (mem_world z a p) = Message_get_by_id mem_ops"
  "DeliveryStatus_create (mem_world z a p) = DeliveryStatus_create mem_ops"
  "Tx_begin_immediate (mem_world z a p) = Tx_begin_immediate mem_ops"
  "Tx_commit (mem_world z a p) = Tx_commit mem_ops"
  by (simp_all add: mem_world_def toasty_extend_sel)

interpretation mw: mta "mem_world zone accepts mails" mem_view mem_snapshot mem_up
proof (rule mta.intro)
  show "store (mem_world zone accepts mails) mem_view mem_snapshot mem_up"
    unfolding mem_world_def by (rule store_extend [OF mem.store_axioms])
qed (unfold_locales, auto)

section \<open>An example\<close>

definition example_message :: Message where
  "example_message =
     \<lparr>message_mail_from = ''a@x.org'', message_raw = [1, 2, 3], message_subject = None,
      message_id_header = None, message_content_type = None, message_from_address = None,
      message_to = [], message_cc = [], message_bcc = [], message_id = 7,
      message_created_at = 0, message_updated_at = 0\<rparr>"

definition example_job :: Outbound where
  "example_job =
     \<lparr>outbound_message_id = 7, outbound_rcpt_to = ''b@y.org'', outbound_sender_id = ''a@x.org'',
      outbound_status = Queued, outbound_attempts = 0, outbound_next_attempt_at = None,
      outbound_last_error = None, outbound_id = 1, outbound_created_at = 0,
      outbound_updated_at = 0\<rparr>"

definition example_state :: "Outbound list \<Rightarrow> mem" where
  "example_state jobs = mem_empty\<lparr>m_messages := [example_message], m_outbound := jobs\<rparr>"

definition example_zone :: "string \<Rightarrow> mx_record list" where
  "example_zone d =
     [\<lparr>mx_preference = 20, mx_exchange = ''mx2.y.org.''\<rparr>,
      \<lparr>mx_preference = 10, mx_exchange = ''mx1.y.org.''\<rparr>]"

abbreviation example_world :: "(string \<Rightarrow> bool) \<Rightarrow> mem world" where
  "example_world accepts \<equiv> mem_world example_zone accepts (\<lambda>_. None)"

abbreviation default_config :: OutboundWorkerConfig where
  "default_config \<equiv> OutboundWorkerConfig_default"

text \<open>Reading off what an evaluated run has shown.\<close>

lemma case_SomeE:
  assumes "case x of None \<Rightarrow> False | Some y \<Rightarrow> P y"
  obtains y where "x = Some y" "P y"
  using assms by (cases x) auto

lemma case_OkE:
  assumes "case x of (Inl e, s) \<Rightarrow> False | (Inr v, s) \<Rightarrow> P v s"
  obtains v s where "x = (Ok v, s)" "P v s"
  using assms by (cases x; cases "fst x") auto

lemma example_state_sel [simp]:
  "mem_up (example_state js)" "m_outbound (example_state js) = js" "mem_clock (example_state js) = 0"
  "m_messages (example_state js) = [example_message]" "m_delivery (example_state js) = []"
  by (simp_all add: example_state_def mem_empty_def no_rows_def mem_tables.defs)

lemma example_job_sel [simp]:
  "outbound_id example_job = 1" "outbound_status example_job = Queued"
  "outbound_attempts example_job = 0" "outbound_next_attempt_at example_job = None"
  "outbound_message_id example_job = 7" "outbound_rcpt_to example_job = ''b@y.org''"
  "message_id example_message = 7" "message_mail_from example_message = ''a@x.org''"
  by (simp_all add: example_job_def example_message_def)

lemma default_config_sel [simp]:
  "max_attempts default_config = 8" "base_backoff default_config = 60"
  "max_backoff default_config = 3600"
  "worker_transport default_config = OutboundTransport_default"
  by (simp_all add: OutboundWorkerConfig_default_def)

lemma default_transport_Ok: "is_ok (build_transport W default_config h)"
  by (simp add: build_transport_def build_outbound_tls_def OutboundTransport_default_def
      tls_enabled_def)

section \<open>Properties of the queue\<close>

text \<open>
  C9. Every tick of the worker refines the queue's state machine, in every outcome and whether or
  not the database answers: jobs move only along claim, reclaim, deliver, retry and give-up steps,
  none appears or vanishes, delivery records are only added, and no other table changes.
\<close>

theorem worker_refines_queue:
  assumes "mta W view snapshot healthy" and "worker_tick W config s = Some s'"
  shows "queue_evolves config (view s) (view s')"
  using assms by (rule mta.worker_tick_evolves)

theorem worker_refines_queue_witness:
  "\<exists>s'. worker_tick (example_world (\<lambda>_. True)) default_config (example_state [example_job]) = Some s' \<and>
     map outbound_status (m_outbound s') = [Delivered] \<and>
     queue_evolves default_config (mem_view (example_state [example_job])) (mem_view s')"
proof -
  have "(case worker_tick (example_world (\<lambda>_. True)) default_config (example_state [example_job]) of
      None \<Rightarrow> False | Some s' \<Rightarrow> map outbound_status (m_outbound s') = [Delivered])" by code_simp
  then obtain s' where
    "worker_tick (example_world (\<lambda>_. True)) default_config (example_state [example_job]) = Some s'"
    "map outbound_status (m_outbound s') = [Delivered]" by (rule case_SomeE)
  with worker_refines_queue [OF mw.mta_axioms this(1)] show ?thesis by (intro exI conjI)
qed



text \<open>
  A claim hands out a job at most once: the claim that succeeds turns the stored row from
  queued to in progress and changes nothing else, and a second claim of the same job, made on the
  state the first one left, gets nothing and leaves the tables alone.
\<close>

theorem claim_exclusive:
  assumes "mta W view snapshot healthy" and "claim W i s = (Ok (Some j), s1)"
    and "claim W i s1 = (x, s2)"
  shows "(\<exists>j0 ts. t_outbound (view s) i = Some j0 \<and> outbound_status j0 = Queued \<and>
      j = j0\<lparr>outbound_status := InProgress, outbound_updated_at := ts\<rparr> \<and>
      view s1 = (view s)\<lparr>t_outbound := (t_outbound (view s))(i \<mapsto> j)\<rparr>) \<and>
    (\<forall>k. x \<noteq> Ok (Some k)) \<and> view s2 = view s1"
proof -
  obtain j0 ts where j0: "t_outbound (view s) i = Some j0" "outbound_status j0 = Queued"
    "j = j0\<lparr>outbound_status := InProgress, outbound_updated_at := ts\<rparr>"
    "view s1 = t_outbound_update (\<lambda>t. t(i \<mapsto> j)) (view s)"
    using mta.claim_Some [OF assms(1,2)] by blast
  have none: "x \<noteq> Ok (Some k)" for k
  proof
    assume "x = Ok (Some k)"
    with assms(3) obtain j1 where "t_outbound (view s1) i = Some j1" "outbound_status j1 = Queued"
      using mta.claim_Some [OF assms(1)] by metis
    with j0 show False by auto
  qed
  have "view s2 = view s1" by (rule mta.claim_other [OF assms(1,3) none])
  moreover have "view s1 = (view s)\<lparr>t_outbound := (t_outbound (view s))(i \<mapsto> j)\<rparr>"
    using j0(4) by (cases "view s") simp
  ultimately show ?thesis using j0 none by blast
qed

theorem claim_exclusive_witness:
  "\<exists>j s1. claim (example_world (\<lambda>_. True)) 1 (example_state [example_job]) = (Ok (Some j), s1) \<and>
     fst (claim (example_world (\<lambda>_. True)) 1 s1) = Ok None"
proof -
  have "(case claim (example_world (\<lambda>_. True)) 1 (example_state [example_job]) of
      (Inl e, s1) \<Rightarrow> False
    | (Inr jo, s1) \<Rightarrow> jo \<noteq> None \<and> fst (claim (example_world (\<lambda>_. True)) 1 s1) = Inr None)"
    by code_simp
  then obtain jo s1 where c:
    "claim (example_world (\<lambda>_. True)) 1 (example_state [example_job]) = (Ok jo, s1)"
    "jo \<noteq> None \<and> fst (claim (example_world (\<lambda>_. True)) 1 s1) = Ok None" by (rule case_OkE)
  from c(2) obtain j where j: "jo = Some j" by blast
  obtain x s2 where "claim (example_world (\<lambda>_. True)) 1 s1 = (x, s2)" by fastforce
  from claim_exclusive [OF mw.mta_axioms c(1) [unfolded j] this] c j show ?thesis by blast
qed

text \<open>
  C10. When the database answers, one delivery run tries the relay if one is configured and else the
  given hosts, in order, stops at the first acceptance, writes exactly one delivery record per host
  tried (code 250 for an acceptance, the error text otherwise), counts one attempt, and resolves the
  job: delivered, queued again with the backoff, or failed past the cap. Nothing else changes.
\<close>

theorem deliver_hosts_correct:
  assumes "mta W view snapshot healthy" and "healthy s"
    and "t_outbound (view s) (outbound_id job) = Some job"
    and "delivery_targets config hosts = Ok targets"
    and "\<forall>h \<in> set targets. is_ok (build_transport W config h)"
    and "Timestamp_plus_seconds W now (sint (backoff_delay config (outbound_attempts job + 1)))
      \<noteq> None"
  shows "\<exists>log s' ts. deliver_hosts W config now hosts message envelope job s = (Ok (), s') \<and>
    tried targets log \<and>
    (\<forall>a \<in> set log. answered W config envelope (message_raw message) a) \<and>
    appended (t_delivery (view s)) (map (attempt_row (outbound_id job)) log) (t_delivery (view s')) \<and>
    view s' = (view s)\<lparr>t_outbound := (t_outbound (view s))(outbound_id job \<mapsto>
        (if targets = [] then retry_row W config now ''no MX records for domain'' job
         else outcome_row W config now None log job)\<lparr>outbound_updated_at := ts\<rparr>),
      t_delivery := t_delivery (view s')\<rparr>"
  using mta.deliver_hosts_healthy [OF assms] by blast

theorem deliver_hosts_correct_witness:
  "\<exists>log s' ts. deliver_hosts (example_world (\<lambda>h. h = ''h2'')) default_config 0 [''h1'', ''h2'', ''h3'']
      example_message (Envelope None []) example_job (example_state [example_job]) = (Ok (), s') \<and>
    tried [''h1'', ''h2'', ''h3''] log \<and>
    map delivery_peer_host (m_delivery s') = [''h1'', ''h2'']"
proof -
  have run: "(case deliver_hosts (example_world (\<lambda>h. h = ''h2'')) default_config 0
      [''h1'', ''h2'', ''h3''] example_message (Envelope None []) example_job
      (example_state [example_job]) of
      (_, s') \<Rightarrow> map delivery_peer_host (m_delivery s') = [''h1'', ''h2''])" by code_simp
  have t: "delivery_targets default_config hs = Ok hs" for hs
    by (simp add: delivery_targets_Ok OutboundTransport_default_def)
  obtain log s' where "deliver_hosts (example_world (\<lambda>h. h = ''h2'')) default_config 0
      [''h1'', ''h2'', ''h3''] example_message (Envelope None []) example_job
      (example_state [example_job]) = (Ok (), s')" "tried [''h1'', ''h2'', ''h3''] log"
    using deliver_hosts_correct [OF mw.mta_axioms _ _ t, of "example_state [example_job]" example_job
        "[''h1'', ''h2'', ''h3'']" example_zone "\<lambda>h. h = ''h2''" "\<lambda>_. None" 0 example_message
        "Envelope None []"]
    by (auto simp: default_transport_Ok)
  with run show ?thesis by auto
qed


text \<open>A pause that lets every backoff in the tables elapse.\<close>

definition mem_pause :: "mem \<Rightarrow> mem" where
  "mem_pause s = s\<lparr>mem_clock := foldr max (List.map_filter outbound_next_attempt_at (m_outbound s)) 0\<rparr>"

lemma foldr_max_upper: "x \<in> set xs \<Longrightarrow> x \<le> foldr max xs (z :: int)"
  by (induction xs) auto

lemma mem_view_pause [simp]: "mem_view (mem_pause s) = mem_view s" "mem_up (mem_pause s) = mem_up s"
  by (simp_all add: mem_pause_def mem_tables_view_def)

lemma mem_clock_reclaim: "mem_clock (reclaim_in_progress (mem_world z a p) s) = mem_clock s"
proof -
  have "mem_clock (reclaim_rows (mem_world z a p) rows u) = mem_clock u" for rows u
    by (induction rows arbitrary: u)
      (auto simp: mem_world_ops mem_ops_def mem_update_def Let_def split: option.splits)
  then show ?thesis by (simp add: reclaim_in_progress_def split: sum.splits)
qed

lemma mem_pause_due:
  assumes "t_outbound (mem_view s) i = Some j"
  shows "due (mem_clock (reclaim_in_progress (mem_world z a p) (mem_pause s))) j"
proof -
  have "j \<in> set (m_outbound s)" using assms lookup_row_in by fastforce
  then have "n \<le> foldr max (List.map_filter outbound_next_attempt_at (m_outbound s)) 0"
    if "outbound_next_attempt_at j = Some n" for n
    using that by (intro foldr_max_upper) (force simp: map_filter_def)
  then show ?thesis
    by (simp add: mem_clock_reclaim) (auto simp: due_def mem_pause_def split: option.splits)
qed


text \<open>
  C34. A job whose addresses do not parse never reaches a terminal status, however long the worker
  runs: every attempt ends before the attempt counter is touched, and the next tick re-queues the job
  without a backoff. (The comment on \<open>max_attempts\<close> promises that a job is marked failed.)
\<close>

theorem unparsable_job_never_fails:
  assumes "mta W view snapshot healthy"
    and "run_outbound_worker W config pause n s = Some s'" and "\<And>s. view (pause s) = view s"
    and "t_outbound (view s) i = Some j" and "\<not> terminal j"
    and "t_messages (view s) (outbound_message_id j) = Some m"
    and "\<not> is_ok (build_envelope W (message_mail_from m) (outbound_rcpt_to j))"
  shows "\<exists>j'. t_outbound (view s') i = Some j' \<and> outbound_status j' \<in> {Queued, InProgress} \<and>
    outbound_attempts j' = outbound_attempts j"
proof -
  from mta.worker_stuck [OF assms] obtain j' where j': "t_outbound (view s') i = Some j'"
    "\<not> terminal j'" "outbound_attempts j' = outbound_attempts j" by blast
  moreover have "outbound_status j' \<in> {Queued, InProgress}"
    using j'(2) by (cases "outbound_status j'") (auto simp: terminal_def)
  ultimately show ?thesis by blast
qed

definition bad_job :: Outbound where
  "bad_job = example_job\<lparr>outbound_rcpt_to := ''nobody''\<rparr>"

theorem unparsable_job_never_fails_witness:
  "\<exists>s' j'. run_outbound_worker (example_world (\<lambda>_. True)) default_config mem_pause 2
      (example_state [bad_job]) = Some s' \<and>
    t_outbound (mem_view s') 1 = Some j' \<and> outbound_status j' \<in> {Queued, InProgress} \<and>
    outbound_attempts j' = 0"
proof -
  have "(case run_outbound_worker (example_world (\<lambda>_. True)) default_config mem_pause 2
      (example_state [bad_job]) of None \<Rightarrow> False | Some s' \<Rightarrow> True)" by code_simp
  then obtain s' where run: "run_outbound_worker (example_world (\<lambda>_. True)) default_config mem_pause 2
      (example_state [bad_job]) = Some s'" by (rule case_SomeE)
  have "\<not> is_ok (build_envelope (example_world (\<lambda>_. True)) ''a@x.org'' ''nobody'')" by code_simp
  then show ?thesis
    using unparsable_job_never_fails [OF mw.mta_axioms run, of 1 bad_job example_message] run
    by (simp add: bad_job_def terminal_def)
qed

context mta
begin

lemma enqueue_outbound_healthy:
  assumes "healthy s"
  shows "\<exists>m j s'. enqueue_outbound W sender recipient msg s = (Ok (message_id m, outbound_id j), s') \<and>
    t_messages (view s) (message_id m) = None \<and> t_outbound (view s) (outbound_id j) = None \<and>
    message_raw m = lm_formatted msg \<and>
    message_fields.truncate m =
      parsed_fields (parse_mail W (lm_formatted msg)) (unwrap_or [] (lm_envelope_from msg))
        (lm_formatted msg) \<and>
    outbound_fields.truncate j = queued_job (message_id m) recipient sender \<and>
    view s' = (view s)\<lparr>t_messages := (t_messages (view s))(message_id m \<mapsto> m),
      t_outbound := (t_outbound (view s))(outbound_id j \<mapsto> j)\<rparr> \<and> healthy s'"
proof -
  let ?f = "parsed_fields (parse_mail W (lm_formatted msg)) (unwrap_or [] (lm_envelope_from msg))
      (lm_formatted msg)"
  obtain m s1 where m: "Message_create W ?f s = (Ok m, s1)" "message_fields.truncate m = ?f"
    "t_messages (view s) (message_id m) = None"
    "view s1 = t_messages_update (\<lambda>t. t(message_id m \<mapsto> m)) (view s)" "healthy s1"
    using message.create_success [OF assms, of ?f] by auto
  let ?q = "queued_job (message_id m) recipient sender"
  obtain j s2 where j: "Outbound_create W ?q s1 = (Ok j, s2)" "outbound_fields.truncate j = ?q"
    "t_outbound (view s1) (outbound_id j) = None"
    "view s2 = t_outbound_update (\<lambda>t. t(outbound_id j \<mapsto> j)) (view s1)" "healthy s2"
    using outbound.create_success [OF m(5), of ?q] by blast
  have "message_raw m = message_raw (message_fields.truncate m)" by (simp add: message_fields.defs)
  also have "\<dots> = lm_formatted msg" by (simp add: m(2) parsed_fields_def)
  finally show ?thesis using m j
    by (intro exI [of _ m] exI [of _ j] exI [of _ s2])
      (cases "view s", simp add: enqueue_outbound_def)
qed

end

text \<open>
  Accepting a message for delivery stores its wire form exactly once, unchanged, with one queued
  job due at once that points to it, and changes nothing else; the ids returned are those rows'.
\<close>

theorem enqueue_outbound_stores:
  assumes "mta W view snapshot healthy" and "healthy s"
  shows "\<exists>m j s'. enqueue_outbound W sender recipient msg s = (Ok (message_id m, outbound_id j), s') \<and>
    t_messages (view s) (message_id m) = None \<and> t_outbound (view s) (outbound_id j) = None \<and>
    message_raw m = lm_formatted msg \<and>
    message_fields.truncate m =
      parsed_fields (parse_mail W (lm_formatted msg)) (unwrap_or [] (lm_envelope_from msg))
        (lm_formatted msg) \<and>
    outbound_fields.truncate j = queued_job (message_id m) recipient sender \<and>
    view s' = (view s)\<lparr>t_messages := (t_messages (view s))(message_id m \<mapsto> m),
      t_outbound := (t_outbound (view s))(outbound_id j \<mapsto> j)\<rparr>"
  using mta.enqueue_outbound_healthy [OF assms, of sender recipient msg] by (elim exE conjE) (intro exI conjI)

theorem enqueue_outbound_stores_witness:
  "\<exists>(m :: Message) (j :: Outbound) s'. enqueue_outbound (example_world (\<lambda>_. True)) ''a@x.org'' ''b@y.org''
      \<lparr>lm_envelope_from = Some ''a@x.org'', lm_formatted = [1, 2]\<rparr> mem_empty =
      (Ok (message_id m, outbound_id j), s') \<and> message_raw m = [1, 2]"
proof -
  have up: "mem_up mem_empty" by (simp add: mem_empty_def mem_tables.defs no_rows_def)
  let ?m = "\<lparr>lm_envelope_from = Some ''a@x.org'', lm_formatted = [1, 2]\<rparr>"
  from enqueue_outbound_stores [OF mw.mta_axioms up, of example_zone "\<lambda>_. True" "\<lambda>_. None"
      "''a@x.org''" "''b@y.org''" ?m]
  obtain m :: Message and j :: Outbound and s' where "enqueue_outbound (example_world (\<lambda>_. True)) ''a@x.org'' ''b@y.org'' ?m mem_empty
      = (Ok (message_id m, outbound_id j), s')" "message_raw m = lm_formatted ?m"
    by (elim exE conjE) (rule that)
  then show ?thesis by (intro exI conjI) simp_all
qed

lemma mx_hosts_order:
  "\<exists>ms. mx_hosts response = map (\<lambda>mx. trim_end_matches (\<lambda>c. c = CHR ''.'') (mx_exchange mx)) ms \<and>
    sorted (map mx_preference ms) \<and>
    (\<forall>p. filter (\<lambda>mx. mx_preference mx = p) ms = filter (\<lambda>mx. mx_preference mx = p)
      (filter (\<lambda>mx. trim_end_matches (\<lambda>c. c = CHR ''.'') (mx_exchange mx) \<noteq> []) response))"
proof -
  let ?P = "\<lambda>mx. trim_end_matches (\<lambda>c. c = CHR ''.'') (mx_exchange mx) \<noteq> []"
  let ?ms = "filter ?P (sort_key mx_preference response)"
  have "filter (\<lambda>mx. mx_preference mx = p) ?ms =
      filter ?P (filter (\<lambda>mx. mx_preference mx = p) (sort_key mx_preference response))" for p
    by (simp add: conj_commute)
  then have "filter (\<lambda>mx. mx_preference mx = p) ?ms =
      filter (\<lambda>mx. mx_preference mx = p) (filter ?P response)" for p
    by (simp add: sort_key_stable conj_commute)
  moreover have "sorted (map mx_preference ?ms)"
    by (simp add: sorted_filter)
  ultimately show ?thesis
    by (intro exI [of _ ?ms]) (simp add: mx_hosts_def filter_map o_def)
qed

end
