(* ===== verification/Zm_Workers.thy ===== *)
theory Zm_Workers
  imports Zm_Outbound
begin

text \<open>
  Several outbound workers on one database. \<open>run_outbound_worker\<close> of \<^verbatim>\<open>src/send.rs\<close> is cut at its
  suspension points into phases; a cluster is the list of the workers' phases over the shared state,
  and a step lets one worker advance. A claim is one step, because it runs in a write-locked
  transaction. \<open>Dead\<close> is a worker whose task has ended with a panic.
\<close>

section \<open>The step relation\<close>

datatype phase =
    Asleep
  | Reclaiming "Outbound list"
  | Fetching
  | Draining timestamp "Outbound list"
  | Delivering timestamp Outbound "Outbound list"
  | Dead

datatype action = Scan | Reclaim | Fetch | Skip | Claim | Deliver | Sleep

inductive worker_step ::
  "('s, 'z) world_scheme \<Rightarrow> OutboundWorkerConfig \<Rightarrow> action \<Rightarrow> phase \<times> 's \<Rightarrow> phase \<times> 's \<Rightarrow> bool"
  for W :: "('s, 'z) world_scheme" and config :: OutboundWorkerConfig where
  scan: "Outbound_filter_status W InProgress s = Ok rows \<Longrightarrow>
    worker_step W config Scan (Asleep, s) (Reclaiming rows, s)"
| scan_fault: "Outbound_filter_status W InProgress s = Err e \<Longrightarrow>
    worker_step W config Scan (Asleep, s) (Fetching, s)"
| reclaim: "worker_step W config Reclaim (Reclaiming (job # rows), s)
    (Reclaiming rows, snd (Outbound_update W (outbound_id job)
       (\<lambda>j. j\<lparr>outbound_status := Queued, outbound_next_attempt_at := None,
            outbound_last_error := None\<rparr>) s))"
| reclaimed: "worker_step W config Skip (Reclaiming [], s) (Fetching, s)"
| fetch: "Outbound_filter_status W Queued s = Ok rows \<Longrightarrow>
    worker_step W config Fetch (Fetching, s) (Draining (Timestamp_now W s) rows, s)"
| fetch_fault: "Outbound_filter_status W Queued s = Err e \<Longrightarrow>
    worker_step W config Fetch (Fetching, s) (Asleep, s)"
| skip: "\<not> due now job \<Longrightarrow>
    worker_step W config Skip (Draining now (job # rows), s) (Draining now rows, s)"
| claim_none: "due now job \<Longrightarrow> claim W (outbound_id job) s = (Ok None, s') \<Longrightarrow>
    worker_step W config Claim (Draining now (job # rows), s) (Draining now rows, s')"
| claim_some: "due now job \<Longrightarrow> claim W (outbound_id job) s = (Ok (Some claimed), s') \<Longrightarrow>
    worker_step W config Claim (Draining now (job # rows), s) (Delivering now claimed rows, s')"
| claim_fault: "due now job \<Longrightarrow> claim W (outbound_id job) s = (Err (Fault e), s') \<Longrightarrow>
    worker_step W config Claim (Draining now (job # rows), s) (Asleep, s')"
| deliver: "deliver_one W config now job s = (r, s') \<Longrightarrow> (\<forall>e. r \<noteq> Err (Panic e)) \<Longrightarrow>
    worker_step W config Deliver (Delivering now job rows, s) (Draining now rows, s')"
| panic: "deliver_one W config now job s = (Err (Panic e), s') \<Longrightarrow>
    worker_step W config Deliver (Delivering now job rows, s) (Dead, s')"
| sleep: "worker_step W config Sleep (Draining now [], s) (Asleep, s)"

inductive worker_run ::
  "('s, 'z) world_scheme \<Rightarrow> OutboundWorkerConfig \<Rightarrow> phase \<times> 's \<Rightarrow> phase \<times> 's \<Rightarrow> bool"
  for W :: "('s, 'z) world_scheme" and config :: OutboundWorkerConfig where
  stop: "worker_run W config p p"
| step: "worker_step W config a p q \<Longrightarrow> worker_run W config q r \<Longrightarrow> worker_run W config p r"

text \<open>A run of a cluster, with the actions taken; \<open>A\<close> says which actions are allowed.\<close>

inductive cluster_run ::
  "('s, 'z) world_scheme \<Rightarrow> OutboundWorkerConfig \<Rightarrow> action set \<Rightarrow> phase list \<times> 's \<Rightarrow>
   phase list \<times> 's \<Rightarrow> bool"
  for W :: "('s, 'z) world_scheme" and config :: OutboundWorkerConfig and A :: "action set" where
  start: "cluster_run W config A c c"
| advance: "cluster_run W config A c (ps, s) \<Longrightarrow> k < length ps \<Longrightarrow> a \<in> A \<Longrightarrow>
    worker_step W config a (ps ! k, s) (p', s') \<Longrightarrow> cluster_run W config A c (ps[k := p'], s')"

fun owns :: "phase \<Rightarrow> row_id option" where
  "owns (Delivering now job rows) = Some (outbound_id job)"
| "owns _ = None"

text \<open>Every job in hand is marked in progress in the database, and no two workers hold the same one.\<close>

definition exclusive :: "phase list \<Rightarrow> tables \<Rightarrow> bool" where
  "exclusive ps t \<longleftrightarrow>
     (\<forall>k < length ps. \<forall>i. owns (ps ! k) = Some i \<longrightarrow>
        (\<exists>j. t_outbound t i = Some j \<and> outbound_status j = InProgress)) \<and>
     (\<forall>k < length ps. \<forall>l < length ps. k \<noteq> l \<longrightarrow> owns (ps ! k) \<noteq> None \<longrightarrow>
        owns (ps ! k) \<noteq> owns (ps ! l))"

text \<open>The same steps as a function, to run a schedule: who advances, one entry per step.\<close>

fun worker_next ::
  "('s, 'z) world_scheme \<Rightarrow> OutboundWorkerConfig \<Rightarrow> phase \<Rightarrow> 's \<Rightarrow> (action \<times> phase \<times> 's) option" where
  "worker_next W config Asleep s =
     (case Outbound_filter_status W InProgress s of
        Inr rows \<Rightarrow> Some (Scan, Reclaiming rows, s) | Inl e \<Rightarrow> Some (Scan, Fetching, s))"
| "worker_next W config (Reclaiming []) s = Some (Skip, Fetching, s)"
| "worker_next W config (Reclaiming (job # rows)) s =
     Some (Reclaim, Reclaiming rows, snd (Outbound_update W (outbound_id job)
       (\<lambda>j. j\<lparr>outbound_status := Queued, outbound_next_attempt_at := None,
            outbound_last_error := None\<rparr>) s))"
| "worker_next W config Fetching s =
     (case Outbound_filter_status W Queued s of
        Inr rows \<Rightarrow> Some (Fetch, Draining (Timestamp_now W s) rows, s)
      | Inl e \<Rightarrow> Some (Fetch, Asleep, s))"
| "worker_next W config (Draining now []) s = Some (Sleep, Asleep, s)"
| "worker_next W config (Draining now (job # rows)) s =
     (if \<not> due now job then Some (Skip, Draining now rows, s)
      else case claim W (outbound_id job) s of
          (Inr None, s') \<Rightarrow> Some (Claim, Draining now rows, s')
        | (Inr (Some k), s') \<Rightarrow> Some (Claim, Delivering now k rows, s')
        | (Inl (Fault e), s') \<Rightarrow> Some (Claim, Asleep, s')
        | (Inl (Panic e), s') \<Rightarrow> None)"
| "worker_next W config (Delivering now job rows) s =
     (case deliver_one W config now job s of
        (Inl (Panic e), s') \<Rightarrow> Some (Deliver, Dead, s')
      | (Inl (Fault e), s') \<Rightarrow> Some (Deliver, Draining now rows, s')
      | (Inr u, s') \<Rightarrow> Some (Deliver, Draining now rows, s'))"
| "worker_next W config Dead s = None"

fun cluster_exec ::
  "('s, 'z) world_scheme \<Rightarrow> OutboundWorkerConfig \<Rightarrow> nat list \<Rightarrow> phase list \<times> 's \<Rightarrow>
   (phase list \<times> 's) option" where
  "cluster_exec W config [] c = Some c"
| "cluster_exec W config (k # ks) c =
     (if length (fst c) \<le> k then None
      else case worker_next W config (fst c ! k) (snd c) of
          None \<Rightarrow> None
        | Some (a, p', s') \<Rightarrow> cluster_exec W config ks ((fst c)[k := p'], s'))"

inductive_cases worker_stepE: "worker_step W config a p q"

section \<open>The phases are the loop\<close>

lemma worker_run_trans:
  "worker_run W config p q \<Longrightarrow> worker_run W config q r \<Longrightarrow> worker_run W config p r"
  by (induction rule: worker_run.induct) (auto intro: worker_run.step)

lemma worker_run_one: "worker_step W config a p q \<Longrightarrow> worker_run W config p q"
  by (auto intro: worker_run.intros)

lemma reclaim_rows_run:
  "worker_run W config (Reclaiming rows, s) (Fetching, reclaim_rows W rows s)"
proof (induction rows arbitrary: s)
  case Nil
  then show ?case by (auto intro: worker_run_one worker_step.reclaimed)
next
  case (Cons job rows)
  then show ?case by (auto intro: worker_run.step [OF worker_step.reclaim])
qed

lemma claim_no_panic: "claim W i s \<noteq> (Err (Panic e), s')"
  by (auto simp: claim_def err_def split: prod.splits sum.splits option.splits if_splits)

lemma drain_rows_run:
  assumes "drain_rows W config now rows s = (x, s')" and "\<And>e. x \<noteq> Err (Panic e)"
  shows "worker_run W config (Draining now rows, s) (Asleep, s')"
  using assms(1)
proof (induction rows arbitrary: s)
  case Nil
  then show ?case by (auto intro: worker_run_one worker_step.sleep)
next
  case (Cons job rows)
  show ?case
  proof (cases "due now job")
    case False
    with Cons show ?thesis by (auto intro: worker_run.step [OF worker_step.skip])
  next
    case True
    obtain y s1 where c: "claim W (outbound_id job) s = (y, s1)" by fastforce
    show ?thesis
    proof (cases y)
      case (Inl f)
      with c claim_no_panic [of W "outbound_id job" s] obtain e where "f = Fault e"
        by (cases f) auto
      with Inl Cons.prems True c show ?thesis
        by (auto intro: worker_run_one worker_step.claim_fault)
    next
      case (Inr jo)
      show ?thesis
      proof (cases jo)
        case None
        with Inr Cons True c show ?thesis by (auto intro: worker_run.step [OF worker_step.claim_none])
      next
        case (Some k)
        obtain z s2 where d: "deliver_one W config now k s1 = (z, s2)" by fastforce
        have np: "z \<noteq> Err (Panic e)" for e
          using assms(2) [of e] Cons.prems True c Inr Some d by auto
        then have "drain_rows W config now rows s2 = (x, s')"
          using Cons.prems True c Inr Some d by (auto split: sum.splits fault.splits)
        from Cons.IH [OF this] show ?thesis
          using True c Inr Some d np
          by (auto intro: worker_run.step [OF worker_step.claim_some] worker_run.step [OF worker_step.deliver])
      qed
    qed
  qed
qed

text \<open>
  Every tick of the worker loop is a run of the step relation: the cut into phases leaves out no
  behaviour of the loop.
\<close>

theorem worker_tick_is_run:
  assumes "worker_tick W config s = Some s'"
  shows "worker_run W config (Asleep, s) (Asleep, s')"
proof -
  let ?s = "reclaim_in_progress W s"
  have scan: "worker_run W config (Asleep, s) (Fetching, ?s)"
  proof (cases "Outbound_filter_status W InProgress s")
    case (Inl e)
    then show ?thesis
      by (auto simp: reclaim_in_progress_def intro: worker_run_one worker_step.scan_fault)
  next
    case (Inr rows)
    then show ?thesis using reclaim_rows_run [of W config rows s]
      by (auto simp: reclaim_in_progress_def intro: worker_run.step [OF worker_step.scan])
  qed
  have drain: "worker_run W config (Fetching, ?s) (Asleep, s')"
  proof (cases "Outbound_filter_status W Queued ?s")
    case (Inl e)
    with assms have "s' = ?s" by (simp add: worker_tick_def drain_once_def err_def)
    with Inl show ?thesis by (auto intro: worker_run_one worker_step.fetch_fault)
  next
    case (Inr rows)
    obtain x s1 where d: "drain_rows W config (Timestamp_now W ?s) rows ?s = (x, s1)" by fastforce
    with assms Inr have "s' = s1" "\<And>e. x \<noteq> Err (Panic e)"
      by (auto simp: worker_tick_def drain_once_def split: sum.splits fault.splits)
    with drain_rows_run [OF d] Inr show ?thesis
      by (auto intro: worker_run.step [OF worker_step.fetch])
  qed
  from scan drain show ?thesis by (rule worker_run_trans)
qed

theorem worker_tick_is_run_witness:
  "\<exists>s'. worker_tick (example_world (\<lambda>_. True)) default_config (example_state [example_job]) = Some s' \<and>
     worker_run (example_world (\<lambda>_. True)) default_config (Asleep, example_state [example_job]) (Asleep, s')"
proof -
  have "(case worker_tick (example_world (\<lambda>_. True)) default_config (example_state [example_job]) of
      None \<Rightarrow> False | Some s' \<Rightarrow> True)" by code_simp
  then obtain s' where t:
    "worker_tick (example_world (\<lambda>_. True)) default_config (example_state [example_job]) = Some s'"
    by (rule case_SomeE)
  from worker_tick_is_run [OF t] t show ?thesis by blast
qed

section \<open>Who owns a job\<close>

lemma exclusive_update:
  assumes "exclusive ps t"
    and "\<And>i. owns p' = Some i \<Longrightarrow> \<exists>j. t_outbound t' i = Some j \<and> outbound_status j = InProgress"
    and "\<And>l i. l < length ps \<Longrightarrow> l \<noteq> k \<Longrightarrow> owns (ps ! l) = Some i \<Longrightarrow>
      t_outbound t' i = t_outbound t i \<and> owns p' \<noteq> Some i"
  shows "exclusive (ps[k := p']) t'"
  unfolding exclusive_def
proof (intro conjI allI impI)
  fix l i assume "l < length (ps[k := p'])" "owns (ps[k := p'] ! l) = Some i"
  then show "\<exists>j. t_outbound t' i = Some j \<and> outbound_status j = InProgress"
    using assms by (cases "l = k") (auto simp: exclusive_def)
next
  fix l m assume lm: "l < length (ps[k := p'])" "m < length (ps[k := p'])" "l \<noteq> m"
    "owns (ps[k := p'] ! l) \<noteq> None"
  consider "l = k" | "m = k" | "l \<noteq> k" "m \<noteq> k" by blast
  then show "owns (ps[k := p'] ! l) \<noteq> owns (ps[k := p'] ! m)"
  proof cases
    case 1
    with lm assms(3) [of m] show ?thesis by (cases "owns (ps ! m)") auto
  next
    case 2
    with lm assms(3) [of l] show ?thesis by (cases "owns (ps ! l)") auto
  next
    case 3
    with lm assms(1) show ?thesis by (auto simp: exclusive_def)
  qed
qed

context mta
begin

lemma claim_frame:
  assumes "claim W i s = (x, s')" and "t_outbound (view s) l = Some j" and "outbound_status j \<noteq> Queued"
  shows "t_outbound (view s') l = Some j" "\<And>k. x = Ok (Some k) \<Longrightarrow> l \<noteq> i"
proof -
  have ne: "l \<noteq> i" if c: "claim W i s = (Ok (Some k), s')" for k
  proof -
    obtain j0 where "t_outbound (view s) i = Some j0" "outbound_status j0 = Queued"
      using claim_Some [OF c] by blast
    with assms(2,3) show ?thesis by auto
  qed
  then show "\<And>k. x = Ok (Some k) \<Longrightarrow> l \<noteq> i" using assms(1) by blast
  show "t_outbound (view s') l = Some j"
  proof (cases "\<exists>k. x = Ok (Some k)")
    case True
    then obtain k where c: "claim W i s = (Ok (Some k), s')" using assms(1) by blast
    then have "view s' = t_outbound_update (\<lambda>t. t(i \<mapsto> k)) (view s)" by (rule claim_Some)
    with ne [OF c] assms(2) show ?thesis by simp
  next
    case False
    with claim_other [OF assms(1)] assms(2) show ?thesis by simp
  qed
qed

lemma step_exclusive:
  assumes "exclusive ps (view s)" and "k < length ps" and "a \<noteq> Reclaim"
    and "worker_step W config a (ps ! k, s) (p', s')"
  shows "exclusive (ps[k := p']) (view s')"
proof -
  have held: "\<exists>j. t_outbound (view s) i = Some j \<and> outbound_status j = InProgress"
    if "l < length ps" "owns (ps ! l) = Some i" for l i
    using assms(1) that by (auto simp: exclusive_def)
  have apart: "owns (ps ! k) \<noteq> Some i" if "l < length ps" "l \<noteq> k" "owns (ps ! l) = Some i" for l i
    using assms(1,2) that unfolding exclusive_def by (metis option.distinct(1))
  have claim_keeps: "t_outbound (view s') i = t_outbound (view s) i \<and> (\<forall>c. x = Ok (Some c) \<longrightarrow> i \<noteq> n)"
    if "claim W n s = (x, s')" "l < length ps" "owns (ps ! l) = Some i" for l i n x
    using held [OF that(2,3)] claim_frame [OF that(1)] by fastforce
  have deliver_keeps: "t_outbound (view s') i = t_outbound (view s) i"
    if "deliver_one W config now job s = (x, s')" "owns (ps ! k) = Some (outbound_id job)"
      "l < length ps" "l \<noteq> k" "owns (ps ! l) = Some i" for l i now job x
    using apart [OF that(3-5)] that(2) deliver_one_frame [OF that(1)] by auto
  note update = exclusive_update [OF assms(1)]
  from assms(4) show ?thesis
  proof (cases rule: worker_step.cases)
    case (claim_none now job rows)
    show ?thesis by (rule update) (use claim_none claim_keeps [OF claim_none(5)] in auto)
  next
    case (claim_some now job claimed rows)
    show ?thesis
      by (rule update) (use claim_some claim_keeps [OF claim_some(5)] claim_stored [OF claim_some(5)] in auto)
  next
    case (claim_fault now job e rows)
    show ?thesis by (rule update) (use claim_fault claim_keeps [OF claim_fault(5)] in auto)
  next
    case (deliver now job r rows)
    show ?thesis by (rule update) (use deliver deliver_keeps [OF deliver(4)] in auto)
  next
    case (panic now job e rows)
    show ?thesis by (rule update) (use panic deliver_keeps [OF panic(4)] in auto)
  qed (use assms(3) in \<open>auto intro!: update\<close>)
qed

lemma cluster_exclusive:
  assumes "cluster_run W config (- {Reclaim}) c d" and "exclusive (fst c) (view (snd c))"
  shows "exclusive (fst d) (view (snd d))"
  using assms by (induction rule: cluster_run.induct) (auto intro: step_exclusive)

end

lemma worker_next_step:
  "worker_next W config p s = Some (a, p', s') \<Longrightarrow> worker_step W config a (p, s) (p', s')"
proof (induction W config p s rule: worker_next.induct)
  case (6 W config now job rows s)
  show ?case
  proof (cases "due now job")
    case True
    obtain x s1 where "claim W (outbound_id job) s = (x, s1)" by fastforce
    with True 6 show ?thesis
      by (auto split: sum.splits option.splits fault.splits
          intro: worker_step.claim_none worker_step.claim_some worker_step.claim_fault)
  qed (use 6 in \<open>auto intro: worker_step.skip\<close>)
next
  case (7 W config now job rows s)
  obtain x s1 where "deliver_one W config now job s = (x, s1)" by fastforce
  with 7 show ?case
    by (auto split: sum.splits fault.splits intro: worker_step.deliver worker_step.panic)
qed (auto split: sum.splits intro: worker_step.intros)

lemma cluster_exec_run:
  assumes "cluster_exec W config ks c = Some d" and "cluster_run W config UNIV c0 c"
  shows "cluster_run W config UNIV c0 d"
  using assms
proof (induction ks arbitrary: c)
  case (Cons k ks)
  obtain ps s where c: "c = (ps, s)" by fastforce
  with Cons.prems(1) obtain a p' s' where n: "worker_next W config (ps ! k) s = Some (a, p', s')"
    and k: "k < length ps" and rest: "cluster_exec W config ks (ps[k := p'], s') = Some d"
    by (auto split: if_splits option.splits)
  have "cluster_run W config UNIV c0 (ps[k := p'], s')"
    using cluster_run.advance [OF _ k _ worker_next_step [OF n]] Cons.prems(2) c by simp
  with Cons.IH [OF rest] show ?case .
qed simp

text \<open>
  C16. As long as no worker re-queues jobs it finds in progress, a cluster of any number of workers
  sharing a database never has one job in two hands, in any interleaving and whatever fails: from a
  state in which every job in hand is in progress and held once, every reachable state is such a
  state.
\<close>

theorem cluster_ownership_exclusive:
  assumes "mta W view snapshot healthy" and "cluster_run W config (- {Reclaim}) (ps, s) (ps', s')"
    and "exclusive ps (view s)"
  shows "exclusive ps' (view s')"
  using mta.cluster_exclusive [OF assms(1,2)] assms(3) by simp

theorem cluster_ownership_exclusive_witness:
  "\<exists>ps s. cluster_run (example_world (\<lambda>_. True)) default_config (- {Reclaim})
      ([Fetching, Fetching], example_state [example_job]) (ps, s) \<and> exclusive ps (mem_view s) \<and>
      ps \<noteq> [Fetching, Fetching]"
proof -
  let ?W = "example_world (\<lambda>_. True)"
  let ?s = "example_state [example_job]"
  have "(case worker_next ?W default_config Fetching ?s of None \<Rightarrow> False
      | Some r \<Rightarrow> fst r = Fetch \<and> fst (snd r) \<noteq> Fetching)" by code_simp
  then obtain r where "worker_next ?W default_config Fetching ?s = Some r"
    and f: "fst r = Fetch \<and> fst (snd r) \<noteq> Fetching" by (rule case_SomeE)
  moreover obtain a p' s' where r: "r = (a, p', s')" by (cases r)
  ultimately have "worker_step ?W default_config Fetch (Fetching, ?s) (p', s')"
    by (intro worker_next_step) simp
  then have "cluster_run ?W default_config (- {Reclaim}) ([Fetching, Fetching], ?s)
      ([Fetching, Fetching][0 := p'], s')"
    by (intro cluster_run.advance [OF cluster_run.start, where a = Fetch]) simp_all
  then have run: "cluster_run ?W default_config (- {Reclaim}) ([Fetching, Fetching], ?s)
      ([p', Fetching], s')" by simp
  have "exclusive [Fetching, Fetching] (mem_view ?s)" by (auto simp: exclusive_def less_Suc_eq)
  from cluster_ownership_exclusive [OF mw.mta_axioms run this] run f r show ?thesis
    by (intro exI conjI) auto
qed

text \<open>A schedule of two workers: the second one recovers and delivers while the first is delivering.\<close>

definition double_schedule :: "nat list" where
  "double_schedule = [0, 0, 0, 0, 1, 1, 1, 1, 1]"


end
