(* ===== verification/Zm_Dns.thy ===== *)
theory Zm_Dns
  imports Zm_Net Zm_Memory
begin

text \<open>
  The authoritative DNS server (\<^verbatim>\<open>src/dns.rs\<close>): one datagram is decoded, each of its questions is
  answered from the record table, and the response is sent back. The wire format and domain names are
  the resolver library's (\<open>hickory_proto\<close>): a record of functions over an abstract type \<open>'n\<close> of
  names. A panic, which ends the task that handles the datagram but not the server, is \<^const>\<open>None\<close>.
\<close>

section \<open>The wire format\<close>

datatype MessageType = Query | Response

datatype ResponseCode = NoError | NXDomain

datatype 'n RData =
    RData_A "8 word" "8 word" "8 word" "8 word"
  | RData_TXT "string list"
  | RData_MX u16 'n
  | RData_PTR 'n

record 'n dns_query =
  query_name :: 'n
  query_type :: HickoryRecordType

record 'n dns_record =
  rr_name :: 'n
  rr_ttl :: u32
  rr_data :: "'n RData"

record 'n dns_message =
  dns_id :: u16
  dns_message_type :: MessageType
  dns_op_code :: "4 word"
  dns_authoritative :: bool
  dns_recursion_desired :: bool
  dns_recursion_available :: bool
  dns_response_code :: ResponseCode
  dns_queries :: "'n dns_query list"
  dns_answers :: "'n dns_record list"

record ('n, 's) hickory =
  Message_from_vec :: "bytes \<Rightarrow> ('n dns_message, string) result"
  Message_to_vec :: "'n dns_message \<Rightarrow> (bytes, string) result"
  Name_to_string :: "'n \<Rightarrow> string"
  Name_from_str :: "string \<Rightarrow> ('n, string) result"
  send_to :: "bytes \<Rightarrow> SocketAddr \<Rightarrow> 's \<Rightarrow> (unit, string) result \<times> 's"

text \<open>\<open>Message::new\<close>: an empty query, all flags clear.\<close>

definition Message_new :: "'n dns_message" where
  "Message_new = \<lparr>dns_id = 0, dns_message_type = Query, dns_op_code = 0, dns_authoritative = False,
     dns_recursion_desired = False, dns_recursion_available = False, dns_response_code = NoError,
     dns_queries = [], dns_answers = []\<rparr>"

section \<open>Answering\<close>

definition parse_rdata ::
  "(string \<Rightarrow> ('n, string) result) \<Rightarrow> HickoryRecordType \<Rightarrow> string \<Rightarrow> 'n RData option" where
  "parse_rdata from_str qtype v =
     (case qtype of
        H_A \<Rightarrow> map_option (\<lambda>(a, b, c, d). RData_A a b c d) (parse_Ipv4Addr v)
      | H_TXT \<Rightarrow> Some (RData_TXT [v])
      | H_MX \<Rightarrow>
          (case split_whitespace v of
             [p, x] \<Rightarrow> map_option (RData_MX (unwrap_or 10 (parse_u16 p))) (result_ok (from_str x))
           | _ \<Rightarrow> None)
      | H_PTR \<Rightarrow> map_option RData_PTR (result_ok (from_str v))
      | _ \<Rightarrow> None)"

text \<open>\<^const>\<open>None\<close> is the panic of the conversion of the question's type.\<close>

definition query_records ::
  "('s, 'z) toasty_scheme \<Rightarrow> string \<Rightarrow> HickoryRecordType \<Rightarrow> 's \<Rightarrow> Record list option" where
  "query_records T name qtype s =
     map_option (\<lambda>t. case Record_filter_domain_type T name t s of Err e \<Rightarrow> [] | Ok rows \<Rightarrow> rows)
       (RecordType_from_hickory qtype)"

definition clean_name :: "('n, 's) hickory \<Rightarrow> 'n \<Rightarrow> string" where
  "clean_name L n = trim_end_matches (\<lambda>c. c = CHR ''.'') (Name_to_string L n)"

definition answers_of ::
  "('n, 's) hickory \<Rightarrow> 'n dns_query \<Rightarrow> Record list \<Rightarrow> 'n dns_record list" where
  "answers_of L q rows =
     List.map_filter (\<lambda>r. map_option (\<lambda>d. \<lparr>rr_name = query_name q, rr_ttl = record_ttl r, rr_data = d\<rparr>)
       (parse_rdata (Name_from_str L) (query_type q) (record_value r))) rows"

fun answer_queries ::
  "('s, 'z) toasty_scheme \<Rightarrow> ('n, 's) hickory \<Rightarrow> 'n dns_query list \<Rightarrow> 'n dns_message \<Rightarrow> 's \<Rightarrow>
   'n dns_message option" where
  "answer_queries T L [] response s = Some response"
| "answer_queries T L (q # qs) response s =
     (let response = response\<lparr>dns_queries := dns_queries response @ [q]\<rparr>
      in case query_records T (clean_name L (query_name q)) (query_type q) s of
           None \<Rightarrow> None
         | Some rows \<Rightarrow>
             answer_queries T L qs
               (if rows = [] then response\<lparr>dns_response_code := NXDomain\<rparr>
                else response\<lparr>dns_response_code := NoError,
                       dns_answers := dns_answers response @ answers_of L q rows\<rparr>) s)"

definition response_to :: "'n dns_message \<Rightarrow> 'n dns_message" where
  "response_to request =
     Message_new\<lparr>dns_message_type := Response, dns_id := dns_id request,
       dns_op_code := dns_op_code request, dns_recursion_desired := dns_recursion_desired request,
       dns_recursion_available := False, dns_authoritative := True\<rparr>"

definition handle_dns_query ::
  "('s, 'z) toasty_scheme \<Rightarrow> ('n, 's) hickory \<Rightarrow> SocketAddr \<Rightarrow> bytes \<Rightarrow> 's \<Rightarrow>
   (unit, string) result option \<times> 's" where
  "handle_dns_query T L peer req s =
     (case Message_from_vec L req of
        Err e \<Rightarrow> (Some (Ok ()), s)
      | Ok request \<Rightarrow>
          (case answer_queries T L (dns_queries request) (response_to request) s of
             None \<Rightarrow> (None, s)
           | Some response \<Rightarrow>
               (case Message_to_vec L response of
                  Err e \<Rightarrow> (Some (Err e), s)
                | Ok res \<Rightarrow> (case send_to L res peer s of (x, s1) \<Rightarrow> (Some x, s1)))))"

text \<open>
  The receive loop over the datagrams that arrive, each cut to the buffer's 512 bytes; a failed
  receive is skipped, and neither an error nor a panic of a handler stops the loop. The handlers run
  as tasks of their own; they are run here in the order of arrival.
\<close>

fun serve_datagrams ::
  "('s, 'z) toasty_scheme \<Rightarrow> ('n, 's) hickory \<Rightarrow> (bytes \<times> SocketAddr, string) result list \<Rightarrow> 's \<Rightarrow> 's"
where
  "serve_datagrams T L [] s = s"
| "serve_datagrams T L (Inl e # evs) s = serve_datagrams T L evs s"
| "serve_datagrams T L (Inr (packet, peer) # evs) s =
     serve_datagrams T L evs (snd (handle_dns_query T L peer (take 512 packet) s))"

text \<open>Only a failed bind makes the server return, with its error; otherwise it is still serving.\<close>

definition run_dns_server ::
  "('s, 'z) toasty_scheme \<Rightarrow> ('n, 's) hickory \<Rightarrow> (SocketAddr \<Rightarrow> (unit, string) result) \<Rightarrow> SocketAddr \<Rightarrow>
   (bytes \<times> SocketAddr, string) result list \<Rightarrow> 's \<Rightarrow> string option \<times> 's" where
  "run_dns_server T L bind bind_addr evs s =
     (case bind bind_addr of
        Err e \<Rightarrow> (Some e, s)
      | Ok _ \<Rightarrow> (None, serve_datagrams T L evs s))"

section \<open>Correctness\<close>

text \<open>The rows that answer a question: the name compared letter by letter, the type exactly.\<close>

definition zone_rows :: "('n, 's) hickory \<Rightarrow> tables \<Rightarrow> 'n dns_query \<Rightarrow> Record set" where
  "zone_rows L t q =
     {r \<in> ran (t_records t). record_domain_id r = clean_name L (query_name q) \<and>
        RecordType_from_hickory (query_type q) = Some (record_type r)}"

definition zone_answers :: "('n, 's) hickory \<Rightarrow> tables \<Rightarrow> 'n dns_query \<Rightarrow> 'n dns_record set" where
  "zone_answers L t q =
     {\<lparr>rr_name = query_name q, rr_ttl = record_ttl r, rr_data = d\<rparr> | r d.
        r \<in> zone_rows L t q \<and> parse_rdata (Name_from_str L) (query_type q) (record_value r) = Some d}"

lemma set_answers_of:
  "set (answers_of L q rows) =
     {\<lparr>rr_name = query_name q, rr_ttl = record_ttl r, rr_data = d\<rparr> | r d.
        r \<in> set rows \<and> parse_rdata (Name_from_str L) (query_type q) (record_value r) = Some d}"
  by (force simp: answers_of_def map_filter_def)

lemma zone_answers_empty: "zone_rows L t q = {} \<Longrightarrow> zone_answers L t q = {}"
  by (simp add: zone_answers_def)

context store
begin

lemma query_records_exact:
  assumes "healthy s" and "RecordType_from_hickory (query_type q) \<noteq> None"
  shows "\<exists>rows. query_records T (clean_name L (query_name q)) (query_type q) s = Some rows \<and>
    set rows = zone_rows L (view s) q"
proof -
  obtain t where t: "RecordType_from_hickory (query_type q) = Some t" using assms(2) by blast
  let ?d = "clean_name L (query_name q)"
  obtain rows where r: "Record_filter_domain_type T ?d t s = Ok rows"
    using rec_typed.query_complete [OF assms(1), of "(?d, t)"] by (auto simp: is_ok_iff)
  have "set rows = zone_rows L (view s) q"
    using rec_typed.query_set [of "(?d, t)" s rows] r by (auto simp: zone_rows_def t)
  with r t show ?thesis by (simp add: query_records_def)
qed

lemma answer_queries_exact:
  assumes "healthy s" and "\<forall>q \<in> set qs. RecordType_from_hickory (query_type q) \<noteq> None"
  shows "\<exists>as rc. answer_queries T L qs resp s =
      Some (resp\<lparr>dns_queries := dns_queries resp @ qs, dns_answers := dns_answers resp @ as,
        dns_response_code := rc\<rparr>) \<and>
    set as = (\<Union>q \<in> set qs. zone_answers L (view s) q) \<and>
    rc = (if qs = [] then dns_response_code resp
          else if zone_rows L (view s) (last qs) = {} then NXDomain else NoError)"
  using assms(2)
proof (induction qs arbitrary: resp)
  case Nil
  then show ?case by (intro exI [of _ "[]"] exI [of _ "dns_response_code resp"]) simp
next
  case (Cons q qs)
  have "RecordType_from_hickory (query_type q) \<noteq> None" using Cons.prems by simp
  from query_records_exact [OF assms(1) this, of L] obtain rows where
    rows: "query_records T (clean_name L (query_name q)) (query_type q) s = Some rows"
      "set rows = zone_rows L (view s) q" by blast
  let ?r1 = "resp\<lparr>dns_queries := dns_queries resp @ [q]\<rparr>"
  let ?r2 = "if rows = [] then ?r1\<lparr>dns_response_code := NXDomain\<rparr>
     else ?r1\<lparr>dns_response_code := NoError, dns_answers := dns_answers ?r1 @ answers_of L q rows\<rparr>"
  have st: "set (answers_of L q rows) = zone_answers L (view s) q"
    by (simp add: set_answers_of zone_answers_def rows(2))
  from Cons.IH [of ?r2] Cons.prems obtain as rc where
    a: "answer_queries T L qs ?r2 s = Some (?r2\<lparr>dns_queries := dns_queries ?r2 @ qs,
        dns_answers := dns_answers ?r2 @ as, dns_response_code := rc\<rparr>)"
      "set as = (\<Union>q \<in> set qs. zone_answers L (view s) q)"
      "rc = (if qs = [] then dns_response_code ?r2
          else if zone_rows L (view s) (last qs) = {} then NXDomain else NoError)" by auto
  let ?as = "if rows = [] then as else answers_of L q rows @ as"
  have "set ?as = (\<Union>q \<in> set (q # qs). zone_answers L (view s) q)"
    using st a(2) zone_answers_empty [of L "view s" q] rows(2) by auto
  moreover have "rc = (if zone_rows L (view s) (last (q # qs)) = {} then NXDomain else NoError)"
    using a(3) rows(2) by auto
  moreover have "answer_queries T L (q # qs) resp s =
      Some (resp\<lparr>dns_queries := dns_queries resp @ q # qs, dns_answers := dns_answers resp @ ?as,
        dns_response_code := rc\<rparr>)"
    using a(1) rows(1) by (simp split del: if_split) simp
  ultimately show ?case by (intro exI [of _ ?as] exI [of _ rc]) simp
qed

lemma handle_dns_query_exact:
  assumes "healthy s"
    and "Message_from_vec L req = Ok request"
    and "\<forall>q \<in> set (dns_queries request). RecordType_from_hickory (query_type q) \<noteq> None"
  shows "\<exists>r. handle_dns_query T L peer req s =
      (case Message_to_vec L r of Err e \<Rightarrow> (Some (Err e), s)
       | Ok res \<Rightarrow> (case send_to L res peer s of (x, s1) \<Rightarrow> (Some x, s1))) \<and>
    dns_id r = dns_id request \<and> dns_message_type r = Response \<and> dns_op_code r = dns_op_code request \<and>
    dns_authoritative r \<and> dns_recursion_desired r = dns_recursion_desired request \<and>
    dns_queries r = dns_queries request \<and>
    set (dns_answers r) = (\<Union>q \<in> set (dns_queries request). zone_answers L (view s) q) \<and>
    (dns_queries request \<noteq> [] \<longrightarrow>
      (dns_response_code r = NXDomain \<longleftrightarrow> zone_rows L (view s) (last (dns_queries request)) = {}))"
proof -
  from answer_queries_exact [OF assms(1,3), of L "response_to request"]
  obtain as rc where a: "answer_queries T L (dns_queries request) (response_to request) s =
      Some ((response_to request)\<lparr>dns_queries := dns_queries (response_to request) @ dns_queries request,
        dns_answers := dns_answers (response_to request) @ as, dns_response_code := rc\<rparr>)"
    "set as = (\<Union>q \<in> set (dns_queries request). zone_answers L (view s) q)"
    "rc = (if dns_queries request = [] then dns_response_code (response_to request)
      else if zone_rows L (view s) (last (dns_queries request)) = {} then NXDomain else NoError)"
    by blast
  then show ?thesis
    by (intro exI [of _ "(response_to request)\<lparr>dns_queries := dns_queries (response_to request) @ dns_queries request,
        dns_answers := dns_answers (response_to request) @ as, dns_response_code := rc\<rparr>"] conjI)
      (simp_all add: handle_dns_query_def assms(2) response_to_def Message_new_def)
qed

end

text \<open>
  C24. A decoded query whose question types are all known is answered, when the database answers, with
  one authoritative response that echoes identifier, opcode, recursion flag and questions. Its
  answers are exactly the stored records of the asked names and types whose text converts to record
  data, each with the asked name and the stored time to live; the code is \<open>NXDomain\<close> exactly when the
  last question has no stored record.
\<close>

theorem dns_response_exact:
  assumes "store T view snapshot healthy" and "healthy s"
    and "Message_from_vec L req = Ok request"
    and "\<forall>q \<in> set (dns_queries request). RecordType_from_hickory (query_type q) \<noteq> None"
  shows "\<exists>r. handle_dns_query T L peer req s =
      (case Message_to_vec L r of Err e \<Rightarrow> (Some (Err e), s)
       | Ok res \<Rightarrow> (case send_to L res peer s of (x, s1) \<Rightarrow> (Some x, s1))) \<and>
    dns_id r = dns_id request \<and> dns_message_type r = Response \<and> dns_op_code r = dns_op_code request \<and>
    dns_authoritative r \<and> dns_recursion_desired r = dns_recursion_desired request \<and>
    dns_queries r = dns_queries request \<and>
    set (dns_answers r) = (\<Union>q \<in> set (dns_queries request). zone_answers L (view s) q) \<and>
    (dns_queries request \<noteq> [] \<longrightarrow>
      (dns_response_code r = NXDomain \<longleftrightarrow> zone_rows L (view s) (last (dns_queries request)) = {}))"
  using assms by (rule store.handle_dns_query_exact)

text \<open>A wire format that carries the message as it is, for names that are plain text.\<close>

definition example_dns_request :: "string dns_message" where
  "example_dns_request = Message_new\<lparr>dns_id := 77, dns_recursion_desired := True,
     dns_queries := [\<lparr>query_name = ''x.org.'', query_type = H_A\<rparr>]\<rparr>"

definition plain_hickory :: "(string, mem) hickory" where
  "plain_hickory = \<lparr>Message_from_vec = (\<lambda>_. Ok example_dns_request), Message_to_vec = (\<lambda>_. Ok []),
     Name_to_string = (\<lambda>n. n), Name_from_str = Ok, send_to = (\<lambda>_ _ s. (Ok (), s))\<rparr>"

definition zone_state :: mem where
  "zone_state = mem_empty\<lparr>m_records := [
     \<lparr>record_domain_id = ''x.org'', record_type = RT_A, record_value = ''10.0.0.1'', record_ttl = 300,
      record_id = 1, record_created_at = 0, record_updated_at = 0\<rparr>]\<rparr>"

lemma zone_state_up [simp]: "mem_up zone_state"
  by (simp add: zone_state_def mem_empty_def mem_tables.defs no_rows_def)

theorem dns_response_exact_witness:
  "\<exists>r :: string dns_message. dns_id r = 77 \<and> dns_response_code r \<noteq> NXDomain \<and>
    set (dns_answers r) = zone_answers plain_hickory (mem_view zone_state)
      \<lparr>query_name = ''x.org.'', query_type = H_A\<rparr>"
proof -
  let ?q = "\<lparr>query_name = ''x.org.'', query_type = H_A\<rparr>"
  have q: "Message_from_vec plain_hickory [] = Ok example_dns_request" "dns_queries example_dns_request = [?q]"
    "dns_id example_dns_request = 77"
    by (simp_all add: plain_hickory_def example_dns_request_def)
  have "clean_name plain_hickory ''x.org.'' = ''x.org''" by code_simp
  then have "zone_rows plain_hickory (mem_view zone_state) ?q \<noteq> {}"
    by (auto simp: zone_rows_def zone_state_def ran_def intro!: exI [of _ 1])
  with dns_response_exact [OF mem.store_axioms zone_state_up q(1)] q(2,3) show ?thesis by auto
qed



end
