(* ===== verification/Zm_Email.thy ===== *)
theory Zm_Email
  imports Zm_Outbound "HOL-Library.Sublist"
begin

text \<open>
  Inbound mail (\<^verbatim>\<open>src/email.rs\<close>): the handler of one SMTP session, which accepts the recipients
  that are provisioned mailboxes, stores each message once with one link per recipient, and queues a
  forward for every mailbox that has one registered; and the TLS settings of the two listeners. The
  SMTP server itself (\<open>smtpd\<close>) is third-party code that calls the handler: a session is a sequence
  of such calls, between which the rest of the program may change the database.
\<close>

section \<open>The handler\<close>

datatype SmtpError = Abort

datatype Response = Response_Default

record ZonedMailHandler =
  recipients :: "string list"

definition new_handler :: ZonedMailHandler where
  "new_handler = \<lparr>recipients = []\<rparr>"

fun address_to_string :: "ParsedAddress \<Rightarrow> string" where
  "address_to_string (List l) = unwrap_or [] (Option.bind (first_of l) pa_address)"
| "address_to_string (Group gs) =
     unwrap_or [] (find_map (\<lambda>g. Option.bind (first_of (pg_addresses g)) pa_address) gs)"

fun address_list_to_strings :: "ParsedAddress \<Rightarrow> string list" where
  "address_list_to_strings (List l) = List.map_filter pa_address l"
| "address_list_to_strings (Group gs) = List.map_filter pa_address (concat (map pg_addresses gs))"

definition clean_email :: "string \<Rightarrow> string" where
  "clean_email to =
     to_lowercase (trim_matches (\<lambda>c. c = CHR ''<'' \<or> c = CHR ''>'' \<or> c = CHR '' '') to)"

definition handle_rcpt ::
  "('s, 'z) toasty_scheme \<Rightarrow> string \<Rightarrow> ZonedMailHandler \<Rightarrow> 's \<Rightarrow>
   (Response, SmtpError) result \<times> ZonedMailHandler" where
  "handle_rcpt T to h s =
     (if is_ok (Mailbox_get_by_id T (clean_email to) s)
      then (Ok Response_Default, h\<lparr>recipients := recipients h @ [clean_email to]\<rparr>)
      else (Err Abort, h))"

text \<open>The columns of a received message: the \<open>From:\<close> header stands in for the envelope sender.\<close>

definition email_fields :: "parsed_mail option \<Rightarrow> bytes \<Rightarrow> message_fields" where
  "email_fields parsed data =
     (let from_address = map_option address_to_string (Option.bind parsed pm_from)
      in \<lparr>message_mail_from = unwrap_or [] from_address,
          message_raw = data,
          message_subject = Option.bind parsed pm_subject,
          message_id_header = Option.bind parsed pm_message_id,
          message_content_type = Option.bind parsed pm_content_type,
          message_from_address = from_address,
          message_to = (case Option.bind parsed pm_to of None \<Rightarrow> []
                        | Some a \<Rightarrow> address_list_to_strings a),
          message_cc = (case Option.bind parsed pm_cc of None \<Rightarrow> []
                        | Some a \<Rightarrow> address_list_to_strings a),
          message_bcc = (case Option.bind parsed pm_bcc of None \<Rightarrow> []
                         | Some a \<Rightarrow> address_list_to_strings a)\<rparr>)"

text \<open>A usable \<open>Message-ID\<close>: present and not blank, with the white space around it removed.\<close>

definition dedup_key :: "parsed_mail option \<Rightarrow> string option" where
  "dedup_key parsed =
     (case map_option trim (Option.bind parsed pm_message_id) of
        None \<Rightarrow> None
      | Some m \<Rightarrow> if m = [] then None else Some m)"

definition existing_message ::
  "('s, 'z) toasty_scheme \<Rightarrow> string option \<Rightarrow> 's \<Rightarrow> row_id option" where
  "existing_message T key s =
     (case key of
        None \<Rightarrow> None
      | Some k \<Rightarrow>
          (case Message_first_by_header T k s of
             Ok (Some existing) \<Rightarrow> Some (message_id existing)
           | Ok None \<Rightarrow> None
           | Err e \<Rightarrow> None))"

fun store_links ::
  "('s, 'z) toasty_scheme \<Rightarrow> row_id \<Rightarrow> string list \<Rightarrow> 's \<Rightarrow> (unit, SmtpError) result \<times> 's" where
  "store_links T mid [] s = (Ok (), s)"
| "store_links T mid (r # rs) s =
     (case Inbound_create T \<lparr>inbound_message_id = mid, inbound_rcpt_to = r\<rparr> s of
        (Err e, s1) \<Rightarrow> (Err Abort, s1)
      | (Ok _, s1) \<Rightarrow> store_links T mid rs s1)"

fun forward_all :: "('s, 'z) toasty_scheme \<Rightarrow> row_id \<Rightarrow> string list \<Rightarrow> 's \<Rightarrow> 's" where
  "forward_all T mid [] s = s"
| "forward_all T mid (r # rs) s =
     (case Mailbox_get_by_id T r s of
        Err e \<Rightarrow> forward_all T mid rs s
      | Ok mailbox \<Rightarrow>
          (case mailbox_forward_to mailbox of
             None \<Rightarrow> forward_all T mid rs s
           | Some forward_to \<Rightarrow>
               (case enqueue_forward T mid r forward_to s of
                  (Err e, s1) \<Rightarrow> forward_all T mid rs s1
                | (Ok _, s1) \<Rightarrow> forward_all T mid rs s1)))"

definition stored_message ::
  "('s, 'z) toasty_scheme \<Rightarrow> parsed_mail option \<Rightarrow> bytes \<Rightarrow> 's \<Rightarrow>
   (row_id, SmtpError) result \<times> 's" where
  "stored_message T parsed data s =
     (case existing_message T (dedup_key parsed) s of
        Some mid \<Rightarrow> (Ok mid, s)
      | None \<Rightarrow>
          (case Message_create T (email_fields parsed data) s of
             (Err e, s1) \<Rightarrow> (Err Abort, s1)
           | (Ok created, s1) \<Rightarrow> (Ok (message_id created), s1)))"

text \<open>The recipients a message is filed under: those accepted, or a placeholder.\<close>

definition filed_under :: "ZonedMailHandler \<Rightarrow> string list" where
  "filed_under h = (if recipients h = [] then [''unknown''] else recipients h)"

definition handle_email ::
  "('s, 'z) world_scheme \<Rightarrow> bytes \<Rightarrow> ZonedMailHandler \<Rightarrow> 's \<Rightarrow>
   (Response, SmtpError) result \<times> ZonedMailHandler \<times> 's" where
  "handle_email W data h s =
     (let rcpts = filed_under h;
          h' = h\<lparr>recipients := []\<rparr>
      in case stored_message W (parse_mail W data) data s of
           (Err e, s1) \<Rightarrow> (Err e, h', s1)
         | (Ok mid, s1) \<Rightarrow>
             (case store_links W mid rcpts s1 of
                (Err e, s2) \<Rightarrow> (Err e, h', s2)
              | (Ok _, s2) \<Rightarrow> (Ok Response_Default, h', forward_all W mid rcpts s2)))"

section \<open>A session\<close>

text \<open>
  What a session goes through: recipients offered, messages received, and anything the rest of the
  program does to the database meanwhile, as long as it deletes no mailbox.
\<close>

inductive smtp_session ::
  "('s, 'z) world_scheme \<Rightarrow> ('s \<Rightarrow> tables) \<Rightarrow> ZonedMailHandler \<times> 's \<Rightarrow> ZonedMailHandler \<times> 's \<Rightarrow> bool"
  for W view c where
  start: "smtp_session W view c c"
| rcpt: "smtp_session W view c (h, s) \<Longrightarrow> handle_rcpt W to h s = (x, h') \<Longrightarrow>
    smtp_session W view c (h', s)"
| email: "smtp_session W view c (h, s) \<Longrightarrow> handle_email W data h s = (y, h', s') \<Longrightarrow>
    smtp_session W view c (h', s')"
| other: "smtp_session W view c (h, s) \<Longrightarrow>
    dom (t_mailboxes (view s)) \<subseteq> dom (t_mailboxes (view s')) \<Longrightarrow> smtp_session W view c (h, s')"

section \<open>Listeners\<close>

text \<open>The settings the sources give the server; its other settings keep the library's defaults.\<close>

datatype 'id TlsMode = Tls_Disabled | Tls_Explicit 'id | Tls_Mandatory 'id | Tls_Implicit 'id

record 'id SmtpConfig =
  smtp_bind_addr :: string
  smtp_require_auth :: bool
  smtp_tls_mode :: "'id TlsMode"

definition build_starttls_mode :: "StartTlsMode \<Rightarrow> 'id option \<Rightarrow> 'id TlsMode" where
  "build_starttls_mode mode ident =
     (case mode of
        Tls_None \<Rightarrow> Tls_Disabled
      | Tls_Optional \<Rightarrow> (case ident of Some i \<Rightarrow> Tls_Explicit i | None \<Rightarrow> Tls_Disabled)
      | Tls_Required \<Rightarrow> (case ident of Some i \<Rightarrow> Tls_Mandatory i | None \<Rightarrow> Tls_Disabled))"

definition build_smtp_config :: "SocketAddr \<Rightarrow> SmtpTlsConfig \<Rightarrow> 'id option \<Rightarrow> 'id SmtpConfig" where
  "build_smtp_config bind_addr tls ident =
     \<lparr>smtp_bind_addr = SocketAddr_to_string bind_addr, smtp_require_auth = False,
      smtp_tls_mode = build_starttls_mode (starttls_mode tls) ident\<rparr>"

definition build_smtps_config :: "SocketAddr \<Rightarrow> 'id option \<Rightarrow> 'id SmtpConfig option" where
  "build_smtps_config bind_addr ident =
     map_option (\<lambda>i. \<lparr>smtp_bind_addr = SocketAddr_to_string bind_addr, smtp_require_auth = False,
       smtp_tls_mode = Tls_Implicit i\<rparr>) ident"

text \<open>The settings \<open>run_mail_server\<close> hands to the server.\<close>

definition run_mail_server :: "SocketAddr \<Rightarrow> 'id TlsMode \<Rightarrow> 'id SmtpConfig" where
  "run_mail_server bind_addr mode =
     \<lparr>smtp_bind_addr = SocketAddr_to_string bind_addr, smtp_require_auth = False,
      smtp_tls_mode = mode\<rparr>"

section \<open>Recipients and forwards\<close>

text \<open>The columns a stored message is linked by, and the jobs its forwards are queued as.\<close>

definition link_rows :: "row_id \<Rightarrow> string list \<Rightarrow> inbound_fields list" where
  "link_rows mid rs = map (\<lambda>r. \<lparr>inbound_message_id = mid, inbound_rcpt_to = r\<rparr>) rs"

definition forward_jobs :: "tables \<Rightarrow> row_id \<Rightarrow> string list \<Rightarrow> outbound_fields list" where
  "forward_jobs t mid rs =
     List.map_filter (\<lambda>r. Option.bind (t_mailboxes t r)
       (\<lambda>m. map_option (\<lambda>f. queued_job mid f r) (mailbox_forward_to m))) rs"

text \<open>
  The message a mail is filed under: the stored one with the same usable \<open>Message-ID\<close> when there is
  one, and else a new one with the given columns.
\<close>

definition message_filed ::
  "tables \<Rightarrow> string option \<Rightarrow> message_fields \<Rightarrow> row_id \<Rightarrow> (row_id \<rightharpoonup> Message) \<Rightarrow> bool" where
  "message_filed t key f mid msgs \<longleftrightarrow>
     (if \<exists>m \<in> ran (t_messages t). key \<noteq> None \<and> message_id_header m = key
      then msgs = t_messages t \<and> (\<exists>m. t_messages t mid = Some m \<and> message_id_header m = key)
      else \<exists>m. message_id m = mid \<and> t_messages t mid = None \<and> message_fields.truncate m = f \<and>
             msgs = (t_messages t)(mid \<mapsto> m))"

lemma message_filed_header:
  assumes "message_filed t key f mid msgs"
  shows "\<exists>m \<in> ran msgs. message_id_header m = key \<or> message_id_header m = message_id_header f"
proof (cases "\<exists>m \<in> ran (t_messages t). key \<noteq> None \<and> message_id_header m = key")
  case True
  with assms show ?thesis by (auto simp: message_filed_def)
next
  case False
  with assms obtain m where m: "message_fields.truncate m = f" "msgs = (t_messages t)(mid \<mapsto> m)"
    unfolding message_filed_def by auto
  have "message_id_header m = message_id_header (message_fields.truncate m)"
    by (simp add: message_fields.defs)
  with m show ?thesis by (auto simp: ran_def)
qed

lemma forward_jobs_Nil [simp]: "forward_jobs t mid [] = []"
  by (simp add: forward_jobs_def)

lemma forward_jobs_Cons:
  "forward_jobs t mid (r # rs) =
     (case Option.bind (t_mailboxes t r) mailbox_forward_to of
        None \<Rightarrow> forward_jobs t mid rs
      | Some f \<Rightarrow> queued_job mid f r # forward_jobs t mid rs)"
  by (auto simp: forward_jobs_def map_filter_def split: option.splits bind_splits)

lemma forward_jobs_cong:
  "t_mailboxes t = t_mailboxes u \<Longrightarrow> forward_jobs t = forward_jobs u"
  by (simp add: forward_jobs_def fun_eq_iff)

lemma forward_jobs_mem:
  "q \<in> set (forward_jobs t mid rs) \<Longrightarrow>
   \<exists>r m f. r \<in> set rs \<and> t_mailboxes t r = Some m \<and> mailbox_forward_to m = Some f \<and>
     q = queued_job mid f r"
  by (induction rs) (auto simp: forward_jobs_Cons bind_eq_Some_conv split: option.splits)

abbreviation links_added :: "(row_id \<rightharpoonup> Inbound) \<Rightarrow> inbound_fields list \<Rightarrow> (row_id \<rightharpoonup> Inbound) \<Rightarrow> bool"
  where "links_added \<equiv> rows_added inbound_id inbound_fields.truncate"

abbreviation jobs_added :: "(row_id \<rightharpoonup> Outbound) \<Rightarrow> outbound_fields list \<Rightarrow> (row_id \<rightharpoonup> Outbound) \<Rightarrow> bool"
  where "jobs_added \<equiv> rows_added outbound_id outbound_fields.truncate"

lemma link_rows_rcpt:
  assumes "inbound_fields.truncate l \<in> set (link_rows mid rs)"
  shows "inbound_rcpt_to l \<in> set rs"
proof -
  have "inbound_rcpt_to l = inbound_rcpt_to (inbound_fields.truncate l)" by (simp add: inbound_fields.defs)
  with assms show ?thesis by (auto simp: link_rows_def)
qed

lemma queued_job_columns:
  assumes "outbound_fields.truncate j = queued_job mid f r"
  shows "outbound_message_id j = mid" "outbound_rcpt_to j = f" "outbound_sender_id j = r"
    "outbound_status j = Queued" "outbound_attempts j = 0" "outbound_next_attempt_at j = None"
  using assms by (simp_all add: outbound_fields.defs queued_job_def)

lemma forward_job_columns:
  assumes "outbound_fields.truncate j \<in> set (forward_jobs t mid rs)"
  shows "\<exists>m. t_mailboxes t (outbound_sender_id j) = Some m \<and>
    mailbox_forward_to m = Some (outbound_rcpt_to j) \<and> outbound_status j = Queued"
proof -
  from forward_jobs_mem [OF assms] obtain r m f where "t_mailboxes t r = Some m"
    "mailbox_forward_to m = Some f" and q: "outbound_fields.truncate j = queued_job mid f r" by blast
  then show ?thesis by (intro exI [of _ m]) (simp add: queued_job_columns [OF q])
qed

lemma subseq_set: "subseq xs ys \<Longrightarrow> set xs \<subseteq> set ys"
  by (auto dest: list_emb_set)

text \<open>
  What forwarding to some recipients leaves: jobs for those that forward, in order, all of them when
  the database answers, and nothing else.
\<close>

definition forwarded :: "bool \<Rightarrow> row_id \<Rightarrow> string list \<Rightarrow> tables \<Rightarrow> tables \<Rightarrow> bool" where
  "forwarded up mid rs t t' \<longleftrightarrow>
     (\<exists>qs u. subseq qs (forward_jobs t mid rs) \<and> (up \<longrightarrow> qs = forward_jobs t mid rs) \<and>
        jobs_added (t_outbound t) qs u \<and> t' = t\<lparr>t_outbound := u\<rparr>)"

lemma forwarded_skip:
  assumes "forwarded up1 mid rs t t'" and "up \<Longrightarrow> up1" and "up \<Longrightarrow> Option.bind (t_mailboxes t r) mailbox_forward_to = None"
  shows "forwarded up mid (r # rs) t t'"
proof -
  from assms(1) obtain qs u where "subseq qs (forward_jobs t mid rs)" "up1 \<longrightarrow> qs = forward_jobs t mid rs"
    "jobs_added (t_outbound t) qs u" "t' = t\<lparr>t_outbound := u\<rparr>" unfolding forwarded_def by blast
  with assms(2,3) show ?thesis unfolding forwarded_def
    by (intro exI [of _ qs] exI [of _ u]) (auto simp: forward_jobs_Cons split: option.splits)
qed

lemma forwarded_job:
  assumes "forwarded up1 mid rs t1 t'" and "up \<Longrightarrow> up1"
    and "t_mailboxes t r = Some m" and "mailbox_forward_to m = Some f"
    and "outbound_fields.truncate j = queued_job mid f r" and "t_outbound t (outbound_id j) = None"
    and "t1 = t\<lparr>t_outbound := (t_outbound t)(outbound_id j \<mapsto> j)\<rparr>"
  shows "forwarded up mid (r # rs) t t'"
proof -
  have same: "forward_jobs t1 mid rs = forward_jobs t mid rs" unfolding assms(7) by (subst forward_jobs_cong [of _ t]) simp_all
  from assms(1) obtain qs u where "subseq qs (forward_jobs t mid rs)" "up1 \<longrightarrow> qs = forward_jobs t mid rs"
    "jobs_added (t_outbound t1) qs u" "t' = t1\<lparr>t_outbound := u\<rparr>" unfolding forwarded_def same by blast
  with assms(2-7) show ?thesis unfolding forwarded_def
    by (intro exI [of _ "queued_job mid f r # qs"] exI [of _ u]) (auto simp: forward_jobs_Cons)
qed

context mta
begin

lemma rcpt_recipients:
  assumes "handle_rcpt W to h s = (x, h')"
  shows "(is_ok x \<longrightarrow> clean_email to \<in> dom (t_mailboxes (view s))) \<and>
    (healthy s \<longrightarrow> (is_ok x \<longleftrightarrow> clean_email to \<in> dom (t_mailboxes (view s)))) \<and>
    recipients h' = recipients h @ (if is_ok x then [clean_email to] else [])"
  using assms mailbox.is_ok_getD [of "clean_email to" s] mailbox.is_ok_get [of s "clean_email to"]
  by (auto simp: handle_rcpt_def dom_def split: if_splits)

lemma store_links_view:
  assumes "store_links W mid rs s = (x, s')"
  shows "\<exists>k u. links_added (t_inbound (view s)) (link_rows mid (take k rs)) u \<and>
    view s' = (view s)\<lparr>t_inbound := u\<rparr> \<and> (is_ok x \<longrightarrow> length rs \<le> k)"
  using assms
proof (induction rs arbitrary: s)
  case Nil
  then show ?case by (intro exI [of _ 0] exI [of _ "t_inbound (view s)"]) (simp add: link_rows_def)
next
  case (Cons r rs)
  let ?f = "\<lparr>inbound_message_id = mid, inbound_rcpt_to = r\<rparr>"
  obtain z s1 where c: "Inbound_create W ?f s = (z, s1)" by (cases "Inbound_create W ?f s")
  show ?case
  proof (cases z)
    case (Inl e)
    with c Cons.prems inbound.create_Err [of ?f s e s1] show ?thesis
      by (intro exI [of _ 0] exI [of _ "t_inbound (view s)"]) (auto simp: link_rows_def)
  next
    case (Inr l)
    from inbound.create_Ok [OF c [unfolded Inr]]
    have l: "inbound_fields.truncate l = ?f" "t_inbound (view s) (inbound_id l) = None"
      "view s1 = (view s)\<lparr>t_inbound := (t_inbound (view s))(inbound_id l \<mapsto> l)\<rparr>"
      by (cases "view s"; simp)+
    from Cons.prems c Inr have "store_links W mid rs s1 = (x, s')" by simp
    from Cons.IH [OF this] obtain k u where
      "links_added (t_inbound (view s1)) (link_rows mid (take k rs)) u"
      "view s' = (view s1)\<lparr>t_inbound := u\<rparr>" "is_ok x \<longrightarrow> length rs \<le> k" by blast
    with l show ?thesis
      by (intro exI [of _ "Suc k"] exI [of _ u]) (auto simp: link_rows_def)
  qed
qed

lemma store_links_healthy:
  assumes "healthy s"
  obtains s' where "store_links W mid rs s = (Ok (), s')" "healthy s'"
proof -
  have "\<exists>s'. store_links W mid rs s = (Ok (), s') \<and> healthy s'" using assms
  proof (induction rs arbitrary: s)
    case (Cons r rs)
    let ?f = "\<lparr>inbound_message_id = mid, inbound_rcpt_to = r\<rparr>"
    from inbound.create_success [OF Cons.prems, of ?f] obtain l s1
      where "Inbound_create W ?f s = (Ok l, s1)" "healthy s1" by blast
    with Cons.IH [of s1] show ?case by simp
  qed simp
  then show thesis using that by blast
qed

lemma enqueue_forward_view:
  assumes "enqueue_forward W mid r f s = (x, s')"
  shows "view s' = view s \<and> \<not> is_ok x \<or>
    (\<exists>j. outbound_fields.truncate j = queued_job mid f r \<and> t_outbound (view s) (outbound_id j) = None \<and>
      view s' = (view s)\<lparr>t_outbound := (t_outbound (view s))(outbound_id j \<mapsto> j)\<rparr>)"
proof -
  obtain z s1 where c: "Outbound_create W (queued_job mid f r) s = (z, s1)"
    by (cases "Outbound_create W (queued_job mid f r) s")
  show ?thesis
  proof (cases z)
    case (Inl e)
    with assms c outbound.create_Err [of "queued_job mid f r" s e s1] show ?thesis
      by (auto simp: enqueue_forward_def)
  next
    case (Inr j)
    have "s' = s1" using assms c Inr by (simp add: enqueue_forward_def)
    with outbound.create_Ok [OF c [unfolded Inr]] show ?thesis
      by (intro disjI2 exI [of _ j]) (cases "view s"; simp)
  qed
qed

lemma enqueue_forward_healthy:
  assumes "healthy s"
  obtains i s' where "enqueue_forward W mid r f s = (Ok i, s')" "healthy s'"
proof -
  obtain j s' where "Outbound_create W (queued_job mid f r) s = (Ok j, s')" "healthy s'"
    using outbound.create_success [OF assms, of "queued_job mid f r"] by blast
  then show thesis by (intro that [of "outbound_id j" s']) (simp_all add: enqueue_forward_def)
qed

lemma forward_all_rows:
  assumes "forward_all W mid rs s = s'"
  shows "forwarded (healthy s) mid rs (view s) (view s') \<and> (healthy s \<longrightarrow> healthy s')"
  using assms
proof (induction rs arbitrary: s)
  case Nil
  then show ?case unfolding forwarded_def
    by (intro conjI exI [of _ "[]"] exI [of _ "t_outbound (view s)"]) simp_all
next
  case (Cons r rs)
  have skip: ?case if "forward_all W mid rs s = s'"
    and "healthy s \<Longrightarrow> Option.bind (t_mailboxes (view s) r) mailbox_forward_to = None"
    using Cons.IH [OF that(1)] that(2) by (auto intro: forwarded_skip)
  show ?case
  proof (cases "Mailbox_get_by_id W r s")
    case (Inl e)
    moreover have "t_mailboxes (view s) r = None" if "healthy s"
      using mailbox.is_ok_get [OF that, of r] Inl by simp
    ultimately show ?thesis using Cons.prems by (intro skip) auto
  next
    case (Inr m)
    have m: "t_mailboxes (view s) r = Some m" by (rule mailbox.get_sound [OF Inr])
    show ?thesis
    proof (cases "mailbox_forward_to m")
      case None
      with Inr m Cons.prems show ?thesis by (intro skip) auto
    next
      case (Some f)
      obtain x s1 where e: "enqueue_forward W mid r f s = (x, s1)"
        by (cases "enqueue_forward W mid r f s")
      have rest: "forward_all W mid rs s1 = s'"
        using Cons.prems Inr Some e by (simp split: sum.splits)
      have up: "healthy s1 \<and> is_ok x" if "healthy s"
        using e by (rule_tac enqueue_forward_healthy [OF that, of mid r f]) auto
      have "forwarded (healthy s) mid (r # rs) (view s) (view s')"
        using enqueue_forward_view [OF e] Cons.IH [OF rest] up m Some
        by (auto intro: forwarded_skip forwarded_job)
      with Cons.IH [OF rest] up show ?thesis by blast
    qed
  qed
qed

lemma forward_all_view:
  assumes "forward_all W mid rs s = s'"
  shows "\<exists>qs u. subseq qs (forward_jobs (view s) mid rs) \<and> (healthy s \<longrightarrow> qs = forward_jobs (view s) mid rs)
    \<and> jobs_added (t_outbound (view s)) qs u \<and> view s' = (view s)\<lparr>t_outbound := u\<rparr>
    \<and> (healthy s \<longrightarrow> healthy s')"
  using forward_all_rows [OF assms] unfolding forwarded_def by blast

text \<open>The message a mail is filed under: found by its \<open>Message-ID\<close>, or stored.\<close>

lemma existing_message_Some:
  assumes "existing_message W key s = Some mid"
  obtains m where "t_messages (view s) mid = Some m" "message_id_header m = key" "key \<noteq> None"
proof -
  from assms obtain k m where k: "key = Some k" and m: "Message_first_by_header W k s = Ok (Some m)"
    "mid = message_id m"
    by (auto simp: existing_message_def split: option.splits sum.splits)
  from header_sound [OF m(1)] obtain i where "t_messages (view s) i = Some m"
    and h: "message_id_header m = Some k" by (auto simp: ran_def)
  with message_keyed have "t_messages (view s) mid = Some m" using m(2) by metis
  with h k show thesis by (intro that) auto
qed

lemma existing_message_None:
  assumes "existing_message W key s = None" and "healthy s" and "key \<noteq> None"
    and "m \<in> ran (t_messages (view s))"
  shows "message_id_header m \<noteq> key"
proof -
  obtain k where k: "key = Some k" using assms(3) by blast
  obtain mo where mo: "Message_first_by_header W k s = Ok mo"
    using header_healthy [OF assms(2), of k] by (auto simp: is_ok_iff)
  with assms(1) k have "Message_first_by_header W k s = Ok None"
    by (cases mo) (auto simp: existing_message_def)
  from header_complete [OF this assms(4)] k show ?thesis by simp
qed

lemma file_mail_view:
  assumes "store_links W mid rs s1 = (x, s2)" and "view s1 = (view s)\<lparr>t_messages := msgs\<rparr>"
    and "s' = (if is_ok x then forward_all W mid rs s2 else s2)"
  shows "\<exists>ls qs links jobs. set ls \<subseteq> set (link_rows mid rs) \<and>
    links_added (t_inbound (view s)) ls links \<and>
    subseq qs (forward_jobs (view s) mid rs) \<and> jobs_added (t_outbound (view s)) qs jobs \<and>
    view s' = (view s)\<lparr>t_messages := msgs, t_inbound := links, t_outbound := jobs\<rparr> \<and>
    (is_ok x \<longrightarrow> ls = link_rows mid rs) \<and>
    (is_ok x \<and> healthy s2 \<longrightarrow> qs = forward_jobs (view s) mid rs \<and> healthy s')"
proof -
  from store_links_view [OF assms(1)] obtain k links where
    l: "links_added (t_inbound (view s1)) (link_rows mid (take k rs)) links"
      "view s2 = (view s1)\<lparr>t_inbound := links\<rparr>" "is_ok x \<longrightarrow> length rs \<le> k" by blast
  have sub: "set (link_rows mid (take k rs)) \<subseteq> set (link_rows mid rs)"
    by (auto simp: link_rows_def dest: in_set_takeD)
  show ?thesis
  proof (cases "is_ok x")
    case False
    with l assms(2,3) sub show ?thesis
      by (intro exI [of _ "link_rows mid (take k rs)"] exI [of _ "[]"] exI [of _ links]
          exI [of _ "t_outbound (view s)"]) simp
  next
    case True
    have mb: "forward_jobs (view s2) = forward_jobs (view s)"
      by (rule forward_jobs_cong) (simp add: l(2) assms(2))
    from True assms(3) have "forward_all W mid rs s2 = s'" by simp
    from forward_all_view [OF this] obtain qs jobs where
      "subseq qs (forward_jobs (view s) mid rs)" "healthy s2 \<longrightarrow> qs = forward_jobs (view s) mid rs"
      "jobs_added (t_outbound (view s2)) qs jobs" "view s' = (view s2)\<lparr>t_outbound := jobs\<rparr>"
      "healthy s2 \<longrightarrow> healthy s'" unfolding mb by blast
    with l assms(2) True sub show ?thesis
      by (intro exI [of _ "link_rows mid rs"] exI [of _ qs] exI [of _ links] exI [of _ jobs]) simp
  qed
qed

lemma stored_message_view:
  assumes "stored_message W parsed data s = (x, s1)"
  shows "\<exists>msgs. t_messages (view s) \<subseteq>\<^sub>m msgs \<and> (\<forall>mid. x = Ok mid \<longrightarrow> mid \<in> dom msgs) \<and>
    view s1 = (view s)\<lparr>t_messages := msgs\<rparr>"
proof (cases "existing_message W (dedup_key parsed) s")
  case (Some mid)
  from existing_message_Some [OF this] have "mid \<in> dom (t_messages (view s))" by blast
  with Some assms show ?thesis
    by (intro exI [of _ "t_messages (view s)"]) (auto simp: stored_message_def)
next
  case None
  let ?f = "email_fields parsed data"
  obtain z s2 where c: "Message_create W ?f s = (z, s2)" by (cases "Message_create W ?f s")
  with assms None have s1: "s1 = s2" by (cases z) (simp_all add: stored_message_def)
  show ?thesis
  proof (cases z)
    case (Inl e)
    from message.create_Err [OF c [unfolded Inl]] s1 assms None c Inl show ?thesis
      by (intro exI [of _ "t_messages (view s)"]) (auto simp: stored_message_def)
  next
    case (Inr m)
    have "x = Ok (message_id m)" using assms None c Inr by (simp add: stored_message_def)
    with message.create_Ok [OF c [unfolded Inr]] s1 show ?thesis
      by (intro exI [of _ "(t_messages (view s))(message_id m \<mapsto> m)"])
        (cases "view s"; auto simp: map_le_def)
  qed
qed

lemma stored_message_healthy:
  assumes "healthy s"
  obtains mid msgs s1 where "stored_message W parsed data s = (Ok mid, s1)" "healthy s1"
    "message_filed (view s) (dedup_key parsed) (email_fields parsed data) mid msgs"
    "view s1 = (view s)\<lparr>t_messages := msgs\<rparr>"
proof (cases "existing_message W (dedup_key parsed) s")
  case (Some mid)
  from existing_message_Some [OF this] obtain m where "t_messages (view s) mid = Some m"
    "message_id_header m = dedup_key parsed" "dedup_key parsed \<noteq> None" .
  then have "message_filed (view s) (dedup_key parsed) (email_fields parsed data) mid
      (t_messages (view s))" by (auto simp: message_filed_def intro: ranI)
  with Some assms show thesis
    by (intro that [of mid s "t_messages (view s)"]) (simp_all add: stored_message_def)
next
  case None
  let ?f = "email_fields parsed data"
  from message.create_success [OF assms, of ?f] obtain m s1 where
    c: "Message_create W ?f s = (Ok m, s1)" "message_fields.truncate m = ?f"
      "t_messages (view s) (message_id m) = None"
      "view s1 = t_messages_update (\<lambda>t. t(message_id m \<mapsto> m)) (view s)" "healthy s1" by blast
  let ?msgs = "(t_messages (view s))(message_id m \<mapsto> m)"
  have "\<not> (\<exists>m \<in> ran (t_messages (view s)). dedup_key parsed \<noteq> None \<and> message_id_header m = dedup_key parsed)"
    using existing_message_None [OF None assms] by blast
  with c(2,3) have "message_filed (view s) (dedup_key parsed) ?f (message_id m) ?msgs"
    unfolding message_filed_def by (simp only: if_False) blast
  with c None show thesis
    by (intro that [of "message_id m" s1 ?msgs]) (cases "view s"; simp add: stored_message_def)+
qed

text \<open>Whatever happens, the handler only adds rows, and only these.\<close>

lemma handle_email_view:
  assumes "handle_email W data h s = (x, h', s')"
  shows "h' = h\<lparr>recipients := []\<rparr> \<and>
    (\<exists>mid msgs ls qs links jobs. t_messages (view s) \<subseteq>\<^sub>m msgs \<and> (ls = [] \<and> qs = [] \<or> mid \<in> dom msgs) \<and>
      set ls \<subseteq> set (link_rows mid (filed_under h)) \<and>
      links_added (t_inbound (view s)) ls links \<and>
      subseq qs (forward_jobs (view s) mid (filed_under h)) \<and> jobs_added (t_outbound (view s)) qs jobs \<and>
      view s' = (view s)\<lparr>t_messages := msgs, t_inbound := links, t_outbound := jobs\<rparr>)"
proof -
  obtain z s1 where sm: "stored_message W (parse_mail W data) data s = (z, s1)"
    by (cases "stored_message W (parse_mail W data) data s")
  from stored_message_view [OF sm] obtain msgs where
    m: "t_messages (view s) \<subseteq>\<^sub>m msgs" "view s1 = (view s)\<lparr>t_messages := msgs\<rparr>"
      "\<forall>mid. z = Ok mid \<longrightarrow> mid \<in> dom msgs" by blast
  show ?thesis
  proof (cases z)
    case (Inl e)
    with assms sm m show ?thesis
      by (intro conjI exI [of _ 0] exI [of _ msgs] exI [of _ "[]"]
          exI [of _ "t_inbound (view s)"] exI [of _ "t_outbound (view s)"])
        (simp_all add: handle_email_def)
  next
    case (Inr mid)
    obtain y s2 where sl: "store_links W mid (filed_under h) s1 = (y, s2)"
      by (cases "store_links W mid (filed_under h) s1")
    with assms sm Inr have "h' = h\<lparr>recipients := []\<rparr>"
      and "s' = (if is_ok y then forward_all W mid (filed_under h) s2 else s2)"
      by (cases y; simp add: handle_email_def Let_def)+
    moreover have "mid \<in> dom msgs" using m(3) Inr by simp
    ultimately show ?thesis using file_mail_view [OF sl m(2), of s'] m(1) by blast
  qed
qed

lemma handle_email_healthy:
  assumes "healthy s"
  shows "\<exists>mid msgs links jobs s'.
    handle_email W data h s = (Ok Response_Default, h\<lparr>recipients := []\<rparr>, s') \<and>
    message_filed (view s) (dedup_key (parse_mail W data)) (email_fields (parse_mail W data) data) mid msgs \<and>
    links_added (t_inbound (view s)) (link_rows mid (filed_under h)) links \<and>
    jobs_added (t_outbound (view s)) (forward_jobs (view s) mid (filed_under h)) jobs \<and>
    view s' = (view s)\<lparr>t_messages := msgs, t_inbound := links, t_outbound := jobs\<rparr> \<and> healthy s'"
proof -
  obtain mid msgs s1 where m: "stored_message W (parse_mail W data) data s = (Ok mid, s1)" "healthy s1"
    "message_filed (view s) (dedup_key (parse_mail W data)) (email_fields (parse_mail W data) data) mid msgs"
    "view s1 = (view s)\<lparr>t_messages := msgs\<rparr>"
    using stored_message_healthy [OF assms] by blast
  obtain s2 where l: "store_links W mid (filed_under h) s1 = (Ok (), s2)" "healthy s2"
    using store_links_healthy [OF m(2)] by blast
  let ?s = "forward_all W mid (filed_under h) s2"
  from file_mail_view [OF l(1) m(4), of ?s] l(2) obtain links jobs where
    "links_added (t_inbound (view s)) (link_rows mid (filed_under h)) links"
    "jobs_added (t_outbound (view s)) (forward_jobs (view s) mid (filed_under h)) jobs"
    "view ?s = (view s)\<lparr>t_messages := msgs, t_inbound := links, t_outbound := jobs\<rparr>" "healthy ?s"
    by auto
  with m l show ?thesis
    by (intro exI [of _ mid] exI [of _ msgs] exI [of _ links] exI [of _ jobs] exI [of _ ?s])
      (simp add: handle_email_def)
qed

end

section \<open>Properties\<close>

text \<open>
  A recipient is accepted exactly when its address, stripped of angle brackets and blanks and
  lower-cased, is a provisioned mailbox; it is then remembered in that form. A refused recipient leaves
  the session as it was. When the database does not answer nothing is accepted that is not provisioned.
\<close>

theorem rcpt_only_provisioned:
  assumes "mta W view snapshot healthy" and "handle_rcpt W to h s = (x, h')"
  shows "(is_ok x \<longrightarrow> clean_email to \<in> dom (t_mailboxes (view s))) \<and>
    (healthy s \<longrightarrow> (is_ok x \<longleftrightarrow> clean_email to \<in> dom (t_mailboxes (view s)))) \<and>
    recipients h' = recipients h @ (if is_ok x then [clean_email to] else [])"
  using assms by (rule mta.rcpt_recipients)

definition example_mailbox :: "string \<Rightarrow> string option \<Rightarrow> Mailbox" where
  "example_mailbox a fwd =
     \<lparr>mailbox_id = a, mailbox_domain_id = ''x.org'', mailbox_forward_to = fwd,
      mailbox_created_at = 0, mailbox_updated_at = 0\<rparr>"

definition mail_state :: mem where
  "mail_state = mem_empty\<lparr>m_mailboxes :=
     [example_mailbox ''a@x.org'' (Some ''far@y.org''), example_mailbox ''b@x.org'' None]\<rparr>"

definition example_mail :: parsed_mail where
  "example_mail = \<lparr>pm_subject = Some ''Hi'', pm_content_type = None, pm_message_id = Some ''1@z'',
     pm_from = Some (List [\<lparr>pa_address = Some ''z@z.org''\<rparr>]), pm_to = None, pm_cc = None,
     pm_bcc = None\<rparr>"

abbreviation mail_world :: "mem world" where
  "mail_world \<equiv> mem_world example_zone (\<lambda>_. True) (\<lambda>_. Some example_mail)"

lemma mail_state_up [simp]: "mem_up mail_state"
  by (simp add: mail_state_def mem_empty_def mem_tables.defs no_rows_def)

theorem rcpt_only_provisioned_witness:
  "\<exists>h. handle_rcpt mail_world ''<A@X.org>'' new_handler mail_state = (Ok Response_Default, h) \<and>
    ''a@x.org'' \<in> dom (t_mailboxes (mem_view mail_state)) \<and> recipients h = [''a@x.org'']"
proof -
  have c: "clean_email ''<A@X.org>'' = ''a@x.org''" by code_simp
  have "fst (handle_rcpt mail_world ''<A@X.org>'' new_handler mail_state) = Ok Response_Default"
    by code_simp
  then obtain h where h: "handle_rcpt mail_world ''<A@X.org>'' new_handler mail_state
      = (Ok Response_Default, h)" by (cases "handle_rcpt mail_world ''<A@X.org>'' new_handler mail_state") auto
  from rcpt_only_provisioned [OF mw.mta_axioms h] h show ?thesis
    by (intro exI [of _ h]) (simp add: c new_handler_def)
qed







text \<open>
  The plain listener speaks clear text exactly when the policy is \<open>none\<close>, given that the identity
  it is started with is the one the configuration yields; the SMTPS listener exists exactly when there
  is an identity, and never speaks clear text.
\<close>

lemma listener_tls_as_configured:
  assumes "identity fs_read from_pkcs8 c = Ok ident"
  shows "(smtp_tls_mode (build_smtp_config a c ident) = Tls_Disabled \<longleftrightarrow> starttls_mode c = Tls_None) \<and>
    (starttls_mode c = Tls_Required \<longrightarrow>
      (\<exists>i. ident = Some i \<and> smtp_tls_mode (build_smtp_config a c ident) = Tls_Mandatory i)) \<and>
    (smtps_enabled c \<longrightarrow> (\<exists>i cfg. ident = Some i \<and> build_smtps_config a ident = Some cfg \<and>
      smtp_tls_mode cfg = Tls_Implicit i)) \<and>
    run_mail_server a (smtp_tls_mode (build_smtp_config a c ident)) = build_smtp_config a c ident"
proof -
  have "needs_cert c \<Longrightarrow> ident \<noteq> None"
    using assms by (auto simp: identity_def split: option.splits CertSource.splits sum.splits if_splits)
  then show ?thesis
    by (cases "starttls_mode c"; cases ident)
      (auto simp: build_smtp_config_def build_smtps_config_def build_starttls_mode_def
        run_mail_server_def needs_cert_def smtps_enabled_def)
qed

lemma listener_tls_as_configured_witness:
  "smtp_tls_mode (build_smtp_config (SocketAddr (V4 127 0 0 1) 0 25)
     (SmtpTlsConfig_default\<lparr>starttls_mode := Tls_Required, cert_source := Some (Files ''c'' ''k'')\<rparr>)
     (Some (3 :: nat))) = Tls_Mandatory 3"
proof -
  let ?c = "SmtpTlsConfig_default\<lparr>starttls_mode := Tls_Required, cert_source := Some (Files ''c'' ''k'')\<rparr>"
  have "identity (\<lambda>_. Ok []) (\<lambda>_ _. Ok (3 :: nat)) ?c = Ok (Some 3)"
    by (simp add: identity_def is_acme_def needs_cert_def)
  from listener_tls_as_configured [OF this, of "SocketAddr (V4 127 0 0 1) 0 25"] show ?thesis by simp
qed

end
