(* ===== verification/Zm_Http.thy ===== *)
theory Zm_Http
  imports Zm_Prelude
begin

text \<open>
  The response vocabulary of the HTTP interface (\<^verbatim>\<open>src/api.rs\<close>, first part): problem documents,
  the success envelope, and pagination. A response is a status code with either a problem document
  or the payload of a success envelope, whose \<open>ok\<close> field is always true.
\<close>

section \<open>Responses\<close>

type_synonym StatusCode = u16

record ApiProblem =
  problem_status :: u16
  problem_type :: string
  problem_detail :: "string option"

definition bad_request :: "string \<Rightarrow> ApiProblem" where
  "bad_request msg = \<lparr>problem_status = 400, problem_type = ''bad request'', problem_detail = Some msg\<rparr>"

definition not_found :: "string \<Rightarrow> ApiProblem" where
  "not_found msg = \<lparr>problem_status = 404, problem_type = ''not_found'', problem_detail = Some msg\<rparr>"

definition validation_error :: "string \<Rightarrow> ApiProblem" where
  "validation_error detail =
     \<lparr>problem_status = 422, problem_type = ''validation_error'', problem_detail = Some detail\<rparr>"

definition unauthorized :: ApiProblem where
  "unauthorized = \<lparr>problem_status = 401, problem_type = ''unauthorized'', problem_detail = None\<rparr>"

definition forbidden :: ApiProblem where
  "forbidden = \<lparr>problem_status = 403, problem_type = ''forbidden'', problem_detail = None\<rparr>"

definition conflict :: "string \<Rightarrow> ApiProblem" where
  "conflict msg = \<lparr>problem_status = 409, problem_type = ''conflict'', problem_detail = Some msg\<rparr>"

definition server_error :: "string \<Rightarrow> ApiProblem" where
  "server_error msg =
     \<lparr>problem_status = 500, problem_type = ''server_error'', problem_detail = Some msg\<rparr>"

record 'a ApiResponse =
  response_ok :: bool
  response_data :: 'a

definition ApiResponse_ok :: "'a \<Rightarrow> 'a ApiResponse" where
  "ApiResponse_ok d = \<lparr>response_ok = True, response_data = d\<rparr>"

datatype 'a response =
    Problem (status_code: StatusCode) ApiProblem
  | Success (status_code: StatusCode) "'a ApiResponse"
  | NoContent (status_code: StatusCode)

text \<open>Shorthands for the two renderings the handlers use.\<close>

definition reply :: "StatusCode \<Rightarrow> 'a \<Rightarrow> 'a response" where
  "reply st d = Success st (ApiResponse_ok d)"

definition is_success :: "'a response \<Rightarrow> bool" where
  "is_success r \<longleftrightarrow> 200 \<le> status_code r \<and> status_code r < 300"

section \<open>Pagination\<close>

definition DEFAULT_PAGE_LIMIT :: usize where "DEFAULT_PAGE_LIMIT = 50"
definition MAX_PAGE_LIMIT :: usize where "MAX_PAGE_LIMIT = 200"

record 'a Page =
  page_items :: "'a list"
  page_limit :: usize
  page_offset :: usize
  page_next_offset :: "usize option"

definition from_all :: "'a list \<Rightarrow> usize \<Rightarrow> usize \<Rightarrow> 'a Page" where
  "from_all rows limit offset =
     (let page_end = saturating_add offset limit;
          has_more = unat page_end < length rows
      in \<lparr>page_items = take (unat limit) (drop (unat offset) rows),
          page_limit = limit, page_offset = offset,
          page_next_offset = (if has_more then Some page_end else None)\<rparr>)"

text \<open>The query parameters are absent or malformed (\<open>None\<close>), or a number.\<close>

definition page_params :: "usize option \<Rightarrow> usize option \<Rightarrow> usize \<times> usize" where
  "page_params limit offset =
     (clamp 1 MAX_PAGE_LIMIT (unwrap_or DEFAULT_PAGE_LIMIT limit),
      min (unwrap_or 0 offset) (2 ^ 63 - 1))"

text \<open>A client that follows \<open>next_offset\<close>, for at most \<open>n\<close> pages.\<close>

fun follow_pages :: "'a list \<Rightarrow> usize \<Rightarrow> nat \<Rightarrow> usize \<Rightarrow> 'a list" where
  "follow_pages rows limit 0 offset = []"
| "follow_pages rows limit (Suc n) offset =
     (let p = from_all rows limit offset
      in page_items p @
         (case page_next_offset p of None \<Rightarrow> [] | Some next \<Rightarrow> follow_pages rows limit n next))"

lemma page_params_bounds:
  "1 \<le> fst (page_params l o')" "fst (page_params l o') \<le> MAX_PAGE_LIMIT"
proof -
  have "(1 :: usize) \<le> MAX_PAGE_LIMIT" by (simp add: MAX_PAGE_LIMIT_def word_le_nat_alt)
  from clamp_bounds [OF this] show "1 \<le> fst (page_params l o')"
    "fst (page_params l o') \<le> MAX_PAGE_LIMIT" by (simp_all add: page_params_def)
qed

lemma follow_pages_from:
  assumes "0 < limit" and "length rows < 2 ^ 64" and "length rows - unat offset \<le> n"
  shows "follow_pages rows limit (Suc n) offset = drop (unat offset) rows"
  using assms(3)
proof (induction n arbitrary: offset)
  case 0
  have "0 < unat limit" using assms(1) by (simp add: word_less_nat_alt)
  with 0 assms(2) show ?case
    by (simp add: from_all_def Let_def unat_saturating_add min_def)
next
  case (Suc n)
  have l: "0 < unat limit" using assms(1) by (simp add: word_less_nat_alt)
  let ?stop = "saturating_add offset limit"
  have e: "unat ?stop = min (unat offset + unat limit) (2 ^ 64 - 1)"
    by (simp add: unat_saturating_add)
  show ?case
  proof (cases "unat ?stop < length rows")
    case False
    then have "length rows \<le> unat offset + unat limit" using e assms(2) by (auto simp: min_def split: if_splits)
    with False show ?thesis by (simp add: from_all_def Let_def)
  next
    case True
    then have sum: "unat ?stop = unat offset + unat limit"
      using e assms(2) by (auto simp: min_def split: if_splits)
    have "follow_pages rows limit (Suc n) ?stop = drop (unat ?stop) rows"
      by (rule Suc.IH) (use Suc.prems sum l True in simp)
    moreover have "take (unat limit) (drop (unat offset) rows) @ drop (unat ?stop) rows =
        drop (unat offset) rows"
      using append_take_drop_id [of "unat limit" "drop (unat offset) rows"]
      by (simp add: sum add.commute)
    ultimately show ?thesis using True
      by (subst follow_pages.simps) (simp only: from_all_def Let_def if_True Page.simps option.simps)
  qed
qed

text \<open>
  C37. Pagination loses and repeats nothing: for every positive page size a client that starts at
  offset 0 and follows \<open>next_offset\<close> reads exactly the whole list, in order, in at most one page
  per row and one more; and the page size the handlers use is always between 1 and 200.
\<close>

theorem pagination_complete:
  assumes "length rows < 2 ^ 64"
  shows "1 \<le> fst (page_params l off) \<and> fst (page_params l off) \<le> MAX_PAGE_LIMIT \<and>
    follow_pages rows (fst (page_params l off)) (Suc (length rows)) 0 = rows"
proof -
  have "0 < fst (page_params l off)"
    using page_params_bounds(1) [of l off] by (simp add: word_less_nat_alt word_le_nat_alt)
  from follow_pages_from [OF this assms, of 0 "length rows"] page_params_bounds show ?thesis by simp
qed

theorem pagination_complete_witness:
  "follow_pages [1, 2, 3 :: nat] (fst (page_params (Some 2) None)) (Suc (length [1, 2, 3 :: nat])) 0 = [1, 2, 3]"
proof -
  have "length [1, 2, 3 :: nat] < 2 ^ 64" by simp
  from pagination_complete [OF this, of "Some 2" None] show ?thesis by blast
qed

end
