(* ===== verification/Zm_Services.thy ===== *)
theory Zm_Services
  imports Zm_Email Zm_Http
begin

text \<open>
  The service manager (\<^verbatim>\<open>src/services.rs\<close>) and the requests that command it (\<^verbatim>\<open>src/api.rs\<close>).
  The manager's state is one record behind one lock, so its operations are functions on that record.
  Next to the source's fields it carries what the commands do to the asynchronous runtime: the tasks
  that are alive and the handle the next one gets. A task is described by what it serves.
\<close>

section \<open>State\<close>

datatype Status = Idle | Running

record Slot =
  slot_status :: Status
  slot_handle :: "nat option"

record ServiceReport =
  report_service :: Service
  report_status :: Status

record ServiceResult =
  result_service :: Service
  result_status :: Status
  result_changed :: bool

text \<open>What a spawned task does; \<open>Listener_down\<close> is the SMTPS task that finds no identity.\<close>

datatype 'id listener =
    Serve_api SocketAddr
  | Serve_mail "'id SmtpConfig"
  | Serve_dns SocketAddr
  | Listener_down
  | Pending

record 'id Inner =
  api_slot :: Slot
  dns_slot :: Slot
  smtp_slot :: Slot
  smtps_slot :: Slot
  inner_api_addr :: SocketAddr
  inner_dns_addr :: SocketAddr
  inner_smtp_addr :: SocketAddr
  inner_smtps_addr :: "SocketAddr option"
  live_tasks :: "nat \<rightharpoonup> 'id listener"
  next_task :: nat

type_synonym 'id spawn_fn = "Service \<Rightarrow> SocketAddr \<Rightarrow> ('id listener, string) result"

fun slot :: "Service \<Rightarrow> 'id Inner \<Rightarrow> Slot" where
  "slot Api m = api_slot m"
| "slot Dns m = dns_slot m"
| "slot Smtp m = smtp_slot m"
| "slot Smtps m = smtps_slot m"

fun slot_mut :: "Service \<Rightarrow> (Slot \<Rightarrow> Slot) \<Rightarrow> 'id Inner \<Rightarrow> 'id Inner" where
  "slot_mut Api f m = m\<lparr>api_slot := f (api_slot m)\<rparr>"
| "slot_mut Dns f m = m\<lparr>dns_slot := f (dns_slot m)\<rparr>"
| "slot_mut Smtp f m = m\<lparr>smtp_slot := f (smtp_slot m)\<rparr>"
| "slot_mut Smtps f m = m\<lparr>smtps_slot := f (smtps_slot m)\<rparr>"

fun addr :: "'id Inner \<Rightarrow> Service \<Rightarrow> SocketAddr option" where
  "addr m Api = Some (inner_api_addr m)"
| "addr m Dns = Some (inner_dns_addr m)"
| "addr m Smtp = Some (inner_smtp_addr m)"
| "addr m Smtps = inner_smtps_addr m"

fun status_of :: "'id Inner \<Rightarrow> Service \<Rightarrow> Status" where
  "status_of m Api = slot_status (api_slot m)"
| "status_of m Dns = slot_status (dns_slot m)"
| "status_of m Smtp = slot_status (smtp_slot m)"
| "status_of m Smtps = slot_status (smtps_slot m)"

definition idle_slot :: Slot where
  "idle_slot = \<lparr>slot_status = Idle, slot_handle = None\<rparr>"

section \<open>Construction\<close>

definition service_spawn :: "SmtpTlsConfig \<Rightarrow> 'id option \<Rightarrow> 'id spawn_fn" where
  "service_spawn tls ident svc a =
     (case svc of
        Api \<Rightarrow> Ok (Serve_api a)
      | Smtp \<Rightarrow> Ok (Serve_mail (run_mail_server a (smtp_tls_mode (build_smtp_config a tls ident))))
      | Smtps \<Rightarrow>
          Ok (case build_smtps_config a ident of
                Some config \<Rightarrow> Serve_mail (run_mail_server a (smtp_tls_mode config))
              | None \<Rightarrow> Listener_down)
      | Dns \<Rightarrow> Ok (Serve_dns a))"

text \<open>\<^const>\<open>None\<close> is the panic on an address that does not parse.\<close>

definition ServiceManager_new :: "Config \<Rightarrow> 'id option \<Rightarrow> ('id Inner \<times> 'id spawn_fn) option" where
  "ServiceManager_new cfg ident =
     (case dns_addr cfg of
        None \<Rightarrow> None
      | Some d \<Rightarrow>
     (case smtp_addr cfg of
        None \<Rightarrow> None
      | Some m \<Rightarrow>
     (case api_addr cfg of
        None \<Rightarrow> None
      | Some a \<Rightarrow>
          Some (\<lparr>api_slot = idle_slot, dns_slot = idle_slot, smtp_slot = idle_slot,
                 smtps_slot = idle_slot, inner_api_addr = a, inner_dns_addr = d, inner_smtp_addr = m,
                 inner_smtps_addr = smtps_addr (cfg_smtp_tls cfg) (cfg_host cfg),
                 live_tasks = Map.empty, next_task = 0\<rparr>,
                service_spawn (cfg_smtp_tls cfg) ident))))"

definition for_test :: "'id Inner \<times> 'id spawn_fn" where
  "for_test =
     (let a = SocketAddr (V4 127 0 0 1) 0 0
      in (\<lparr>api_slot = idle_slot, dns_slot = idle_slot, smtp_slot = idle_slot, smtps_slot = idle_slot,
           inner_api_addr = a, inner_dns_addr = a, inner_smtp_addr = a, inner_smtps_addr = None,
           live_tasks = Map.empty, next_task = 0\<rparr>, \<lambda>_ _. Ok Pending))"

section \<open>Commands\<close>

definition start ::
  "'id spawn_fn \<Rightarrow> Service \<Rightarrow> 'id Inner \<Rightarrow> (ServiceResult, string) result \<times> 'id Inner" where
  "start spawn svc m =
     (case addr m svc of
        None \<Rightarrow> (Err (''service '' @ quoted (Service_as_str svc) @ '' is not configured''), m)
      | Some a \<Rightarrow>
          if slot_status (slot svc m) = Running
          then (Ok \<lparr>result_service = svc, result_status = Running, result_changed = False\<rparr>, m)
          else
            (case spawn svc a of
               Err e \<Rightarrow> (Err e, m)
             | Ok task \<Rightarrow>
                 (let h = next_task m;
                      m1 = m\<lparr>live_tasks := (live_tasks m)(h \<mapsto> task), next_task := Suc h\<rparr>
                  in (Ok \<lparr>result_service = svc, result_status = Running, result_changed = True\<rparr>,
                      slot_mut svc (\<lambda>sl. sl\<lparr>slot_handle := Some h, slot_status := Running\<rparr>) m1))))"

definition stop :: "Service \<Rightarrow> 'id Inner \<Rightarrow> (ServiceResult, string) result \<times> 'id Inner" where
  "stop svc m =
     (case slot_handle (slot svc m) of
        Some h \<Rightarrow>
          (Ok \<lparr>result_service = svc, result_status = Idle, result_changed = True\<rparr>,
           slot_mut svc (\<lambda>sl. sl\<lparr>slot_handle := None, slot_status := Idle\<rparr>)
             (m\<lparr>live_tasks := (live_tasks m)(h := None)\<rparr>))
      | None \<Rightarrow> (Ok \<lparr>result_service = svc, result_status = Idle, result_changed = False\<rparr>, m))"

definition list_all_services :: "'id Inner \<Rightarrow> ServiceReport list" where
  "list_all_services m =
     map (\<lambda>svc. \<lparr>report_service = svc, report_status = status_of m svc\<rparr>) Service_all"

definition smtps_configured :: "'id Inner \<Rightarrow> bool" where
  "smtps_configured m \<longleftrightarrow> inner_smtps_addr m \<noteq> None"

text \<open>Whether a mode asks for a service: SMTPS follows plain SMTP when it is configured.\<close>

definition wants :: "'id Inner \<Rightarrow> BootMode \<Rightarrow> Service \<Rightarrow> bool" where
  "wants m mode svc =
     (case svc of
        Smtps \<Rightarrow> smtps_configured m \<and> Smtp \<in> BootMode_services mode
      | _ \<Rightarrow> svc \<in> BootMode_services mode)"

fun apply_services ::
  "'id spawn_fn \<Rightarrow> (Service \<Rightarrow> bool) \<Rightarrow> Service list \<Rightarrow> 'id Inner \<Rightarrow> 'id Inner" where
  "apply_services spawn want [] m = m"
| "apply_services spawn want (svc # svcs) m =
     apply_services spawn want svcs
       (if want svc then snd (start spawn svc m) else snd (stop svc m))"

definition apply_mode ::
  "'id spawn_fn \<Rightarrow> BootMode \<Rightarrow> 'id Inner \<Rightarrow> ServiceReport list \<times> 'id Inner" where
  "apply_mode spawn mode m =
     (let m' = apply_services spawn (wants m mode) Service_all m in (list_all_services m', m'))"

text \<open>\<open>order\<close> is the order in which the hash set of a mode's services is iterated.\<close>

definition boot ::
  "'id spawn_fn \<Rightarrow> Service list \<Rightarrow> BootMode \<Rightarrow> 'id Inner \<Rightarrow> 'id Inner" where
  "boot spawn order mode m =
     (let m1 = fold (\<lambda>svc m. snd (start spawn svc m)) order m
      in if smtps_configured m1 \<and> Smtp \<in> BootMode_services mode then snd (start spawn Smtps m1) else m1)"

definition stop_all :: "'id Inner \<Rightarrow> 'id Inner" where
  "stop_all m = fold (\<lambda>svc m. snd (stop svc m)) Service_all m"

section \<open>Requests\<close>

record SetModeBody =
  body_mode :: BootMode

text \<open>
  The manager in the depot is \<^const>\<open>None\<close> when none was injected; a body is \<^const>\<open>None\<close> when it
  does not decode.
\<close>

fun Service_debug :: "Service \<Rightarrow> string" where
  "Service_debug Api = ''Api''"
| "Service_debug Smtp = ''Smtp''"
| "Service_debug Smtps = ''Smtps''"
| "Service_debug Dns = ''Dns''"

definition no_manager :: "'a response" where
  "no_manager = Problem 500 (server_error ''service manager not injected'')"

definition unknown_service :: "string \<Rightarrow> 'a response" where
  "unknown_service name =
     Problem 400 (bad_request (''unknown service '' @ quoted name @ ''; expected one of ''
       @ quoted ''api'' @ '', '' @ quoted ''smtp'' @ '', '' @ quoted ''smtps'' @ '', '' @ quoted ''dns''))"

definition list_services :: "'id Inner option \<Rightarrow> ServiceReport list response" where
  "list_services mgr =
     (case mgr of None \<Rightarrow> no_manager | Some m \<Rightarrow> reply 200 (list_all_services m))"

definition start_service ::
  "'id spawn_fn \<Rightarrow> string option \<Rightarrow> 'id Inner option \<Rightarrow> ServiceResult response \<times> 'id Inner option" where
  "start_service spawn param mgr =
     (case mgr of
        None \<Rightarrow> (no_manager, mgr)
      | Some m \<Rightarrow>
          (let service_name = unwrap_or [] param
           in case Service_parse service_name of
                None \<Rightarrow> (unknown_service service_name, mgr)
              | Some svc \<Rightarrow>
                  (case start spawn svc m of
                     (Ok r, m') \<Rightarrow> (reply 200 r, Some m')
                   | (Err e, m') \<Rightarrow>
                       (Problem 500 (server_error (''failed to start '' @ Service_debug svc @ '': '' @ e)),
                        Some m'))))"

definition stop_service ::
  "string option \<Rightarrow> 'id Inner option \<Rightarrow> ServiceResult response \<times> 'id Inner option" where
  "stop_service param mgr =
     (case mgr of
        None \<Rightarrow> (no_manager, mgr)
      | Some m \<Rightarrow>
          (let service_name = unwrap_or [] param
           in case Service_parse service_name of
                None \<Rightarrow> (unknown_service service_name, mgr)
              | Some svc \<Rightarrow>
                  (case stop svc m of
                     (Ok r, m') \<Rightarrow> (reply 200 r, Some m')
                   | (Err e, m') \<Rightarrow>
                       (Problem 500 (server_error (''failed to stop '' @ Service_debug svc @ '': '' @ e)),
                        Some m'))))"

definition set_mode ::
  "'id spawn_fn \<Rightarrow> SetModeBody option \<Rightarrow> 'id Inner option \<Rightarrow>
   ServiceReport list response \<times> 'id Inner option" where
  "set_mode spawn body mgr =
     (case mgr of
        None \<Rightarrow> (no_manager, mgr)
      | Some m \<Rightarrow>
          (case body of
             None \<Rightarrow> (Problem 400 (bad_request ''invalid mode; expected one of full|smtp|dns|api-only''), mgr)
           | Some b \<Rightarrow> (case apply_mode spawn (body_mode b) m of (rs, m') \<Rightarrow> (reply 200 rs, Some m'))))"

section \<open>Runs of the manager\<close>

text \<open>Every command, in any order, and tasks that end on their own.\<close>

inductive manager_step :: "'id spawn_fn \<Rightarrow> 'id Inner \<Rightarrow> 'id Inner \<Rightarrow> bool" for spawn where
  started: "manager_step spawn m (snd (start spawn svc m))"
| stopped: "manager_step spawn m (snd (stop svc m))"
| moded: "manager_step spawn m (snd (apply_mode spawn mode m))"
| booted: "manager_step spawn m (boot spawn order mode m)"
| all_stopped: "manager_step spawn m (stop_all m)"
| died: "manager_step spawn m (m\<lparr>live_tasks := (live_tasks m)(h := None)\<rparr>)"

text \<open>
  A slot is running exactly when it holds a handle; handles are never shared; every live task is
  held by a slot, and is the task its service is configured to run.
\<close>

definition manager_ok :: "'id spawn_fn \<Rightarrow> 'id Inner \<Rightarrow> bool" where
  "manager_ok spawn m \<longleftrightarrow>
     (\<forall>svc. slot_status (slot svc m) = Running \<longleftrightarrow> slot_handle (slot svc m) \<noteq> None) \<and>
     (\<forall>svc h. slot_handle (slot svc m) = Some h \<longrightarrow> h < next_task m) \<and>
     (\<forall>a b h. slot_handle (slot a m) = Some h \<longrightarrow> slot_handle (slot b m) = Some h \<longrightarrow> a = b) \<and>
     (\<forall>h t. live_tasks m h = Some t \<longrightarrow>
        (\<exists>svc a. slot_handle (slot svc m) = Some h \<and> addr m svc = Some a \<and> spawn svc a = Ok t))"

lemma slot_slot_mut [simp]:
  "slot a (slot_mut b f m) = (if a = b then f (slot b m) else slot a m)"
  by (cases a; cases b) simp_all

lemma slot_mut_sel [simp]:
  "addr (slot_mut b f m) a = addr m a" "live_tasks (slot_mut b f m) = live_tasks m"
  "next_task (slot_mut b f m) = next_task m" "inner_smtps_addr (slot_mut b f m) = inner_smtps_addr m"
  by (cases b; cases a; simp)+

lemma slot_task_update [simp]:
  "slot a (m\<lparr>live_tasks := t\<rparr>) = slot a m" "slot a (m\<lparr>next_task := n\<rparr>) = slot a m"
  "addr (m\<lparr>live_tasks := t\<rparr>) a = addr m a" "addr (m\<lparr>next_task := n\<rparr>) a = addr m a"
  by (cases a; simp)+

lemma status_of_slot: "status_of m a = slot_status (slot a m)"
  by (cases a) simp_all

lemma Status_not_Running [simp]: "st \<noteq> Running \<longleftrightarrow> st = Idle"
  by (cases st) simp_all

text \<open>What a command on one service does to the others, and to the addresses: nothing.\<close>

lemma start_other: "a \<noteq> svc \<Longrightarrow> slot a (snd (start spawn svc m)) = slot a m"
  by (auto simp: start_def Let_def split: option.splits sum.splits)

lemma stop_other: "a \<noteq> svc \<Longrightarrow> slot a (snd (stop svc m)) = slot a m"
  by (auto simp: stop_def split: option.splits)

lemma start_addr [simp]: "addr (snd (start spawn svc m)) a = addr m a"
  by (auto simp: start_def Let_def split: option.splits sum.splits)

lemma stop_addr [simp]: "addr (snd (stop svc m)) a = addr m a"
  by (auto simp: stop_def split: option.splits)

lemma manager_okD:
  assumes "manager_ok spawn m"
  shows "slot_status (slot svc m) = Running \<longleftrightarrow> slot_handle (slot svc m) \<noteq> None"
    "slot_handle (slot svc m) = Some h \<Longrightarrow> h < next_task m"
    "slot_handle (slot a m) = Some h \<Longrightarrow> slot_handle (slot b m) = Some h \<Longrightarrow> a = b"
    "live_tasks m h = Some t \<Longrightarrow>
      \<exists>svc a. slot_handle (slot svc m) = Some h \<and> addr m svc = Some a \<and> spawn svc a = Ok t"
  using assms unfolding manager_ok_def by blast+

lemma start_ok:
  assumes "manager_ok spawn m"
  shows "manager_ok spawn (snd (start spawn svc m))"
proof (cases "\<exists>a task. addr m svc = Some a \<and> slot_status (slot svc m) = Idle \<and> spawn svc a = Ok task")
  case False
  then have "snd (start spawn svc m) = m"
    by (cases "slot_status (slot svc m)") (auto simp: start_def split: option.splits sum.splits)
  with assms show ?thesis by simp
next
  case True
  then obtain a task where t: "addr m svc = Some a" "slot_status (slot svc m) = Idle"
    "spawn svc a = Ok task" by blast
  let ?m = "snd (start spawn svc m)"
  have none: "slot_handle (slot svc m) = None" using manager_okD(1) [OF assms, of svc] t(2) by simp
  have handle: "slot_handle (slot b ?m) = (if b = svc then Some (next_task m) else slot_handle (slot b m))"
    and status: "slot_status (slot b ?m) = (if b = svc then Running else slot_status (slot b m))" for b
    using t by (simp_all add: start_def Let_def)
  have rest: "next_task ?m = Suc (next_task m)" "live_tasks ?m = (live_tasks m)(next_task m \<mapsto> task)"
    using t by (simp_all add: start_def Let_def)
  have fresh: "slot_handle (slot b m) \<noteq> Some (next_task m)" for b
    using manager_okD(2) [OF assms, of b "next_task m"] by auto
  have live: "\<exists>b a. slot_handle (slot b ?m) = Some h \<and> addr m b = Some a \<and> spawn b a = Ok x"
    if "live_tasks ?m h = Some x" for h x
  proof (cases "h = next_task m")
    case True
    with that t rest handle [of svc] show ?thesis by auto
  next
    case False
    with that rest have "live_tasks m h = Some x" by simp
    from manager_okD(4) [OF assms this] none handle show ?thesis by (metis option.distinct(1))
  qed
  have "slot_handle (slot b ?m) = Some h \<Longrightarrow> h < next_task ?m" for b h
    using manager_okD(2) [OF assms, of b h] by (auto simp: handle rest split: if_splits)
  moreover have "slot_handle (slot b ?m) = Some h \<Longrightarrow> slot_handle (slot c ?m) = Some h \<Longrightarrow> b = c" for b c h
    using manager_okD(3) [OF assms, of b h c] fresh by (auto simp: handle split: if_splits)
  moreover have "slot_status (slot b ?m) = Running \<longleftrightarrow> slot_handle (slot b ?m) \<noteq> None" for b
    using manager_okD(1) [OF assms, of b] by (simp add: handle status)
  ultimately show ?thesis unfolding manager_ok_def using live by simp
qed

lemma stop_ok:
  assumes "manager_ok spawn m"
  shows "manager_ok spawn (snd (stop svc m))"
proof (cases "slot_handle (slot svc m)")
  case None
  with assms show ?thesis by (simp add: stop_def)
next
  case (Some k)
  let ?m = "snd (stop svc m)"
  have handle: "slot_handle (slot b ?m) = (if b = svc then None else slot_handle (slot b m))"
    and status: "slot_status (slot b ?m) = (if b = svc then Idle else slot_status (slot b m))" for b
    using Some by (simp_all add: stop_def)
  have rest: "next_task ?m = next_task m" "live_tasks ?m = (live_tasks m)(k := None)"
    using Some by (simp_all add: stop_def)
  have "\<exists>b a. slot_handle (slot b ?m) = Some h \<and> addr m b = Some a \<and> spawn b a = Ok x"
    if "live_tasks ?m h = Some x" for h x
  proof -
    from that rest have h: "h \<noteq> k" "live_tasks m h = Some x" by (auto split: if_splits)
    from manager_okD(4) [OF assms h(2)] Some h(1) handle show ?thesis by (metis option.inject)
  qed
  moreover have "slot_handle (slot b ?m) = Some h \<Longrightarrow> h < next_task ?m" for b h
    using manager_okD(2) [OF assms, of b h] by (auto simp: handle rest split: if_splits)
  moreover have "slot_handle (slot b ?m) = Some h \<Longrightarrow> slot_handle (slot c ?m) = Some h \<Longrightarrow> b = c" for b c h
    using manager_okD(3) [OF assms, of b h c] by (auto simp: handle split: if_splits)
  moreover have "slot_status (slot b ?m) = Running \<longleftrightarrow> slot_handle (slot b ?m) \<noteq> None" for b
    using manager_okD(1) [OF assms, of b] by (simp add: handle status)
  ultimately show ?thesis unfolding manager_ok_def by simp
qed

lemma fold_ok:
  "manager_ok spawn m \<Longrightarrow> (\<And>svc m. manager_ok spawn m \<Longrightarrow> manager_ok spawn (f svc m)) \<Longrightarrow>
   manager_ok spawn (fold f svcs m)"
  by (induction svcs arbitrary: m) auto

lemma apply_services_ok:
  "manager_ok spawn m \<Longrightarrow> manager_ok spawn (apply_services spawn want svcs m)"
  by (induction svcs arbitrary: m) (auto intro: start_ok stop_ok)

lemma manager_step_ok:
  assumes "manager_step spawn m m'" and "manager_ok spawn m"
  shows "manager_ok spawn m'"
  using assms
proof cases
  case (booted order mode)
  have "manager_ok spawn (fold (\<lambda>svc m. snd (start spawn svc m)) order m)"
    by (rule fold_ok [OF assms(2) start_ok])
  with booted show ?thesis by (simp add: boot_def Let_def start_ok)
next
  case (died h)
  with assms(2) show ?thesis by (auto simp: manager_ok_def)
qed (auto simp: apply_mode_def stop_all_def Let_def intro: start_ok stop_ok apply_services_ok fold_ok)

section \<open>What a command achieves\<close>

lemma start_status:
  "addr m svc = Some a \<Longrightarrow> is_ok (spawn svc a) \<Longrightarrow> slot_status (slot svc (snd (start spawn svc m))) = Running"
  by (auto simp: start_def Let_def is_ok_iff)

lemma stop_status:
  "manager_ok spawn m \<Longrightarrow> slot_status (slot svc (snd (stop svc m))) = Idle"
  using manager_okD(1) [of spawn m svc] by (auto simp: stop_def split: option.splits)

lemma apply_services_status:
  assumes "distinct svcs" and "manager_ok spawn m"
    and "\<forall>svc \<in> set svcs. want svc \<longrightarrow> (\<exists>a. addr m svc = Some a \<and> is_ok (spawn svc a))"
  shows "slot_status (slot b (apply_services spawn want svcs m)) =
    (if b \<in> set svcs then if want b then Running else Idle else slot_status (slot b m))"
  using assms
proof (induction svcs arbitrary: m)
  case (Cons svc svcs)
  let ?m = "if want svc then snd (start spawn svc m) else snd (stop svc m)"
  have "manager_ok spawn ?m" using Cons.prems(2) by (simp add: start_ok stop_ok)
  then have "slot_status (slot b (apply_services spawn want svcs ?m)) =
      (if b \<in> set svcs then if want b then Running else Idle else slot_status (slot b ?m))"
    using Cons.prems by (intro Cons.IH) auto
  moreover have "slot_status (slot svc ?m) = (if want svc then Running else Idle)"
    using Cons.prems(3) stop_status [OF Cons.prems(2), of svc]
    by (auto dest: start_status [of m svc _ spawn])
  moreover have "b \<noteq> svc \<Longrightarrow> slot b ?m = slot b m" by (simp add: start_other stop_other)
  ultimately show ?case using Cons.prems(1) by auto
qed simp

lemma start_all_status:
  assumes "\<forall>svc \<in> set svcs. \<exists>a. addr m svc = Some a \<and> is_ok (spawn svc a)"
  shows "slot_status (slot b (fold (\<lambda>svc m. snd (start spawn svc m)) svcs m)) =
    (if b \<in> set svcs then Running else slot_status (slot b m))"
  using assms
proof (induction svcs arbitrary: m)
  case (Cons svc svcs)
  let ?m = "snd (start spawn svc m)"
  have "slot_status (slot b (fold (\<lambda>svc m. snd (start spawn svc m)) svcs ?m)) =
      (if b \<in> set svcs then Running else slot_status (slot b ?m))"
    using Cons.prems by (intro Cons.IH) auto
  moreover have "slot_status (slot svc ?m) = Running" using Cons.prems start_status by auto
  moreover have "b \<noteq> svc \<Longrightarrow> slot b ?m = slot b m" by (rule start_other)
  ultimately show ?case by auto
qed simp

lemma smtps_addr_kept:
  "inner_smtps_addr (snd (start spawn svc m)) = inner_smtps_addr m"
  "inner_smtps_addr (snd (stop svc m)) = inner_smtps_addr m"
  using start_addr [of spawn svc m Smtps] stop_addr [of svc m Smtps] by simp_all

lemma stop_all_apply: "stop_all m = apply_services spawn (\<lambda>_. False) Service_all m"
  by (simp add: stop_all_def Service_all_def)

lemma wants_configured: "wants m mode svc \<Longrightarrow> \<exists>a. addr m svc = Some a"
  by (cases svc) (auto simp: wants_def smtps_configured_def)

lemma distinct_Service_all: "distinct Service_all"
  by (simp add: Service_all_def)

lemma new_manager:
  assumes "ServiceManager_new cfg ident = Some (m, spawn)"
  shows "slot svc m = idle_slot" "live_tasks m = Map.empty" "is_ok (spawn svc a)"
    and "manager_ok spawn m"
proof -
  show sl: "slot svc m = idle_slot" for svc
    using assms by (cases svc) (auto simp: ServiceManager_new_def split: option.splits)
  show lt: "live_tasks m = Map.empty"
    using assms by (auto simp: ServiceManager_new_def split: option.splits)
  show "is_ok (spawn svc a)"
    using assms by (cases svc) (auto simp: ServiceManager_new_def service_spawn_def split: option.splits)
  show "manager_ok spawn m" by (simp add: manager_ok_def sl lt idle_slot_def)
qed

text \<open>Booting a fresh manager: the statuses it ends with, and that every handle is of a live task.\<close>

lemma boot_status:
  assumes "ServiceManager_new cfg ident = Some (m0, spawn)" and "set order = BootMode_services mode"
  shows "slot_status (slot b (boot spawn order mode m0)) = (if wants m0 mode b then Running else Idle)"
proof -
  note up = new_manager(3) [OF assms(1)]
  let ?m1 = "fold (\<lambda>svc m. snd (start spawn svc m)) order m0"
  have no_smtps: "Smtps \<notin> set order" using assms(2) by (cases mode) auto
  have cfg: "inner_smtps_addr ?m1 = inner_smtps_addr m0"
    by (induction order arbitrary: m0) (simp_all add: smtps_addr_kept)
  have "\<forall>svc \<in> set order. \<exists>a. addr m0 svc = Some a \<and> is_ok (spawn svc a)"
  proof
    fix svc assume "svc \<in> set order"
    with no_smtps have "\<exists>a. addr m0 svc = Some a" by (cases svc) auto
    with up show "\<exists>a. addr m0 svc = Some a \<and> is_ok (spawn svc a)" by blast
  qed
  from start_all_status [OF this]
  have s1: "slot_status (slot b ?m1) = (if b \<in> BootMode_services mode then Running else Idle)" for b
    using assms(2) new_manager(1) [OF assms(1)] by (simp add: idle_slot_def)
  show ?thesis
  proof (cases "smtps_configured m0 \<and> Smtp \<in> BootMode_services mode")
    case True
    then obtain a where "addr ?m1 Smtps = Some a" using cfg by (auto simp: smtps_configured_def)
    from start_status [OF this up] have "slot_status (slot Smtps (snd (start spawn Smtps ?m1))) = Running" .
    moreover have "boot spawn order mode m0 = snd (start spawn Smtps ?m1)"
      using True cfg by (simp add: boot_def Let_def smtps_configured_def)
    moreover have "b \<noteq> Smtps \<Longrightarrow> slot b (snd (start spawn Smtps ?m1)) = slot b ?m1" by (rule start_other)
    ultimately show ?thesis using True s1 [of b] by (cases b) (simp_all add: wants_def)
  next
    case False
    then have "boot spawn order mode m0 = ?m1"
      using cfg by (auto simp: boot_def Let_def smtps_configured_def)
    moreover have "Smtps \<notin> BootMode_services mode" using no_smtps assms(2) by simp
    ultimately show ?thesis using False s1 [of b] by (cases b) (simp_all add: wants_def)
  qed
qed

definition running_task :: "'id Inner \<Rightarrow> Service \<Rightarrow> 'id listener option" where
  "running_task m svc = Option.bind (slot_handle (slot svc m)) (live_tasks m)"

definition all_live :: "'id Inner \<Rightarrow> bool" where
  "all_live m \<longleftrightarrow> (\<forall>svc h. slot_handle (slot svc m) = Some h \<longrightarrow> live_tasks m h \<noteq> None)"

lemma start_live: "all_live m \<Longrightarrow> all_live (snd (start spawn svc m))"
  by (auto simp: all_live_def start_def Let_def split: option.splits sum.splits if_splits)

lemma start_all_live: "all_live m \<Longrightarrow> all_live (fold (\<lambda>svc m. snd (start spawn svc m)) svcs m)"
  by (induction svcs arbitrary: m) (simp_all add: start_live)

lemma boot_live: "all_live m \<Longrightarrow> all_live (boot spawn order mode m)"
  by (simp add: boot_def Let_def start_live start_all_live)

lemma start_all_addr: "addr (fold (\<lambda>svc m. snd (start spawn svc m)) svcs m) a = addr m a"
  by (induction svcs arbitrary: m) simp_all

lemma boot_addr: "addr (boot spawn order mode m) a = addr m a"
  by (simp add: boot_def Let_def start_all_addr)

lemma boot_tasks:
  assumes new: "ServiceManager_new cfg ident = Some (m0, spawn)" and order: "set order = BootMode_services mode"
  shows "running_task (boot spawn order mode m0) svc = Some t \<longleftrightarrow>
    wants m0 mode svc \<and> (\<exists>a. addr m0 svc = Some a \<and> spawn svc a = Ok t)" (is "running_task ?m _ = _ \<longleftrightarrow> _")
proof -
  have ok: "manager_ok spawn ?m"
    by (rule manager_step_ok [OF manager_step.booted new_manager(4) [OF new]])
  have "all_live m0" using new_manager(1) [OF new] by (simp add: all_live_def idle_slot_def)
  then have live: "all_live ?m" by (rule boot_live)
  have task: "\<exists>a. addr m0 svc = Some a \<and> spawn svc a = Ok t" if "running_task ?m svc = Some t" for t
  proof -
    from that obtain h where h: "slot_handle (slot svc ?m) = Some h" "live_tasks ?m h = Some t"
      by (auto simp: running_task_def bind_eq_Some_conv)
    from manager_okD(4) [OF ok h(2)] obtain svc' a where
      "slot_handle (slot svc' ?m) = Some h" "addr m0 svc' = Some a" "spawn svc' a = Ok t"
      unfolding boot_addr by blast
    with manager_okD(3) [OF ok h(1), of svc'] show ?thesis by blast
  qed
  have run: "wants m0 mode svc \<longleftrightarrow> (\<exists>t. running_task ?m svc = Some t)"
    using boot_status [OF assms, of svc] manager_okD(1) [OF ok, of svc] live
    by (auto simp: running_task_def all_live_def bind_eq_Some_conv split: if_splits)
  show ?thesis
  proof
    assume "running_task ?m svc = Some t"
    with task run show "wants m0 mode svc \<and> (\<exists>a. addr m0 svc = Some a \<and> spawn svc a = Ok t)" by blast
  next
    assume r: "wants m0 mode svc \<and> (\<exists>a. addr m0 svc = Some a \<and> spawn svc a = Ok t)"
    then obtain u where u: "running_task ?m svc = Some u" using run by blast
    from task [OF u] r u show "running_task ?m svc = Some t" by auto
  qed
qed

lemma manager_run_ok: "(manager_step spawn)\<^sup>*\<^sup>* m m' \<Longrightarrow> manager_ok spawn m \<Longrightarrow> manager_ok spawn m'"
  by (induction rule: rtranclp_induct) (auto intro: manager_step_ok)

text \<open>
  C19. Whatever commands the manager of the running program is given, in any order, and whichever
  tasks end on their own: a service is reported running exactly when it holds a task handle, no two
  services hold the same task, every live task is held by a service and serves what that service is
  configured for, so none is ever leaked or spawned twice; and stopping everything leaves no task
  alive and every service idle.
\<close>

theorem services_never_leak:
  assumes "ServiceManager_new cfg ident = Some (m0, spawn)" and "(manager_step spawn)\<^sup>*\<^sup>* m0 m"
  shows "manager_ok spawn m \<and> live_tasks (stop_all m) = Map.empty \<and>
    (\<forall>svc. status_of (stop_all m) svc = Idle)"
proof -
  have ok: "manager_ok spawn m" by (rule manager_run_ok [OF assms(2) new_manager(4) [OF assms(1)]])
  have ok': "manager_ok spawn (stop_all m)"
    unfolding stop_all_apply [of m spawn] by (rule apply_services_ok [OF ok])
  have idle: "slot_status (slot svc (stop_all m)) = Idle" for svc
    unfolding stop_all_apply [of m spawn]
    by (simp add: apply_services_status [OF distinct_Service_all ok] Service_all_complete)
  have "live_tasks (stop_all m) h = None" for h
  proof (cases "live_tasks (stop_all m) h")
    case (Some t)
    from manager_okD(4) [OF ok' this] manager_okD(1) [OF ok'] idle show ?thesis
      by (metis Status.distinct(1) option.distinct(1))
  qed simp
  with ok idle show ?thesis by (auto simp: status_of_slot)
qed

text \<open>
  C20. Switching to a mode makes exactly the services the mode asks for run (SMTPS with plain SMTP,
  when it is configured) and reports so; booting a fresh manager into a mode ends in the same statuses,
  in whatever order the services are started.
\<close>

theorem mode_is_exact:
  assumes "ServiceManager_new cfg ident = Some (m0, spawn)" and "(manager_step spawn)\<^sup>*\<^sup>* m0 m"
    and "apply_mode spawn mode m = (reports, m')" and "set order = BootMode_services mode"
  shows "(\<forall>svc. status_of m' svc = Running \<longleftrightarrow> wants m mode svc) \<and>
    reports = map (\<lambda>svc. \<lparr>report_service = svc,
      report_status = if wants m mode svc then Running else Idle\<rparr>) [Api, Smtp, Smtps, Dns] \<and>
    (\<forall>svc. status_of (boot spawn order mode m0) svc = Running \<longleftrightarrow> wants m0 mode svc)"
proof -
  have ok: "manager_ok spawn m" by (rule manager_run_ok [OF assms(2) new_manager(4) [OF assms(1)]])
  note up = new_manager(3) [OF assms(1)]
  have st: "slot_status (slot svc m') = (if wants m mode svc then Running else Idle)" for svc
    using assms(3) apply_services_status [OF distinct_Service_all ok, of "wants m mode" svc]
      wants_configured [of m mode] up
    by (auto simp: apply_mode_def Let_def Service_all_complete)
  have reps: "reports = list_all_services m'" using assms(3) by (auto simp: apply_mode_def Let_def)
  from boot_status [OF assms(1,4)] st reps show ?thesis
    by (auto simp: status_of_slot list_all_services_def Service_all_def)
qed

lemma default_addresses:
  "dns_addr Config_default \<noteq> None" "smtp_addr Config_default \<noteq> None" "api_addr Config_default \<noteq> None"
proof -
  have "cfg_host Config_default = show_ipv4 0 0 0 0"
    by (simp add: Config_default_def show_ipv4_def dec.simps digit_char_def) code_simp
  then show "dns_addr Config_default \<noteq> None" "smtp_addr Config_default \<noteq> None" "api_addr Config_default \<noteq> None"
    by (simp_all add: api_addr_def smtp_addr_def dns_addr_def host_port_def parse_SocketAddr_ipv4)
qed

lemma default_manager:
  obtains m0 spawn where "ServiceManager_new Config_default (None :: nat option) = Some (m0, spawn)"
  using default_addresses that by (auto simp: ServiceManager_new_def)

theorem services_never_leak_witness:
  "\<exists>m0 spawn. ServiceManager_new Config_default (None :: nat option) = Some (m0, spawn) \<and>
    manager_ok spawn (snd (start spawn Smtp m0)) \<and>
    live_tasks (stop_all (snd (start spawn Smtp m0))) = Map.empty"
proof -
  obtain m0 spawn where n: "ServiceManager_new Config_default (None :: nat option) = Some (m0, spawn)"
    by (rule default_manager)
  have "(manager_step spawn)\<^sup>*\<^sup>* m0 (snd (start spawn Smtp m0))" by (blast intro: manager_step.started)
  from services_never_leak [OF n this] n show ?thesis by blast
qed

theorem mode_is_exact_witness:
  "\<exists>m0 spawn. ServiceManager_new Config_default (None :: nat option) = Some (m0, spawn) \<and>
    status_of (snd (apply_mode spawn Mode_Dns m0)) Dns = Running \<and>
    status_of (snd (apply_mode spawn Mode_Dns m0)) Api \<noteq> Running"
proof -
  obtain m0 spawn where n: "ServiceManager_new Config_default (None :: nat option) = Some (m0, spawn)"
    by (rule default_manager)
  obtain rs m' where a: "apply_mode spawn Mode_Dns m0 = (rs, m')" by (cases "apply_mode spawn Mode_Dns m0")
  have "set [Dns] = BootMode_services Mode_Dns" by simp
  from mode_is_exact [OF n rtranclp.rtrancl_refl a this]
  have "status_of m' svc = Running \<longleftrightarrow> wants m0 Mode_Dns svc" for svc by blast
  from this [of Dns] this [of Api] n a show ?thesis
    by (intro exI [of _ m0] exI [of _ spawn]) (simp add: wants_def del: status_of.simps)
qed

text \<open>
  A request that starts or stops a service answers 200 exactly when the name is one of the four
  and the command succeeds, is idempotent (a second one reports no change and leaves the manager
  alone), and any other answer leaves the manager as it was.
\<close>

theorem service_requests_idempotent:
  assumes "start_service spawn name (Some m) = (r1, Some m1)" and "start_service spawn name (Some m1) = (r2, Some m2)"
    and "stop_service name (Some m) = (q1, Some n1)" and "stop_service name (Some n1) = (q2, Some n2)"
  shows "(status_code r1 = 200 \<longleftrightarrow> (\<exists>svc a. Service_parse (unwrap_or [] name) = Some svc \<and>
      addr m svc = Some a \<and> (slot_status (slot svc m) = Running \<or> is_ok (spawn svc a)))) \<and>
    (status_code r1 \<noteq> 200 \<longrightarrow> m1 = m) \<and>
    (status_code r1 = 200 \<longrightarrow> m2 = m1 \<and> (\<exists>svc. r2 = reply 200
      \<lparr>result_service = svc, result_status = Running, result_changed = False\<rparr>)) \<and>
    (status_code q1 = 200 \<longleftrightarrow> Service_parse (unwrap_or [] name) \<noteq> None) \<and>
    (status_code q1 \<noteq> 200 \<longrightarrow> n1 = m) \<and>
    (status_code q1 = 200 \<longrightarrow> n2 = n1 \<and> (\<exists>svc. q2 = reply 200
      \<lparr>result_service = svc, result_status = Idle, result_changed = False\<rparr>))"
proof (cases "Service_parse (unwrap_or [] name)")
  case None
  with assms show ?thesis
    by (auto simp: start_service_def stop_service_def unknown_service_def)
next
  case (Some svc)
  have r1: "status_code r1 = 200 \<longleftrightarrow> is_ok (fst (start spawn svc m))" "m1 = snd (start spawn svc m)"
    using assms(1) Some by (auto simp: start_service_def reply_def split: sum.splits prod.splits)
  have r2: "m2 = snd (start spawn svc m1)" "fst (start spawn svc m1) = Ok r \<Longrightarrow> r2 = reply 200 r" for r
    using assms(2) Some by (auto simp: start_service_def split: sum.splits prod.splits)
  have q1: "status_code q1 = 200" "n1 = snd (stop svc m)"
    using assms(3) Some by (auto simp: stop_service_def reply_def stop_def split: sum.splits prod.splits option.splits)
  have q2: "n2 = snd (stop svc n1)" "fst (stop svc n1) = Ok r \<Longrightarrow> q2 = reply 200 r" for r
    using assms(4) Some by (auto simp: stop_service_def split: sum.splits prod.splits)
  have "slot_handle (slot svc n1) = None" by (auto simp: q1(2) stop_def split: option.splits)
  then have n: "stop svc n1 = (Ok \<lparr>result_service = svc, result_status = Idle, result_changed = False\<rparr>, n1)"
    by (simp add: stop_def)
  have s: "start spawn svc m1 = (Ok \<lparr>result_service = svc, result_status = Running, result_changed = False\<rparr>, m1)"
    if "is_ok (fst (start spawn svc m))"
    using that unfolding r1(2) by (auto simp: start_def Let_def split: option.splits sum.splits)
  have f: "is_ok (fst (start spawn svc m)) \<longleftrightarrow>
      (\<exists>a. addr m svc = Some a \<and> (slot_status (slot svc m) = Running \<or> is_ok (spawn svc a)))"
    "\<not> is_ok (fst (start spawn svc m)) \<Longrightarrow> snd (start spawn svc m) = m"
    by (auto simp: start_def Let_def split: option.splits sum.splits if_splits)
  show ?thesis
    using r1 r2 q1 q2 n s f Some by auto
qed

theorem service_requests_idempotent_witness:
  "\<exists>m1 r2. start_service (snd for_test) (Some ''DNS'') (Some (fst (for_test :: nat Inner \<times> nat spawn_fn))) =
      (reply 200 \<lparr>result_service = Dns, result_status = Running, result_changed = True\<rparr>, Some m1) \<and>
    start_service (snd for_test) (Some ''DNS'') (Some m1) = (r2, Some m1)"
proof -
  let ?m = "fst (for_test :: nat Inner \<times> nat spawn_fn)"
  have p: "Service_parse ''DNS'' = Some Dns" by code_simp
  obtain m1 where m1: "start_service (snd for_test) (Some ''DNS'') (Some ?m) =
      (reply 200 \<lparr>result_service = Dns, result_status = Running, result_changed = True\<rparr>, Some m1)"
    by (simp add: start_service_def p start_def for_test_def Let_def idle_slot_def)
  have tot: "\<exists>r m'. start_service (snd for_test) (Some ''DNS'') (Some (m :: nat Inner)) = (r, Some m')"
    "\<exists>r m'. stop_service (Some ''DNS'') (Some (m :: nat Inner)) = (r, Some m')" for m
    by (auto simp: start_service_def stop_service_def p split: sum.splits prod.splits)
  obtain r2 m2 where m2: "start_service (snd for_test) (Some ''DNS'') (Some m1) = (r2, Some m2)"
    using tot(1) by blast
  obtain q1 n1 where n1: "stop_service (Some ''DNS'') (Some ?m) = (q1, Some n1)" using tot(2) by blast
  obtain q2 n2 where n2: "stop_service (Some ''DNS'') (Some n1) = (q2, Some n2)" using tot(2) by blast
  have "m2 = m1" using service_requests_idempotent [OF m1 m2 n1 n2] by (simp add: reply_def)
  with m1 m2 show ?thesis by blast
qed

end
