(* ===== verification/Zm_Keys.thy ===== *)
theory Zm_Keys
  imports Zm_Config
begin

text \<open>
  Verification keys (\<^verbatim>\<open>src/auth/keys.rs\<close>): the cached key set, its refresh from the network, the
  choice of a key for a token header, and the fetcher that finds the key set through a discovery
  document. The token library, the HTTP client and the JSON reader are parameters, as is the clock;
  the state is the cache, the discovered location and the outside world. The locks that guard the
  two cells are not modelled: no code under \<^verbatim>\<open>src/\<close> can panic while holding one.
\<close>

section \<open>Libraries\<close>

text \<open>Keys and key sets of the token library: only identifiers and material are read.\<close>

record Jwk =
  jwk_key_id :: "string option"
  jwk_material :: string

type_synonym JwkSet = "Jwk list"

datatype DecodingKey = From_secret bytes | From_jwk Jwk

datatype Algorithm =
    HS256 | HS384 | HS512 | ES256 | ES384 | RS256 | RS384 | RS512 | PS256 | PS384 | PS512 | EdDSA

record Header =
  header_alg :: Algorithm
  header_kid :: "string option"

record Validation =
  validation_algorithms :: "Algorithm list"
  validation_leeway :: u64
  validation_issuer :: "string list option"
  validation_audience :: "string list option"

type_synonym jwt_error = string

text \<open>
  The outer result of \<open>http_send\<close> is the request, the inner one the reading of the body;
  \<open>serde_jwks\<close> and \<open>serde_json\<close> read text, \<open>jwks_from_value\<close> a JSON value.
\<close>

record 's auth_lib =
  Instant_now :: "'s \<Rightarrow> int"
  http_send :: "string \<Rightarrow> (string \<times> string) option \<Rightarrow> 's \<Rightarrow>
    ((string, string) result, string) result \<times> 's"
  serde_jwks :: "string \<Rightarrow> (JwkSet, string) result"
  serde_json :: "string \<Rightarrow> (json, string) result"
  jwks_from_value :: "json \<Rightarrow> (JwkSet, string) result"
  header_name :: "string \<Rightarrow> string option"
  header_value :: "string \<Rightarrow> string option"
  from_jwk :: "Jwk \<Rightarrow> DecodingKey option"
  JwkSet_find :: "JwkSet \<Rightarrow> string \<Rightarrow> Jwk option"
  decode_header :: "string \<Rightarrow> (Header, jwt_error) result"
  decode :: "string \<Rightarrow> DecodingKey \<Rightarrow> Validation \<Rightarrow> 's \<Rightarrow> (json, jwt_error) result"
  base64_standard :: "string \<Rightarrow> bytes option"
  base64_url_safe :: "string \<Rightarrow> bytes option"
  auth_env :: "string \<Rightarrow> string option"

section \<open>State\<close>

record CachedSet =
  jwk_set :: JwkSet
  fetched_at :: int

record 's key_state =
  cache :: "CachedSet option"
  resolved_url :: "string option"
  net :: 's

datatype AuthError = AlgorithmDisallowed Algorithm | UnknownKid | SourceUnavailable | Verify jwt_error

section \<open>The HTTP fetcher\<close>

record HttpKeysFetcher =
  fetcher_base :: string
  fetcher_discovery :: bool
  fetcher_discovery_path :: string
  fetcher_jwks_path_override :: "string option"
  fetcher_auth_header :: "(string \<times> string) option"

definition janux_credential ::
  "'s auth_lib \<Rightarrow> string option \<Rightarrow> string option \<Rightarrow> bool \<Rightarrow> (string \<times> string) option" where
  "janux_credential L token name bearer =
     Option.bind token (\<lambda>t0.
       let t = trim t0
       in if t = [] then None
          else
            let hname =
                  (case Option.bind name (\<lambda>n. if trim n = [] then None else Some (trim n)) of
                     Some n \<Rightarrow> unwrap_or ''authorization'' (header_name L n)
                   | None \<Rightarrow> ''authorization'');
                value = (if bearer then ''Bearer '' @ t else t)
            in map_option (\<lambda>v. (hname, v)) (header_value L value))"

definition HttpKeysFetcher_jwks ::
  "'s auth_lib \<Rightarrow> string \<Rightarrow> string option \<Rightarrow> string option \<Rightarrow> bool \<Rightarrow> HttpKeysFetcher" where
  "HttpKeysFetcher_jwks L url token name bearer =
     \<lparr>fetcher_base = url, fetcher_discovery = False,
      fetcher_discovery_path = ''/.well-known/openid-configuration'',
      fetcher_jwks_path_override = None,
      fetcher_auth_header = janux_credential L token name bearer\<rparr>"

definition HttpKeysFetcher_issuer ::
  "'s auth_lib \<Rightarrow> string \<Rightarrow> string option \<Rightarrow> string option \<Rightarrow> string option \<Rightarrow> string option \<Rightarrow>
   bool \<Rightarrow> HttpKeysFetcher" where
  "HttpKeysFetcher_issuer L issuer dpath override token name bearer =
     \<lparr>fetcher_base = issuer, fetcher_discovery = (override = None),
      fetcher_discovery_path = unwrap_or ''/.well-known/openid-configuration'' dpath,
      fetcher_jwks_path_override = override,
      fetcher_auth_header = janux_credential L token name bearer\<rparr>"

definition join_url :: "string \<Rightarrow> string \<Rightarrow> string" where
  "join_url base path =
     (if starts_with ''http://'' path \<or> starts_with ''https://'' path then path
      else
        let b = trim_end_matches (\<lambda>c. c = CHR ''/'') base;
            p = trim_start_matches (\<lambda>c. c = CHR ''/'') path
        in if p = [] then b else b @ ''/'' @ p)"

definition json_get :: "string \<Rightarrow> json \<Rightarrow> json option" where
  "json_get k v = (case v of JObject kvs \<Rightarrow> map_of kvs k | _ \<Rightarrow> None)"

definition json_as_str :: "json \<Rightarrow> string option" where
  "json_as_str v = (case v of JString s \<Rightarrow> Some s | _ \<Rightarrow> None)"

definition jwks_location ::
  "'s auth_lib \<Rightarrow> HttpKeysFetcher \<Rightarrow> 's key_state \<Rightarrow> (string, string) result \<times> 's key_state" where
  "jwks_location L f s =
     (case fetcher_jwks_path_override f of
        Some p \<Rightarrow> (Ok (join_url (fetcher_base f) p), s)
      | None \<Rightarrow>
          if \<not> fetcher_discovery f then (Ok (fetcher_base f), s)
          else case resolved_url s of
              Some url \<Rightarrow> (Ok url, s)
            | None \<Rightarrow>
                (case http_send L (join_url (fetcher_base f) (fetcher_discovery_path f))
                        (fetcher_auth_header f) (net s) of
                   (Inl e, n) \<Rightarrow> (Err (''discovery http: '' @ e), s\<lparr>net := n\<rparr>)
                 | (Inr (Inl e), n) \<Rightarrow> (Err (''discovery body: '' @ e), s\<lparr>net := n\<rparr>)
                 | (Inr (Inr text), n) \<Rightarrow>
                     (case serde_json L text of
                        Inl e \<Rightarrow> (Err (''discovery parse: '' @ e), s\<lparr>net := n\<rparr>)
                      | Inr doc \<Rightarrow>
                          (case Option.bind (json_get ''jwks_uri'' doc) json_as_str of
                             None \<Rightarrow>
                               (Err ''discovery document missing `jwks_uri`'', s\<lparr>net := n\<rparr>)
                           | Some u \<Rightarrow>
                               (let uri = (if starts_with ''http'' u then u
                                           else join_url (fetcher_base f) u)
                                in (Ok uri, s\<lparr>net := n, resolved_url := Some uri\<rparr>))))))"

definition fetch ::
  "'s auth_lib \<Rightarrow> HttpKeysFetcher \<Rightarrow> 's key_state \<Rightarrow> (JwkSet, string) result \<times> 's key_state" where
  "fetch L f s =
     (case jwks_location L f s of
        (Inl e, s1) \<Rightarrow> (Err e, s1)
      | (Inr url, s1) \<Rightarrow>
          (case http_send L url (fetcher_auth_header f) (net s1) of
             (Inl e, n) \<Rightarrow> (Err (''http: '' @ e), s1\<lparr>net := n\<rparr>)
           | (Inr (Inl e), n) \<Rightarrow> (Err (''body: '' @ e), s1\<lparr>net := n\<rparr>)
           | (Inr (Inr text), n) \<Rightarrow>
               (case serde_jwks L text of
                  Inl e \<Rightarrow> (Err (''jwks parse: '' @ e), s1\<lparr>net := n\<rparr>)
                | Inr ks \<Rightarrow>
                    if ks = [] then (Err ''empty JWKS'', s1\<lparr>net := n\<rparr>)
                    else (Ok ks, s1\<lparr>net := n\<rparr>))))"

section \<open>The key set\<close>

text \<open>Durations are in the unit of the clock, with \<open>SECOND\<close> of them to the second.\<close>

definition SECOND :: int where "SECOND = 1000000000"

record KeySet =
  ks_fetcher :: "HttpKeysFetcher option"
  ks_ttl :: int

datatype KeyMaterial = Key_Secret DecodingKey | Key_Set KeySet

definition CachedSet_new :: "'s auth_lib \<Rightarrow> JwkSet \<Rightarrow> 's \<Rightarrow> CachedSet" where
  "CachedSet_new L ks n = \<lparr>jwk_set = ks, fetched_at = Instant_now L n\<rparr>"

definition static_set :: "'s auth_lib \<Rightarrow> JwkSet \<Rightarrow> 's key_state \<Rightarrow> KeySet \<times> 's key_state" where
  "static_set L ks s =
     (\<lparr>ks_fetcher = None, ks_ttl = 0\<rparr>, s\<lparr>cache := Some (CachedSet_new L ks (net s))\<rparr>)"

definition remote :: "HttpKeysFetcher \<Rightarrow> int \<Rightarrow> 's key_state \<Rightarrow> KeySet \<times> 's key_state" where
  "remote f ttl s = (\<lparr>ks_fetcher = Some f, ks_ttl = ttl\<rparr>, s\<lparr>cache := None\<rparr>)"

definition is_remote :: "KeySet \<Rightarrow> bool" where
  "is_remote k \<longleftrightarrow> ks_fetcher k \<noteq> None"

definition current :: "'s key_state \<Rightarrow> JwkSet option" where
  "current s = map_option jwk_set (cache s)"

text \<open>The time elapsed since a fetch is never negative: an instant in the future counts as now.\<close>

definition should_refetch :: "'s auth_lib \<Rightarrow> KeySet \<Rightarrow> 's key_state \<Rightarrow> bool" where
  "should_refetch L k s =
     (case cache s of None \<Rightarrow> True
      | Some c \<Rightarrow> ks_ttl k \<le> max 0 (Instant_now L (net s) - fetched_at c))"

definition store_keys :: "'s auth_lib \<Rightarrow> JwkSet \<Rightarrow> 's key_state \<Rightarrow> 's key_state" where
  "store_keys L ks s = s\<lparr>cache := Some (CachedSet_new L ks (net s))\<rparr>"

definition pick_key :: "'s auth_lib \<Rightarrow> JwkSet \<Rightarrow> Header \<Rightarrow> DecodingKey option" where
  "pick_key L ks header =
     (case header_kid header of
        Some kid \<Rightarrow> Option.bind (JwkSet_find L ks kid) (from_jwk L)
      | None \<Rightarrow>
          (case filter (\<lambda>k. jwk_key_id k = None) ks of
             [k] \<Rightarrow> from_jwk L k
           | _ \<Rightarrow> None))"

text \<open>What \<open>resolve\<close> falls back to: the cache as it stands.\<close>

definition resolve_cached ::
  "'s auth_lib \<Rightarrow> Header \<Rightarrow> 's key_state \<Rightarrow> (DecodingKey, AuthError) result" where
  "resolve_cached L header s =
     (case current s of
        Some ks \<Rightarrow> (case pick_key L ks header of Some k \<Rightarrow> Ok k | None \<Rightarrow> Err UnknownKid)
      | None \<Rightarrow> Err SourceUnavailable)"

definition resolve ::
  "'s auth_lib \<Rightarrow> KeySet \<Rightarrow> Header \<Rightarrow> 's key_state \<Rightarrow> (DecodingKey, AuthError) result \<times> 's key_state" where
  "resolve L k header s =
     (case Option.bind (current s) (\<lambda>ks. pick_key L ks header) of
        Some key \<Rightarrow> (Ok key, s)
      | None \<Rightarrow>
          (case ks_fetcher k of
             None \<Rightarrow> (resolve_cached L header s, s)
           | Some f \<Rightarrow>
               if \<not> should_refetch L k s then (resolve_cached L header s, s)
               else
                 (case fetch L f s of
                    (Inr ks, s1) \<Rightarrow>
                      (let s2 = store_keys L ks s1
                       in case Option.bind (current s2) (\<lambda>ks. pick_key L ks header) of
                            Some key \<Rightarrow> (Ok key, s2)
                          | None \<Rightarrow> (Err UnknownKid, s2))
                  | (Inl e, s1) \<Rightarrow> (resolve_cached L header s1, s1))))"

text \<open>One turn of the background refresh: a failed fetch keeps the keys there are.\<close>

definition refresh_once :: "'s auth_lib \<Rightarrow> KeySet \<Rightarrow> 's key_state \<Rightarrow> 's key_state" where
  "refresh_once L k s =
     (case ks_fetcher k of
        None \<Rightarrow> s
      | Some f \<Rightarrow>
          (case fetch L f s of (Inr ks, s1) \<Rightarrow> store_keys L ks s1 | (Inl e, s1) \<Rightarrow> s1))"

text \<open>What an answer of \<open>resolve\<close> says about the keys held afterwards.\<close>

fun resolution ::
  "'s auth_lib \<Rightarrow> Header \<Rightarrow> JwkSet option \<Rightarrow> (DecodingKey, AuthError) result \<Rightarrow> bool" where
  "resolution L header held (Inr key) \<longleftrightarrow>
     (\<exists>ks. held = Some ks \<and> pick_key L ks header = Some key)"
| "resolution L header held (Inl UnknownKid) \<longleftrightarrow>
     (\<exists>ks. held = Some ks \<and> pick_key L ks header = None)"
| "resolution L header held (Inl SourceUnavailable) \<longleftrightarrow> held = None"
| "resolution L header held (Inl _) \<longleftrightarrow> False"

section \<open>Properties\<close>

lemma fetch_cache: "fetch L f s = (r, s') \<Longrightarrow> cache s' = cache s"
  by (auto simp: fetch_def jwks_location_def Let_def
      split: option.splits sum.splits prod.splits if_splits)

lemma fetch_not_empty: "fetch L f s = (Ok ks, s') \<Longrightarrow> ks \<noteq> []"
  by (auto simp: fetch_def split: sum.splits prod.splits if_splits)

lemma join_url_single_slash:
  assumes "base = b @ replicate n (CHR ''/'')" and "path = replicate m (CHR ''/'') @ p"
    and "b \<noteq> []" "last b \<noteq> CHR ''/''" "p \<noteq> []" "hd p \<noteq> CHR ''/''"
    and "\<not> starts_with ''http://'' path" "\<not> starts_with ''https://'' path"
  shows "join_url base path = b @ ''/'' @ p"
proof -
  have drop: "dropWhile (\<lambda>c. c = x) (replicate k x @ ys) = ys" if "ys \<noteq> []" "hd ys \<noteq> x"
    for k and x :: char and ys
    using that by (induction k) (auto simp: dropWhile_eq_Cons_conv neq_Nil_conv)
  have "trim_end_matches (\<lambda>c. c = CHR ''/'') base = b"
    using drop [of "rev b" "CHR ''/''" n] assms(1,3,4)
    by (simp add: trim_end_matches_def hd_rev)
  moreover have "trim_start_matches (\<lambda>c. c = CHR ''/'') path = p"
    using drop [of p "CHR ''/''" m] assms(2,5,6) by (simp add: trim_start_matches_def)
  ultimately show ?thesis using assms(5,7,8) by (simp add: join_url_def)
qed


end
