(* ===== verification/Zm_Policy.thy ===== *)
theory Zm_Policy
  imports Zm_Config
begin

text \<open>
  The role policy (\<^verbatim>\<open>src/auth/policy.rs\<close>): grant tokens, the resource and verb a request falls
  under, the compilation of roles with their inheritance, and the question whether a set of roles
  permits a request. Hash maps are partial functions with a list of their keys in the order the
  iteration visits them; hash sets are sets.
\<close>

section \<open>Verbs and grants\<close>

datatype Verb = Read | Write | Delete

fun Verb_name :: "Verb \<Rightarrow> string" where
  "Verb_name Read = ''read''"
| "Verb_name Write = ''write''"
| "Verb_name Delete = ''delete''"

definition Verb_from_method :: "string \<Rightarrow> Verb" where
  "Verb_from_method m =
     (if m \<in> {''GET'', ''HEAD'', ''OPTIONS''} then Read
      else if m = ''DELETE'' then Delete
      else Write)"

definition Verb_parse :: "string \<Rightarrow> Verb option" where
  "Verb_parse token =
     (let t = to_ascii_lowercase (trim token)
      in if t \<in> {''read'', ''get'', ''r''} then Some Read
         else if t \<in> {''write'', ''post'', ''put'', ''patch'', ''w''} then Some Write
         else if t \<in> {''delete'', ''del'', ''d''} then Some Delete
         else None)"

datatype Grant =
    Grant_All
  | AnyVerb string
  | AnyResource Verb
  | Exact string Verb

definition Grant_parse :: "string \<Rightarrow> Grant option" where
  "Grant_parse token =
     (let raw = trim token
      in if raw = ''*'' \<or> raw = ''*:*'' \<or> to_ascii_lowercase raw = ''all'' then Some Grant_All
         else case split_once (CHR '':'') raw of
             None \<Rightarrow> Some (AnyVerb raw)
           | Some (l, r) \<Rightarrow>
               (let lhs = trim l; rhs = trim r
                in if rhs = ''*'' \<or> rhs = [] then
                     Some (if lhs = ''*'' then Grant_All else AnyVerb (to_ascii_lowercase lhs))
                   else if lhs = ''*'' then map_option AnyResource (Verb_parse rhs)
                   else map_option (Exact (to_ascii_lowercase lhs)) (Verb_parse rhs)))"

fun Grant_matches :: "Grant \<Rightarrow> string \<Rightarrow> Verb \<Rightarrow> bool" where
  "Grant_matches Grant_All resource verb = True"
| "Grant_matches (AnyVerb r) resource verb = (r = resource)"
| "Grant_matches (AnyResource v) resource verb = (v = verb)"
| "Grant_matches (Exact r v) resource verb = (r = resource \<and> v = verb)"

section \<open>Requests\<close>

record RouteTarget =
  target_resource :: string
  target_verb :: Verb

definition resource_for_path :: "string \<Rightarrow> string option" where
  "resource_for_path path =
     (let seg = hd (split_char (CHR ''/'') (trim_start_matches (\<lambda>c. c = CHR ''/'') path))
      in if seg = [] then None else Some (to_ascii_lowercase seg))"

definition route_target :: "string \<Rightarrow> string \<Rightarrow> RouteTarget option" where
  "route_target path meth =
     map_option (\<lambda>r. \<lparr>target_resource = r, target_verb = Verb_from_method meth\<rparr>)
       (resource_for_path path)"

section \<open>Compiling the policy\<close>

type_synonym grant_map = "string \<rightharpoonup> Grant set"

record AuthPolicy =
  policy_role_grants :: grant_map
  policy_public :: "string set"

text \<open>One configured role is merged into the direct grants and the \<open>extends\<close> lists.\<close>

definition add_role ::
  "grant_map \<times> (string \<rightharpoonup> string list) \<Rightarrow> string \<times> RoleConfig \<Rightarrow>
   grant_map \<times> (string \<rightharpoonup> string list)" where
  "add_role acc role =
     (let (direct, exts) = acc;
          key = to_ascii_lowercase (fst role)
      in (direct(key \<mapsto> unwrap_or {} (direct key) \<union>
             set (List.map_filter Grant_parse (role_grants (snd role)))),
          exts(key \<mapsto> unwrap_or [] (exts key) @
             map to_ascii_lowercase (role_extends (snd role)))))"

definition role_keys :: "(string \<times> RoleConfig) list \<Rightarrow> string list" where
  "role_keys roles = remdups (map (\<lambda>r. to_ascii_lowercase (fst r)) roles)"

definition collect :: "(string \<times> RoleConfig) list \<Rightarrow> grant_map \<times> (string \<rightharpoonup> string list)" where
  "collect roles = foldl add_role (Map.empty, Map.empty) roles"

definition merge_deps :: "grant_map \<Rightarrow> string \<Rightarrow> string list \<Rightarrow> Grant set" where
  "merge_deps snapshot role deps =
     foldl (\<lambda>merged dep. case snapshot dep of Some dg \<Rightarrow> merged \<union> dg | None \<Rightarrow> merged)
       (unwrap_or {} (snapshot role)) deps"

text \<open>One turn of the loop over the \<open>extends\<close> map, reading the snapshot and writing \<open>effective\<close>.\<close>

fun inherit_pass ::
  "(string \<rightharpoonup> string list) \<Rightarrow> grant_map \<Rightarrow> string list \<Rightarrow> grant_map \<times> bool \<Rightarrow> grant_map \<times> bool" where
  "inherit_pass exts snapshot [] acc = acc"
| "inherit_pass exts snapshot (role # rest) (effective, changed) =
     (let before = unwrap_or {} (snapshot role);
          merged = merge_deps snapshot role (unwrap_or [] (exts role))
      in inherit_pass exts snapshot rest
           (if card merged \<noteq> card before
            then (effective(role \<mapsto> unwrap_or {} (effective role) \<union> merged), True)
            else (effective, changed)))"

text \<open>The loop with its cap of ten thousand turns.\<close>

function inherit_loop ::
  "(string \<rightharpoonup> string list) \<Rightarrow> string list \<Rightarrow> bool \<Rightarrow> int \<Rightarrow> grant_map \<Rightarrow> grant_map" where
  "inherit_loop exts ks changed guard effective =
     (if changed \<and> guard < 10000 then
        let (effective', changed') = inherit_pass exts effective ks (effective, False)
        in inherit_loop exts ks changed' (guard + 1) effective'
      else effective)"
  by pat_completeness auto
termination by (relation "measure (\<lambda>(_, _, _, guard, _). nat (10000 - guard))") auto

declare inherit_loop.simps [simp del]

definition AuthPolicy_build :: "(string \<times> RoleConfig) list \<Rightarrow> string list \<Rightarrow> AuthPolicy" where
  "AuthPolicy_build roles public =
     (let (direct, exts) = collect roles
      in \<lparr>policy_role_grants = inherit_loop exts (role_keys roles) True 0 direct,
          policy_public = set (map to_ascii_lowercase public)\<rparr>)"

definition is_public :: "AuthPolicy \<Rightarrow> string \<Rightarrow> bool" where
  "is_public p resource \<longleftrightarrow> to_ascii_lowercase resource \<in> policy_public p"

definition allows :: "AuthPolicy \<Rightarrow> string list \<Rightarrow> RouteTarget \<Rightarrow> bool" where
  "allows p roles target =
     (let resource = to_ascii_lowercase (target_resource target)
      in resource \<in> policy_public p \<or>
         (\<exists>role \<in> set roles.
            case policy_role_grants p (to_ascii_lowercase role) of
              None \<Rightarrow> False
            | Some gs \<Rightarrow> \<exists>g \<in> gs. Grant_matches g resource (target_verb target)))"

section \<open>What the policy means\<close>

text \<open>
  The declarative reading of the role table: a role inherits along \<open>extends\<close>, and has the grants of
  every role it inherits from, itself included.
\<close>

definition extends_rel :: "(string \<times> RoleConfig) list \<Rightarrow> (string \<times> string) set" where
  "extends_rel roles =
     {(to_ascii_lowercase n, to_ascii_lowercase e) |n c e. (n, c) \<in> set roles \<and> e \<in> set (role_extends c)}"

definition direct_grants :: "(string \<times> RoleConfig) list \<Rightarrow> string \<Rightarrow> Grant set" where
  "direct_grants roles k =
     {g. \<exists>n c t. (n, c) \<in> set roles \<and> to_ascii_lowercase n = k \<and> t \<in> set (role_grants c) \<and>
       Grant_parse t = Some g}"

definition inherited_grants :: "(string \<times> RoleConfig) list \<Rightarrow> string \<Rightarrow> Grant set" where
  "inherited_grants roles k = (\<Union>d \<in> (extends_rel roles)\<^sup>* `` {k}. direct_grants roles d)"

subsection \<open>Collecting\<close>

lemma add_role_pair:
  "add_role (d, x) r =
     (d(to_ascii_lowercase (fst r) \<mapsto> unwrap_or {} (d (to_ascii_lowercase (fst r))) \<union>
        set (List.map_filter Grant_parse (role_grants (snd r)))),
      x(to_ascii_lowercase (fst r) \<mapsto> unwrap_or [] (x (to_ascii_lowercase (fst r))) @
        map to_ascii_lowercase (role_extends (snd r))))"
  by (simp add: add_role_def Let_def)

lemma collect_dom:
  "dom (fst (foldl add_role (d, x) roles)) = dom d \<union> set (role_keys roles)"
  "dom (snd (foldl add_role (d, x) roles)) = dom x \<union> set (role_keys roles)"
  by (induction roles arbitrary: d x)
    (auto simp: role_keys_def add_role_pair split: if_splits)

lemma collect_direct:
  "unwrap_or {} (fst (foldl add_role (d, x) roles) k) = unwrap_or {} (d k) \<union> direct_grants roles k"
proof (induction roles arbitrary: d x)
  case Nil
  then show ?case by (simp add: direct_grants_def)
next
  case (Cons r roles)
  have "direct_grants (r # roles) k =
      (if to_ascii_lowercase (fst r) = k then set (List.map_filter Grant_parse (role_grants (snd r)))
       else {}) \<union> direct_grants roles k"
    by (cases r) (force simp: direct_grants_def map_filter_def)
  then show ?case by (simp add: add_role_pair Cons Un_assoc)
qed

lemma collect_extends:
  "set (unwrap_or [] (snd (foldl add_role (d, x) roles) k)) =
     set (unwrap_or [] (x k)) \<union> extends_rel roles `` {k}"
proof (induction roles arbitrary: d x)
  case Nil
  then show ?case by (simp add: extends_rel_def)
next
  case (Cons r roles)
  have "extends_rel (r # roles) `` {k} =
      (if to_ascii_lowercase (fst r) = k then to_ascii_lowercase ` set (role_extends (snd r)) else {})
      \<union> extends_rel roles `` {k}"
    by (cases r) (auto simp: extends_rel_def)
  then show ?case by (simp add: add_role_pair Cons Un_assoc)
qed

subsection \<open>One pass\<close>

definition spread :: "(string \<Rightarrow> string set) \<Rightarrow> grant_map \<Rightarrow> grant_map" where
  "spread deps e =
     (\<lambda>k. map_option (\<lambda>gs. gs \<union> (\<Union>d \<in> deps k. unwrap_or {} (e d))) (e k))"

lemma merge_deps_set:
  "merge_deps snap role deps = unwrap_or {} (snap role) \<union> (\<Union>d \<in> set deps. unwrap_or {} (snap d))"
proof -
  have "foldl (\<lambda>merged dep. case snap dep of Some dg \<Rightarrow> merged \<union> dg | None \<Rightarrow> merged) m ds =
      m \<union> (\<Union>d \<in> set ds. unwrap_or {} (snap d))" for m ds
    by (induction ds arbitrary: m) (auto split: option.splits simp: unwrap_or_def)
  then show ?thesis by (simp add: merge_deps_def)
qed

lemma finite_merge:
  "(\<And>k gs. snap k = Some gs \<Longrightarrow> finite gs) \<Longrightarrow> finite (merge_deps snap role deps)"
  by (auto simp: merge_deps_set unwrap_or_def split: option.splits)

lemma inherit_pass_spread:
  assumes "distinct ks" and "set ks \<subseteq> dom snap" and "\<And>k gs. snap k = Some gs \<Longrightarrow> finite gs"
    and "\<And>k. k \<in> set ks \<Longrightarrow> e k = snap k"
  shows "inherit_pass x snap ks (e, c) =
    ((\<lambda>k. if k \<in> set ks then spread (\<lambda>k. set (unwrap_or [] (x k))) snap k else e k),
     c \<or> (\<exists>k \<in> set ks. spread (\<lambda>k. set (unwrap_or [] (x k))) snap k \<noteq> snap k))"
  using assms(1,2,4)
proof (induction ks arbitrary: e c)
  case (Cons r ks)
  let ?sp = "spread (\<lambda>k. set (unwrap_or [] (x k))) snap"
  from Cons.prems obtain gs where gs: "snap r = Some gs" by auto
  let ?m = "merge_deps snap r (unwrap_or [] (x r))"
  have m: "?sp r = Some ?m" by (simp add: spread_def gs merge_deps_set)
  have sub: "gs \<subseteq> ?m" by (auto simp: merge_deps_set gs)
  have fin: "finite ?m" using assms(3) by (rule finite_merge)
  have ch: "card ?m \<noteq> card gs \<longleftrightarrow> ?sp r \<noteq> snap r"
    using card_subset_eq [OF fin sub] m gs by auto
  show ?case
  proof (cases "card ?m \<noteq> card gs")
    case True
    have "inherit_pass x snap (r # ks) (e, c) = inherit_pass x snap ks (e(r \<mapsto> gs \<union> ?m), True)"
      using True gs Cons.prems(3) [of r] by (simp add: Let_def)
    also have "\<dots> = ((\<lambda>k. if k \<in> set ks then ?sp k else (e(r \<mapsto> gs \<union> ?m)) k), True)"
      using Cons.prems by (subst Cons.IH) auto
    finally show ?thesis using True ch m sub Cons.prems(1)
      by (auto simp: fun_eq_iff sup.absorb2)
  next
    case False
    have "inherit_pass x snap (r # ks) (e, c) = inherit_pass x snap ks (e, c)"
      using False gs by (simp add: Let_def)
    also have "\<dots> = ((\<lambda>k. if k \<in> set ks then ?sp k else e k), c \<or> (\<exists>k \<in> set ks. ?sp k \<noteq> snap k))"
      using Cons.prems by (subst Cons.IH) auto
    finally show ?thesis using False ch gs Cons.prems(1) Cons.prems(3) [of r]
      by (auto simp: fun_eq_iff)
  qed
qed (auto simp: fun_eq_iff)

subsection \<open>The loop\<close>

lemma dom_spread [simp]: "dom (spread deps e) = dom e"
  by (auto simp: spread_def)

lemma finite_spread:
  assumes "\<And>k gs. e k = Some gs \<Longrightarrow> finite gs" and "\<And>k. finite (deps k)" and "spread deps e k = Some hs"
  shows "finite hs"
proof -
  have "finite (unwrap_or {} (e d))" for d using assms(1) [of d] by (cases "e d") auto
  then show ?thesis using assms by (auto simp: spread_def)
qed

text \<open>One pass over all roles is one step of spreading, and reports whether it changed anything.\<close>

lemma inherit_pass_all:
  fixes x :: "string \<rightharpoonup> string list"
  assumes "distinct ks" and "dom e = set ks" and "\<And>k gs. e k = Some gs \<Longrightarrow> finite gs"
  defines "sp \<equiv> spread (\<lambda>k. set (unwrap_or [] (x k)))"
  shows "inherit_pass x e ks (e, False) = (sp e, sp e \<noteq> e)"
proof -
  have "inherit_pass x e ks (e, False) =
      ((\<lambda>k. if k \<in> set ks then sp e k else e k), \<exists>k \<in> set ks. sp e k \<noteq> e k)"
    unfolding sp_def using inherit_pass_spread [OF assms(1), of e e x False] assms(2,3) by simp
  moreover have "sp e k = e k" if "k \<notin> set ks" for k
  proof -
    have "e k = None" using that assms(2) by blast
    then show ?thesis by (simp add: sp_def spread_def)
  qed
  ultimately show ?thesis by (auto simp: fun_eq_iff)
qed

lemma inherit_loop_iterates:
  fixes x :: "string \<rightharpoonup> string list"
  assumes "distinct ks" and "dom e = set ks" and "\<And>k gs. e k = Some gs \<Longrightarrow> finite gs"
    and "0 \<le> g" "g \<le> 10000"
  defines "sp \<equiv> spread (\<lambda>k. set (unwrap_or [] (x k)))"
  shows "\<exists>n. inherit_loop x ks True g e = (sp ^^ n) e \<and>
    (n = nat (10000 - g) \<or> sp ((sp ^^ n) e) = (sp ^^ n) e)"
  using assms(2-5)
proof (induction "nat (10000 - g)" arbitrary: g e)
  case 0
  then have "inherit_loop x ks True g e = e" by (subst inherit_loop.simps) simp
  then show ?case using 0 by (intro exI [of _ 0]) simp
next
  case (Suc m)
  have pass: "inherit_pass x e ks (e, False) = (sp e, sp e \<noteq> e)"
    unfolding sp_def by (rule inherit_pass_all [OF assms(1) Suc.prems(1,2)])
  have unfold: "inherit_loop x ks True g e = inherit_loop x ks (sp e \<noteq> e) (g + 1) (sp e)"
    using Suc.hyps(2) by (subst inherit_loop.simps) (auto simp: pass)
  show ?case
  proof (cases "sp e = e")
    case True
    then have "inherit_loop x ks True g e = e" using unfold by (simp add: inherit_loop.simps)
    with True show ?thesis by (intro exI [of _ 0]) simp
  next
    case False
    have "\<exists>n. inherit_loop x ks True (g + 1) (sp e) = (sp ^^ n) (sp e) \<and>
        (n = nat (10000 - (g + 1)) \<or> sp ((sp ^^ n) (sp e)) = (sp ^^ n) (sp e))"
    proof (rule Suc.hyps(1))
      show "m = nat (10000 - (g + 1))" using Suc.hyps(2) by simp
      show "dom (sp e) = set ks" using Suc.prems(1) by (simp add: sp_def)
      show "finite gs" if "sp e k = Some gs" for k gs
        using that unfolding sp_def by (rule finite_spread [OF Suc.prems(2) finite_set, rotated -1])
    qed (use Suc.prems Suc.hyps(2) in auto)
    then obtain n where "inherit_loop x ks True (g + 1) (sp e) = (sp ^^ n) (sp e)"
      "n = nat (10000 - (g + 1)) \<or> sp ((sp ^^ n) (sp e)) = (sp ^^ n) (sp e)" by blast
    moreover have "(sp ^^ n) (sp e) = (sp ^^ Suc n) e" by (simp add: funpow_swap1)
    ultimately show ?thesis using unfold False Suc.hyps(2)
      by (intro exI [of _ "Suc n"]) auto
  qed
qed

definition layer :: "(string \<times> RoleConfig) list \<Rightarrow> nat \<Rightarrow> string \<Rightarrow> Grant set" where
  "layer roles n k = (\<Union>m \<in> {..n}. \<Union>d \<in> (extends_rel roles ^^ m) `` {k}. direct_grants roles d)"

lemma layer_Suc:
  "layer roles (Suc n) k = layer roles n k \<union> (\<Union>d \<in> extends_rel roles `` {k}. layer roles n d)"
proof -
  let ?R = "extends_rel roles"
  have "(\<Union>d \<in> (?R ^^ Suc m) `` {k}. direct_grants roles d) =
      (\<Union>e \<in> ?R `` {k}. \<Union>d \<in> (?R ^^ m) `` {e}. direct_grants roles d)" for m
    by (simp only: relpow.simps(2) relpow_commute [symmetric]) (auto simp: relcomp_unfold)
  moreover have "{..Suc n} = insert 0 (Suc ` {..n})" by (rule atMost_Suc_eq_insert_0)
  ultimately have "layer roles (Suc n) k = direct_grants roles k \<union>
      (\<Union>d \<in> ?R `` {k}. layer roles n d)"
    by (auto simp: layer_def)
  moreover have "direct_grants roles k \<subseteq> layer roles n k"
    by (force simp: layer_def)
  moreover have "layer roles n k \<subseteq> layer roles (Suc n) k" by (force simp: layer_def)
  ultimately show ?thesis by auto
qed

lemma layer_outside: "k \<notin> set (role_keys roles) \<Longrightarrow> layer roles n k = {}"
proof -
  assume k: "k \<notin> set (role_keys roles)"
  then have "extends_rel roles `` {k} = {}" "direct_grants roles k = {}"
    by (force simp: extends_rel_def direct_grants_def role_keys_def)+
  then show ?thesis
    by (induction n) (simp_all add: layer_Suc, simp add: layer_def)
qed

lemma spread_layers:
  "(spread (\<lambda>k. extends_rel roles `` {k}) ^^ n) (fst (collect roles)) k =
     (if k \<in> set (role_keys roles) then Some (layer roles n k) else None)"
proof (induction n arbitrary: k)
  case 0
  have "dom (fst (collect roles)) = set (role_keys roles)"
    by (simp add: collect_def collect_dom)
  then have "fst (collect roles) k = None \<longleftrightarrow> k \<notin> set (role_keys roles)" by (metis domIff)
  moreover have "unwrap_or {} (fst (collect roles) k) = layer roles 0 k"
    by (simp add: collect_def collect_direct layer_def)
  ultimately show ?case by (cases "fst (collect roles) k") auto
next
  case (Suc n)
  let ?e = "(spread (\<lambda>k. extends_rel roles `` {k}) ^^ n) (fst (collect roles))"
  have "unwrap_or {} (?e d) = layer roles n d" for d
    using Suc layer_outside [of d roles n] by simp
  then show ?case using Suc by (simp add: spread_def layer_Suc)
qed

lemma finite_extends_rel: "finite (extends_rel roles)"
proof -
  have "extends_rel roles \<subseteq> (\<Union>(n, c) \<in> set roles.
      (\<lambda>e. (to_ascii_lowercase n, to_ascii_lowercase e)) ` set (role_extends c))"
    by (force simp: extends_rel_def)
  then show ?thesis by (rule finite_subset) auto
qed

lemma card_extends_rel:
  "card (extends_rel roles) \<le> sum_list (map (\<lambda>r. length (role_extends (snd r))) roles)"
proof (induction roles)
  case Nil
  then show ?case by (simp add: extends_rel_def)
next
  case (Cons r roles)
  have e: "extends_rel (r # roles) =
      (\<lambda>e. (to_ascii_lowercase (fst r), to_ascii_lowercase e)) ` set (role_extends (snd r))
      \<union> extends_rel roles" by (cases r) (auto simp: extends_rel_def)
  have "card ((\<lambda>e. (to_ascii_lowercase (fst r), to_ascii_lowercase e)) ` set (role_extends (snd r)))
      \<le> length (role_extends (snd r))"
    by (rule order_trans [OF card_image_le card_length]) simp
  with Cons card_Un_le [of "(\<lambda>e. (to_ascii_lowercase (fst r), to_ascii_lowercase e)) `
      set (role_extends (snd r))" "extends_rel roles"] show ?case unfolding e by simp
qed

lemma inherited_layers: "inherited_grants roles k = (\<Union>n. layer roles n k)"
proof (intro equalityI subsetI)
  fix g assume "g \<in> inherited_grants roles k"
  then obtain d where "(k, d) \<in> (extends_rel roles)\<^sup>*" and g: "g \<in> direct_grants roles d"
    by (auto simp: inherited_grants_def)
  then obtain n where "(k, d) \<in> extends_rel roles ^^ n" by (auto simp: rtrancl_power)
  with g have "g \<in> layer roles n k" by (auto simp: layer_def)
  then show "g \<in> (\<Union>n. layer roles n k)" by blast
qed (force simp: inherited_grants_def layer_def rtrancl_power)

lemma layer_mono: "m \<le> n \<Longrightarrow> layer roles m k \<subseteq> layer roles n k"
  by (force simp: layer_def)

lemma layer_bound:
  assumes "card (extends_rel roles) \<le> n"
  shows "layer roles n k = inherited_grants roles k"
proof -
  have "(extends_rel roles)\<^sup>* = (\<Union>m \<in> {m. m \<le> card (extends_rel roles)}. extends_rel roles ^^ m)"
    by (rule rtrancl_finite_eq_relpow [OF finite_extends_rel])
  then have "inherited_grants roles k \<subseteq> layer roles n k"
    using assms by (fastforce simp: inherited_grants_def layer_def)
  moreover have "layer roles n k \<subseteq> inherited_grants roles k" by (auto simp: inherited_layers)
  ultimately show ?thesis by simp
qed

text \<open>What the collected tables satisfy before the loop starts.\<close>

lemma collect_deps: "(\<lambda>k. set (unwrap_or [] (snd (collect roles) k))) = (\<lambda>k. extends_rel roles `` {k})"
  by (simp add: collect_def collect_extends)

lemma collect_keys: "dom (fst (collect roles)) = set (role_keys roles)"
  by (simp add: collect_def collect_dom)

lemma finite_direct_grants: "finite (direct_grants roles k)"
proof -
  have "direct_grants roles k \<subseteq> (\<Union>(n, c) \<in> set roles. set (List.map_filter Grant_parse (role_grants c)))"
    by (force simp: direct_grants_def map_filter_def)
  then show ?thesis by (rule finite_subset) auto
qed

lemma finite_layer: "finite (layer roles n k)"
proof -
  have "finite ((extends_rel roles ^^ m) `` {k})" for m
  proof (cases m)
    case (Suc m')
    then have "(extends_rel roles ^^ m) `` {k} \<subseteq> snd ` extends_rel roles" by force
    then show ?thesis by (rule finite_subset) (simp add: finite_extends_rel)
  qed simp
  then show ?thesis by (simp add: layer_def finite_direct_grants)
qed

lemma finite_collect: "fst (collect roles) k = Some gs \<Longrightarrow> finite gs"
  using collect_direct [of Map.empty Map.empty roles k] finite_direct_grants [of roles k]
  by (simp add: collect_def)

text \<open>
  The loop ends with a number of layers that one more turn does not extend, and these are all there
  are: it is not the cap that ends it.
\<close>

lemma inherit_loop_layers:
  assumes "sum_list (map (\<lambda>r. length (role_extends (snd r))) roles) \<le> 10000"
  obtains n where
    "inherit_loop (snd (collect roles)) (role_keys roles) True 0 (fst (collect roles)) =
       (\<lambda>k. if k \<in> set (role_keys roles) then Some (layer roles n k) else None)"
    "\<And>k. layer roles n k = inherited_grants roles k"
proof -
  let ?D = "fst (collect roles)"
  let ?sp = "spread (\<lambda>k. extends_rel roles `` {k})"
  obtain n where n: "inherit_loop (snd (collect roles)) (role_keys roles) True 0 ?D = (?sp ^^ n) ?D"
    "n = 10000 \<or> ?sp ((?sp ^^ n) ?D) = (?sp ^^ n) ?D"
    using inherit_loop_iterates [of "role_keys roles" ?D 0 "snd (collect roles)"] collect_keys
      finite_collect unfolding collect_deps by (auto simp: role_keys_def)
  have "layer roles n k = inherited_grants roles k" for k
    using n(2)
  proof
    assume "n = 10000"
    then show ?thesis using card_extends_rel [of roles] assms by (intro layer_bound) simp
  next
    assume fixed: "?sp ((?sp ^^ n) ?D) = (?sp ^^ n) ?D"
    then have "(?sp ^^ (m + n)) ?D = (?sp ^^ n) ?D" for m by (induction m) auto
    then have "layer roles (m + n) k = layer roles n k" for m
      using spread_layers [of "m + n" roles k] spread_layers [of n roles k]
        layer_outside [of k roles] by (cases "k \<in> set (role_keys roles)") auto
    then have "layer roles m k \<subseteq> layer roles n k" for m
      using layer_mono [of m "m + n" roles k] by simp
    then show ?thesis by (auto simp: inherited_layers)
  qed
  moreover have "inherit_loop (snd (collect roles)) (role_keys roles) True 0 ?D =
      (\<lambda>k. if k \<in> set (role_keys roles) then Some (layer roles n k) else None)"
    unfolding n(1) by (rule ext) (rule spread_layers)
  ultimately show thesis by (intro that)
qed

lemma policy_grants:
  assumes "sum_list (map (\<lambda>r. length (role_extends (snd r))) roles) \<le> 10000"
  shows "policy_role_grants (AuthPolicy_build roles public) k =
    (if k \<in> set (role_keys roles) then Some (inherited_grants roles k) else None)"
  by (rule inherit_loop_layers [OF assms]) (simp add: AuthPolicy_build_def split_def Let_def)

section \<open>Properties\<close>

text \<open>
  C13. A request is permitted exactly when its resource is public or one of the caller's roles
  inherits, along any chain of \<open>extends\<close>, from a configured role one of whose grant tokens covers
  the resource and verb. Cycles of \<open>extends\<close> are harmless, the order in which the role table is
  visited does not matter, and the cap on the number of turns never cuts inheritance short for
  tables with at most ten thousand \<open>extends\<close> entries. An unknown role permits nothing.
\<close>

theorem allows_iff_inherited:
  assumes "sum_list (map (\<lambda>r. length (role_extends (snd r))) roles) \<le> 10000"
  shows "allows (AuthPolicy_build roles public) callers target \<longleftrightarrow>
    to_ascii_lowercase (target_resource target) \<in> to_ascii_lowercase ` set public \<or>
    (\<exists>role \<in> set callers. \<exists>d n c t g.
       (to_ascii_lowercase role, d) \<in> (extends_rel roles)\<^sup>* \<and> (n, c) \<in> set roles \<and>
       to_ascii_lowercase n = d \<and> t \<in> set (role_grants c) \<and> Grant_parse t = Some g \<and>
       Grant_matches g (to_ascii_lowercase (target_resource target)) (target_verb target))"
proof -
  have outside: "(k, d) \<in> (extends_rel roles)\<^sup>* \<Longrightarrow> k \<notin> set (role_keys roles) \<Longrightarrow> d = k" for k d
    by (erule converse_rtranclE) (force simp: extends_rel_def role_keys_def)+
  have key: "k \<in> set (role_keys roles)"
    if "(k, to_ascii_lowercase n) \<in> (extends_rel roles)\<^sup>*" "(n, c) \<in> set roles" for k n c
    using outside [OF that(1)] that(2) by (force simp: role_keys_def)
  have pub: "policy_public (AuthPolicy_build roles public) = to_ascii_lowercase ` set public"
    by (simp add: AuthPolicy_build_def split_def Let_def)
  have role: "(case policy_role_grants (AuthPolicy_build roles public) k of None \<Rightarrow> False
      | Some gs \<Rightarrow> \<exists>g \<in> gs. P g) \<longleftrightarrow>
      (\<exists>d n c t g. (k, d) \<in> (extends_rel roles)\<^sup>* \<and> (n, c) \<in> set roles \<and>
        to_ascii_lowercase n = d \<and> t \<in> set (role_grants c) \<and> Grant_parse t = Some g \<and> P g)" for k P
  proof (cases "k \<in> set (role_keys roles)")
    case True
    then show ?thesis
      by (auto simp: policy_grants [OF assms] inherited_grants_def direct_grants_def) blast+
  next
    case False
    then show ?thesis using key by (auto simp: policy_grants [OF assms])
  qed
  show ?thesis unfolding allows_def Let_def pub role by blast
qed

definition example_roles :: "(string \<times> RoleConfig) list" where
  "example_roles =
     [(''Viewer'', \<lparr>role_grants = [''domains:read''], role_extends = [''editor'']\<rparr>),
      (''editor'', \<lparr>role_grants = [''records:*''], role_extends = [''viewer'', ''ghost'']\<rparr>)]"

theorem allows_iff_inherited_witness:
  "allows (AuthPolicy_build example_roles []) [''EDITOR'']
     \<lparr>target_resource = ''domains'', target_verb = Read\<rparr> \<and>
   \<not> allows (AuthPolicy_build example_roles []) [''ghost'']
     \<lparr>target_resource = ''domains'', target_verb = Read\<rparr>"
proof -
  have small: "sum_list (map (\<lambda>r. length (role_extends (snd r))) example_roles) \<le> 10000"
    by (simp add: example_roles_def)
  have low: "to_ascii_lowercase ''EDITOR'' = ''editor''" "to_ascii_lowercase ''Viewer'' = ''viewer''"
    "to_ascii_lowercase ''viewer'' = ''viewer''" "to_ascii_lowercase ''editor'' = ''editor''"
    "to_ascii_lowercase ''domains'' = ''domains''" "to_ascii_lowercase ''ghost'' = ''ghost''"
    by code_simp+
  have g: "Grant_parse ''domains:read'' = Some (Exact ''domains'' Read)" by code_simp
  have "(''editor'', ''viewer'') \<in> extends_rel example_roles"
    unfolding extends_rel_def example_roles_def using low by force
  then have r: "(to_ascii_lowercase ''EDITOR'', ''viewer'') \<in> (extends_rel example_roles)\<^sup>*"
    by (simp add: low)
  have "(''Viewer'', \<lparr>role_grants = [''domains:read''], role_extends = [''editor'']\<rparr>)
      \<in> set example_roles" by (simp add: example_roles_def)
  with r g have "allows (AuthPolicy_build example_roles []) [''EDITOR'']
      \<lparr>target_resource = ''domains'', target_verb = Read\<rparr>"
    unfolding allows_iff_inherited [OF small] by (force simp: low)
  note editor = this
  have "(''ghost'', d) \<notin> extends_rel example_roles" for d
    by (auto simp: extends_rel_def example_roles_def low)
  then have "(''ghost'', d) \<in> (extends_rel example_roles)\<^sup>* \<Longrightarrow> d = ''ghost''" for d
    by (metis converse_rtranclE)
  moreover have "to_ascii_lowercase n \<noteq> ''ghost''" if "(n, c) \<in> set example_roles" for n c
    using that by (auto simp: example_roles_def low)
  ultimately have "\<not> allows (AuthPolicy_build example_roles []) [''ghost'']
      \<lparr>target_resource = ''domains'', target_verb = Read\<rparr>"
    unfolding allows_iff_inherited [OF small] by (fastforce simp: low)
  with editor show ?thesis by blast
qed



text \<open>
  A grant token that names a bare resource keeps its letter case, while the resource of a request
  is lower-cased: such a token with an upper-case letter covers no request at all. (The other forms
  of token are lower-cased.)
\<close>

lemma bare_resource_grant_case:
  assumes "split_once (CHR '':'') (trim token) = None" and "trim token \<noteq> ''*''"
    and "to_ascii_lowercase (trim token) \<noteq> ''all''"
    and "to_ascii_lowercase (trim token) \<noteq> trim token"
    and "route_target path meth = Some target"
  shows "\<exists>g. Grant_parse token = Some g \<and>
    \<not> Grant_matches g (to_ascii_lowercase (target_resource target)) (target_verb target)"
proof -
  have "trim token \<noteq> ''*:*''" using assms(1) by (auto simp: split_once_def)
  with assms have "Grant_parse token = Some (AnyVerb (trim token))" by (simp add: Grant_parse_def Let_def)
  moreover have "trim token \<noteq> to_ascii_lowercase r" for r
    using assms(4) by (metis to_ascii_lowercase_idem)
  ultimately show ?thesis by simp
qed

lemma bare_resource_grant_case_witness:
  "\<exists>g target. Grant_parse ''Domains'' = Some g \<and> route_target ''/domains'' ''GET'' = Some target \<and>
     \<not> Grant_matches g (to_ascii_lowercase (target_resource target)) (target_verb target)"
proof -
  have e: "split_once (CHR '':'') (trim ''Domains'') = None" "trim ''Domains'' \<noteq> ''*''"
    "to_ascii_lowercase (trim ''Domains'') \<noteq> ''all''"
    "to_ascii_lowercase (trim ''Domains'') \<noteq> trim ''Domains''"
    "route_target ''/domains'' ''GET'' = Some \<lparr>target_resource = ''domains'', target_verb = Read\<rparr>"
    by code_simp+
  from bare_resource_grant_case [OF e] e(5) show ?thesis by blast
qed

end
