(* ===== verification/Zm_Auth.thy ===== *)
theory Zm_Auth
  imports Zm_Keys Zm_Policy Zm_Http
begin

text \<open>
  Authentication and authorization of API requests (\<^verbatim>\<open>src/auth/mod.rs\<close>, \<^verbatim>\<open>src/auth/guard.rs\<close>):
  reading the bearer token, verifying it, extracting the caller's roles, the decision on a request,
  building the service from the configuration, and the guard in front of the handlers.
\<close>

section \<open>Claims\<close>

record VerifiedClaims =
  claims_subject :: "string option"
  claims_roles :: "string list"

fun walk_segments :: "json \<Rightarrow> string list \<Rightarrow> json option" where
  "walk_segments cur [] = Some cur"
| "walk_segments cur (seg # segs) =
     Option.bind (json_get seg cur) (\<lambda>v. walk_segments v segs)"

definition walk :: "json \<Rightarrow> string \<Rightarrow> json option" where
  "walk root path = walk_segments root (split_char (CHR ''.'') path)"

definition field_str :: "json \<Rightarrow> string \<Rightarrow> string option" where
  "field_str v path = Option.bind (walk v path) json_as_str"

definition json_as_array :: "json \<Rightarrow> json list option" where
  "json_as_array v = (case v of JArray xs \<Rightarrow> Some xs | _ \<Rightarrow> None)"

definition collect_roles :: "json \<Rightarrow> string \<Rightarrow> string set \<Rightarrow> string set" where
  "collect_roles v path out =
     (case walk v path of
        None \<Rightarrow> out
      | Some s \<Rightarrow>
          out \<union> (case json_as_str s of Some x \<Rightarrow> {x} | None \<Rightarrow> {})
              \<union> (case json_as_array s of
                    Some arr \<Rightarrow> set (List.map_filter json_as_str arr) | None \<Rightarrow> {}))"

text \<open>The roles are collected in an ordered set, which is read out in ascending order.\<close>

definition extract_claims :: "json \<Rightarrow> string \<Rightarrow> string list \<Rightarrow> VerifiedClaims" where
  "extract_claims raw subject_claim role_claims =
     \<lparr>claims_subject = field_str raw subject_claim,
      claims_roles = sorted_list_of_set
        (foldl (\<lambda>out field. collect_roles raw field out) {} role_claims)\<rparr>"

section \<open>The service\<close>

record AuthService =
  svc_enabled :: bool
  svc_issuer :: "string option"
  svc_audience :: "string list"
  svc_leeway :: u64
  svc_algorithms :: "Algorithm list"
  svc_subject_claim :: string
  svc_role_claims :: "string list"
  svc_policy :: AuthPolicy
  svc_key_material :: KeyMaterial
  svc_fail_closed :: bool

datatype Decision =
    Continue "VerifiedClaims option"
  | Unauthenticated string
  | Forbidden string

datatype AuthBuildError = NoKeyMaterial | UnknownAlgorithm string | JwksParse string | NoSecret

definition str_bytes :: "string \<Rightarrow> bytes" where
  "str_bytes s = map (\<lambda>c. of_nat (of_char c)) s"

definition AuthService_disabled :: AuthService where
  "AuthService_disabled =
     \<lparr>svc_enabled = False, svc_issuer = None, svc_audience = [], svc_leeway = 60,
      svc_algorithms = [HS256], svc_subject_claim = ''sub'', svc_role_claims = [''role''],
      svc_policy = AuthPolicy_build [] default_public,
      svc_key_material = Key_Secret (From_secret (str_bytes ''z'')), svc_fail_closed = True\<rparr>"

definition parse_algorithm :: "string \<Rightarrow> Algorithm option" where
  "parse_algorithm name =
     map_of [(''HS256'', HS256), (''HS384'', HS384), (''HS512'', HS512), (''ES256'', ES256),
             (''ES384'', ES384), (''RS256'', RS256), (''RS384'', RS384), (''RS512'', RS512),
             (''PS256'', PS256), (''PS384'', PS384), (''PS512'', PS512), (''EDDSA'', EdDSA)]
       (to_ascii_uppercase name)"

fun parse_algorithms :: "string list \<Rightarrow> (Algorithm list, AuthBuildError) result" where
  "parse_algorithms [] = Ok []"
| "parse_algorithms (n # ns) =
     (case parse_algorithm n of
        None \<Rightarrow> Err (UnknownAlgorithm n)
      | Some a \<Rightarrow> (case parse_algorithms ns of Inl e \<Rightarrow> Err e | Inr rest \<Rightarrow> Ok (a # rest)))"

definition build_algorithms :: "KeyConfig \<Rightarrow> (Algorithm list, AuthBuildError) result" where
  "build_algorithms c =
     parse_algorithms (if key_algorithms c = [] then default_algorithms c else key_algorithms c)"

definition resolve_secret_bytes ::
  "'s auth_lib \<Rightarrow> KeyConfig \<Rightarrow> (bytes, AuthBuildError) result" where
  "resolve_secret_bytes L c =
     (case Option.bind (key_secret_env c) (\<lambda>env.
             let v = trim (unwrap_or env (auth_env L env)) in if v = [] then None else Some v) of
        Some v \<Rightarrow> Ok (str_bytes v)
      | None \<Rightarrow>
          (case key_secret_b64 c of
             Some b64 \<Rightarrow>
               (case base64_standard L (trim b64) of
                  Some bs \<Rightarrow> Ok bs
                | None \<Rightarrow>
                    (case base64_url_safe L (trim b64) of
                       Some bs \<Rightarrow> Ok bs | None \<Rightarrow> Err NoSecret))
           | None \<Rightarrow>
               (case key_secret c of Some s \<Rightarrow> Ok (str_bytes s) | None \<Rightarrow> Err NoSecret)))"

definition ttl_of :: "KeyConfig \<Rightarrow> int" where
  "ttl_of c = int (unat (key_cache_ttl_secs c)) * SECOND"

definition build_key_material ::
  "'s auth_lib \<Rightarrow> AuthConfig \<Rightarrow> 's key_state \<Rightarrow> (KeyMaterial, AuthBuildError) result \<times> 's key_state"
where
  "build_key_material L cfg s =
     (let tc = auth_keys cfg
      in case key_kind tc of
           Secret \<Rightarrow>
             (case resolve_secret_bytes L tc of
                Inl e \<Rightarrow> (Err e, s)
              | Inr bs \<Rightarrow> (Ok (Key_Secret (From_secret bs)), s))
         | Jwks \<Rightarrow>
             (case key_jwks tc of
                None \<Rightarrow> (Err NoKeyMaterial, s)
              | Some v \<Rightarrow>
                  (case jwks_from_value L v of
                     Inl e \<Rightarrow> (Err (JwksParse e), s)
                   | Inr ks \<Rightarrow>
                       if ks = [] then (Err NoKeyMaterial, s)
                       else (let (k, s1) = static_set L ks s in (Ok (Key_Set k), s1))))
         | JwksRemote \<Rightarrow>
             (case key_jwks_url tc of
                None \<Rightarrow> (Err NoKeyMaterial, s)
              | Some url \<Rightarrow>
                  (let (k, s1) = remote (HttpKeysFetcher_jwks L url (key_janux_token tc)
                         (key_janux_auth_header tc) (key_janux_bearer tc)) (ttl_of tc) s
                   in (Ok (Key_Set k), s1)))
         | Issuer \<Rightarrow>
             (case key_issuer tc of
                None \<Rightarrow> (Err NoKeyMaterial, s)
              | Some issuer \<Rightarrow>
                  (let (k, s1) = remote (HttpKeysFetcher_issuer L issuer (key_discovery_path tc)
                         (key_jwks_path tc) (key_janux_token tc) (key_janux_auth_header tc)
                         (key_janux_bearer tc)) (ttl_of tc) s
                   in (Ok (Key_Set k), s1))))"

text \<open>The background refresh that \<open>build\<close> spawns for a remote set runs by itself (\<open>refresh_once\<close>).\<close>

definition AuthService_build ::
  "'s auth_lib \<Rightarrow> AuthConfig \<Rightarrow> 's key_state \<Rightarrow> (AuthService, AuthBuildError) result \<times> 's key_state"
where
  "AuthService_build L cfg s =
     (if \<not> auth_enabled cfg then (Ok AuthService_disabled, s)
      else case build_algorithms (auth_keys cfg) of
          Inl e \<Rightarrow> (Err e, s)
        | Inr algs \<Rightarrow>
            (case build_key_material L cfg s of
               (Inl e, s1) \<Rightarrow> (Err e, s1)
             | (Inr km, s1) \<Rightarrow>
                 (Ok \<lparr>svc_enabled = auth_enabled cfg, svc_issuer = auth_issuer cfg,
                      svc_audience = auth_audience cfg, svc_leeway = auth_clock_skew_secs cfg,
                      svc_algorithms = algs, svc_subject_claim = auth_subject_claim cfg,
                      svc_role_claims = auth_role_claims cfg,
                      svc_policy = AuthPolicy_build (auth_roles cfg) (auth_public cfg),
                      svc_key_material = km,
                      svc_fail_closed = key_fail_closed (auth_keys cfg)\<rparr>, s1)))"

section \<open>Verification and the decision\<close>

text \<open>What the sources read of a request; a header that is not text counts as absent.\<close>

record request =
  req_path :: string
  req_method :: string
  req_authorization :: "string option"

definition extract_bearer :: "request \<Rightarrow> string option" where
  "extract_bearer req =
     Option.bind (req_authorization req) (\<lambda>value.
       case split_whitespace (trim value) of
         [scheme, token] \<Rightarrow> if eq_ignore_ascii_case scheme ''bearer'' then Some token else None
       | _ \<Rightarrow> None)"

definition validation_for :: "AuthService \<Rightarrow> Validation" where
  "validation_for a =
     \<lparr>validation_algorithms = svc_algorithms a, validation_leeway = svc_leeway a,
      validation_issuer = map_option (\<lambda>i. [i]) (svc_issuer a),
      validation_audience = (if svc_audience a = [] then None else Some (svc_audience a))\<rparr>"

definition signing_key ::
  "'s auth_lib \<Rightarrow> AuthService \<Rightarrow> Header \<Rightarrow> 's key_state \<Rightarrow>
   (DecodingKey, AuthError) result \<times> 's key_state" where
  "signing_key L a header s =
     (case svc_key_material a of
        Key_Secret k \<Rightarrow> (Ok k, s)
      | Key_Set ks \<Rightarrow> resolve L ks header s)"

definition verify ::
  "'s auth_lib \<Rightarrow> AuthService \<Rightarrow> string \<Rightarrow> 's key_state \<Rightarrow>
   (VerifiedClaims, AuthError) result \<times> 's key_state" where
  "verify L a token s =
     (case decode_header L token of
        Inl e \<Rightarrow> (Err (Verify e), s)
      | Inr header \<Rightarrow>
          if header_alg header \<notin> set (svc_algorithms a)
          then (Err (AlgorithmDisallowed (header_alg header)), s)
          else
            (case signing_key L a header s of
               (Inl e, s1) \<Rightarrow> (Err e, s1)
             | (Inr key, s1) \<Rightarrow>
                 (case decode L token key (validation_for a) (net s1) of
                    Inl e \<Rightarrow> (Err (Verify e), s1)
                  | Inr claims \<Rightarrow>
                      (Ok (extract_claims claims (svc_subject_claim a) (svc_role_claims a)), s1))))"

definition authorize :: "AuthService \<Rightarrow> string list \<Rightarrow> RouteTarget \<Rightarrow> bool" where
  "authorize a roles target = allows (svc_policy a) roles target"

definition enforce ::
  "'s auth_lib \<Rightarrow> AuthService \<Rightarrow> request \<Rightarrow> 's key_state \<Rightarrow> Decision \<times> 's key_state" where
  "enforce L a req s =
     (if \<not> svc_enabled a then (Continue None, s)
      else case route_target (req_path req) (req_method req) of
          None \<Rightarrow> (Continue None, s)
        | Some target \<Rightarrow>
            if is_public (svc_policy a) (target_resource target) then (Continue None, s)
            else case extract_bearer req of
                None \<Rightarrow> (Unauthenticated ''missing bearer token on `Authorization`'', s)
              | Some token \<Rightarrow>
                  (case verify L a token s of
                     (Inr claims, s1) \<Rightarrow>
                       if allows (svc_policy a) (claims_roles claims) target
                       then (Continue (Some claims), s1)
                       else (Forbidden ''authenticated roles do not permit this route'', s1)
                   | (Inl SourceUnavailable, s1) \<Rightarrow>
                       if svc_fail_closed a
                       then (Unauthenticated ''verification key source is unavailable'', s1)
                       else (Continue None, s1)
                   | (Inl _, s1) \<Rightarrow> (Unauthenticated ''invalid or expired token'', s1)))"

definition write_rejection :: "StatusCode \<Rightarrow> string \<Rightarrow> 'a response" where
  "write_rejection st detail =
     Problem st \<lparr>problem_status = st, problem_type = ''authentication_error'',
                 problem_detail = Some detail\<rparr>"

text \<open>
  The guard in front of a handler: the handler runs, with the claims in its depot, or the response
  is the rejection and the rest of the chain is skipped.
\<close>

definition AuthGuard_handle ::
  "'s auth_lib \<Rightarrow> AuthService \<Rightarrow> request \<Rightarrow>
   (VerifiedClaims option \<Rightarrow> 's key_state \<Rightarrow> 'a response \<times> 's key_state) \<Rightarrow>
   's key_state \<Rightarrow> 'a response \<times> 's key_state" where
  "AuthGuard_handle L a req handler s =
     (case enforce L a req s of
        (Continue claims, s1) \<Rightarrow> handler claims s1
      | (Unauthenticated detail, s1) \<Rightarrow> (write_rejection 401 detail, s1)
      | (Forbidden detail, s1) \<Rightarrow> (write_rejection 403 detail, s1))"

section \<open>Properties\<close>

lemma verify_Ok:
  assumes "verify L a token s = (Ok claims, s')"
  obtains header key raw where "decode_header L token = Ok header"
    "header_alg header \<in> set (svc_algorithms a)" "signing_key L a header s = (Ok key, s')"
    "decode L token key (validation_for a) (net s') = Ok raw"
    "claims = extract_claims raw (svc_subject_claim a) (svc_role_claims a)"
  using assms by (auto simp: verify_def split: sum.splits if_splits prod.splits)

lemma enforce_Continue:
  assumes "enforce L a req s = (Continue c, s')" and "svc_enabled a"
    and "route_target (req_path req) (req_method req) = Some target"
    and "\<not> is_public (svc_policy a) (target_resource target)"
  obtains token claims where "extract_bearer req = Some token" "c = Some claims"
      "verify L a token s = (Ok claims, s')" "allows (svc_policy a) (claims_roles claims) target"
    | token where "extract_bearer req = Some token" "c = None" "\<not> svc_fail_closed a"
      "verify L a token s = (Err SourceUnavailable, s')"
proof -
  from assms obtain token where t: "extract_bearer req = Some token"
    by (auto simp: enforce_def split: option.splits)
  obtain v s1 where v: "verify L a token s = (v, s1)" by fastforce
  show thesis
  proof (cases v)
    case (Inr claims)
    with assms t v show thesis by (auto simp: enforce_def split: if_splits intro: that(1))
  next
    case (Inl e)
    with assms t v show thesis
      by (cases e) (auto simp: enforce_def split: if_splits intro: that(2))
  qed
qed

lemma guard_outcome:
  assumes "svc_enabled a" and "svc_fail_closed a"
    and "route_target (req_path req) (req_method req) = Some target"
    and "\<not> is_public (svc_policy a) (target_resource target)"
  shows "(\<exists>token header key raw s1. extract_bearer req = Some token \<and>
      decode_header L token = Ok header \<and> header_alg header \<in> set (svc_algorithms a) \<and>
      signing_key L a header s = (Ok key, s1) \<and>
      decode L token key (validation_for a) (net s1) = Ok raw \<and>
      allows (svc_policy a)
        (claims_roles (extract_claims raw (svc_subject_claim a) (svc_role_claims a))) target \<and>
      AuthGuard_handle L a req handler s =
        handler (Some (extract_claims raw (svc_subject_claim a) (svc_role_claims a))) s1) \<or>
    (\<exists>st p s1. st \<in> {401, 403} \<and> AuthGuard_handle L a req handler s = (Problem st p, s1))"
proof (cases "enforce L a req s")
  case (Pair d s1)
  show ?thesis
  proof (cases d)
    case (Continue c)
    with Pair have e: "enforce L a req s = (Continue c, s1)" by simp
    show ?thesis
    proof (rule enforce_Continue [OF e assms(1,3,4)])
      fix token claims
      assume t: "extract_bearer req = Some token" "c = Some claims"
        "verify L a token s = (Ok claims, s1)" "allows (svc_policy a) (claims_roles claims) target"
      from t(3) obtain header key raw where "decode_header L token = Ok header"
        "header_alg header \<in> set (svc_algorithms a)" "signing_key L a header s = (Ok key, s1)"
        "decode L token key (validation_for a) (net s1) = Ok raw"
        "claims = extract_claims raw (svc_subject_claim a) (svc_role_claims a)" by (rule verify_Ok)
      with t e show ?thesis by (auto simp: AuthGuard_handle_def)
    next
      assume "\<not> svc_fail_closed a"
      with assms(2) show ?thesis by simp
    qed
  next
    case (Unauthenticated detail)
    with Pair show ?thesis by (auto simp: AuthGuard_handle_def write_rejection_def)
  next
    case (Forbidden detail)
    with Pair show ?thesis by (auto simp: AuthGuard_handle_def write_rejection_def)
  qed
qed

text \<open>
  With authentication enabled and failing closed, a handler behind the guard runs on a governed,
  non-public route only for a request whose bearer token has an allow-listed algorithm, decodes
  against a key of the service under the configured issuer, audience and leeway, and whose roles
  permit the resource and verb. Every other request gets a 401 or 403 problem document and the
  handler is not run.
\<close>

theorem guard_protects:
  assumes "svc_enabled a" and "svc_fail_closed a"
    and "route_target (req_path req) (req_method req) = Some target"
    and "\<not> is_public (svc_policy a) (target_resource target)"
  shows "(\<exists>token header key raw s1. extract_bearer req = Some token \<and>
      decode_header L token = Ok header \<and> header_alg header \<in> set (svc_algorithms a) \<and>
      signing_key L a header s = (Ok key, s1) \<and>
      decode L token key (validation_for a) (net s1) = Ok raw \<and>
      allows (svc_policy a)
        (claims_roles (extract_claims raw (svc_subject_claim a) (svc_role_claims a))) target \<and>
      AuthGuard_handle L a req handler s =
        handler (Some (extract_claims raw (svc_subject_claim a) (svc_role_claims a))) s1) \<or>
    (\<exists>st p s1. st \<in> {401, 403} \<and> AuthGuard_handle L a req handler s = (Problem st p, s1))"
  using assms by (rule guard_outcome)

text \<open>A token library for examples: one token, signed for the role \<open>viewer\<close>, checks with any key.\<close>

definition example_lib :: "unit auth_lib" where
  "example_lib =
     \<lparr>Instant_now = (\<lambda>_. 0),
      http_send = (\<lambda>_ _ n. (Err ''offline'', n)),
      serde_jwks = (\<lambda>_. Err ''not json''), serde_json = (\<lambda>_. Err ''not json''),
      jwks_from_value = (\<lambda>_. Err ''no keys''),
      header_name = Some, header_value = Some,
      from_jwk = (\<lambda>k. Some (From_jwk k)),
      JwkSet_find = (\<lambda>ks kid. find (\<lambda>k. jwk_key_id k = Some kid) ks),
      decode_header = (\<lambda>t. if t = ''tok'' then Ok \<lparr>header_alg = HS256, header_kid = None\<rparr>
                           else Err ''InvalidToken''),
      decode = (\<lambda>t k v n. if t = ''tok'' then Ok (JObject [(''role'', JString ''viewer'')])
                          else Err ''InvalidSignature''),
      base64_standard = (\<lambda>_. None), base64_url_safe = (\<lambda>_. None), auth_env = (\<lambda>_. None)\<rparr>"

definition example_auth :: AuthConfig where
  "example_auth = AuthConfig_default
     \<lparr>auth_enabled := True, auth_keys := KeyConfig_default\<lparr>key_secret := Some ''s3cret''\<rparr>,
      auth_roles := [(''viewer'', \<lparr>role_grants = [''domains:read'', ''domains:write''], role_extends = []\<rparr>)]\<rparr>"

definition no_keys :: "unit key_state" where
  "no_keys = \<lparr>cache = None, resolved_url = None, net = ()\<rparr>"

definition example_service :: AuthService where
  "example_service = projr (fst (AuthService_build example_lib example_auth no_keys))"

definition example_request :: "string \<Rightarrow> request" where
  "example_request meth =
     \<lparr>req_path = ''/domains/x.org'', req_method = meth, req_authorization = Some ''Bearer tok''\<rparr>"

theorem guard_protects_witness:
  "fst (AuthGuard_handle example_lib example_service (example_request ''GET'')
      (\<lambda>c s. (reply 200 (), s)) no_keys) = reply 200 () \<and>
   (\<exists>st p s1. st \<in> {401, 403} \<and>
     AuthGuard_handle example_lib example_service (example_request ''DELETE'')
       (\<lambda>c s. (reply 200 (), s)) no_keys = (Problem st p, s1))"
proof -
  have e: "svc_enabled example_service" "svc_fail_closed example_service"
    "route_target (req_path (example_request ''DELETE'')) (req_method (example_request ''DELETE''))
      = Some \<lparr>target_resource = ''domains'', target_verb = Delete\<rparr>"
    "\<not> is_public (svc_policy example_service)
      (target_resource \<lparr>target_resource = ''domains'', target_verb = Delete\<rparr>)"
    by code_simp+
  have run: "fst (AuthGuard_handle example_lib example_service (example_request ''GET'')
      (\<lambda>c s. (reply 200 (), s)) no_keys) = reply 200 ()" by code_simp
  have "\<not> is_success (fst (AuthGuard_handle example_lib example_service (example_request ''DELETE'')
      (\<lambda>c s. (reply (200 :: StatusCode) (), s)) no_keys))" by code_simp
  with guard_protects [OF e, of example_lib no_keys "\<lambda>c s. (reply 200 (), s)"] run show ?thesis
    by (auto simp: is_success_def reply_def)
qed


lemma parse_algorithms_length: "parse_algorithms ns = Ok algs \<Longrightarrow> length algs = length ns"
  by (induction ns arbitrary: algs) (auto split: option.splits sum.splits)

lemma build_algorithms_nonempty:
  assumes "build_algorithms c = Ok algs"
  shows "algs \<noteq> []"
proof -
  let ?names = "if key_algorithms c = [] then default_algorithms c else key_algorithms c"
  have "?names \<noteq> []" by (simp add: default_algorithms_def split: KeysKind.splits)
  moreover have "length algs = length ?names"
    using assms unfolding build_algorithms_def by (rule parse_algorithms_length)
  ultimately show ?thesis by (metis length_0_conv)
qed

text \<open>The key material is what the configured kind of source gives.\<close>

fun keys_as_configured ::
  "'s auth_lib \<Rightarrow> KeyConfig \<Rightarrow> JwkSet option \<Rightarrow> KeyMaterial \<Rightarrow> bool" where
  "keys_as_configured L c held (Key_Secret k) \<longleftrightarrow>
     key_kind c = Secret \<and> (\<exists>bs. resolve_secret_bytes L c = Ok bs \<and> k = From_secret bs)"
| "keys_as_configured L c held (Key_Set ks) \<longleftrightarrow>
     (key_kind c = Jwks \<and> \<not> is_remote ks \<and>
        (\<exists>v set. key_jwks c = Some v \<and> jwks_from_value L v = Ok set \<and> set \<noteq> [] \<and> held = Some set)) \<or>
     (key_kind c \<in> {JwksRemote, Issuer} \<and> is_remote ks \<and> held = None)"

lemma build_key_material_source:
  assumes "build_key_material L cfg s = (Ok km, s')"
  shows "keys_as_configured L (auth_keys cfg) (current s') km"
proof (cases "key_kind (auth_keys cfg)")
  case Secret
  with assms show ?thesis by (auto simp: build_key_material_def Let_def split: sum.splits)
next
  case Jwks
  with assms show ?thesis
    by (auto simp: build_key_material_def Let_def static_set_def is_remote_def current_def
        CachedSet_new_def split: sum.splits option.splits if_splits)
next
  case JwksRemote
  with assms show ?thesis
    by (auto simp: build_key_material_def Let_def remote_def is_remote_def current_def
        split: option.splits)
next
  case Issuer
  with assms show ?thesis
    by (auto simp: build_key_material_def Let_def remote_def is_remote_def current_def
        split: option.splits)
qed

text \<open>
  A configuration that enables authentication never yields an open service: if building succeeds
  the service is enabled, has a non-empty algorithm allow-list, fails closed as configured, carries
  the compiled policy, and its key material comes from the configured source; otherwise building
  reports an error. A disabled configuration always builds, and lets every request through.
\<close>

theorem auth_build_never_opens:
  assumes "AuthService_build L cfg s = (r, s')"
  shows "(auth_enabled cfg \<longrightarrow> (\<forall>a. r = Ok a \<longrightarrow>
      svc_enabled a \<and> svc_algorithms a \<noteq> [] \<and>
      svc_fail_closed a = key_fail_closed (auth_keys cfg) \<and>
      svc_policy a = AuthPolicy_build (auth_roles cfg) (auth_public cfg) \<and>
      keys_as_configured L (auth_keys cfg) (current s') (svc_key_material a))) \<and>
    (\<not> auth_enabled cfg \<longrightarrow>
      (\<exists>a. r = Ok a \<and> (\<forall>req. enforce L a req s = (Continue None, s))))"
proof (intro conjI impI allI)
  assume "\<not> auth_enabled cfg"
  moreover have "\<not> svc_enabled AuthService_disabled" by (simp add: AuthService_disabled_def)
  ultimately show "\<exists>a. r = Ok a \<and> (\<forall>req. enforce L a req s = (Continue None, s))"
    using assms by (auto simp: AuthService_build_def enforce_def)
next
  fix a assume en: "auth_enabled cfg" and r: "r = Ok a"
  from assms en r obtain algs where algs: "build_algorithms (auth_keys cfg) = Ok algs"
    by (auto simp: AuthService_build_def split: sum.splits)
  from assms en r algs obtain km where km: "build_key_material L cfg s = (Ok km, s')"
    and a: "svc_enabled a" "svc_algorithms a = algs" "svc_key_material a = km"
      "svc_fail_closed a = key_fail_closed (auth_keys cfg)"
      "svc_policy a = AuthPolicy_build (auth_roles cfg) (auth_public cfg)"
    by (auto simp: AuthService_build_def split: sum.splits prod.splits)
  from build_algorithms_nonempty [OF algs] build_key_material_source [OF km] a
  show "svc_enabled a" "svc_algorithms a \<noteq> []"
    "svc_fail_closed a = key_fail_closed (auth_keys cfg)"
    "svc_policy a = AuthPolicy_build (auth_roles cfg) (auth_public cfg)"
    "keys_as_configured L (auth_keys cfg) (current s') (svc_key_material a)" by simp_all
qed

theorem auth_build_never_opens_witness:
  "svc_enabled example_service \<and> svc_algorithms example_service \<noteq> []"
proof -
  have "auth_enabled example_auth" by code_simp
  moreover have "(case fst (AuthService_build example_lib example_auth no_keys) of
      Inl e \<Rightarrow> False | Inr a \<Rightarrow> True)" by code_simp
  ultimately show ?thesis
    using auth_build_never_opens
      [of example_lib example_auth no_keys "fst (AuthService_build example_lib example_auth no_keys)"
        "snd (AuthService_build example_lib example_auth no_keys)"]
    by (auto simp: example_service_def split: sum.splits)
qed

text \<open>
  When the environment variable named by \<open>secret_env\<close> is not set, the name of the variable
  becomes the signing secret, whatever \<open>secret_b64\<close> and \<open>secret\<close> say: anyone who knows the
  configuration file can sign tokens. (The configuration documents the field as the name of a
  variable that holds the secret.)
\<close>

lemma unset_secret_env_is_the_secret:
  assumes "key_secret_env c = Some v" and "auth_env L v = None" and "trim v \<noteq> []"
  shows "resolve_secret_bytes L c = Ok (str_bytes (trim v))"
  using assms by (simp add: resolve_secret_bytes_def Let_def)

lemma unset_secret_env_is_the_secret_witness:
  "resolve_secret_bytes example_lib
     (KeyConfig_default\<lparr>key_secret_env := Some ''ZONEMAIL_SECRET'', key_secret := Some ''s3cret''\<rparr>) =
   Ok (str_bytes (trim ''ZONEMAIL_SECRET''))"
proof (rule unset_secret_env_is_the_secret)
  show "trim ''ZONEMAIL_SECRET'' \<noteq> []" by code_simp
qed (simp_all add: example_lib_def)

end
