(* ===== verification/Zm_Provision.thy ===== *)
theory Zm_Provision
  imports Zm_Outbound Zm_Http
begin

text \<open>
  The provisioning requests of the HTTP interface (\<^verbatim>\<open>src/api.rs\<close>): domains, mailboxes and DNS
  records. A handler is a function of the decoded request (\<^const>\<open>None\<close> is a body that does not
  decode, a missing path parameter, an absent query parameter) and the database. The handlers that
  look before they insert also take \<open>meanwhile\<close>: what other tasks do to the database between the
  look and the insert, which is when such a handler waits.
\<close>

section \<open>Bodies and transfer objects\<close>

record DomainDTO =
  ddto_id :: string
  ddto_created_at :: string
  ddto_updated_at :: string

record NewDomain =
  new_domain_id :: string

record PatchDomain =
  patch_domain_note :: "string option"

record MailboxDTO =
  mdto_id :: string
  mdto_domain_id :: string
  mdto_created_at :: string
  mdto_updated_at :: string
  mdto_forward_to :: "string option"

record NewMailbox =
  new_mailbox_id :: string
  new_mailbox_domain_id :: "string option"
  new_mailbox_forward_to :: "string option"

record PatchMailbox =
  patch_mailbox_domain_id :: "string option"
  patch_mailbox_note :: "string option"
  patch_mailbox_forward_to :: "string option"

record RecordApiDTO =
  rdto_id :: row_id
  rdto_domain_id :: string
  rdto_record_type :: string
  rdto_value :: string
  rdto_ttl :: u32
  rdto_created_at :: string
  rdto_updated_at :: string

record NewRecord =
  new_record_domain_id :: string
  new_record_type :: string
  new_record_value :: string
  new_record_ttl :: u32

record PatchRecord =
  patch_record_domain_id :: "string option"
  patch_record_type :: "string option"
  patch_record_value :: "string option"
  patch_record_ttl :: "u32 option"

definition DomainDTO_from :: "('s, 'z) toasty_scheme \<Rightarrow> Domain \<Rightarrow> DomainDTO" where
  "DomainDTO_from T d =
     \<lparr>ddto_id = domain_id d, ddto_created_at = Timestamp_to_string T (domain_created_at d),
      ddto_updated_at = Timestamp_to_string T (domain_updated_at d)\<rparr>"

definition MailboxDTO_from :: "('s, 'z) toasty_scheme \<Rightarrow> Mailbox \<Rightarrow> MailboxDTO" where
  "MailboxDTO_from T m =
     \<lparr>mdto_id = mailbox_id m, mdto_domain_id = mailbox_domain_id m,
      mdto_created_at = Timestamp_to_string T (mailbox_created_at m),
      mdto_updated_at = Timestamp_to_string T (mailbox_updated_at m),
      mdto_forward_to = mailbox_forward_to m\<rparr>"

text \<open>The name of a record type on the wire: the name of its variant.\<close>

fun record_type_to_string :: "RecordType \<Rightarrow> string" where
  "record_type_to_string RT_A = ''A''"
| "record_type_to_string RT_AAAA = ''AAAA''"
| "record_type_to_string RT_ANAME = ''ANAME''"
| "record_type_to_string RT_ANY = ''ANY''"
| "record_type_to_string RT_AXFR = ''AXFR''"
| "record_type_to_string RT_CAA = ''CAA''"
| "record_type_to_string RT_CDS = ''CDS''"
| "record_type_to_string RT_CDNSKEY = ''CDNSKEY''"
| "record_type_to_string RT_CERT = ''CERT''"
| "record_type_to_string RT_CNAME = ''CNAME''"
| "record_type_to_string RT_DNAME = ''DNAME''"
| "record_type_to_string RT_CSYNC = ''CSYNC''"
| "record_type_to_string RT_DNSKEY = ''DNSKEY''"
| "record_type_to_string RT_DS = ''DS''"
| "record_type_to_string RT_HINFO = ''HINFO''"
| "record_type_to_string RT_HTTPS = ''HTTPS''"
| "record_type_to_string RT_IXFR = ''IXFR''"
| "record_type_to_string RT_KEY = ''KEY''"
| "record_type_to_string RT_MX = ''MX''"
| "record_type_to_string RT_NAPTR = ''NAPTR''"
| "record_type_to_string RT_NS = ''NS''"
| "record_type_to_string RT_NSEC = ''NSEC''"
| "record_type_to_string RT_NSEC3 = ''NSEC3''"
| "record_type_to_string RT_NSEC3PARAM = ''NSEC3PARAM''"
| "record_type_to_string RT_NULL = ''NULL''"
| "record_type_to_string RT_OPENPGPKEY = ''OPENPGPKEY''"
| "record_type_to_string RT_OPT = ''OPT''"
| "record_type_to_string RT_PTR = ''PTR''"
| "record_type_to_string RT_RRSIG = ''RRSIG''"
| "record_type_to_string RT_SIG = ''SIG''"
| "record_type_to_string RT_SMIMEA = ''SMIMEA''"
| "record_type_to_string RT_SOA = ''SOA''"
| "record_type_to_string RT_SRV = ''SRV''"
| "record_type_to_string RT_SSHFP = ''SSHFP''"
| "record_type_to_string RT_SVCB = ''SVCB''"
| "record_type_to_string RT_TLSA = ''TLSA''"
| "record_type_to_string RT_TSIG = ''TSIG''"
| "record_type_to_string RT_TXT = ''TXT''"
| "record_type_to_string RT_Unknown = ''Unknown''"
| "record_type_to_string RT_ZERO = ''ZERO''"

definition all_record_types :: "RecordType list" where
  "all_record_types =
     [RT_A, RT_AAAA, RT_ANAME, RT_ANY, RT_AXFR, RT_CAA, RT_CDS, RT_CDNSKEY, RT_CERT, RT_CNAME,
      RT_DNAME, RT_CSYNC, RT_DNSKEY, RT_DS, RT_HINFO, RT_HTTPS, RT_IXFR, RT_KEY, RT_MX, RT_NAPTR,
      RT_NS, RT_NSEC, RT_NSEC3, RT_NSEC3PARAM, RT_NULL, RT_OPENPGPKEY, RT_OPT, RT_PTR, RT_RRSIG,
      RT_SIG, RT_SMIMEA, RT_SOA, RT_SRV, RT_SSHFP, RT_SVCB, RT_TLSA, RT_TSIG, RT_TXT, RT_Unknown,
      RT_ZERO]"

text \<open>
  The contents of a JSON string literal: no bare quote or control character, and the escapes are
  decoded. An escape of a code point beyond ASCII is rejected here; no variant name contains one, so
  the parser below rejects it in any case.
\<close>

definition hex_value :: "string \<Rightarrow> nat option" where
  "hex_value ds =
     (if \<forall>c \<in> set ds. radix_val 16 c \<noteq> None
      then Some (foldl (\<lambda>acc c. acc * 16 + the (radix_val 16 c)) 0 ds) else None)"

fun json_unescape :: "string \<Rightarrow> string option" where
  "json_unescape [] = Some []"
| "json_unescape (c # cs) =
     (if c = CHR 0x22 \<or> (of_char c :: nat) < 32 then None
      else if c \<noteq> CHR 0x5C then map_option ((#) c) (json_unescape cs)
      else case cs of
          [] \<Rightarrow> None
        | e # rest \<Rightarrow>
            if e = CHR 0x22 \<or> e = CHR 0x5C \<or> e = CHR ''/'' then map_option ((#) e) (json_unescape rest)
            else if e = CHR ''b'' then map_option ((#) (CHR 0x08)) (json_unescape rest)
            else if e = CHR ''f'' then map_option ((#) (CHR 0x0C)) (json_unescape rest)
            else if e = CHR ''n'' then map_option ((#) (CHR 0x0A)) (json_unescape rest)
            else if e = CHR ''r'' then map_option ((#) (CHR 0x0D)) (json_unescape rest)
            else if e = CHR ''t'' then map_option ((#) (CHR 0x09)) (json_unescape rest)
            else if e = CHR ''u'' then
              (case rest of
                 h1 # h2 # h3 # h4 # rest' \<Rightarrow>
                   (case hex_value [h1, h2, h3, h4] of
                      None \<Rightarrow> None
                    | Some n \<Rightarrow>
                        if n < 128 then map_option ((#) (char_of n)) (json_unescape rest') else None)
               | _ \<Rightarrow> None)
            else None)"

definition parse_record_type :: "string \<Rightarrow> (RecordType, ApiProblem) result" where
  "parse_record_type s =
     (case Option.bind (json_unescape s)
             (\<lambda>name. find (\<lambda>t. record_type_to_string t = name) all_record_types) of
        Some t \<Rightarrow> Ok t
      | None \<Rightarrow> Err (bad_request (''unknown record type '' @ quoted s)))"

definition RecordApiDTO_from :: "('s, 'z) toasty_scheme \<Rightarrow> Record \<Rightarrow> RecordApiDTO" where
  "RecordApiDTO_from T r =
     \<lparr>rdto_id = record_id r, rdto_domain_id = record_domain_id r,
      rdto_record_type = record_type_to_string (record_type r), rdto_value = record_value r,
      rdto_ttl = record_ttl r, rdto_created_at = Timestamp_to_string T (record_created_at r),
      rdto_updated_at = Timestamp_to_string T (record_updated_at r)\<rparr>"

definition DEFAULT_RECORD_TTL :: u32 where "DEFAULT_RECORD_TTL = 3600"

definition default_record_ttl :: u32 where "default_record_ttl = DEFAULT_RECORD_TTL"

text \<open>A body as it is decoded, with the default for an absent \<open>ttl\<close>.\<close>

definition decode_NewRecord :: "string \<Rightarrow> string \<Rightarrow> string \<Rightarrow> u32 option \<Rightarrow> NewRecord" where
  "decode_NewRecord d t v ttl =
     \<lparr>new_record_domain_id = d, new_record_type = t, new_record_value = v,
      new_record_ttl = unwrap_or default_record_ttl ttl\<rparr>"

abbreviation unparsed_body :: "'a response" where
  "unparsed_body \<equiv> Problem 400 (validation_error ''Failed to parse request body'')"

abbreviation failed :: "string \<Rightarrow> 'a response" where
  "failed e \<equiv> Problem 500 (server_error e)"

definition missing :: "string \<Rightarrow> string \<Rightarrow> 'a response" where
  "missing what i = Problem 404 (not_found (what @ '' '' @ quoted i @ '' not found''))"

section \<open>Domains\<close>

definition list_domains ::
  "('s, 'z) toasty_scheme \<Rightarrow> usize option \<Rightarrow> usize option \<Rightarrow> 's \<Rightarrow> DomainDTO Page response" where
  "list_domains T limit_param offset_param s =
     (case page_params limit_param offset_param of (limit, offset) \<Rightarrow>
        (case Domain_all T s of
           Ok domains \<Rightarrow> reply 200 (from_all (map (DomainDTO_from T) domains) limit offset)
         | Err e \<Rightarrow> failed e))"

definition render_domain_created :: "('s, 'z) toasty_scheme \<Rightarrow> Domain \<Rightarrow> DomainDTO response" where
  "render_domain_created T d = reply 200 (DomainDTO_from T d)"

definition create_domain ::
  "('s, 'z) toasty_scheme \<Rightarrow> ('s \<Rightarrow> 's) \<Rightarrow> NewDomain option \<Rightarrow> 's \<Rightarrow> DomainDTO response \<times> 's" where
  "create_domain T meanwhile body s =
     (case body of
        None \<Rightarrow> (unparsed_body, s)
      | Some b \<Rightarrow>
          (let i = trim (new_domain_id b)
           in if i = [] then (Problem 400 (bad_request ''domain id must not be empty''), s)
              else case Domain_get_by_id T i s of
                  Ok d \<Rightarrow> (render_domain_created T d, s)
                | Err _ \<Rightarrow>
                    (case Domain_create T i (meanwhile s) of
                       (Ok d, s1) \<Rightarrow> (render_domain_created T d, s1)
                     | (Err e, s1) \<Rightarrow>
                         (case Domain_get_by_id T i s1 of
                            Ok d \<Rightarrow> (render_domain_created T d, s1)
                          | Err _ \<Rightarrow> (failed e, s1)))))"

definition get_domain ::
  "('s, 'z) toasty_scheme \<Rightarrow> string option \<Rightarrow> 's \<Rightarrow> DomainDTO response" where
  "get_domain T param s =
     (let i = unwrap_or [] param
      in case Domain_get_by_id T i s of
           Ok d \<Rightarrow> reply 200 (DomainDTO_from T d)
         | Err _ \<Rightarrow> missing ''domain'' i)"

definition patch_domain ::
  "('s, 'z) toasty_scheme \<Rightarrow> string option \<Rightarrow> PatchDomain option \<Rightarrow> 's \<Rightarrow> DomainDTO response" where
  "patch_domain T param body s =
     (let i = unwrap_or [] param
      in case body of
           None \<Rightarrow> unparsed_body
         | Some _ \<Rightarrow>
             (case Domain_get_by_id T i s of
                Ok d \<Rightarrow> reply 200 (DomainDTO_from T d)
              | Err _ \<Rightarrow> missing ''domain'' i))"

definition delete_domain ::
  "('s, 'z) toasty_scheme \<Rightarrow> string option \<Rightarrow> 's \<Rightarrow> unit response \<times> 's" where
  "delete_domain T param s =
     (let i = unwrap_or [] param
      in if \<not> is_ok (Domain_get_by_id T i s) then (missing ''domain'' i, s)
         else case Domain_delete T i s of
             (Ok _, s1) \<Rightarrow> (reply 200 (), s1)
           | (Err e, s1) \<Rightarrow> (failed e, s1))"

section \<open>Mailboxes\<close>

definition list_mailboxes ::
  "('s, 'z) toasty_scheme \<Rightarrow> usize option \<Rightarrow> usize option \<Rightarrow> string option \<Rightarrow> 's \<Rightarrow>
   MailboxDTO Page response" where
  "list_mailboxes T limit_param offset_param domain_filter s =
     (case page_params limit_param offset_param of (limit, offset) \<Rightarrow>
        (case (case domain_filter of
                 Some d \<Rightarrow> Mailbox_filter_domain T d s
               | None \<Rightarrow> Mailbox_all T s) of
           Ok rows \<Rightarrow> reply 200 (from_all (map (MailboxDTO_from T) rows) limit offset)
         | Err e \<Rightarrow> failed e))"

definition mailbox_resolve ::
  "('s, 'z) toasty_scheme \<Rightarrow> Mailbox \<Rightarrow> Mailbox \<Rightarrow> MailboxDTO response" where
  "mailbox_resolve T existing incoming =
     (if mailbox_forward_to existing = mailbox_forward_to incoming \<and>
         mailbox_domain_id existing = mailbox_domain_id incoming
      then reply 200 (MailboxDTO_from T existing)
      else Problem 409 (conflict (''mailbox '' @ quoted (mailbox_id existing)
             @ '' already exists with a different configuration'')))"

text \<open>The mailbox a body asks for, or the response that refuses it.\<close>

definition requested_mailbox :: "timestamp \<Rightarrow> NewMailbox \<Rightarrow> (Mailbox, ApiProblem) result" where
  "requested_mailbox now b =
     (let i = to_lowercase (trim (new_mailbox_id b))
      in if i = [] then Err (bad_request ''email address must not be empty'')
         else case Mailbox_try_from now i of
             Err InvalidFormat \<Rightarrow> Err (bad_request ''invalid email address (missing domain part)'')
           | Ok m \<Rightarrow>
               (case new_mailbox_domain_id b of
                  None \<Rightarrow> Ok (m\<lparr>mailbox_forward_to := new_mailbox_forward_to b\<rparr>)
                | Some d \<Rightarrow>
                    (let provided = to_lowercase (trim d)
                     in if provided \<noteq> mailbox_domain_id m
                        then Err (bad_request ''domain_id does not match the domain part of the address'')
                        else Ok (m\<lparr>mailbox_domain_id := provided,
                                   mailbox_forward_to := new_mailbox_forward_to b\<rparr>))))"

definition create_mailbox ::
  "('s, 'z) world_scheme \<Rightarrow> ('s \<Rightarrow> 's) \<Rightarrow> NewMailbox option \<Rightarrow> 's \<Rightarrow> MailboxDTO response \<times> 's" where
  "create_mailbox W meanwhile body s =
     (case body of
        None \<Rightarrow> (unparsed_body, s)
      | Some b \<Rightarrow>
          (case requested_mailbox (Timestamp_now W s) b of
             Err problem \<Rightarrow> (Problem 400 problem, s)
           | Ok mailbox \<Rightarrow>
               (case Mailbox_get_by_id W (mailbox_id mailbox) s of
                  Ok existing \<Rightarrow> (mailbox_resolve W existing mailbox, s)
                | Err _ \<Rightarrow>
                    (case Mailbox_create W (mailbox_fields.truncate mailbox) (meanwhile s) of
                       (Ok created, s1) \<Rightarrow> (reply 200 (MailboxDTO_from W created), s1)
                     | (Err e, s1) \<Rightarrow>
                         (case Mailbox_get_by_id W (mailbox_id mailbox) s1 of
                            Ok existing \<Rightarrow> (mailbox_resolve W existing mailbox, s1)
                          | Err _ \<Rightarrow> (failed e, s1))))))"

definition get_mailbox ::
  "('s, 'z) toasty_scheme \<Rightarrow> string option \<Rightarrow> 's \<Rightarrow> MailboxDTO response" where
  "get_mailbox T param s =
     (let i = unwrap_or [] param
      in case Mailbox_get_by_id T i s of
           Ok m \<Rightarrow> reply 200 (MailboxDTO_from T m)
         | Err _ \<Rightarrow> missing ''mailbox'' i)"

definition patch_mailbox ::
  "('s, 'z) toasty_scheme \<Rightarrow> string option \<Rightarrow> PatchMailbox option \<Rightarrow> 's \<Rightarrow>
   MailboxDTO response \<times> 's" where
  "patch_mailbox T param body s =
     (let i = unwrap_or [] param
      in case body of
           None \<Rightarrow> (unparsed_body, s)
         | Some b \<Rightarrow>
             (case Mailbox_get_by_id T i s of
                Err _ \<Rightarrow> (missing ''mailbox'' i, s)
              | Ok mailbox \<Rightarrow>
                  if (case patch_mailbox_domain_id b of
                        None \<Rightarrow> False
                      | Some d \<Rightarrow> to_lowercase (trim d) \<noteq> mailbox_domain_id mailbox)
                  then (Problem 400 (bad_request ''domain_id does not match the domain part of the address''), s)
                  else
                    (let new_domain = (case patch_mailbox_domain_id b of
                             None \<Rightarrow> mailbox_domain_id mailbox
                           | Some d \<Rightarrow> to_lowercase (trim d));
                         new_forward = (case patch_mailbox_forward_to b of
                             Some f \<Rightarrow> Some f
                           | None \<Rightarrow> mailbox_forward_to mailbox)
                     in case Mailbox_update T (mailbox_id mailbox)
                               (\<lambda>m. m\<lparr>mailbox_domain_id := new_domain,
                                    mailbox_forward_to := new_forward\<rparr>) s of
                          (Err e, s1) \<Rightarrow> (failed e, s1)
                        | (Ok _, s1) \<Rightarrow>
                            (case Mailbox_get_by_id T i s1 of
                               Ok updated \<Rightarrow> (reply 200 (MailboxDTO_from T updated), s1)
                             | Err _ \<Rightarrow> (failed ''mailbox vanished after update'', s1)))))"

definition delete_mailbox ::
  "('s, 'z) toasty_scheme \<Rightarrow> string option \<Rightarrow> 's \<Rightarrow> unit response \<times> 's" where
  "delete_mailbox T param s =
     (let i = unwrap_or [] param
      in if \<not> is_ok (Mailbox_get_by_id T i s) then (missing ''mailbox'' i, s)
         else case Mailbox_delete T i s of
             (Ok _, s1) \<Rightarrow> (reply 200 (), s1)
           | (Err e, s1) \<Rightarrow> (failed e, s1))"

section \<open>DNS records\<close>

definition validate_record_fields ::
  "('s, 'z) toasty_scheme \<Rightarrow> string \<Rightarrow> string \<Rightarrow> 's \<Rightarrow> (unit, ApiProblem) result" where
  "validate_record_fields T d v s =
     (if trim v = [] then Err (bad_request ''value must not be empty'')
      else if \<not> is_ok (Domain_get_by_id T d s)
        then Err (bad_request (''domain '' @ quoted d @ '' is not provisioned''))
      else Ok ())"

text \<open>\<^const>\<open>None\<close> is the result \<open>false\<close>: no response was rendered.\<close>

definition record_resolve ::
  "('s, 'z) toasty_scheme \<Rightarrow> Record list \<Rightarrow> RecordType \<Rightarrow> string \<Rightarrow> u32 \<Rightarrow> RecordApiDTO response option"
where
  "record_resolve T rows t v ttl =
     (case find (\<lambda>r. record_type r = t \<and> record_value r = v) rows of
        Some existing \<Rightarrow>
          if record_ttl existing = ttl then Some (reply 200 (RecordApiDTO_from T existing))
          else Some (Problem 409 (conflict (''a '' @ record_type_to_string t
                 @ '' record for this domain with value '' @ quoted v
                 @ '' already exists with a different ttl'')))
      | None \<Rightarrow> None)"

definition list_records ::
  "('s, 'z) toasty_scheme \<Rightarrow> usize option \<Rightarrow> usize option \<Rightarrow> string option \<Rightarrow> string option \<Rightarrow> 's \<Rightarrow>
   RecordApiDTO Page response" where
  "list_records T limit_param offset_param domain_param type_param s =
     (case page_params limit_param offset_param of (limit, offset) \<Rightarrow>
        (let domain_filter = map_option (\<lambda>d. to_lowercase (trim d)) domain_param
         in case (case type_param of
                    None \<Rightarrow> Ok None
                  | Some raw \<Rightarrow>
                      (case parse_record_type (trim raw) of Ok t \<Rightarrow> Ok (Some t) | Err p \<Rightarrow> Err p)) of
              Err problem \<Rightarrow> Problem 400 problem
            | Ok type_filter \<Rightarrow>
                (case Record_all T s of
                   Err e \<Rightarrow> failed e
                 | Ok records \<Rightarrow>
                     reply 200 (from_all (map (RecordApiDTO_from T)
                       (filter (\<lambda>r. case type_filter of Some t \<Rightarrow> record_type r = t | None \<Rightarrow> True)
                         (filter (\<lambda>r. case domain_filter of
                              Some d \<Rightarrow> eq_ignore_ascii_case (record_domain_id r) d
                            | None \<Rightarrow> True) records))) limit offset))))"

definition create_record ::
  "('s, 'z) toasty_scheme \<Rightarrow> ('s \<Rightarrow> 's) \<Rightarrow> NewRecord option \<Rightarrow> 's \<Rightarrow> RecordApiDTO response \<times> 's" where
  "create_record T meanwhile body s =
     (case body of
        None \<Rightarrow> (unparsed_body, s)
      | Some b \<Rightarrow>
          (let d = to_lowercase (trim (new_record_domain_id b));
               v = trim (new_record_value b);
               ttl = new_record_ttl b
           in case parse_record_type (trim (new_record_type b)) of
                Err problem \<Rightarrow> (Problem 400 problem, s)
              | Ok t \<Rightarrow>
                  (case validate_record_fields T d v s of
                     Err problem \<Rightarrow> (Problem (problem_status problem) problem, s)
                   | Ok _ \<Rightarrow>
                       (case Record_filter_domain T d s of
                          Err e \<Rightarrow> (failed e, s)
                        | Ok rows \<Rightarrow>
                            (case record_resolve T rows t v ttl of
                               Some r \<Rightarrow> (r, s)
                             | None \<Rightarrow>
                                 (case Record_create T \<lparr>record_domain_id = d, record_type = t,
                                          record_value = v, record_ttl = ttl\<rparr> (meanwhile s) of
                                    (Ok created, s1) \<Rightarrow> (reply 200 (RecordApiDTO_from T created), s1)
                                  | (Err e, s1) \<Rightarrow>
                                      (case Record_filter_domain T d s1 of
                                         Err _ \<Rightarrow> (failed e, s1)
                                       | Ok rows' \<Rightarrow>
                                           (case record_resolve T rows' t v ttl of
                                              Some r \<Rightarrow> (r, s1)
                                            | None \<Rightarrow> (failed e, s1)))))))))"

definition no_record_id :: "'a response" where
  "no_record_id = Problem 404 (not_found ''record not found'')"

definition get_record ::
  "('s, 'z) toasty_scheme \<Rightarrow> row_id option \<Rightarrow> 's \<Rightarrow> RecordApiDTO response" where
  "get_record T param s =
     (case param of
        None \<Rightarrow> no_record_id
      | Some i \<Rightarrow>
          (case Record_get_by_id T i s of
             Ok r \<Rightarrow> reply 200 (RecordApiDTO_from T r)
           | Err _ \<Rightarrow> missing ''record'' (dec i)))"

text \<open>The row a patch aims at: the stored one with the given fields layered over it.\<close>

definition patched_record :: "PatchRecord \<Rightarrow> Record \<Rightarrow> (Record, ApiProblem) result" where
  "patched_record b r =
     (let r1 = (case patch_record_domain_id b of
                  None \<Rightarrow> r
                | Some d \<Rightarrow> r\<lparr>record_domain_id := to_lowercase (trim d)\<rparr>)
      in case (case patch_record_type b of
                 None \<Rightarrow> Ok r1
               | Some t \<Rightarrow>
                   (case parse_record_type (trim t) of
                      Ok parsed \<Rightarrow> Ok (r1\<lparr>record_type := parsed\<rparr>)
                    | Err problem \<Rightarrow> Err problem)) of
           Err problem \<Rightarrow> Err problem
         | Ok r2 \<Rightarrow>
             (let r3 = (case patch_record_value b of
                          None \<Rightarrow> r2 | Some v \<Rightarrow> r2\<lparr>record_value := trim v\<rparr>)
              in Ok (case patch_record_ttl b of None \<Rightarrow> r3 | Some t \<Rightarrow> r3\<lparr>record_ttl := t\<rparr>)))"

definition patch_record ::
  "('s, 'z) toasty_scheme \<Rightarrow> row_id option \<Rightarrow> PatchRecord option \<Rightarrow> 's \<Rightarrow> RecordApiDTO response \<times> 's"
where
  "patch_record T param body s =
     (case param of
        None \<Rightarrow> (no_record_id, s)
      | Some i \<Rightarrow>
          (case body of
             None \<Rightarrow> (unparsed_body, s)
           | Some b \<Rightarrow>
               (case Record_get_by_id T i s of
                  Err _ \<Rightarrow> (missing ''record'' (dec i), s)
                | Ok stored \<Rightarrow>
                    (case patched_record b stored of
                       Err problem \<Rightarrow> (Problem 400 problem, s)
                     | Ok r \<Rightarrow>
                         (case validate_record_fields T (record_domain_id r) (record_value r) s of
                            Err problem \<Rightarrow> (Problem (problem_status problem) problem, s)
                          | Ok _ \<Rightarrow>
                              (case Record_filter_domain T (record_domain_id r) s of
                                 Err e \<Rightarrow> (failed e, s)
                               | Ok rows \<Rightarrow>
                                   if \<exists>x \<in> set rows. record_id x \<noteq> i \<and> record_type x = record_type r \<and>
                                        record_value x = record_value r
                                   then (Problem 409 (conflict
                                     ''a record with the same domain, type, and value already exists''), s)
                                   else
                                     (case Record_update T (record_id r)
                                             (\<lambda>x. x\<lparr>record_domain_id := record_domain_id r,
                                                  record_type := record_type r,
                                                  record_value := record_value r,
                                                  record_ttl := record_ttl r\<rparr>) s of
                                        (Err e, s1) \<Rightarrow> (failed e, s1)
                                      | (Ok _, s1) \<Rightarrow>
                                          (case Record_get_by_id T i s1 of
                                             Ok updated \<Rightarrow> (reply 200 (RecordApiDTO_from T updated), s1)
                                           | Err _ \<Rightarrow> (failed ''record vanished after update'', s1)))))))))"

definition delete_record ::
  "('s, 'z) toasty_scheme \<Rightarrow> row_id option \<Rightarrow> 's \<Rightarrow> unit response \<times> 's" where
  "delete_record T param s =
     (case param of
        None \<Rightarrow> (no_record_id, s)
      | Some i \<Rightarrow>
          if \<not> is_ok (Record_get_by_id T i s) then (missing ''record'' (dec i), s)
          else case Record_delete T i s of
              (Ok _, s1) \<Rightarrow> (reply 200 (), s1)
            | (Err e, s1) \<Rightarrow> (failed e, s1))"

section \<open>Wire names\<close>

lemma record_type_name_find:
  "find (\<lambda>t. record_type_to_string t = record_type_to_string rt) all_record_types = Some rt"
  by (cases rt) (simp_all add: all_record_types_def)

lemma json_unescape_plain:
  "\<forall>c \<in> set s. c \<noteq> CHR 0x22 \<and> c \<noteq> CHR 0x5C \<and> \<not> (of_char c :: nat) < 32 \<Longrightarrow> json_unescape s = Some s"
  by (induction s) auto

lemma record_type_name_plain:
  "json_unescape (record_type_to_string rt) = Some (record_type_to_string rt)"
  by (rule json_unescape_plain) (cases rt; simp)

lemma trim_plain:
  assumes "\<forall>c \<in> set s. \<not> is_whitespace c"
  shows "trim s = s"
proof -
  have "dropWhile is_whitespace s = s" using assms by (cases s) auto
  moreover have "dropWhile is_whitespace (rev s) = rev s"
    using assms by (cases "rev s") (auto simp flip: set_rev [of s])
  ultimately show ?thesis
    by (simp add: trim_def trim_matches_def trim_start_matches_def trim_end_matches_def)
qed

lemma record_type_name_trim: "trim (record_type_to_string rt) = record_type_to_string rt"
  by (rule trim_plain) (cases rt; simp add: is_whitespace_def)

lemma parse_record_type_name: "parse_record_type (record_type_to_string rt) = Ok rt"
  by (simp add: parse_record_type_def record_type_name_plain record_type_name_find)

lemma requested_mailbox_Ok:
  assumes "requested_mailbox now b = Ok m"
  shows "mailbox_id m = to_lowercase (trim (new_mailbox_id b))"
    "mailbox_forward_to m = new_mailbox_forward_to b"
    "Mailbox_try_from now (mailbox_id m) = Ok (m\<lparr>mailbox_forward_to := None\<rparr>)"
proof -
  let ?i = "to_lowercase (trim (new_mailbox_id b))"
  obtain m0 where m0: "Mailbox_try_from now ?i = Ok m0" and m: "m = m0\<lparr>mailbox_forward_to := new_mailbox_forward_to b\<rparr>"
    using assms by (auto simp: requested_mailbox_def Let_def split: if_splits sum.splits option.splits MailboxError.splits)
  note f = Mailbox_try_from_Ok [OF m0]
  show i: "mailbox_id m = ?i" and "mailbox_forward_to m = new_mailbox_forward_to b" using m f(1) by simp_all
  have "m0 = m\<lparr>mailbox_forward_to := None\<rparr>" using m f(3) by simp
  with m0 show "Mailbox_try_from now (mailbox_id m) = Ok (m\<lparr>mailbox_forward_to := None\<rparr>)"
    unfolding i by (simp only:)
qed

lemma patched_record_keeps:
  assumes "patched_record b r = Ok p"
  shows "r\<lparr>record_domain_id := record_domain_id p, record_type := record_type p,
      record_value := record_value p, record_ttl := record_ttl p\<rparr> = p"
    "record_id p = record_id r"
  using assms
  by (auto simp: patched_record_def Let_def split: option.splits sum.splits)

section \<open>Creating\<close>

text \<open>The two ways a colliding create is resolved.\<close>

definition same_mailbox :: "Mailbox \<Rightarrow> Mailbox \<Rightarrow> bool" where
  "same_mailbox a b \<longleftrightarrow>
     mailbox_forward_to a = mailbox_forward_to b \<and> mailbox_domain_id a = mailbox_domain_id b"

lemma mailbox_resolve_same: "same_mailbox a b \<Longrightarrow> mailbox_resolve T a b = reply 200 (MailboxDTO_from T a)"
  by (simp add: mailbox_resolve_def same_mailbox_def)

lemma mailbox_resolve_other: "\<not> same_mailbox a b \<Longrightarrow> status_code (mailbox_resolve T a b) = 409"
  by (auto simp: mailbox_resolve_def same_mailbox_def)

text \<open>How the answer to a record create relates to the stored row of the same triple.\<close>

definition confirms_record ::
  "('s, 'z) toasty_scheme \<Rightarrow> Record \<Rightarrow> u32 \<Rightarrow> RecordApiDTO response \<Rightarrow> bool" where
  "confirms_record T row ttl r \<longleftrightarrow>
     (if record_ttl row = ttl then r = reply 200 (RecordApiDTO_from T row) else status_code r = 409)"

lemma record_resolve_Some:
  assumes "record_resolve T rows t v ttl = Some r"
  obtains row where "row \<in> set rows" "record_type row = t" "record_value row = v" "confirms_record T row ttl r"
proof -
  from assms obtain row where f: "find (\<lambda>r. record_type r = t \<and> record_value r = v) rows = Some row"
    by (auto simp: record_resolve_def split: option.splits)
  with assms have "confirms_record T row ttl r"
    by (auto simp: record_resolve_def confirms_record_def split: if_splits)
  moreover from f have "row \<in> set rows \<and> record_type row = t \<and> record_value row = v"
    by (auto simp: find_Some_iff)
  ultimately show thesis using that by blast
qed

lemma record_resolve_None:
  "record_resolve T rows t v ttl = None \<longleftrightarrow> (\<forall>r \<in> set rows. record_type r \<noteq> t \<or> record_value r \<noteq> v)"
  by (auto simp: record_resolve_def find_None_iff find_Some_iff split: option.splits)

context store
begin

lemma create_domain_confirms:
  assumes "healthy (meanwhile s)" and "trim i \<noteq> []" and "create_domain T meanwhile (Some \<lparr>new_domain_id = i\<rparr>) s = (r, s')"
  shows "\<exists>d. r = reply 200 (DomainDTO_from T d) \<and> t_domains (view s') (trim i) = Some d \<and>
    domain_id d = trim i \<and>
    (s' = s \<or> view s' = (view (meanwhile s))\<lparr>t_domains := (t_domains (view (meanwhile s)))(trim i \<mapsto> d)\<rparr>)"
proof (cases "Domain_get_by_id T (trim i) s")
  case (Inr d)
  have d: "t_domains (view s) (trim i) = Some d" by (rule domain.get_sound [OF Inr])
  with assms(2,3) Inr domain_keyed [OF d] show ?thesis
    by (intro exI [of _ d]) (auto simp: create_domain_def render_domain_created_def Let_def)
next
  case (Inl e)
  obtain x s1 where c: "Domain_create T (trim i) (meanwhile s) = (x, s1)"
    by (cases "Domain_create T (trim i) (meanwhile s)")
  have up: "healthy s1" by (rule domain.create_healthy [OF assms(1) c])
  show ?thesis
  proof (cases x)
    case x: (Inr d)
    from domain.create_Ok [OF c [unfolded x]] have d: "domain_id d = trim i"
      "view s1 = t_domains_update (\<lambda>t. t(domain_id d \<mapsto> d)) (view (meanwhile s))" by simp_all
    moreover have "r = reply 200 (DomainDTO_from T d)" "s' = s1"
      using assms(2,3) Inl c x by (auto simp: create_domain_def render_domain_created_def Let_def)
    ultimately show ?thesis by (intro exI [of _ d]) (cases "view (meanwhile s)"; simp)
  next
    case x: (Inl e')
    have v: "view s1 = view (meanwhile s)" by (rule domain.create_Err [OF c [unfolded x]])
    have "t_domains (view (meanwhile s)) (trim i) \<noteq> None"
      using domain.create_complete [OF assms(1) _ c] x by auto
    then obtain d where d: "t_domains (view (meanwhile s)) (trim i) = Some d" by blast
    with v have "Domain_get_by_id T (trim i) s1 = Ok d" by (intro domain.get_complete [OF up]) simp
    with assms(2,3) Inl c x have "r = reply 200 (DomainDTO_from T d)" "s' = s1"
      by (auto simp: create_domain_def render_domain_created_def Let_def)
    with v d domain_keyed [OF d] show ?thesis
      by (intro exI [of _ d]) (cases "view (meanwhile s)"; auto)
  qed
qed

lemma domain_records:
  assumes "Record_filter_domain T d s = Ok rows"
  shows "row \<in> set rows \<longleftrightarrow> row \<in> ran (t_records (view s)) \<and> record_domain_id row = d"
  using rec.query_set [OF assms] by auto

lemma validate_record_healthy:
  assumes "healthy s"
  shows "validate_record_fields T d v s =
    (if trim v = [] then Err (bad_request ''value must not be empty'')
     else if d \<notin> dom (t_domains (view s))
       then Err (bad_request (''domain '' @ quoted d @ '' is not provisioned''))
     else Ok ())"
  using domain.is_ok_get [OF assms, of d] by (auto simp: validate_record_fields_def)

text \<open>A look-up among the rows of a domain that finds the triple confirms a stored row.\<close>

lemma record_resolved:
  assumes "Record_filter_domain T d s = Ok rows" and "record_resolve T rows t v ttl = Some r"
  shows "\<exists>row \<in> ran (t_records (view s)). record_triple row = (d, t, v) \<and> confirms_record T row ttl r"
proof -
  from assms(2) obtain row where "row \<in> set rows" "record_type row = t" "record_value row = v"
    "confirms_record T row ttl r" by (rule record_resolve_Some)
  with domain_records [OF assms(1), of row] show ?thesis
    by (intro bexI [of _ row]) (auto simp: record_triple_def)
qed

lemma record_inserted:
  assumes "Record_create T \<lparr>record_domain_id = d, record_type = t, record_value = v, record_ttl = ttl\<rparr> s = (Ok row, s')"
  shows "record_triple row = (d, t, v)" "record_ttl row = ttl" "record_id row \<notin> dom (t_records (view s))"
    "view s' = (view s)\<lparr>t_records := (t_records (view s))(record_id row \<mapsto> row)\<rparr>"
    "row \<in> ran (t_records (view s'))"
  using rec.create_Ok [OF assms]
  by (cases "view s"; auto simp: record_fields.defs record_triple_def ran_def)+

text \<open>A refused insert means that the triple is stored, so looking again finds it.\<close>

lemma record_refused:
  assumes "healthy s"
    and "Record_create T \<lparr>record_domain_id = d, record_type = t, record_value = v, record_ttl = ttl\<rparr> s = (Err e, s')"
  obtains rows r where "Record_filter_domain T d s' = Ok rows" "record_resolve T rows t v ttl = Some r"
    "view s' = view s"
proof -
  let ?f = "\<lparr>record_domain_id = d, record_type = t, record_value = v, record_ttl = ttl\<rparr>"
  have vw: "view s' = view s" by (rule rec.create_Err [OF assms(2)])
  obtain rows where rows: "Record_filter_domain T d s' = Ok rows"
    using rec.query_complete [OF rec.create_healthy [OF assms], of d] by (auto simp: is_ok_iff)
  have "\<not> (\<forall>q \<in> ran (t_records (view s)). record_triple q \<noteq> record_triple ?f)"
    using rec.create_complete [OF assms(1) _ assms(2)] by auto
  then obtain q where "q \<in> ran (t_records (view s'))" "record_triple q = (d, t, v)"
    by (auto simp: vw record_triple_def)
  with domain_records [OF rows, of q] have "q \<in> set rows" "record_type q = t" "record_value q = v"
    by (auto simp: record_triple_def)
  with record_resolve_None obtain r where "record_resolve T rows t v ttl = Some r"
    by (cases "record_resolve T rows t v ttl") blast+
  with rows show thesis using vw by (rule that)
qed

lemma create_record_confirms:
  assumes "healthy s" and "healthy (meanwhile s)" and "parse_record_type (trim (new_record_type b)) = Ok t"
    and "d = to_lowercase (trim (new_record_domain_id b))" and "d \<in> dom (t_domains (view s))"
    and "v = trim (new_record_value b)" and "v \<noteq> []"
    and "create_record T meanwhile (Some b) s = (r, s')"
  shows "\<exists>row \<in> ran (t_records (view s')). record_triple row = (d, t, v) \<and>
    confirms_record T row (new_record_ttl b) r \<and>
    (s' = s \<or> view s' = view (meanwhile s) \<or> r = reply 200 (RecordApiDTO_from T row) \<and>
      record_id row \<notin> dom (t_records (view (meanwhile s))) \<and> record_ttl row = new_record_ttl b \<and>
      view s' = (view (meanwhile s))\<lparr>t_records := (t_records (view (meanwhile s)))(record_id row \<mapsto> row)\<rparr>)"
proof -
  have ok: "validate_record_fields T d v s = Ok ()"
    using assms(5-7) by (auto simp: validate_record_healthy [OF assms(1)] trim_idem)
  obtain rows where rows: "Record_filter_domain T d s = Ok rows"
    using rec.query_complete [OF assms(1), of d] by (auto simp: is_ok_iff)
  note run = assms(3,4,6,8) ok rows
  let ?f = "\<lparr>record_domain_id = d, record_type = t, record_value = v, record_ttl = new_record_ttl b\<rparr>"
  show ?thesis
  proof (cases "record_resolve T rows t v (new_record_ttl b)")
    case (Some r0)
    with run have "r = r0" "s' = s" by (auto simp: create_record_def Let_def)
    with record_resolved [OF rows Some] show ?thesis by blast
  next
    case None
    obtain x s1 where c: "Record_create T ?f (meanwhile s) = (x, s1)"
      by (cases "Record_create T ?f (meanwhile s)")
    show ?thesis
    proof (cases x)
      case (Inr row)
      with run None c have "r = reply 200 (RecordApiDTO_from T row)" "s' = s1"
        by (auto simp: create_record_def Let_def)
      with record_inserted [OF c [unfolded Inr]] show ?thesis
        by (intro bexI [of _ row]) (simp_all add: confirms_record_def)
    next
      case (Inl e)
      obtain rows' r0 where again: "Record_filter_domain T d s1 = Ok rows'"
        "record_resolve T rows' t v (new_record_ttl b) = Some r0" "view s1 = view (meanwhile s)"
        by (rule record_refused [OF assms(2) c [unfolded Inl]])
      with run None c Inl have "r = r0" "s' = s1" by (auto simp: create_record_def Let_def)
      with record_resolved [OF again(1,2)] again(3) show ?thesis by auto
    qed
  qed
qed

lemma patch_record_exact:
  assumes "healthy s" and "t_records (view s) i = Some stored" and "patched_record b stored = Ok p"
    and "patch_record T (Some i) (Some b) s = (r, s')"
  shows "if trim (record_value p) = [] \<or> record_domain_id p \<notin> dom (t_domains (view s))
    then status_code r = 400 \<and> s' = s
    else if \<exists>x \<in> ran (t_records (view s)). record_id x \<noteq> i \<and> record_triple x = record_triple p
    then status_code r = 409 \<and> s' = s
    else \<exists>ts. r = reply 200 (RecordApiDTO_from T (p\<lparr>record_updated_at := ts\<rparr>)) \<and>
      view s' = (view s)\<lparr>t_records := (t_records (view s))(i \<mapsto> p\<lparr>record_updated_at := ts\<rparr>)\<rparr>"
proof -
  have get: "Record_get_by_id T i s = Ok stored" by (rule rec.get_complete [OF assms(1,2)])
  have i: "record_id stored = i" by (rule record_keyed [OF assms(2)])
  note keep = patched_record_keeps [OF assms(3)]
  show ?thesis
  proof (cases "trim (record_value p) = [] \<or> record_domain_id p \<notin> dom (t_domains (view s))")
    case True
    with assms(3,4) get show ?thesis
      by (auto simp: patch_record_def validate_record_healthy [OF assms(1)] bad_request_def split: if_splits)
  next
    case False
    then have ok: "validate_record_fields T (record_domain_id p) (record_value p) s = Ok ()"
      by (simp add: validate_record_healthy [OF assms(1)])
    obtain rows where rows: "Record_filter_domain T (record_domain_id p) s = Ok rows"
      using rec.query_complete [OF assms(1), of "record_domain_id p"] by (auto simp: is_ok_iff)
    have coll: "(\<exists>x \<in> set rows. record_id x \<noteq> i \<and> record_type x = record_type p \<and> record_value x = record_value p)
        \<longleftrightarrow> (\<exists>x \<in> ran (t_records (view s)). record_id x \<noteq> i \<and> record_triple x = record_triple p)"
      by (auto simp: domain_records [OF rows] record_triple_def)
    show ?thesis
    proof (cases "\<exists>x \<in> ran (t_records (view s)). record_id x \<noteq> i \<and> record_triple x = record_triple p")
      case True
      with False assms(3,4) get ok rows coll show ?thesis by (auto simp: patch_record_def)
    next
      case free: False
      let ?u = "\<lambda>x. x\<lparr>record_domain_id := record_domain_id p, record_type := record_type p,
        record_value := record_value p, record_ttl := record_ttl p\<rparr>"
      obtain x s1 where u: "Record_update T i ?u s = (x, s1)" by (cases "Record_update T i ?u s")
      have "is_ok x"
        using free keep i
        by (intro rec.update_complete [OF assms(1,2) _ u]) (auto simp: record_triple_def)
      then obtain row where x: "x = Ok row" by (auto simp: is_ok_iff)
      from rec.update_Ok [OF u [unfolded x]] assms(2) keep obtain ts where
        row: "row = p\<lparr>record_updated_at := ts\<rparr>"
        and v: "view s1 = t_records_update (\<lambda>t. t(i \<mapsto> row)) (view s)" by auto
      have up: "healthy s1" by (rule rec.update_healthy [OF assms(1) u])
      have "Record_get_by_id T i s1 = Ok row" by (rule rec.get_complete [OF up]) (simp add: v)
      with False free assms(3,4) get ok rows coll u x keep i row v show ?thesis
        by (auto simp: patch_record_def intro!: exI [of _ ts])
    qed
  qed
qed

lemma delete_domain_exact:
  assumes "healthy s" and "delete_domain T (Some i) s = (r, s')"
  shows "if i \<in> dom (t_domains (view s)) then r = reply 200 () \<and> view s' = delete_domains i (view s)
    else status_code r = 404 \<and> s' = s"
proof (cases "i \<in> dom (t_domains (view s))")
  case True
  then have "is_ok (Domain_get_by_id T i s)" using domain.is_ok_get [OF assms(1), of i] by auto
  moreover obtain x s1 where d: "Domain_delete T i s = (x, s1)" by (cases "Domain_delete T i s")
  moreover from domain.delete_complete [OF assms(1) d] obtain u where "x = Ok u" by (auto simp: is_ok_iff)
  ultimately show ?thesis using True assms(2) domain.delete_Ok [of i s u s1]
    by (auto simp: delete_domain_def)
next
  case False
  then have "\<not> is_ok (Domain_get_by_id T i s)" using domain.is_ok_getD [of i s] by auto
  with False assms(2) show ?thesis by (auto simp: delete_domain_def missing_def)
qed

end

text \<open>
  After the request the address is provisioned: with the configuration asked for, which is confirmed,
  or with another one, which is a conflict and left alone.
\<close>

context mta
begin

lemma create_mailbox_confirms:
  assumes "healthy (meanwhile s)" and "requested_mailbox (Timestamp_now W s) b = Ok m"
    and "create_mailbox W meanwhile (Some b) s = (r, s')"
  shows "\<exists>row. t_mailboxes (view s') (mailbox_id m) = Some row \<and>
    r = mailbox_resolve W row m \<and>
    (same_mailbox row m \<or> s' = s \<or> view s' = view (meanwhile s)) \<and>
    (s' = s \<or> view s' = (view (meanwhile s))\<lparr>t_mailboxes :=
      (t_mailboxes (view (meanwhile s)))(mailbox_id m \<mapsto> row)\<rparr>)"
proof (cases "Mailbox_get_by_id W (mailbox_id m) s")
  case (Inr row)
  have "t_mailboxes (view s) (mailbox_id m) = Some row" by (rule mailbox.get_sound [OF Inr])
  with assms Inr show ?thesis by (intro exI [of _ row]) (auto simp: create_mailbox_def)
next
  case (Inl e)
  let ?f = "mailbox_fields.truncate m"
  have key: "mailbox_id ?f = mailbox_id m" by (simp add: mailbox_fields.defs)
  obtain x s1 where c: "Mailbox_create W ?f (meanwhile s) = (x, s1)"
    by (cases "Mailbox_create W ?f (meanwhile s)")
  have up: "healthy s1" by (rule mailbox.create_healthy [OF assms(1) c])
  show ?thesis
  proof (cases x)
    case x: (Inr row)
    from mailbox.create_Ok [OF c [unfolded x]] have f: "mailbox_fields.truncate row = ?f"
      and v: "view s1 = t_mailboxes_update (\<lambda>t. t(mailbox_id row \<mapsto> row)) (view (meanwhile s))" by simp_all
    then have row: "mailbox_id row = mailbox_id m" "same_mailbox row m"
      by (simp_all add: mailbox_fields.defs same_mailbox_def)
    have "r = reply 200 (MailboxDTO_from W row)" "s' = s1"
      using assms(2,3) Inl c x by (auto simp: create_mailbox_def)
    with row v show ?thesis
      by (intro exI [of _ row]) (cases "view (meanwhile s)"; simp add: mailbox_resolve_def same_mailbox_def)
  next
    case x: (Inl e')
    have v: "view s1 = view (meanwhile s)" by (rule mailbox.create_Err [OF c [unfolded x]])
    have "t_mailboxes (view (meanwhile s)) (mailbox_id m) \<noteq> None"
      using mailbox.create_complete [OF assms(1) _ c] x by (auto simp: key)
    then obtain row where row: "t_mailboxes (view (meanwhile s)) (mailbox_id m) = Some row" by blast
    with v have "Mailbox_get_by_id W (mailbox_id m) s1 = Ok row" by (intro mailbox.get_complete [OF up]) simp
    with assms(2,3) Inl c x have "r = mailbox_resolve W row m" "s' = s1"
      by (auto simp: create_mailbox_def)
    with v row show ?thesis by (intro exI [of _ row]) (cases "view (meanwhile s)"; auto)
  qed
qed

end

section \<open>Properties\<close>

text \<open>
  Creating a domain succeeds for every name that is not blank, whether or not it exists and
  whatever other tasks do between the look-up and the insert (also when one of them wins the race and
  the insert is refused): the answer is 200 with the stored row of that name, no other row is touched,
  and asking again changes nothing and gives the same answer.
\<close>

theorem create_domain_idempotent:
  assumes "store T view snapshot healthy" and "healthy (meanwhile s)" and "trim i \<noteq> []"
    and "create_domain T meanwhile (Some \<lparr>new_domain_id = i\<rparr>) s = (r, s')"
  shows "\<exists>d. r = reply 200 (DomainDTO_from T d) \<and> t_domains (view s') (trim i) = Some d \<and>
    domain_id d = trim i \<and>
    (s' = s \<or> view s' = (view (meanwhile s))\<lparr>t_domains := (t_domains (view (meanwhile s)))(trim i \<mapsto> d)\<rparr>) \<and>
    (healthy s' \<longrightarrow> create_domain T meanwhile' (Some \<lparr>new_domain_id = i\<rparr>) s' = (r, s'))"
proof -
  from store.create_domain_confirms [OF assms] obtain d where
    d: "r = reply 200 (DomainDTO_from T d)" "t_domains (view s') (trim i) = Some d" "domain_id d = trim i"
      "s' = s \<or> view s' = (view (meanwhile s))\<lparr>t_domains := (t_domains (view (meanwhile s)))(trim i \<mapsto> d)\<rparr>"
    by blast
  have "Domain_get_by_id T (trim i) s' = Ok d" if "healthy s'"
    using keyed_read.get_complete [OF store.axioms(1) [OF assms(1)] that d(2)] .
  with d assms(3) show ?thesis
    by (intro exI [of _ d]) (simp add: create_domain_def render_domain_created_def Let_def)
qed

text \<open>A race: while the handler waits, another task creates the same domain.\<close>

definition other_creates :: "mem \<Rightarrow> mem" where
  "other_creates s = snd (Domain_create mem_ops ''x.org'' s)"

lemma mem_empty_up [simp]: "mem_up mem_empty"
  by (simp add: mem_empty_def mem_tables.defs no_rows_def)

theorem create_domain_idempotent_witness:
  "\<exists>d s'. create_domain mem_ops other_creates (Some \<lparr>new_domain_id = '' x.org''\<rparr>) mem_empty =
      (reply 200 (DomainDTO_from mem_ops d), s') \<and> domain_id d = ''x.org''"
proof -
  obtain r s' where c: "create_domain mem_ops other_creates (Some \<lparr>new_domain_id = '' x.org''\<rparr>) mem_empty = (r, s')"
    by (cases "create_domain mem_ops other_creates (Some \<lparr>new_domain_id = '' x.org''\<rparr>) mem_empty")
  have t: "trim '' x.org'' = ''x.org''" by code_simp
  have "mem_up (other_creates mem_empty)" by code_simp
  then obtain d where "r = reply 200 (DomainDTO_from mem_ops d)" "domain_id d = trim '' x.org''"
    using create_domain_idempotent [OF mem.store_axioms _ _ c] t by fastforce
  with c t show ?thesis by auto
qed


definition example_new_mailbox :: NewMailbox where
  "example_new_mailbox = \<lparr>new_mailbox_id = ''Bob@X.org'', new_mailbox_domain_id = None,
     new_mailbox_forward_to = Some ''far@y.org''\<rparr>"


text \<open>
  C26. Creating a record of a known type with a value for a provisioned domain always ends with a row of
  that domain, type and value, races included: answered 200 with the row when its time to live is the
  requested one, and 409 when another time to live is stored. At most that one row is added, so the
  triple stays unique.
\<close>

theorem create_record_outcome:
  assumes "store T view snapshot healthy" and "healthy s" and "healthy (meanwhile s)"
    and "parse_record_type (trim (new_record_type b)) = Ok t"
    and "d = to_lowercase (trim (new_record_domain_id b))" and "d \<in> dom (t_domains (view s))"
    and "v = trim (new_record_value b)" and "v \<noteq> []"
    and "create_record T meanwhile (Some b) s = (r, s')"
  shows "\<exists>row \<in> ran (t_records (view s')). record_triple row = (d, t, v) \<and>
    (if record_ttl row = new_record_ttl b then r = reply 200 (RecordApiDTO_from T row)
     else status_code r = 409) \<and>
    (s' = s \<or> view s' = view (meanwhile s) \<or>
      record_id row \<notin> dom (t_records (view (meanwhile s))) \<and> record_ttl row = new_record_ttl b \<and>
      view s' = (view (meanwhile s))\<lparr>t_records := (t_records (view (meanwhile s)))(record_id row \<mapsto> row)\<rparr>)"
  using store.create_record_confirms [OF assms] unfolding confirms_record_def by blast

definition zone_db :: mem where
  "zone_db = mem_empty\<lparr>m_domains := [\<lparr>domain_id = ''x.org'', domain_created_at = 0, domain_updated_at = 0\<rparr>]\<rparr>"

definition example_new_record :: NewRecord where
  "example_new_record = decode_NewRecord ''X.org'' ''MX'' ''10 mx.x.org'' None"

lemma zone_db_up [simp]: "mem_up zone_db"
  by (simp add: zone_db_def mem_empty_def mem_tables.defs no_rows_def)

lemma example_new_record_facts:
  "parse_record_type (trim (new_record_type example_new_record)) = Ok RT_MX"
  "to_lowercase (trim (new_record_domain_id example_new_record)) = ''x.org''"
  "trim (new_record_value example_new_record) = ''10 mx.x.org''"
  by code_simp+

lemma zone_db_domain: "''x.org'' \<in> dom (t_domains (mem_view zone_db))"
  by (simp add: zone_db_def dom_def)

theorem create_record_outcome_witness:
  "\<exists>r s' row. create_record mem_ops id (Some example_new_record) zone_db = (r, s') \<and>
    row \<in> ran (t_records (mem_view s')) \<and> record_triple row = (''x.org'', RT_MX, ''10 mx.x.org'')"
proof -
  obtain r s' where c: "create_record mem_ops id (Some example_new_record) zone_db = (r, s')"
    by (cases "create_record mem_ops id (Some example_new_record) zone_db")
  have up: "mem_up (id zone_db)" by simp
  from create_record_outcome [OF mem.store_axioms zone_db_up up example_new_record_facts(1)
      example_new_record_facts(2) [symmetric] zone_db_domain example_new_record_facts(3) [symmetric] _ c] c
  show ?thesis by auto
qed


definition example_record :: Record where
  "example_record = \<lparr>record_domain_id = ''x.org'', record_type = RT_A, record_value = ''10.0.0.1'',
     record_ttl = 300, record_id = 4, record_created_at = 0, record_updated_at = 0\<rparr>"

definition record_db :: mem where
  "record_db = zone_db\<lparr>m_records := [example_record]\<rparr>"


text \<open>
  A domain whose name has an upper-case letter is accepted by the domain request but can own no
  record: every record request lower-cases the owning domain, does not find it, and is refused with
  400, as long as the lower-case name is not provisioned too.
\<close>

lemma mixed_case_domain_owns_no_record:
  assumes "store T view snapshot healthy" and "healthy s"
    and "create_domain T id (Some \<lparr>new_domain_id = i\<rparr>) s = (r, s1)" and "trim i \<noteq> []"
    and "to_lowercase (trim i) \<noteq> trim i" and "to_lowercase (trim i) \<notin> dom (t_domains (view s))"
    and "to_lowercase (trim (new_record_domain_id b)) = to_lowercase (trim i)"
    and "create_record T meanwhile (Some b) s1 = (q, s2)"
  shows "status_code r = 200 \<and> status_code q = 400 \<and> s2 = s1"
proof -
  have "healthy (id s)" using assms(2) by simp
  from store.create_domain_confirms [OF assms(1) this assms(4,3)] obtain d where
    d: "r = reply 200 (DomainDTO_from T d)"
      "s1 = s \<or> view s1 = (view s)\<lparr>t_domains := (t_domains (view s))(trim i \<mapsto> d)\<rparr>" by auto
  have "to_lowercase (trim i) \<notin> dom (t_domains (view s1))" using d(2) assms(5,6) by auto
  then have "\<not> is_ok (Domain_get_by_id T (to_lowercase (trim i)) s1)"
    using keyed_read.is_ok_getD [OF store.axioms(1) [OF assms(1)]] by fastforce
  then have "\<exists>e. validate_record_fields T (to_lowercase (trim i)) (trim (new_record_value b)) s1
      = Err (bad_request e)" by (cases "trim (trim (new_record_value b)) = []") (auto simp: validate_record_fields_def)
  then show ?thesis using d(1) assms(8)
    by (auto simp: create_record_def Let_def assms(7) reply_def bad_request_def parse_record_type_def
        split: sum.splits option.splits)
qed

lemma mixed_case_domain_owns_no_record_witness:
  "\<exists>r s1 q s2. create_domain mem_ops id (Some \<lparr>new_domain_id = ''X.org''\<rparr>) mem_empty = (r, s1) \<and>
    create_record mem_ops id (Some example_new_record) s1 = (q, s2) \<and>
    status_code r = 200 \<and> status_code q = 400"
proof -
  obtain r s1 where c: "create_domain mem_ops id (Some \<lparr>new_domain_id = ''X.org''\<rparr>) mem_empty = (r, s1)"
    by (cases "create_domain mem_ops id (Some \<lparr>new_domain_id = ''X.org''\<rparr>) mem_empty")
  obtain q s2 where q: "create_record mem_ops id (Some example_new_record) s1 = (q, s2)"
    by (cases "create_record mem_ops id (Some example_new_record) s1")
  have t: "trim ''X.org'' = ''X.org''" "to_lowercase ''X.org'' = ''x.org''" by code_simp+
  have e: "''x.org'' \<notin> dom (t_domains (mem_view mem_empty))"
    by (simp add: mem_empty_def mem_tables.defs no_rows_def dom_def)
  from mixed_case_domain_owns_no_record [OF mem.store_axioms mem_empty_up c _ _ _ _ q] t e c q
    example_new_record_facts(2) show ?thesis by simp
qed

end
