(* ===== verification/Zm_Load.thy ===== *)
theory Zm_Load
  imports Zm_Config "HOL-Library.AList"
begin

text \<open>
  Loading the configuration (\<open>Config::load\<close> of \<^verbatim>\<open>src/config.rs\<close>): the two sources, and the
  conversion of the merged table into a \<open>Config\<close> that the \<open>derive(Deserialize)\<close> and \<open>serde\<close>
  attributes of the structures prescribe: which keys there are, which of them default and to what,
  which are required, how the tagged and untagged enumerations are told apart. The configuration
  library, which reads the file and the environment and merges them, is an argument, and so is the
  data format, i.e. how a value of the merged table is read as a text, a number, a sequence or a
  table (the text of an environment variable is also accepted as a number, say).
\<close>

section \<open>Data formats\<close>

datatype de_error =
    Missing_field string
  | Duplicate_field string
  | Unknown_variant string
  | Invalid_length nat
  | Untagged string
  | Format string

text \<open>A structure is given by the names of its fields or by their positions.\<close>

datatype 'v struct_input = By_name "(string \<times> 'v) list" | By_position "'v list"

text \<open>
  What a format offers to the code that \<open>derive\<close> writes. \<open>de_excess\<close> is its answer to a sequence
  with more elements than the structure has fields; \<open>de_content\<close> buffers a value, which is then
  read as \<open>json\<close>; \<open>de_value\<close> reads it as a JSON value of the configuration.
\<close>

record 'v deserializer =
  de_bool :: "'v \<Rightarrow> (bool, de_error) result"
  de_u16 :: "'v \<Rightarrow> (u16, de_error) result"
  de_u32 :: "'v \<Rightarrow> (u32, de_error) result"
  de_u64 :: "'v \<Rightarrow> (u64, de_error) result"
  de_string :: "'v \<Rightarrow> (string, de_error) result"
  de_option :: "'v \<Rightarrow> 'v option"
  de_seq :: "'v \<Rightarrow> ('v list, de_error) result"
  de_map :: "'v \<Rightarrow> ((string \<times> 'v) list, de_error) result"
  de_struct :: "'v \<Rightarrow> ('v struct_input, de_error) result"
  de_excess :: "nat \<Rightarrow> (unit, de_error) result"
  de_variant :: "'v \<Rightarrow> (string, de_error) result"
  de_content :: "'v \<Rightarrow> (json, de_error) result"
  de_value :: "'v \<Rightarrow> (json, de_error) result"

definition and_then :: "('a, 'e) result \<Rightarrow> ('a \<Rightarrow> ('b, 'e) result) \<Rightarrow> ('b, 'e) result" where
  "and_then r f = (case r of Err e \<Rightarrow> Err e | Ok x \<Rightarrow> f x)"

fun traverse :: "('v \<Rightarrow> ('a, 'e) result) \<Rightarrow> 'v list \<Rightarrow> ('a list, 'e) result" where
  "traverse f [] = Ok []"
| "traverse f (v # vs) =
     and_then (f v) (\<lambda>x. and_then (traverse f vs) (\<lambda>xs. Ok (x # xs)))"

definition de_opt ::
  "'v deserializer \<Rightarrow> ('v \<Rightarrow> ('a, de_error) result) \<Rightarrow> 'v \<Rightarrow> ('a option, de_error) result" where
  "de_opt D f v =
     (case de_option D v of None \<Rightarrow> Ok None | Some x \<Rightarrow> and_then (f x) (\<lambda>y. Ok (Some y)))"

definition de_vec ::
  "'v deserializer \<Rightarrow> ('v \<Rightarrow> ('a, de_error) result) \<Rightarrow> 'v \<Rightarrow> ('a list, de_error) result" where
  "de_vec D f v = and_then (de_seq D v) (traverse f)"

text \<open>A hash map is filled entry by entry, a later entry replacing an earlier one of its key.\<close>

definition de_hash_map ::
  "'v deserializer \<Rightarrow> ('v \<Rightarrow> ('a, de_error) result) \<Rightarrow> 'v \<Rightarrow> ((string \<times> 'a) list, de_error) result" where
  "de_hash_map D f v =
     and_then (de_map D v) (\<lambda>es.
       and_then (traverse (\<lambda>(k, x). and_then (f x) (\<lambda>y. Ok (k, y))) es) (\<lambda>ps.
         Ok (foldl (\<lambda>m (k, y). AList.update k y m) [] ps)))"

definition de_unit_variant ::
  "'v deserializer \<Rightarrow> (string \<times> 'a) list \<Rightarrow> 'v \<Rightarrow> ('a, de_error) result" where
  "de_unit_variant D names v =
     and_then (de_variant D v) (\<lambda>n. ok_or (Unknown_variant n) (map_of names n))"

section \<open>Structures\<close>

text \<open>
  The fields of a structure in the order of its declaration, each with what its value does to the
  structure under construction. Construction starts from the defaults; unknown names are skipped,
  a name given twice is refused, and a field in \<open>req\<close> (one without a default) has to be given.
\<close>

type_synonym ('v, 'r) fields = "(string \<times> ('v \<Rightarrow> 'r \<Rightarrow> ('r, de_error) result)) list"

definition field ::
  "('v \<Rightarrow> ('a, de_error) result) \<Rightarrow> ('a \<Rightarrow> 'r \<Rightarrow> 'r) \<Rightarrow> 'v \<Rightarrow> 'r \<Rightarrow> ('r, de_error) result" where
  "field conv upd v r = and_then (conv v) (\<lambda>x. Ok (upd x r))"

fun visit_map ::
  "('v, 'r) fields \<Rightarrow> string set \<Rightarrow> 'r \<Rightarrow> (string \<times> 'v) list \<Rightarrow> ('r \<times> string set, de_error) result"
where
  "visit_map fs seen r [] = Ok (r, seen)"
| "visit_map fs seen r ((k, v) # es) =
     (case map_of fs k of
        None \<Rightarrow> visit_map fs seen r es
      | Some assign \<Rightarrow>
          if k \<in> seen then Err (Duplicate_field k)
          else and_then (assign v r) (\<lambda>r1. visit_map fs (insert k seen) r1 es))"

fun visit_seq :: "('v, 'r) fields \<Rightarrow> 'r \<Rightarrow> 'v list \<Rightarrow> ('r, de_error) result" where
  "visit_seq ((_, assign) # fs) r (v # vs) = and_then (assign v r) (\<lambda>r1. visit_seq fs r1 vs)"
| "visit_seq _ r _ = Ok r"

definition visit_struct ::
  "'v deserializer \<Rightarrow> ('v, 'r) fields \<Rightarrow> string set \<Rightarrow> 'r \<Rightarrow> 'v struct_input \<Rightarrow> ('r, de_error) result"
where
  "visit_struct D fs req init input =
     (case input of
        By_name es \<Rightarrow>
          and_then (visit_map fs {} init es) (\<lambda>(r, seen).
            case find (\<lambda>n. n \<in> req \<and> n \<notin> seen) (map fst fs) of
              Some n \<Rightarrow> Err (Missing_field n)
            | None \<Rightarrow> Ok r)
      | By_position vs \<Rightarrow>
          and_then (visit_seq fs init vs) (\<lambda>r.
            case find (\<lambda>(i, n). n \<in> req) (drop (length vs) (enumerate 0 (map fst fs))) of
              Some (i, n) \<Rightarrow> Err (Invalid_length i)
            | None \<Rightarrow>
                if length fs < length vs then and_then (de_excess D (length fs)) (\<lambda>_. Ok r)
                else Ok r))"

definition deserialize_struct ::
  "'v deserializer \<Rightarrow> ('v, 'r) fields \<Rightarrow> string set \<Rightarrow> 'r \<Rightarrow> 'v \<Rightarrow> ('r, de_error) result" where
  "deserialize_struct D fs req init v =
     and_then (de_struct D v) (\<lambda>input. visit_struct D fs req init input)"

section \<open>JSON\<close>

text \<open>
  The format of buffered values, which untagged and tagged enumerations read a second time; JSON
  texts are read in the same way. A number is its literal.
\<close>

definition json_unsigned :: "nat \<Rightarrow> json \<Rightarrow> (nat, de_error) result" where
  "json_unsigned bound v =
     (case v of
        JNumber n \<Rightarrow> ok_or (Format ''invalid value'') (parse_unsigned bound n)
      | _ \<Rightarrow> Err (Format ''invalid type''))"

definition json_word :: "json \<Rightarrow> ('a::len word, de_error) result" where
  "json_word v = and_then (json_unsigned (2 ^ LENGTH('a)) v) (\<lambda>n. Ok (of_nat n))"

definition json_format :: "json deserializer" where
  "json_format =
     \<lparr>de_bool = (\<lambda>v. case v of JBool b \<Rightarrow> Ok b | _ \<Rightarrow> Err (Format ''invalid type'')),
      de_u16 = json_word, de_u32 = json_word, de_u64 = json_word,
      de_string = (\<lambda>v. case v of JString s \<Rightarrow> Ok s | _ \<Rightarrow> Err (Format ''invalid type'')),
      de_option = (\<lambda>v. case v of JNull \<Rightarrow> None | _ \<Rightarrow> Some v),
      de_seq = (\<lambda>v. case v of JArray vs \<Rightarrow> Ok vs | _ \<Rightarrow> Err (Format ''invalid type'')),
      de_map = (\<lambda>v. case v of JObject es \<Rightarrow> Ok es | _ \<Rightarrow> Err (Format ''invalid type'')),
      de_struct = (\<lambda>v. case v of JObject es \<Rightarrow> Ok (By_name es) | JArray vs \<Rightarrow> Ok (By_position vs)
                       | _ \<Rightarrow> Err (Format ''invalid type'')),
      de_excess = (\<lambda>n. Err (Invalid_length n)),
      de_variant = (\<lambda>v. case v of JString s \<Rightarrow> Ok s | JObject [(s, JNull)] \<Rightarrow> Ok s
                        | _ \<Rightarrow> Err (Format ''invalid type'')),
      de_content = Ok, de_value = Ok\<rparr>"

section \<open>The enumerations\<close>

definition BootMode_deserialize :: "'v deserializer \<Rightarrow> 'v \<Rightarrow> (BootMode, de_error) result" where
  "BootMode_deserialize D =
     de_unit_variant D [(''full'', Mode_Full), (''api'', Mode_Api), (''smtp'', Mode_Smtp),
       (''dns'', Mode_Dns), (''off'', Mode_Off)]"

definition KeysKind_deserialize :: "'v deserializer \<Rightarrow> 'v \<Rightarrow> (KeysKind, de_error) result" where
  "KeysKind_deserialize D =
     de_unit_variant D [(''secret'', Secret), (''jwks'', Jwks), (''jwks_remote'', JwksRemote),
       (''issuer'', Issuer)]"

definition StartTlsMode_deserialize :: "'v deserializer \<Rightarrow> 'v \<Rightarrow> (StartTlsMode, de_error) result" where
  "StartTlsMode_deserialize D =
     de_unit_variant D [(''none'', Tls_None), (''optional'', Tls_Optional), (''required'', Tls_Required)]"

definition OutboundTlsMode_deserialize ::
  "'v deserializer \<Rightarrow> 'v \<Rightarrow> (OutboundTlsMode, de_error) result" where
  "OutboundTlsMode_deserialize D =
     de_unit_variant D [(''plain'', Plain), (''opportunistic'', Opportunistic),
       (''required'', Required), (''implicit'', Implicit)]"

definition RecordType_deserialize :: "'v deserializer \<Rightarrow> 'v \<Rightarrow> (RecordType, de_error) result" where
  "RecordType_deserialize D =
     de_unit_variant D
       [(''A'', RT_A), (''AAAA'', RT_AAAA), (''ANAME'', RT_ANAME), (''ANY'', RT_ANY),
        (''AXFR'', RT_AXFR), (''CAA'', RT_CAA), (''CDS'', RT_CDS), (''CDNSKEY'', RT_CDNSKEY),
        (''CERT'', RT_CERT), (''CNAME'', RT_CNAME), (''DNAME'', RT_DNAME), (''CSYNC'', RT_CSYNC),
        (''DNSKEY'', RT_DNSKEY), (''DS'', RT_DS), (''HINFO'', RT_HINFO), (''HTTPS'', RT_HTTPS),
        (''IXFR'', RT_IXFR), (''KEY'', RT_KEY), (''MX'', RT_MX), (''NAPTR'', RT_NAPTR),
        (''NS'', RT_NS), (''NSEC'', RT_NSEC), (''NSEC3'', RT_NSEC3),
        (''NSEC3PARAM'', RT_NSEC3PARAM), (''NULL'', RT_NULL), (''OPENPGPKEY'', RT_OPENPGPKEY),
        (''OPT'', RT_OPT), (''PTR'', RT_PTR), (''RRSIG'', RT_RRSIG), (''SIG'', RT_SIG),
        (''SMIMEA'', RT_SMIMEA), (''SOA'', RT_SOA), (''SRV'', RT_SRV), (''SSHFP'', RT_SSHFP),
        (''SVCB'', RT_SVCB), (''TLSA'', RT_TLSA), (''TSIG'', RT_TSIG), (''TXT'', RT_TXT),
        (''Unknown'', RT_Unknown), (''ZERO'', RT_ZERO)]"

text \<open>Untagged enumerations try their variants in order on the buffered value.\<close>

definition Detailed_fields :: "(json, string \<times> string option) fields" where
  "Detailed_fields =
     [(''id'', field (de_string json_format) (\<lambda>x r. (x, snd r))),
      (''forward_to'', field (de_opt json_format (de_string json_format)) (\<lambda>x r. (fst r, x)))]"

definition MailboxEntry_of_content :: "json \<Rightarrow> (MailboxEntry, de_error) result" where
  "MailboxEntry_of_content c =
     (case de_string json_format c of
        Ok s \<Rightarrow> Ok (Simple s)
      | Err _ \<Rightarrow>
          (case deserialize_struct json_format Detailed_fields {''id''} ([], None) c of
             Ok (i, f) \<Rightarrow> Ok (Detailed i f)
           | Err _ \<Rightarrow> Err (Untagged ''MailboxEntry'')))"

definition MailboxEntry_deserialize :: "'v deserializer \<Rightarrow> 'v \<Rightarrow> (MailboxEntry, de_error) result" where
  "MailboxEntry_deserialize D v = and_then (de_content D v) MailboxEntry_of_content"

definition OneOrManyStrings_of_content :: "json \<Rightarrow> (OneOrManyStrings, de_error) result" where
  "OneOrManyStrings_of_content c =
     (case de_string json_format c of
        Ok s \<Rightarrow> Ok (Single s)
      | Err _ \<Rightarrow>
          (case de_vec json_format (de_string json_format) c of
             Ok v \<Rightarrow> Ok (Many v)
           | Err _ \<Rightarrow> Err (Untagged ''OneOrManyStrings'')))"

definition audience_deserialize :: "'v deserializer \<Rightarrow> 'v \<Rightarrow> (string list, de_error) result" where
  "audience_deserialize D v =
     and_then (and_then (de_content D v) OneOrManyStrings_of_content)
       (\<lambda>a. Ok (deserialize_audience a))"

text \<open>
  A certificate source is tagged by its entry \<open>kind\<close> (the first element, when it is given by
  position); the rest is buffered and read as the variant the tag names.
\<close>

definition CertSource_tag :: "'v deserializer \<Rightarrow> 'v \<Rightarrow> (string, de_error) result" where
  "CertSource_tag D v =
     and_then (de_variant D v) (\<lambda>t.
       if t \<in> {''files'', ''acme''} then Ok t else Err (Unknown_variant t))"

fun split_tag ::
  "'v deserializer \<Rightarrow> string \<Rightarrow> string option \<Rightarrow> (string \<times> json) list \<Rightarrow> (string \<times> 'v) list \<Rightarrow>
   (string \<times> (string \<times> json) list, de_error) result" where
  "split_tag D tag found rest [] =
     (case found of None \<Rightarrow> Err (Missing_field tag) | Some t \<Rightarrow> Ok (t, rest))"
| "split_tag D tag found rest ((k, v) # es) =
     (if k = tag then
        (case found of
           Some _ \<Rightarrow> Err (Duplicate_field tag)
         | None \<Rightarrow> and_then (CertSource_tag D v) (\<lambda>t. split_tag D tag (Some t) rest es))
      else and_then (de_content D v) (\<lambda>c. split_tag D tag found (rest @ [(k, c)]) es))"

definition Files_fields :: "(json, string \<times> string) fields" where
  "Files_fields =
     [(''cert_path'', field (de_string json_format) (\<lambda>x r. (x, snd r))),
      (''key_path'', field (de_string json_format) (\<lambda>x r. (fst r, x)))]"

definition Acme_fields :: "(json, string option \<times> string option \<times> string option) fields" where
  "Acme_fields =
     (let opt = de_opt json_format (de_string json_format)
      in [(''acme_server'', field opt (\<lambda>x (_, b, c). (x, b, c))),
          (''account_key_path'', field opt (\<lambda>x (a, _, c). (a, x, c))),
          (''dns_domain'', field opt (\<lambda>x (a, b, _). (a, b, x)))])"

definition CertSource_variant :: "string \<Rightarrow> json struct_input \<Rightarrow> (CertSource, de_error) result" where
  "CertSource_variant t input =
     (if t = ''files'' then
        and_then (visit_struct json_format Files_fields {''cert_path'', ''key_path''} ([], []) input)
          (\<lambda>(cp, kp). Ok (Files cp kp))
      else
        and_then (visit_struct json_format Acme_fields {} (None, None, None) input)
          (\<lambda>(s, a, d). Ok (Acme s a d)))"

definition CertSource_deserialize :: "'v deserializer \<Rightarrow> 'v \<Rightarrow> (CertSource, de_error) result" where
  "CertSource_deserialize D v =
     and_then (de_struct D v) (\<lambda>input. case input of
        By_name es \<Rightarrow>
          and_then (split_tag D ''kind'' None [] es) (\<lambda>(t, rest). CertSource_variant t (By_name rest))
      | By_position [] \<Rightarrow> Err (Missing_field ''kind'')
      | By_position (k # vs) \<Rightarrow>
          and_then (CertSource_tag D k) (\<lambda>t.
            and_then (traverse (de_content D) vs) (\<lambda>cs. CertSource_variant t (By_position cs))))"

section \<open>The structures\<close>

definition RecordDTO_deserialize :: "'v deserializer \<Rightarrow> 'v \<Rightarrow> (RecordDTO, de_error) result" where
  "RecordDTO_deserialize D =
     deserialize_struct D
       [(''domain_id'', field (de_string D) (\<lambda>x r. r\<lparr>dto_domain_id := x\<rparr>)),
        (''record_type'', field (RecordType_deserialize D) (\<lambda>x r. r\<lparr>dto_record_type := x\<rparr>)),
        (''value'', field (de_string D) (\<lambda>x r. r\<lparr>dto_value := x\<rparr>)),
        (''ttl'', field (de_u32 D) (\<lambda>x r. r\<lparr>dto_ttl := x\<rparr>))]
       {''domain_id'', ''record_type'', ''value'', ''ttl''}
       \<lparr>dto_domain_id = [], dto_record_type = RT_A, dto_value = [], dto_ttl = 0\<rparr>"

definition RoleConfig_deserialize :: "'v deserializer \<Rightarrow> 'v \<Rightarrow> (RoleConfig, de_error) result" where
  "RoleConfig_deserialize D =
     deserialize_struct D
       [(''grants'', field (de_vec D (de_string D)) (\<lambda>x r. r\<lparr>role_grants := x\<rparr>)),
        (''extends'', field (de_vec D (de_string D)) (\<lambda>x r. r\<lparr>role_extends := x\<rparr>))]
       {} RoleConfig_default"

definition KeyConfig_deserialize :: "'v deserializer \<Rightarrow> 'v \<Rightarrow> (KeyConfig, de_error) result" where
  "KeyConfig_deserialize D =
     (let text = de_opt D (de_string D)
      in deserialize_struct D
       [(''kind'', field (KeysKind_deserialize D) (\<lambda>x r. r\<lparr>key_kind := x\<rparr>)),
        (''secret'', field text (\<lambda>x r. r\<lparr>key_secret := x\<rparr>)),
        (''secret_b64'', field text (\<lambda>x r. r\<lparr>key_secret_b64 := x\<rparr>)),
        (''secret_env'', field text (\<lambda>x r. r\<lparr>key_secret_env := x\<rparr>)),
        (''jwks'', field (de_opt D (de_value D)) (\<lambda>x r. r\<lparr>key_jwks := x\<rparr>)),
        (''jwks_url'', field text (\<lambda>x r. r\<lparr>key_jwks_url := x\<rparr>)),
        (''issuer'', field text (\<lambda>x r. r\<lparr>key_issuer := x\<rparr>)),
        (''discovery_path'', field text (\<lambda>x r. r\<lparr>key_discovery_path := x\<rparr>)),
        (''jwks_path'', field text (\<lambda>x r. r\<lparr>key_jwks_path := x\<rparr>)),
        (''janux_token'', field text (\<lambda>x r. r\<lparr>key_janux_token := x\<rparr>)),
        (''janux_auth_header'', field text (\<lambda>x r. r\<lparr>key_janux_auth_header := x\<rparr>)),
        (''janux_bearer'', field (de_bool D) (\<lambda>x r. r\<lparr>key_janux_bearer := x\<rparr>)),
        (''refresh_interval_secs'', field (de_u64 D) (\<lambda>x r. r\<lparr>key_refresh_interval_secs := x\<rparr>)),
        (''cache_ttl_secs'', field (de_u64 D) (\<lambda>x r. r\<lparr>key_cache_ttl_secs := x\<rparr>)),
        (''fail_closed'', field (de_bool D) (\<lambda>x r. r\<lparr>key_fail_closed := x\<rparr>)),
        (''algorithms'', field (de_vec D (de_string D)) (\<lambda>x r. r\<lparr>key_algorithms := x\<rparr>))]
       {} KeyConfig_default)"

definition AuthConfig_deserialize :: "'v deserializer \<Rightarrow> 'v \<Rightarrow> (AuthConfig, de_error) result" where
  "AuthConfig_deserialize D =
     (let texts = de_vec D (de_string D)
      in deserialize_struct D
       [(''enabled'', field (de_bool D) (\<lambda>x r. r\<lparr>auth_enabled := x\<rparr>)),
        (''issuer'', field (de_opt D (de_string D)) (\<lambda>x r. r\<lparr>auth_issuer := x\<rparr>)),
        (''audience'', field (audience_deserialize D) (\<lambda>x r. r\<lparr>auth_audience := x\<rparr>)),
        (''clock_skew_secs'', field (de_u64 D) (\<lambda>x r. r\<lparr>auth_clock_skew_secs := x\<rparr>)),
        (''subject_claim'', field (de_string D) (\<lambda>x r. r\<lparr>auth_subject_claim := x\<rparr>)),
        (''role_claims'', field texts (\<lambda>x r. r\<lparr>auth_role_claims := x\<rparr>)),
        (''public'', field texts (\<lambda>x r. r\<lparr>auth_public := x\<rparr>)),
        (''keys'', field (KeyConfig_deserialize D) (\<lambda>x r. r\<lparr>auth_keys := x\<rparr>)),
        (''roles'', field (de_hash_map D (RoleConfig_deserialize D)) (\<lambda>x r. r\<lparr>auth_roles := x\<rparr>))]
       {} AuthConfig_default)"

definition SmtpTlsConfig_deserialize :: "'v deserializer \<Rightarrow> 'v \<Rightarrow> (SmtpTlsConfig, de_error) result" where
  "SmtpTlsConfig_deserialize D =
     deserialize_struct D
       [(''mode'', field (StartTlsMode_deserialize D) (\<lambda>x r. r\<lparr>starttls_mode := x\<rparr>)),
        (''smtps_port'', field (de_u16 D) (\<lambda>x r. r\<lparr>smtps_port := x\<rparr>)),
        (''cert_source'', field (de_opt D (CertSource_deserialize D)) (\<lambda>x r. r\<lparr>cert_source := x\<rparr>))]
       {} SmtpTlsConfig_default"

definition OutboundRelay_default :: OutboundRelay where
  "OutboundRelay_default =
     \<lparr>relay_host = None, relay_port = 0, relay_user = None, relay_password = None,
      relay_password_env = None\<rparr>"

definition OutboundRelay_deserialize :: "'v deserializer \<Rightarrow> 'v \<Rightarrow> (OutboundRelay, de_error) result" where
  "OutboundRelay_deserialize D =
     (let text = de_opt D (de_string D)
      in deserialize_struct D
       [(''host'', field text (\<lambda>x r. r\<lparr>relay_host := x\<rparr>)),
        (''port'', field (de_u16 D) (\<lambda>x r. r\<lparr>relay_port := x\<rparr>)),
        (''user'', field text (\<lambda>x r. r\<lparr>relay_user := x\<rparr>)),
        (''password'', field text (\<lambda>x r. r\<lparr>relay_password := x\<rparr>)),
        (''password_env'', field text (\<lambda>x r. r\<lparr>relay_password_env := x\<rparr>))]
       {} OutboundRelay_default)"

definition OutboundTransport_deserialize ::
  "'v deserializer \<Rightarrow> 'v \<Rightarrow> (OutboundTransport, de_error) result" where
  "OutboundTransport_deserialize D =
     deserialize_struct D
       [(''tls'', field (OutboundTlsMode_deserialize D) (\<lambda>x r. r\<lparr>transport_tls := x\<rparr>)),
        (''relay'', field (de_opt D (OutboundRelay_deserialize D)) (\<lambda>x r. r\<lparr>transport_relay := x\<rparr>)),
        (''insecure'', field (de_bool D) (\<lambda>x r. r\<lparr>transport_insecure := x\<rparr>))]
       {} OutboundTransport_default"

definition Config_fields :: "'v deserializer \<Rightarrow> ('v, Config) fields" where
  "Config_fields D =
     [(''host'', field (de_string D) (\<lambda>x r. r\<lparr>cfg_host := x\<rparr>)),
      (''dns'', field (de_u16 D) (\<lambda>x r. r\<lparr>cfg_dns := x\<rparr>)),
      (''smtp'', field (de_u16 D) (\<lambda>x r. r\<lparr>cfg_smtp := x\<rparr>)),
      (''api'', field (de_u16 D) (\<lambda>x r. r\<lparr>cfg_api := x\<rparr>)),
      (''database_url'', field (de_string D) (\<lambda>x r. r\<lparr>cfg_database_url := x\<rparr>)),
      (''domains'', field (de_vec D (de_string D)) (\<lambda>x r. r\<lparr>cfg_domains := x\<rparr>)),
      (''records'', field (de_vec D (RecordDTO_deserialize D)) (\<lambda>x r. r\<lparr>cfg_records := x\<rparr>)),
      (''mailboxes'', field (de_vec D (MailboxEntry_deserialize D)) (\<lambda>x r. r\<lparr>cfg_mailboxes := x\<rparr>)),
      (''mode'', field (de_opt D (BootMode_deserialize D)) (\<lambda>x r. r\<lparr>cfg_mode := x\<rparr>)),
      (''auth'', field (AuthConfig_deserialize D) (\<lambda>x r. r\<lparr>cfg_auth := x\<rparr>)),
      (''smtp_tls'', field (SmtpTlsConfig_deserialize D) (\<lambda>x r. r\<lparr>cfg_smtp_tls := x\<rparr>)),
      (''outbound'', field (OutboundTransport_deserialize D) (\<lambda>x r. r\<lparr>cfg_outbound := x\<rparr>))]"

definition Config_deserialize :: "'v deserializer \<Rightarrow> 'v \<Rightarrow> (Config, de_error) result" where
  "Config_deserialize D = deserialize_struct D (Config_fields D) {} Config_default"

section \<open>Loading\<close>

datatype config_source =
    File_with_name string bool
  | Environment_with_prefix string string

datatype ConfigError = Build_error string | Deserialize_error de_error

text \<open>
  \<open>build\<close> is the configuration library: it reads the sources in order, a later one overriding an
  earlier one key by key, and fails on a source that cannot be read (a file that does not exist is
  no failure here, for it is not required).
\<close>

definition Config_load ::
  "(config_source list \<Rightarrow> ('v, string) result) \<Rightarrow> 'v deserializer \<Rightarrow> (Config, ConfigError) result" where
  "Config_load build D =
     (case build [File_with_name ''zonemail'' False, Environment_with_prefix ''ZONEMAIL'' ''__''] of
        Err e \<Rightarrow> Err (Build_error e)
      | Ok settings \<Rightarrow>
          (case Config_deserialize D settings of
             Err e \<Rightarrow> Err (Deserialize_error e)
           | Ok c \<Rightarrow> Ok c))"

section \<open>What is loaded\<close>

lemma and_then_simps [simp]:
  "and_then (Ok x) f = f x" "and_then (Err e) f = Err e"
  "and_then r f = Ok y \<longleftrightarrow> (\<exists>x. r = Ok x \<and> f x = Ok y)"
  by (auto simp: and_then_def split: sum.splits)

text \<open>A setting: the value given for a key, converted, or the default when none is given.\<close>

definition setting :: "('v \<Rightarrow> ('a, de_error) result) \<Rightarrow> 'v option \<Rightarrow> 'a \<Rightarrow> 'a \<Rightarrow> bool" where
  "setting conv given dflt x = (case given of None \<Rightarrow> x = dflt | Some v \<Rightarrow> conv v = Ok x)"

lemma setting_simps [simp]:
  "setting conv None dflt x \<longleftrightarrow> x = dflt" "setting conv (Some v) dflt x \<longleftrightarrow> conv v = Ok x"
  by (simp_all add: setting_def)

lemma setting_unique: "setting conv given d x \<Longrightarrow> setting conv given d y \<Longrightarrow> x = y"
  by (cases given) auto

text \<open>The given keys that name a field.\<close>

definition known_keys :: "('v, 'r) fields \<Rightarrow> (string \<times> 'v) list \<Rightarrow> string list" where
  "known_keys fs es = filter (\<lambda>k. k \<in> fst ` set fs) (map fst es)"

lemma known_keys_simps [simp]:
  "known_keys fs [] = []"
  "known_keys fs ((k, v) # es) = (if map_of fs k = None then known_keys fs es else k # known_keys fs es)"
  by (simp_all add: known_keys_def map_of_eq_None_iff)

lemma visit_map_distinct:
  "visit_map fs seen r es = Ok x \<Longrightarrow> distinct (known_keys fs es) \<and> set (known_keys fs es) \<inter> seen = {}"
  by (induction fs seen r es rule: visit_map.induct) (auto split: option.splits if_splits)

text \<open>Every value given for a field converts.\<close>

definition convertible :: "('v, 'r) fields \<Rightarrow> (string \<times> 'v) list \<Rightarrow> bool" where
  "convertible fs es \<longleftrightarrow>
     (\<forall>(k, v) \<in> set es. case map_of fs k of None \<Rightarrow> True | Some assign \<Rightarrow> \<forall>r. is_ok (assign v r))"

lemma convertible_simps [simp]:
  "convertible fs []"
  "convertible fs ((k, v) # es) \<longleftrightarrow>
     (case map_of fs k of None \<Rightarrow> True | Some assign \<Rightarrow> \<forall>r. is_ok (assign v r)) \<and> convertible fs es"
  by (simp_all add: convertible_def)

lemma visit_map_total:
  assumes "distinct (known_keys fs es)" and "set (known_keys fs es) \<inter> seen = {}"
    and "convertible fs es"
  shows "is_ok (visit_map fs seen r es)"
  using assms
proof (induction es arbitrary: seen r)
  case (Cons e es)
  obtain k v where e: "e = (k, v)" by fastforce
  show ?case
  proof (cases "map_of fs k")
    case None
    with Cons e show ?thesis by simp
  next
    case (Some assign)
    with Cons.prems(3) e obtain r1 where r1: "assign v r = Ok r1" by (auto simp: is_ok_iff)
    have "is_ok (visit_map fs (insert k seen) r1 es)"
      by (rule Cons.IH) (use Cons.prems e Some in auto)
    with Some r1 Cons.prems e show ?thesis by simp
  qed
qed simp

text \<open>
  A field of the outcome depends on the entries of its key alone: \<open>get\<close> reads back what the field
  writes, and the other fields leave it.
\<close>

definition owns :: "('v, 'r) fields \<Rightarrow> string \<Rightarrow> ('v \<Rightarrow> ('a, de_error) result) \<Rightarrow> ('r \<Rightarrow> 'a) \<Rightarrow> bool" where
  "owns fs n conv get \<longleftrightarrow>
     (\<exists>upd. map_of fs n = Some (field conv upd) \<and> (\<forall>x r. get (upd x r) = x)) \<and>
     (\<forall>(m, assign) \<in> set fs. m \<noteq> n \<longrightarrow> (\<forall>v r r'. assign v r = Ok r' \<longrightarrow> get r' = get r))"

lemma ownsI:
  assumes "map_of fs n = Some (field conv upd)" and "\<And>x r. get (upd x r) = x"
    and "\<forall>(m, assign) \<in> set fs. m \<noteq> n \<longrightarrow> (\<forall>v r r'. assign v r = Ok r' \<longrightarrow> get r' = get r)"
  shows "owns fs n conv get"
  using assms by (auto simp: owns_def)

lemma owns_own:
  assumes "owns fs n conv get" "map_of fs n = Some assign"
  shows "assign v r = Ok r' \<Longrightarrow> conv v = Ok (get r')" "conv v = Ok x \<Longrightarrow> \<exists>r'. assign v r = Ok r'"
  using assms by (auto simp: owns_def field_def)

lemma owns_other:
  "owns fs n conv get \<Longrightarrow> map_of fs m = Some assign \<Longrightarrow> m \<noteq> n \<Longrightarrow> assign v r = Ok r' \<Longrightarrow>
     get r' = get r"
  by (fastforce simp: owns_def dest: map_of_SomeD)

lemma owns_mem: "owns fs n conv get \<Longrightarrow> map_of fs n \<noteq> None"
  by (auto simp: owns_def)

lemma visit_map_Cons_Ok:
  assumes "visit_map fs seen r ((k, v) # es) = Ok x" and "map_of fs k = Some assign"
  obtains r1 where "k \<notin> seen" "assign v r = Ok r1" "visit_map fs (insert k seen) r1 es = Ok x"
  using assms by (auto split: if_splits)

lemma visit_map_keeps:
  assumes "visit_map fs seen r es = Ok (r', seen')" and "owns fs n conv get" and "n \<in> seen"
  shows "get r' = get r"
  using assms(1,3)
proof (induction es arbitrary: seen r)
  case (Cons e es)
  obtain k v where e: "e = (k, v)" by fastforce
  show ?case
  proof (cases "map_of fs k")
    case None
    with Cons e show ?thesis by simp
  next
    case (Some assign)
    with Cons.prems(1) e obtain r1 where r1: "k \<notin> seen" "assign v r = Ok r1"
      "visit_map fs (insert k seen) r1 es = Ok (r', seen')" by (blast elim: visit_map_Cons_Ok)
    with Cons.IH [OF r1(3)] Cons.prems(2) owns_other [OF assms(2) Some _ r1(2)] show ?thesis
      by auto
  qed
qed simp

lemma visit_map_setting:
  assumes "visit_map fs seen r es = Ok (r', seen')" and "owns fs n conv get" and "n \<notin> seen"
  shows "setting conv (map_of es n) (get r) (get r')"
  using assms(1,3)
proof (induction es arbitrary: seen r)
  case (Cons e es)
  obtain k v where e: "e = (k, v)" by fastforce
  show ?case
  proof (cases "map_of fs k")
    case None
    with Cons e owns_mem [OF assms(2)] show ?thesis by auto
  next
    case (Some assign)
    with Cons.prems(1) e obtain r1 where r1: "k \<notin> seen" "assign v r = Ok r1"
      "visit_map fs (insert k seen) r1 es = Ok (r', seen')" by (blast elim: visit_map_Cons_Ok)
    show ?thesis
    proof (cases "k = n")
      case True
      with e owns_own(1) [OF assms(2), of assign v r r1] Some r1(2) visit_map_keeps [OF r1(3) assms(2)]
      show ?thesis by simp
    next
      case False
      with e Cons.IH [OF r1(3)] Cons.prems(2) owns_other [OF assms(2) Some _ r1(2)]
      show ?thesis by simp
    qed
  qed
qed simp

lemma visit_struct_by_name:
  "visit_struct D fs {} init (By_name es) = Ok r \<longleftrightarrow>
     (\<exists>seen. visit_map fs {} init es = Ok (r, seen))"
proof -
  have "find (\<lambda>n. n \<in> {} \<and> n \<notin> seen) ns = None" for seen and ns :: "string list"
    by (simp add: find_None_iff)
  then show ?thesis by (auto simp: visit_struct_def)
qed

text \<open>
  A structure all of whose fields default is read successfully from a table exactly when no key of
  it is given twice and every value given for one converts.
\<close>

lemma visit_struct_setting:
  assumes "visit_struct D fs {} init (By_name es) = Ok r" and "owns fs n conv get"
  shows "setting conv (map_of es n) (get init) (get r)"
  using assms by (auto simp: visit_struct_by_name intro: visit_map_setting)

lemma visit_struct_distinct:
  "visit_struct D fs {} init (By_name es) = Ok r \<Longrightarrow> distinct (known_keys fs es)"
  by (auto simp: visit_struct_by_name dest: visit_map_distinct)

lemma visit_struct_total:
  assumes "distinct (known_keys fs es)" and "convertible fs es"
  shows "\<exists>r. visit_struct D fs {} init (By_name es) = Ok r"
  using visit_map_total [of fs es "{}" init] assms by (auto simp: visit_struct_by_name is_ok_iff)

lemma known_value:
  assumes "distinct (known_keys fs es)" and "(k, v) \<in> set es" and "map_of fs k = Some assign"
  shows "map_of es k = Some v"
  using assms
proof (induction es)
  case (Cons e es)
  have "k \<in> set (known_keys fs es)" if "(k, v) \<in> set es"
    using that assms(3) by (force simp: known_keys_def dest: map_of_SomeD)
  with Cons show ?case by (cases e) (auto split: if_splits)
qed simp

text \<open>Every setting of \<open>c\<close> is the given one or its default.\<close>

definition config_settings :: "'v deserializer \<Rightarrow> (string \<times> 'v) list \<Rightarrow> Config \<Rightarrow> bool" where
  "config_settings D es c \<longleftrightarrow>
     setting (de_string D) (map_of es ''host'') (cfg_host Config_default) (cfg_host c) \<and>
     setting (de_u16 D) (map_of es ''dns'') (cfg_dns Config_default) (cfg_dns c) \<and>
     setting (de_u16 D) (map_of es ''smtp'') (cfg_smtp Config_default) (cfg_smtp c) \<and>
     setting (de_u16 D) (map_of es ''api'') (cfg_api Config_default) (cfg_api c) \<and>
     setting (de_string D) (map_of es ''database_url'') (cfg_database_url Config_default) (cfg_database_url c) \<and>
     setting (de_vec D (de_string D)) (map_of es ''domains'') (cfg_domains Config_default) (cfg_domains c) \<and>
     setting (de_vec D (RecordDTO_deserialize D)) (map_of es ''records'') (cfg_records Config_default) (cfg_records c) \<and>
     setting (de_vec D (MailboxEntry_deserialize D)) (map_of es ''mailboxes'') (cfg_mailboxes Config_default) (cfg_mailboxes c) \<and>
     setting (de_opt D (BootMode_deserialize D)) (map_of es ''mode'') (cfg_mode Config_default) (cfg_mode c) \<and>
     setting (AuthConfig_deserialize D) (map_of es ''auth'') (cfg_auth Config_default) (cfg_auth c) \<and>
     setting (SmtpTlsConfig_deserialize D) (map_of es ''smtp_tls'') (cfg_smtp_tls Config_default) (cfg_smtp_tls c) \<and>
     setting (OutboundTransport_deserialize D) (map_of es ''outbound'') (cfg_outbound Config_default) (cfg_outbound c)"

lemma Config_owns:
  "owns (Config_fields D) ''host'' (de_string D) cfg_host"
  "owns (Config_fields D) ''dns'' (de_u16 D) cfg_dns"
  "owns (Config_fields D) ''smtp'' (de_u16 D) cfg_smtp"
  "owns (Config_fields D) ''api'' (de_u16 D) cfg_api"
  "owns (Config_fields D) ''database_url'' (de_string D) cfg_database_url"
  "owns (Config_fields D) ''domains'' (de_vec D (de_string D)) cfg_domains"
  "owns (Config_fields D) ''records'' (de_vec D (RecordDTO_deserialize D)) cfg_records"
  "owns (Config_fields D) ''mailboxes'' (de_vec D (MailboxEntry_deserialize D)) cfg_mailboxes"
  "owns (Config_fields D) ''mode'' (de_opt D (BootMode_deserialize D)) cfg_mode"
  "owns (Config_fields D) ''auth'' (AuthConfig_deserialize D) cfg_auth"
  "owns (Config_fields D) ''smtp_tls'' (SmtpTlsConfig_deserialize D) cfg_smtp_tls"
  "owns (Config_fields D) ''outbound'' (OutboundTransport_deserialize D) cfg_outbound"
  subgoal by (rule ownsI [where upd = "\<lambda>x r. r\<lparr>cfg_host := x\<rparr>"]) (simp_all add: Config_fields_def, auto simp: field_def)
  subgoal by (rule ownsI [where upd = "\<lambda>x r. r\<lparr>cfg_dns := x\<rparr>"]) (simp_all add: Config_fields_def, auto simp: field_def)
  subgoal by (rule ownsI [where upd = "\<lambda>x r. r\<lparr>cfg_smtp := x\<rparr>"]) (simp_all add: Config_fields_def, auto simp: field_def)
  subgoal by (rule ownsI [where upd = "\<lambda>x r. r\<lparr>cfg_api := x\<rparr>"]) (simp_all add: Config_fields_def, auto simp: field_def)
  subgoal by (rule ownsI [where upd = "\<lambda>x r. r\<lparr>cfg_database_url := x\<rparr>"]) (simp_all add: Config_fields_def, auto simp: field_def)
  subgoal by (rule ownsI [where upd = "\<lambda>x r. r\<lparr>cfg_domains := x\<rparr>"]) (simp_all add: Config_fields_def, auto simp: field_def)
  subgoal by (rule ownsI [where upd = "\<lambda>x r. r\<lparr>cfg_records := x\<rparr>"]) (simp_all add: Config_fields_def, auto simp: field_def)
  subgoal by (rule ownsI [where upd = "\<lambda>x r. r\<lparr>cfg_mailboxes := x\<rparr>"]) (simp_all add: Config_fields_def, auto simp: field_def)
  subgoal by (rule ownsI [where upd = "\<lambda>x r. r\<lparr>cfg_mode := x\<rparr>"]) (simp_all add: Config_fields_def, auto simp: field_def)
  subgoal by (rule ownsI [where upd = "\<lambda>x r. r\<lparr>cfg_auth := x\<rparr>"]) (simp_all add: Config_fields_def, auto simp: field_def)
  subgoal by (rule ownsI [where upd = "\<lambda>x r. r\<lparr>cfg_smtp_tls := x\<rparr>"]) (simp_all add: Config_fields_def, auto simp: field_def)
  subgoal by (rule ownsI [where upd = "\<lambda>x r. r\<lparr>cfg_outbound := x\<rparr>"]) (simp_all add: Config_fields_def, auto simp: field_def)
  done

lemma config_settingsD:
  assumes "config_settings D es c"
  shows
    "setting (de_string D) (map_of es ''host'') (cfg_host Config_default) (cfg_host c)"
    "setting (de_u16 D) (map_of es ''dns'') (cfg_dns Config_default) (cfg_dns c)"
    "setting (de_u16 D) (map_of es ''smtp'') (cfg_smtp Config_default) (cfg_smtp c)"
    "setting (de_u16 D) (map_of es ''api'') (cfg_api Config_default) (cfg_api c)"
    "setting (de_string D) (map_of es ''database_url'') (cfg_database_url Config_default) (cfg_database_url c)"
    "setting (de_vec D (de_string D)) (map_of es ''domains'') (cfg_domains Config_default) (cfg_domains c)"
    "setting (de_vec D (RecordDTO_deserialize D)) (map_of es ''records'') (cfg_records Config_default) (cfg_records c)"
    "setting (de_vec D (MailboxEntry_deserialize D)) (map_of es ''mailboxes'') (cfg_mailboxes Config_default) (cfg_mailboxes c)"
    "setting (de_opt D (BootMode_deserialize D)) (map_of es ''mode'') (cfg_mode Config_default) (cfg_mode c)"
    "setting (AuthConfig_deserialize D) (map_of es ''auth'') (cfg_auth Config_default) (cfg_auth c)"
    "setting (SmtpTlsConfig_deserialize D) (map_of es ''smtp_tls'') (cfg_smtp_tls Config_default) (cfg_smtp_tls c)"
    "setting (OutboundTransport_deserialize D) (map_of es ''outbound'') (cfg_outbound Config_default) (cfg_outbound c)"
  using assms by (simp_all only: config_settings_def simp_thms)

lemma config_settings_unique:
  assumes "config_settings D es c" and "config_settings D es c'"
  shows "c = c'"
  using config_settingsD [OF assms(1), THEN setting_unique] config_settingsD [OF assms(2)]
  by (intro Config.equality) simp_all

lemma Config_convertible:
  assumes "distinct (known_keys (Config_fields D) es)" and "config_settings D es c"
  shows "convertible (Config_fields D) es"
proof -
  have "is_ok (assign v r)" if "(k, v) \<in> set es" "map_of (Config_fields D) k = Some assign"
    for k v assign r
  proof -
    have "map_of es k = Some v" using assms(1) that by (rule known_value)
    with map_of_SomeD [OF that(2)] assms(2) show ?thesis
      unfolding Config_fields_def config_settings_def by (auto simp: field_def)
  qed
  then show ?thesis by (auto simp: convertible_def split: option.splits)
qed

lemma Config_deserialize_iff:
  assumes "de_struct D v = Ok (By_name es)"
  shows "Config_deserialize D v = Ok c \<longleftrightarrow>
    distinct (known_keys (Config_fields D) es) \<and> config_settings D es c"
    (is "?l = Ok c \<longleftrightarrow> ?distinct \<and> _")
proof -
  have visit: "?l = visit_struct D (Config_fields D) {} Config_default (By_name es)"
    using assms by (simp add: Config_deserialize_def deserialize_struct_def)
  have settings: "config_settings D es x" if "?l = Ok x" for x
    unfolding config_settings_def
    by (intro conjI visit_struct_setting [OF that [unfolded visit]] Config_owns)
  show ?thesis
  proof
    assume ok: "?l = Ok c"
    from visit_struct_distinct [OF ok [unfolded visit]] settings [OF ok]
    show "?distinct \<and> config_settings D es c" ..
  next
    assume c: "?distinct \<and> config_settings D es c"
    then obtain x where x: "?l = Ok x"
      using visit_struct_total [OF _ Config_convertible, of D es c D Config_default]
      unfolding visit by blast
    from config_settings_unique [OF settings [OF x]] c x show "?l = Ok c" by simp
  qed
qed

text \<open>
  C33. The daemon starts with exactly the configuration its two sources give: when the merged settings
  are a table, loading succeeds if and only if none of the twelve keys is given twice and every value
  given for one converts, and then each of them is the value given for its key, or the default where
  there is none. Unknown keys change nothing.
\<close>

theorem config_load_exact:
  assumes "build [File_with_name ''zonemail'' False, Environment_with_prefix ''ZONEMAIL'' ''__''] =
      Ok settings"
    and "de_struct D settings = Ok (By_name es)"
  shows "Config_load build D = Ok c \<longleftrightarrow>
    distinct (known_keys (Config_fields D) es) \<and> config_settings D es c"
  using assms Config_deserialize_iff [OF assms(2), of c]
  by (auto simp: Config_load_def split: sum.splits)

text \<open>The rules that read a concrete JSON table.\<close>

lemma json_format_simps:
  "de_bool json_format (JBool b) = Ok b"
  "de_string json_format (JString s) = Ok s"
  "de_string json_format (JArray vs) = Err (Format ''invalid type'')"
  "de_string json_format (JObject es) = Err (Format ''invalid type'')"
  "de_option json_format JNull = None" "de_option json_format (JString s) = Some (JString s)"
  "de_option json_format (JObject es) = Some (JObject es)"
  "de_seq json_format (JArray vs) = Ok vs" "de_map json_format (JObject es) = Ok es"
  "de_struct json_format (JObject es) = Ok (By_name es)"
  "de_struct json_format (JArray vs) = Ok (By_position vs)"
  "de_variant json_format (JString s) = Ok s"
  "de_content json_format v = Ok v" "de_value json_format v = Ok v"
  "de_u16 json_format v = json_word v" "de_u32 json_format v = json_word v"
  "de_u64 json_format v = json_word v"
  by (simp_all add: json_format_def)

lemmas read_json = json_format_simps json_word_def json_unsigned_def parse_unsigned_def digit_val_def
  de_vec_def de_opt_def de_hash_map_def de_unit_variant_def deserialize_struct_def visit_struct_def
  field_def Let_def
  MailboxEntry_deserialize_def MailboxEntry_of_content_def Detailed_fields_def
  OneOrManyStrings_of_content_def audience_deserialize_def
  CertSource_deserialize_def CertSource_variant_def CertSource_tag_def Files_fields_def Acme_fields_def
  BootMode_deserialize_def KeysKind_deserialize_def StartTlsMode_deserialize_def
  OutboundTlsMode_deserialize_def RecordType_deserialize_def RecordDTO_deserialize_def
  RoleConfig_deserialize_def KeyConfig_deserialize_def AuthConfig_deserialize_def
  SmtpTlsConfig_deserialize_def OutboundRelay_deserialize_def OutboundTransport_deserialize_def

text \<open>A file that moves a port and names two mailboxes, with a key that is none of the daemon's.\<close>

definition example_settings :: "(string \<times> json) list" where
  "example_settings =
     [(''smtp'', JNumber ''2525''), (''colour'', JBool True),
      (''mailboxes'', JArray [JString ''a@x.org'',
         JObject [(''id'', JString ''b@x.org''), (''forward_to'', JString ''b@y.net'')]]),
      (''outbound'', JObject [(''relay'', JObject [(''host'', JString ''r.net'')])])]"

definition example_loaded :: Config where
  "example_loaded = Config_default
     \<lparr>cfg_smtp := 2525, cfg_mailboxes := [Simple ''a@x.org'', Detailed ''b@x.org'' (Some ''b@y.net'')],
      cfg_outbound := OutboundTransport_default
        \<lparr>transport_relay := Some (OutboundRelay_default\<lparr>relay_host := Some ''r.net''\<rparr>)\<rparr>\<rparr>"

theorem config_load_exact_witness:
  "Config_load (\<lambda>_. Ok (JObject example_settings)) json_format = Ok example_loaded \<and>
   Config_load (\<lambda>_. Ok (JObject (example_settings @ [(''smtp'', JNumber ''25'')]))) json_format \<noteq>
     Ok example_loaded"
proof -
  have s: "de_struct json_format (JObject es) = Ok (By_name es)" for es
    by (simp add: json_format_def)
  have exact: "Config_load (\<lambda>_. Ok (JObject es)) json_format = Ok c \<longleftrightarrow>
      distinct (known_keys (Config_fields json_format) es) \<and> config_settings json_format es c" for es c
    by (rule config_load_exact [OF refl s])
  have e: "distinct (known_keys (Config_fields json_format) example_settings)"
    "config_settings json_format example_settings example_loaded"
    by (code_simp, simp add: config_settings_def example_settings_def example_loaded_def read_json)
  have d: "\<not> distinct (known_keys (Config_fields json_format)
      (example_settings @ [(''smtp'', JNumber ''25'')]))" by code_simp
  show ?thesis
    by (intro conjI iffD2 [OF exact conjI] e notI)
      (rule notE [OF d conjunct1 [OF iffD1 [OF exact]]])
qed

end
