(* ===== verification/Zm_App.thy ===== *)
theory Zm_App
  imports Zm_Services Zm_Auth Zm_Provision Zm_Load
begin

text \<open>
  Start-up (\<^verbatim>\<open>src/app.rs\<close>, \<^verbatim>\<open>src/runtime.rs\<close>, \<^verbatim>\<open>src/main.rs\<close>): opening the database and seeding it from
  the configuration, building the authentication service, the TLS identity and the service manager,
  booting the listeners, and the settings of the delivery worker. Opening the database and creating
  its tables are the driver's work and arguments here.
\<close>

section \<open>Seeding\<close>

fun seed_domains :: "('s, 'z) toasty_scheme \<Rightarrow> string list \<Rightarrow> 's \<Rightarrow> (unit, string) result \<times> 's" where
  "seed_domains T [] s = (Ok (), s)"
| "seed_domains T (d # ds) s =
     (if is_ok (Domain_get_by_id T d s) then seed_domains T ds s
      else case Domain_create T d s of
          (Err e, s1) \<Rightarrow> (Err e, s1)
        | (Ok _, s1) \<Rightarrow> seed_domains T ds s1)"

fun seed_mailboxes ::
  "('s, 'z) toasty_scheme \<Rightarrow> timestamp \<Rightarrow> MailboxEntry list \<Rightarrow> 's \<Rightarrow> (unit, string) result \<times> 's" where
  "seed_mailboxes T now [] s = (Ok (), s)"
| "seed_mailboxes T now (entry # es) s =
     (case Mailbox_try_from now (MailboxEntry_address entry) of
        Err _ \<Rightarrow> seed_mailboxes T now es s
      | Ok m \<Rightarrow>
          (let i = to_lowercase (mailbox_id m)
           in if is_ok (Mailbox_get_by_id T i s) then seed_mailboxes T now es s
              else case Mailbox_create T
                     \<lparr>mailbox_id = i, mailbox_domain_id = mailbox_domain_id m,
                      mailbox_forward_to = MailboxEntry_forward_to entry\<rparr> s of
                  (Err e, s1) \<Rightarrow> (Err e, s1)
                | (Ok _, s1) \<Rightarrow> seed_mailboxes T now es s1))"

fun seed_records ::
  "('s, 'z) toasty_scheme \<Rightarrow> timestamp \<Rightarrow> RecordDTO list \<Rightarrow> 's \<Rightarrow> (unit, string) result \<times> 's" where
  "seed_records T now [] s = (Ok (), s)"
| "seed_records T now (dto # dtos) s =
     (let r = Record_from_RecordDTO now dto
      in case Record_create T \<lparr>record_domain_id = record_domain_id r, record_type = record_type r,
                record_value = record_value r, record_ttl = record_ttl r\<rparr> s of
           (Err e, s1) \<Rightarrow> (Err e, s1)
         | (Ok _, s1) \<Rightarrow> seed_records T now dtos s1)"

definition seed_from_config ::
  "('s, 'z) toasty_scheme \<Rightarrow> timestamp \<Rightarrow> Config \<Rightarrow> 's \<Rightarrow> (unit, string) result \<times> 's" where
  "seed_from_config T now c s =
     (case seed_domains T (cfg_domains c) s of
        (Err e, s1) \<Rightarrow> (Err e, s1)
      | (Ok _, s1) \<Rightarrow>
          (case seed_mailboxes T now (cfg_mailboxes c) s1 of
             (Err e, s2) \<Rightarrow> (Err e, s2)
           | (Ok _, s2) \<Rightarrow> seed_records T now (cfg_records c) s2))"

section \<open>Application state\<close>

fun contains :: "string \<Rightarrow> string \<Rightarrow> bool" where
  "contains pat [] = starts_with pat []"
| "contains pat (c # cs) = (starts_with pat (c # cs) \<or> contains pat cs)"

record 's db_driver =
  open_db :: "string \<Rightarrow> ('s, string) result"
  open_in_memory :: "('s, string) result"
  push_schema :: "'s \<Rightarrow> (unit, string) result \<times> 's"

text \<open>A refused schema is tolerated when the tables are there already.\<close>

definition sync_schema :: "'s db_driver \<Rightarrow> 's \<Rightarrow> ('s, string) result" where
  "sync_schema D s =
     (case push_schema D s of
        (Ok _, s1) \<Rightarrow> Ok s1
      | (Err e, s1) \<Rightarrow> if contains ''already exists'' e then Ok s1 else Err e)"

definition from_driver :: "'s db_driver \<Rightarrow> ('s, string) result \<Rightarrow> (AuthService \<times> 's, string) result" where
  "from_driver D opened =
     (case opened of
        Err e \<Rightarrow> Err e
      | Ok s \<Rightarrow> (case sync_schema D s of Err e \<Rightarrow> Err e | Ok s1 \<Rightarrow> Ok (AuthService_disabled, s1)))"

definition connect :: "'s db_driver \<Rightarrow> string \<Rightarrow> (AuthService \<times> 's, string) result" where
  "connect D url = from_driver D (open_db D url)"

definition connect_in_memory :: "'s db_driver \<Rightarrow> (AuthService \<times> 's, string) result" where
  "connect_in_memory D = from_driver D (open_in_memory D)"

text \<open>The text of an authentication error is the library's \<open>Display\<close> form, an argument.\<close>

definition AppState_init ::
  "'s db_driver \<Rightarrow> ('s, 'z) toasty_scheme \<Rightarrow> 'n auth_lib \<Rightarrow> (AuthBuildError \<Rightarrow> string) \<Rightarrow> timestamp \<Rightarrow>
   Config \<Rightarrow> 'n key_state \<Rightarrow> (AuthService \<times> 's, string) result \<times> 'n key_state" where
  "AppState_init D T L show_error now c k =
     (case open_db D (cfg_database_url c) of
        Err e \<Rightarrow> (Err e, k)
      | Ok s \<Rightarrow>
          (case sync_schema D s of
             Err e \<Rightarrow> (Err e, k)
           | Ok s1 \<Rightarrow>
               (case AuthService_build L (cfg_auth c) k of
                  (Err e, k1) \<Rightarrow> (Err (show_error e), k1)
                | (Ok a, k1) \<Rightarrow>
                    (case seed_from_config T now c s1 of
                       (Err e, s2) \<Rightarrow> (Err e, k1)
                     | (Ok _, s2) \<Rightarrow> (Ok (a, s2), k1)))))"

section \<open>The daemon\<close>

record 'id Daemon =
  daemon_cfg :: Config
  daemon_auth :: AuthService
  daemon_services :: "'id Inner"
  daemon_spawn :: "'id spawn_fn"

text \<open>\<^const>\<open>None\<close> is the panic of the service manager on an address that does not parse.\<close>

definition Daemon_build ::
  "'s db_driver \<Rightarrow> ('s, 'z) toasty_scheme \<Rightarrow> 'n auth_lib \<Rightarrow> (AuthBuildError \<Rightarrow> string) \<Rightarrow>
   (string \<Rightarrow> (bytes, string) result) \<Rightarrow> (bytes \<Rightarrow> bytes \<Rightarrow> ('id, string) result) \<Rightarrow> timestamp \<Rightarrow> Config \<Rightarrow>
   'n key_state \<Rightarrow> ('id Daemon \<times> 's, string) result option \<times> 'n key_state" where
  "Daemon_build D T L show_error fs_read from_pkcs8 now c k =
     (case AppState_init D T L show_error now c k of
        (Err e, k1) \<Rightarrow> (Some (Err e), k1)
      | (Ok (a, s), k1) \<Rightarrow>
          (case identity fs_read from_pkcs8 (cfg_smtp_tls c) of
             Err e \<Rightarrow> (Some (Err (''failed to build SMTP TLS identity: '' @ e)), k1)
           | Ok ident \<Rightarrow>
               (case ServiceManager_new c ident of
                  None \<Rightarrow> (None, k1)
                | Some (m, spawn) \<Rightarrow>
                    (Some (Ok (\<lparr>daemon_cfg = c, daemon_auth = a, daemon_services = m,
                                daemon_spawn = spawn\<rparr>, s)), k1))))"

definition Daemon_boot :: "Service list \<Rightarrow> BootMode \<Rightarrow> 'id Daemon \<Rightarrow> 'id Daemon" where
  "Daemon_boot order mode d =
     d\<lparr>daemon_services := boot (daemon_spawn d) order mode (daemon_services d)\<rparr>"

definition Daemon_shutdown :: "'id Daemon \<Rightarrow> 'id Daemon" where
  "Daemon_shutdown d = d\<lparr>daemon_services := stop_all (daemon_services d)\<rparr>"

text \<open>What \<open>main\<close> has set up when it starts to wait: the booted daemon, the database, and the worker's settings.\<close>

definition main_setup ::
  "'s db_driver \<Rightarrow> ('s, 'z) toasty_scheme \<Rightarrow> 'n auth_lib \<Rightarrow> (AuthBuildError \<Rightarrow> string) \<Rightarrow>
   (string \<Rightarrow> (bytes, string) result) \<Rightarrow> (bytes \<Rightarrow> bytes \<Rightarrow> ('id, string) result) \<Rightarrow> timestamp \<Rightarrow>
   Service list \<Rightarrow> Config \<Rightarrow> 'n key_state \<Rightarrow>
   ('id Daemon \<times> 's \<times> OutboundWorkerConfig, string) result option" where
  "main_setup D T L show_error fs_read from_pkcs8 now order c k =
     (case Daemon_build D T L show_error fs_read from_pkcs8 now c k of
        (None, _) \<Rightarrow> None
      | (Some (Err e), _) \<Rightarrow> Some (Err e)
      | (Some (Ok (d, s)), _) \<Rightarrow>
          Some (Ok (Daemon_boot order (resolved_mode c) d, s,
                    OutboundWorkerConfig_default\<lparr>worker_transport := cfg_outbound c\<rparr>)))"

text \<open>
  \<open>main\<close> from its first line: it loads the configuration and sets everything up. \<open>order\<close> is how
  the hash set of a mode's services is iterated; the texts of the errors are arguments.
\<close>

definition main_start ::
  "(config_source list \<Rightarrow> ('v, string) result) \<Rightarrow> 'v deserializer \<Rightarrow> (ConfigError \<Rightarrow> string) \<Rightarrow>
   's db_driver \<Rightarrow> ('s, 'z) toasty_scheme \<Rightarrow> 'n auth_lib \<Rightarrow> (AuthBuildError \<Rightarrow> string) \<Rightarrow>
   (string \<Rightarrow> (bytes, string) result) \<Rightarrow> (bytes \<Rightarrow> bytes \<Rightarrow> ('id, string) result) \<Rightarrow> timestamp \<Rightarrow>
   (BootMode \<Rightarrow> Service list) \<Rightarrow> 'n key_state \<Rightarrow>
   ('id Daemon \<times> 's \<times> OutboundWorkerConfig, string) result option" where
  "main_start build F show_config D T L show_error fs_read from_pkcs8 now order k =
     (case Config_load build F of
        Err e \<Rightarrow> Some (Err (show_config e))
      | Ok c \<Rightarrow>
          main_setup D T L show_error fs_read from_pkcs8 now (order (resolved_mode c)) c k)"

text \<open>
  What ends the wait of \<open>main\<close>: the worker ending on its own, which is only logged, or the shutdown
  signal, which stops the services and the worker.
\<close>

datatype main_event = Outbound_stopped | Ctrl_c

definition main_end :: "main_event \<Rightarrow> 'id Daemon \<Rightarrow> 'id Daemon" where
  "main_end ev d = (case ev of Outbound_stopped \<Rightarrow> d | Ctrl_c \<Rightarrow> Daemon_shutdown d)"

section \<open>What seeding leaves behind\<close>

definition record_columns :: "RecordDTO \<Rightarrow> string \<times> RecordType \<times> string" where
  "record_columns dto = (dto_domain_id dto, dto_record_type dto, dto_value dto)"

definition seeded_records :: "tables \<Rightarrow> (string \<times> RecordType \<times> string) set" where
  "seeded_records t = record_triple ` ran (t_records t)"

text \<open>A row inserted under a free key before the table grows further.\<close>

lemma added_row_kept:
  assumes "t k = None" and "t(k \<mapsto> r) \<subseteq>\<^sub>m u"
  shows "t \<subseteq>\<^sub>m u" "k \<in> dom u"
proof -
  have "t \<subseteq>\<^sub>m t(k \<mapsto> r)" using assms(1) by (auto simp: map_le_def)
  then show "t \<subseteq>\<^sub>m u" using assms(2) by (rule map_le_trans)
  show "k \<in> dom u" using map_le_implies_dom_le [OF assms(2)] by auto
qed

context store
begin

lemma seed_domains_view:
  assumes "seed_domains T ds s = (x, s')"
  shows "\<exists>dm. view s' = (view s)\<lparr>t_domains := dm\<rparr> \<and> t_domains (view s) \<subseteq>\<^sub>m dm \<and>
    (is_ok x \<longrightarrow> set ds \<subseteq> dom dm)"
  using assms
proof (induction ds arbitrary: s)
  case Nil
  then show ?case by (intro exI [of _ "t_domains (view s)"]) simp
next
  case (Cons d ds)
  show ?case
  proof (cases "is_ok (Domain_get_by_id T d s)")
    case True
    with Cons.prems have "seed_domains T ds s = (x, s')" by simp
    from Cons.IH [OF this] obtain dm where dm: "view s' = (view s)\<lparr>t_domains := dm\<rparr>"
      "t_domains (view s) \<subseteq>\<^sub>m dm" "is_ok x \<longrightarrow> set ds \<subseteq> dom dm" by blast
    moreover have "d \<in> dom (t_domains (view s))" using domain.is_ok_getD [OF True] by auto
    moreover from this dm(2) have "d \<in> dom dm" using map_le_implies_dom_le by blast
    ultimately show ?thesis by (intro exI [of _ dm]) simp
  next
    case False
    obtain y s1 where c: "Domain_create T d s = (y, s1)" by (cases "Domain_create T d s")
    show ?thesis
    proof (cases y)
      case (Inl e)
      with False Cons.prems c domain.create_Err [OF c [unfolded Inl]] show ?thesis
        by (intro exI [of _ "t_domains (view s)"]) auto
    next
      case (Inr row)
      from domain.create_Ok [OF c [unfolded Inr]]
      have r: "t_domains (view s) d = None" "view s1 = (view s)\<lparr>t_domains := (t_domains (view s))(d \<mapsto> row)\<rparr>"
        by (cases "view s"; auto)+
      from False Cons.prems c Inr have "seed_domains T ds s1 = (x, s')" by simp
      from Cons.IH [OF this] obtain dm where dm: "view s' = (view s1)\<lparr>t_domains := dm\<rparr>"
        "t_domains (view s1) \<subseteq>\<^sub>m dm" "is_ok x \<longrightarrow> set ds \<subseteq> dom dm" by blast
      have "(t_domains (view s))(d \<mapsto> row) \<subseteq>\<^sub>m dm" using dm(2) r(2) by simp
      from added_row_kept [OF r(1) this] dm r(2) show ?thesis by (intro exI [of _ dm]) simp
    qed
  qed
qed

lemma seed_mailboxes_view:
  assumes "seed_mailboxes T now es s = (x, s')"
  shows "\<exists>mb. view s' = (view s)\<lparr>t_mailboxes := mb\<rparr> \<and> t_mailboxes (view s) \<subseteq>\<^sub>m mb \<and>
    (is_ok x \<longrightarrow> (\<forall>e \<in> set es. is_ok (Mailbox_try_from now (MailboxEntry_address e)) \<longrightarrow>
      to_lowercase (MailboxEntry_address e) \<in> dom mb))"
  using assms
proof (induction es arbitrary: s)
  case Nil
  then show ?case by (intro exI [of _ "t_mailboxes (view s)"]) simp
next
  case (Cons e es)
  let ?wanted = "\<lambda>mb e. is_ok (Mailbox_try_from now (MailboxEntry_address e)) \<longrightarrow>
    to_lowercase (MailboxEntry_address e) \<in> dom mb"
  show ?case
  proof (cases "Mailbox_try_from now (MailboxEntry_address e)")
    case (Inl f)
    with Cons.prems have "seed_mailboxes T now es s = (x, s')" by simp
    from Cons.IH [OF this] Inl show ?thesis by auto
  next
    case (Inr m)
    let ?i = "to_lowercase (mailbox_id m)"
    have i: "?i = to_lowercase (MailboxEntry_address e)" using Mailbox_try_from_Ok(1) [OF Inr] by simp
    show ?thesis
    proof (cases "is_ok (Mailbox_get_by_id T ?i s)")
      case True
      with Cons.prems Inr have "seed_mailboxes T now es s = (x, s')" by (simp add: Let_def)
      from Cons.IH [OF this] obtain mb where mb: "view s' = (view s)\<lparr>t_mailboxes := mb\<rparr>"
        "t_mailboxes (view s) \<subseteq>\<^sub>m mb" "is_ok x \<longrightarrow> (\<forall>e \<in> set es. ?wanted mb e)" by blast
      have "?i \<in> dom (t_mailboxes (view s))" using mailbox.is_ok_getD [OF True] by auto
      with mb(2) have "?i \<in> dom mb" using map_le_implies_dom_le by blast
      with mb i show ?thesis by (intro exI [of _ mb]) simp
    next
      case False
      let ?f = "\<lparr>mailbox_id = ?i, mailbox_domain_id = mailbox_domain_id m,
        mailbox_forward_to = MailboxEntry_forward_to e\<rparr>"
      obtain y s1 where c: "Mailbox_create T ?f s = (y, s1)" by (cases "Mailbox_create T ?f s")
      show ?thesis
      proof (cases y)
        case y: (Inl f)
        with False Inr Cons.prems c mailbox.create_Err [OF c [unfolded y]] show ?thesis
          by (intro exI [of _ "t_mailboxes (view s)"]) (auto simp: Let_def)
      next
        case y: (Inr row)
        note ok = mailbox.create_Ok [OF c [unfolded y]]
        have key: "mailbox_id row = ?i" using ok by (simp add: mailbox_fields.defs)
        have r: "t_mailboxes (view s) ?i = None"
          "view s1 = (view s)\<lparr>t_mailboxes := (t_mailboxes (view s))(?i \<mapsto> row)\<rparr>"
          using ok key by (cases "view s"; simp)+
        from False Inr Cons.prems c y have "seed_mailboxes T now es s1 = (x, s')" by (simp add: Let_def)
        from Cons.IH [OF this] obtain mb where mb: "view s' = (view s1)\<lparr>t_mailboxes := mb\<rparr>"
          "t_mailboxes (view s1) \<subseteq>\<^sub>m mb" "is_ok x \<longrightarrow> (\<forall>e \<in> set es. ?wanted mb e)" by blast
        have "(t_mailboxes (view s))(?i \<mapsto> row) \<subseteq>\<^sub>m mb" using mb(2) r(2) by simp
        from added_row_kept [OF r(1) this] mb r(2) i show ?thesis by (intro exI [of _ mb]) simp
      qed
    qed
  qed
qed

lemma seed_records_view:
  assumes "seed_records T now dtos s = (x, s')"
  shows "\<exists>rs. view s' = (view s)\<lparr>t_records := rs\<rparr> \<and> t_records (view s) \<subseteq>\<^sub>m rs \<and>
    (is_ok x \<longrightarrow> record_columns ` set dtos \<subseteq> record_triple ` ran rs) \<and>
    (is_ok x \<and> dtos \<noteq> [] \<longrightarrow> record_columns (hd dtos) \<notin> seeded_records (view s))"
  using assms
proof (induction dtos arbitrary: s)
  case Nil
  then show ?case by (intro exI [of _ "t_records (view s)"]) simp
next
  case (Cons dto dtos)
  let ?f = "\<lparr>record_domain_id = dto_domain_id dto, record_type = dto_record_type dto,
    record_value = dto_value dto, record_ttl = dto_ttl dto\<rparr>"
  obtain y s1 where c: "Record_create T ?f s = (y, s1)" by (cases "Record_create T ?f s")
  show ?case
  proof (cases y)
    case (Inl e)
    with Cons.prems c rec.create_Err [OF c [unfolded Inl]] show ?thesis
      by (intro exI [of _ "t_records (view s)"]) (auto simp: Record_from_RecordDTO_def)
  next
    case (Inr row)
    note ok = rec.create_Ok [OF c [unfolded Inr]]
    have r: "t_records (view s) (record_id row) = None"
      "view s1 = (view s)\<lparr>t_records := (t_records (view s))(record_id row \<mapsto> row)\<rparr>"
      using ok by (cases "view s"; simp)+
    have cols: "record_triple row = record_columns dto"
      using ok by (simp add: record_fields.defs record_triple_def record_columns_def)
    have new: "record_columns dto \<notin> seeded_records (view s)"
      using ok by (auto simp: seeded_records_def record_triple_def record_columns_def)
    from Cons.prems c Inr have "seed_records T now dtos s1 = (x, s')"
      by (simp add: Record_from_RecordDTO_def)
    from Cons.IH [OF this] obtain rs where rs: "view s' = (view s1)\<lparr>t_records := rs\<rparr>"
      "t_records (view s1) \<subseteq>\<^sub>m rs" "is_ok x \<longrightarrow> record_columns ` set dtos \<subseteq> record_triple ` ran rs" by blast
    have "t_records (view s) \<subseteq>\<^sub>m (t_records (view s))(record_id row \<mapsto> row)" using r(1) by (auto simp: map_le_def)
    with rs(2) r(2) have le: "t_records (view s) \<subseteq>\<^sub>m rs" by (auto intro: map_le_trans)
    have "rs (record_id row) = Some row" using rs(2) r(2) by (auto simp: map_le_def)
    then have "record_columns dto \<in> record_triple ` ran rs" using cols by (metis image_eqI ranI)
    with le rs r(2) new show ?thesis by (intro exI [of _ rs]) simp
  qed
qed

end

context store
begin

lemma seed_from_config_view:
  assumes "seed_from_config T now c s = (x, s')"
  shows "\<exists>dm mb rs. view s' = (view s)\<lparr>t_domains := dm, t_mailboxes := mb, t_records := rs\<rparr> \<and>
    t_domains (view s) \<subseteq>\<^sub>m dm \<and> t_mailboxes (view s) \<subseteq>\<^sub>m mb \<and> t_records (view s) \<subseteq>\<^sub>m rs \<and>
    (is_ok x \<longrightarrow> set (cfg_domains c) \<subseteq> dom dm \<and>
      (\<forall>e \<in> set (cfg_mailboxes c). is_ok (Mailbox_try_from now (MailboxEntry_address e)) \<longrightarrow>
        to_lowercase (MailboxEntry_address e) \<in> dom mb) \<and>
      record_columns ` set (cfg_records c) \<subseteq> record_triple ` ran rs \<and>
      (cfg_records c \<noteq> [] \<longrightarrow> record_columns (hd (cfg_records c)) \<notin> seeded_records (view s)))"
proof -
  obtain x1 s1 where d: "seed_domains T (cfg_domains c) s = (x1, s1)" by (cases "seed_domains T (cfg_domains c) s")
  obtain x2 s2 where m: "seed_mailboxes T now (cfg_mailboxes c) s1 = (x2, s2)"
    by (cases "seed_mailboxes T now (cfg_mailboxes c) s1")
  obtain x3 s3 where r: "seed_records T now (cfg_records c) s2 = (x3, s3)"
    by (cases "seed_records T now (cfg_records c) s2")
  from seed_domains_view [OF d] obtain dm where dm: "view s1 = (view s)\<lparr>t_domains := dm\<rparr>"
    "t_domains (view s) \<subseteq>\<^sub>m dm" "is_ok x1 \<longrightarrow> set (cfg_domains c) \<subseteq> dom dm" by blast
  from seed_mailboxes_view [OF m] obtain mb where mb: "view s2 = (view s1)\<lparr>t_mailboxes := mb\<rparr>"
    "t_mailboxes (view s1) \<subseteq>\<^sub>m mb" "is_ok x2 \<longrightarrow> (\<forall>e \<in> set (cfg_mailboxes c). is_ok (Mailbox_try_from now
      (MailboxEntry_address e)) \<longrightarrow> to_lowercase (MailboxEntry_address e) \<in> dom mb)" by blast
  from seed_records_view [OF r] obtain rs where rs: "view s3 = (view s2)\<lparr>t_records := rs\<rparr>"
    "t_records (view s2) \<subseteq>\<^sub>m rs" "is_ok x3 \<longrightarrow> record_columns ` set (cfg_records c) \<subseteq> record_triple ` ran rs"
    "is_ok x3 \<and> cfg_records c \<noteq> [] \<longrightarrow> record_columns (hd (cfg_records c)) \<notin> seeded_records (view s2)" by blast
  have same: "seeded_records (view s2) = seeded_records (view s)" by (simp add: seeded_records_def mb dm)
  show ?thesis
  proof (cases "is_ok x1")
    case False
    then have "x = x1" "s' = s1" using assms d by (auto simp: seed_from_config_def is_ok_def split: sum.splits)
    with False dm show ?thesis
      by (intro exI [of _ dm] exI [of _ "t_mailboxes (view s)"] exI [of _ "t_records (view s)"]) simp
  next
    case ok1: True
    show ?thesis
    proof (cases "is_ok x2")
      case False
      then have "\<not> is_ok x" "s' = s2"
        using assms d m ok1 by (auto simp: seed_from_config_def is_ok_def split: sum.splits)
      with dm mb show ?thesis
        by (intro exI [of _ dm] exI [of _ mb] exI [of _ "t_records (view s)"]) simp
    next
      case True
      then have "x = x3" "s' = s3"
        using assms d m r ok1 by (auto simp: seed_from_config_def is_ok_def split: sum.splits)
      with dm mb rs same ok1 True show ?thesis
        by (intro exI [of _ dm] exI [of _ mb] exI [of _ rs]) simp
    qed
  qed
qed

end


text \<open>
  A configuration that lists at least one record starts once: seeding inserts the records
  unconditionally, the triple of a record is unique, so every later start with that record still in
  the database fails.
\<close>

theorem seeded_records_block_restart:
  assumes "store T view snapshot healthy" and "cfg_records c \<noteq> []"
    and "seed_from_config T now c s = (Ok (), s1)"
    and "seeded_records (view s1) \<subseteq> seeded_records (view s2)"
  shows "\<not> is_ok (fst (seed_from_config T now' c s2))"
proof
  obtain x s3 where c: "seed_from_config T now' c s2 = (x, s3)" by (cases "seed_from_config T now' c s2")
  assume "is_ok (fst (seed_from_config T now' c s2))"
  with c have ok: "is_ok x" by simp
  have "record_columns (hd (cfg_records c)) \<notin> seeded_records (view s2)"
    using store.seed_from_config_view [OF assms(1) c] ok assms(2) by blast
  moreover have "record_columns ` set (cfg_records c) \<subseteq> seeded_records (view s1)"
    using store.seed_from_config_view [OF assms(1,3)] by (auto simp: seeded_records_def)
  ultimately show False using assms(2,4) by (cases "cfg_records c") auto
qed

definition seed_config :: Config where
  "seed_config = Config_default\<lparr>cfg_domains := [''x.org''], cfg_mailboxes := [Simple ''Bob@X.org''],
     cfg_records := [\<lparr>dto_domain_id = ''x.org'', dto_record_type = RT_A, dto_value = ''10.0.0.1'', dto_ttl = 60\<rparr>]\<rparr>"

definition mem_driver :: "mem db_driver" where
  "mem_driver = \<lparr>open_db = (\<lambda>_. Ok mem_empty), open_in_memory = Ok mem_empty,
     push_schema = (\<lambda>s. (Err ''table domains already exists'', s))\<rparr>"


theorem seeded_records_block_restart_witness:
  "\<exists>s1. seed_from_config mem_ops 0 seed_config mem_empty = (Ok (), s1) \<and>
    \<not> is_ok (fst (seed_from_config mem_ops 0 seed_config s1))"
proof -
  have "is_ok (fst (seed_from_config mem_ops 0 seed_config mem_empty))" by code_simp
  then obtain s1 where s: "seed_from_config mem_ops 0 seed_config mem_empty = (Ok (), s1)"
    by (cases "seed_from_config mem_ops 0 seed_config mem_empty") (auto simp: is_ok_iff)
  have "cfg_records seed_config \<noteq> []" by (simp add: seed_config_def)
  from seeded_records_block_restart [OF mem.store_axioms this s subset_refl] s show ?thesis by blast
qed

text \<open>The address a service is configured to listen on, and whether the boot mode brings it up.\<close>

definition configured_addr :: "Config \<Rightarrow> Service \<Rightarrow> SocketAddr option" where
  "configured_addr c svc =
     (case svc of Api \<Rightarrow> api_addr c | Smtp \<Rightarrow> smtp_addr c | Dns \<Rightarrow> dns_addr c
      | Smtps \<Rightarrow> smtps_addr (cfg_smtp_tls c) (cfg_host c))"

definition boots :: "Config \<Rightarrow> Service \<Rightarrow> bool" where
  "boots c svc \<longleftrightarrow> (if svc = Smtps then Smtp else svc) \<in> BootMode_services (resolved_mode c)"

lemma new_manager_configured:
  assumes "ServiceManager_new c ident = Some (m, spawn)"
  shows "addr m svc = configured_addr c svc" "spawn = service_spawn (cfg_smtp_tls c) ident"
    "wants m (resolved_mode c) svc \<longleftrightarrow> boots c svc \<and> configured_addr c svc \<noteq> None"
proof -
  show a: "addr m svc = configured_addr c svc" for svc
    using assms by (cases svc) (auto simp: ServiceManager_new_def configured_addr_def split: option.splits)
  show "spawn = service_spawn (cfg_smtp_tls c) ident"
    using assms by (auto simp: ServiceManager_new_def split: option.splits)
  have "Smtps \<notin> BootMode_services mode" for mode by (cases mode) auto
  then show "wants m (resolved_mode c) svc \<longleftrightarrow> boots c svc \<and> configured_addr c svc \<noteq> None"
    unfolding a [symmetric] by (cases svc) (auto simp: wants_def boots_def smtps_configured_def)
qed

text \<open>
  C21. What runs after \<open>main\<close> has started is what the loaded configuration says: a listener is up
  exactly for the services of the configured boot mode (SMTPS along with plain SMTP, when it has a
  port), each on its configured address and, for mail, in the TLS mode the configuration asks for
  with the identity built from its certificate; the guard is enabled exactly when the configuration
  enables it; and the delivery worker uses the configured transport. Any failure on the way ends the
  start with an error, with nothing running.
\<close>

theorem main_runs_as_configured:
  assumes "main_start build F show_config D T L show_error fs_read from_pkcs8 now order k =
      Some (Ok (d, s, w))"
    and "\<And>mode. set (order mode) = BootMode_services mode"
  shows "\<exists>c ident. Config_load build F = Ok c \<and>
    identity fs_read from_pkcs8 (cfg_smtp_tls c) = Ok ident \<and>
    (\<forall>svc t. running_task (daemon_services d) svc = Some t \<longleftrightarrow>
       boots c svc \<and> (\<exists>a. configured_addr c svc = Some a \<and>
         service_spawn (cfg_smtp_tls c) ident svc a = Ok t)) \<and>
    svc_enabled (daemon_auth d) = auth_enabled (cfg_auth c) \<and> worker_transport w = cfg_outbound c"
proof -
  from assms(1) obtain c where c: "Config_load build F = Ok c"
    "main_setup D T L show_error fs_read from_pkcs8 now (order (resolved_mode c)) c k = Some (Ok (d, s, w))"
    by (auto simp: main_start_def split: sum.splits)
  from c(2) obtain d0 k1 where d0: "Daemon_build D T L show_error fs_read from_pkcs8 now c k =
      (Some (Ok (d0, s)), k1)" "d = Daemon_boot (order (resolved_mode c)) (resolved_mode c) d0"
    "worker_transport w = cfg_outbound c"
    by (auto simp: main_setup_def split: option.splits sum.splits prod.splits)
  from d0(1) obtain a ident m spawn where b: "AppState_init D T L show_error now c k = (Ok (a, s), k1)"
    "identity fs_read from_pkcs8 (cfg_smtp_tls c) = Ok ident"
    "ServiceManager_new c ident = Some (m, spawn)"
    "d0 = \<lparr>daemon_cfg = c, daemon_auth = a, daemon_services = m, daemon_spawn = spawn\<rparr>"
    by (auto simp: Daemon_build_def split: option.splits sum.splits prod.splits)
  from b(1) have "fst (AuthService_build L (cfg_auth c) k) = Ok a"
    by (auto simp: AppState_init_def split: sum.splits prod.splits)
  then have "svc_enabled a = auth_enabled (cfg_auth c)"
    by (auto simp: AuthService_build_def AuthService_disabled_def split: if_splits sum.splits prod.splits)
  moreover have "running_task (daemon_services d) svc = Some t \<longleftrightarrow>
      boots c svc \<and> (\<exists>a. configured_addr c svc = Some a \<and>
        service_spawn (cfg_smtp_tls c) ident svc a = Ok t)" for svc t
  proof -
    have "daemon_services d = boot spawn (order (resolved_mode c)) (resolved_mode c) m"
      unfolding d0(2) b(4) by (simp add: Daemon_boot_def)
    with boot_tasks [OF b(3) assms(2), of "resolved_mode c" svc t] show ?thesis
      by (auto simp: new_manager_configured [OF b(3)])
  qed
  ultimately show ?thesis using c(1) b(2) d0(2,3) b(4)
    by (intro exI [of _ c] exI [of _ ident]) (simp add: Daemon_boot_def)
qed

definition mode_order :: "BootMode \<Rightarrow> Service list" where
  "mode_order mode = filter (\<lambda>svc. svc \<in> BootMode_services mode) Service_all"

theorem main_runs_as_configured_witness:
  "\<exists>d s w. main_start (\<lambda>_. Ok (JObject [])) json_format (\<lambda>_. []) mem_driver mem_ops example_lib (\<lambda>_. [])
      (\<lambda>_. Err ''no file'') (\<lambda>_ _. Ok ()) 0 mode_order no_keys = Some (Ok (d, s, w)) \<and>
    running_task (daemon_services d) Dns \<noteq> None \<and> running_task (daemon_services d) Smtps = None \<and>
    \<not> svc_enabled (daemon_auth d)"
proof -
  let ?main = "main_start (\<lambda>_. Ok (JObject [])) json_format (\<lambda>_. []) mem_driver mem_ops example_lib (\<lambda>_. [])
      (\<lambda>_. Err ''no file'') (\<lambda>_ _. Ok ()) 0 mode_order no_keys"
  have load: "Config_load (\<lambda>_. Ok (JObject [])) json_format = Ok Config_default"
    by (simp add: Config_load_def Config_deserialize_def read_json Config_fields_def)
  have "is_ok (fst (AppState_init mem_driver mem_ops example_lib (\<lambda>_. []) 0 Config_default no_keys))" by code_simp
  then obtain a s k where i: "AppState_init mem_driver mem_ops example_lib (\<lambda>_. []) 0 Config_default no_keys
      = (Ok (a, s), k)"
    by (cases "AppState_init mem_driver mem_ops example_lib (\<lambda>_. []) 0 Config_default no_keys") (auto simp: is_ok_iff)
  have ident: "identity (\<lambda>_. Err ''no file'') (\<lambda>_ _. Ok ()) (cfg_smtp_tls Config_default) = Ok None"
    by (simp add: identity_def Config_default_def SmtpTlsConfig_default_def is_acme_def needs_cert_def)
  have addrs: "api_addr Config_default \<noteq> None" "smtp_addr Config_default \<noteq> None" "dns_addr Config_default \<noteq> None"
    by (rule default_addresses)+
  then obtain m spawn where m: "ServiceManager_new Config_default (None :: unit option) = Some (m, spawn)"
    by (auto simp: ServiceManager_new_def)
  have order: "set (mode_order mode) = BootMode_services mode" for mode
    by (auto simp: mode_order_def Service_all_complete)
  obtain d w where main: "?main = Some (Ok (d, s, w))"
    by (simp add: main_start_def load main_setup_def Daemon_build_def i ident m)
  from main_runs_as_configured [OF main order] load obtain ident' where
    run: "\<And>svc t. running_task (daemon_services d) svc = Some t \<longleftrightarrow>
       boots Config_default svc \<and> (\<exists>a. configured_addr Config_default svc = Some a \<and>
         service_spawn (cfg_smtp_tls Config_default) ident' svc a = Ok t)"
    and en: "svc_enabled (daemon_auth d) = auth_enabled (cfg_auth Config_default)" by auto
  have "boots Config_default Dns" "smtps_addr (cfg_smtp_tls Config_default) h = None" for h
    by (simp_all add: boots_def resolved_mode_def Config_default_def BootMode_default_def
        smtps_addr_def smtps_enabled_def SmtpTlsConfig_default_def)
  then have "running_task (daemon_services d) Dns \<noteq> None" "running_task (daemon_services d) Smtps = None"
    using run [of Dns] run [of Smtps] addrs(3)
    by (auto simp: configured_addr_def service_spawn_def)
  with main en show ?thesis
    by (intro exI [of _ d] exI [of _ s] exI [of _ w]) (simp add: Config_default_def AuthConfig_default_def)
qed

end
