(* ===== verification/Zm_Messages.thy ===== *)
theory Zm_Messages
  imports Zm_Provision Zm_Email
begin

text \<open>
  The mail requests of the HTTP interface (\<^verbatim>\<open>src/api.rs\<close>): sending a message, listing the messages
  of a mailbox, reading and deleting one message. The message builder (\<open>lettre\<close>) is third-party code:
  a record of functions over its types \<open>'mb\<close> of parsed addresses and \<open>'ct\<close> of content types.
\<close>

section \<open>Sending\<close>

record ('mb, 'ct) draft =
  draft_from :: 'mb
  draft_to :: "'mb list"
  draft_cc :: "'mb list"
  draft_bcc :: "'mb list"
  draft_content_type :: "'ct option"
  draft_subject :: "string option"
  draft_body :: string

record ('mb, 'ct) lettre =
  LettreMailbox_parse :: "string \<Rightarrow> ('mb, string) result"
  ContentType_parse :: "string \<Rightarrow> ('ct, string) result"
  LettreMessage_build :: "('mb, 'ct) draft \<Rightarrow> (lettre_message, string) result"

record SendEmail =
  send_from :: string
  send_to_list :: "string list"
  send_cc :: "string list"
  send_bcc :: "string list"
  send_subject :: "string option"
  send_body :: string
  send_content_type :: "string option"

record SendResult =
  sent_message_id :: row_id
  sent_outbound_ids :: "row_id list"

fun parse_addrs :: "('mb, 'ct) lettre \<Rightarrow> string list \<Rightarrow> ('mb list, string) result" where
  "parse_addrs L [] = Ok []"
| "parse_addrs L (a # as) =
     (case LettreMailbox_parse L a of
        Err e \<Rightarrow> Err e
      | Ok m \<Rightarrow> (case parse_addrs L as of Err e \<Rightarrow> Err e | Ok ms \<Rightarrow> Ok (m # ms)))"

definition build_send_message ::
  "('mb, 'ct) lettre \<Rightarrow> string \<Rightarrow> string list \<Rightarrow> string list \<Rightarrow> string list \<Rightarrow> string option \<Rightarrow> string \<Rightarrow>
   string option \<Rightarrow> (lettre_message, string) result" where
  "build_send_message L from to cc bcc subject body content_type =
     (case LettreMailbox_parse L from of
        Err e \<Rightarrow> Err (''invalid From address '' @ quoted from @ '': '' @ e)
      | Ok f \<Rightarrow>
     (case parse_addrs L to of
        Err e \<Rightarrow> Err e
      | Ok to_addrs \<Rightarrow>
     (case parse_addrs L cc of
        Err e \<Rightarrow> Err e
      | Ok cc_addrs \<Rightarrow>
     (case parse_addrs L bcc of
        Err e \<Rightarrow> Err e
      | Ok bcc_addrs \<Rightarrow>
     (case (case content_type of
              None \<Rightarrow> Ok None
            | Some ct \<Rightarrow>
                (case ContentType_parse L ct of
                   Err e \<Rightarrow> Err (''invalid content_type '' @ quoted ct @ '': '' @ e)
                 | Ok c \<Rightarrow> Ok (Some c))) of
        Err e \<Rightarrow> Err e
      | Ok ct_header \<Rightarrow>
          (case LettreMessage_build L
                  \<lparr>draft_from = f, draft_to = to_addrs, draft_cc = cc_addrs, draft_bcc = bcc_addrs,
                   draft_content_type = ct_header, draft_subject = subject, draft_body = body\<rparr> of
             Err e \<Rightarrow> Err (''failed to build message: '' @ e)
           | Ok m \<Rightarrow> Ok m))))))"

text \<open>The recipients, each once, in the order of their first appearance.\<close>

fun first_seen :: "string set \<Rightarrow> string list \<Rightarrow> string list" where
  "first_seen seen [] = []"
| "first_seen seen (r # rs) =
     (if r \<in> seen then first_seen seen rs else r # first_seen (insert r seen) rs)"

definition send_recipients :: "SendEmail \<Rightarrow> string list" where
  "send_recipients b = first_seen {} (send_to_list b @ send_cc b @ send_bcc b)"

definition fault_text :: "fault \<Rightarrow> string" where
  "fault_text f = (case f of Fault e \<Rightarrow> e | Panic e \<Rightarrow> e)"

fun enqueue_rest ::
  "('s, 'z) toasty_scheme \<Rightarrow> row_id \<Rightarrow> string \<Rightarrow> string list \<Rightarrow> row_id list \<Rightarrow> 's \<Rightarrow>
   (row_id list, fault) result \<times> 's" where
  "enqueue_rest T mid sender [] ids s = (Ok ids, s)"
| "enqueue_rest T mid sender (r # rs) ids s =
     (case enqueue_forward T mid sender r s of
        (Err e, s1) \<Rightarrow> (Err e, s1)
      | (Ok i, s1) \<Rightarrow> enqueue_rest T mid sender rs (ids @ [i]) s1)"

definition send_email ::
  "('s, 'z) world_scheme \<Rightarrow> ('mb, 'ct) lettre \<Rightarrow> SendEmail option \<Rightarrow> 's \<Rightarrow> SendResult response \<times> 's" where
  "send_email W L body s =
     (case body of
        None \<Rightarrow> (unparsed_body, s)
      | Some b \<Rightarrow>
          (case send_recipients b of
             [] \<Rightarrow> (Problem 400 (bad_request ''no recipients: at least one of to, cc, or bcc is required''), s)
           | first # rest \<Rightarrow>
               (let sender = send_from b
                in if \<not> is_ok (Mailbox_get_by_id W sender s)
                   then (Problem 409 (conflict (''sender '' @ quoted sender
                           @ '' is not a provisioned mailbox'')), s)
                   else case build_send_message L sender (send_to_list b) (send_cc b) (send_bcc b)
                               (send_subject b) (send_body b) (send_content_type b) of
                       Err e \<Rightarrow> (Problem 400 (bad_request e), s)
                     | Ok message \<Rightarrow>
                         (case enqueue_outbound W sender first message s of
                            (Err e, s1) \<Rightarrow> (failed (fault_text e), s1)
                          | (Ok (mid, oid), s1) \<Rightarrow>
                              (case enqueue_rest W mid sender rest [oid] s1 of
                                 (Err e, s2) \<Rightarrow> (failed (fault_text e), s2)
                               | (Ok ids, s2) \<Rightarrow>
                                   (reply 200 \<lparr>sent_message_id = mid, sent_outbound_ids = ids\<rparr>, s2))))))"

section \<open>Messages of a mailbox\<close>

datatype MessageDirection = Dir_Both | Dir_Inbound | Dir_Outbound

record MessageDTO =
  msg_id :: row_id
  msg_direction :: "string option"
  msg_mail_from :: string
  msg_subject :: "string option"
  msg_message_id_header :: "string option"
  msg_content_type :: "string option"
  msg_from_address :: "string option"
  msg_to :: "string list"
  msg_cc :: "string list"
  msg_bcc :: "string list"
  msg_created_at :: string
  msg_updated_at :: string

definition MessageDTO_from :: "('s, 'z) toasty_scheme \<Rightarrow> Message \<Rightarrow> MessageDTO" where
  "MessageDTO_from T m =
     \<lparr>msg_id = message_id m, msg_direction = None, msg_mail_from = message_mail_from m,
      msg_subject = message_subject m, msg_message_id_header = message_id_header m,
      msg_content_type = message_content_type m, msg_from_address = message_from_address m,
      msg_to = message_to m, msg_cc = message_cc m, msg_bcc = message_bcc m,
      msg_created_at = Timestamp_to_string T (message_created_at m),
      msg_updated_at = Timestamp_to_string T (message_updated_at m)\<rparr>"

record ListMessagesQuery =
  query_direction :: "MessageDirection option"
  query_limit :: "usize option"
  query_offset :: "usize option"

text \<open>
  The query string as it arrives, and its decoding: a direction is spelt as its variant is, a number
  as \<open>usize::from_str\<close> reads it; one value that does not decode fails the whole query.
\<close>

record raw_query =
  raw_direction :: "string option"
  raw_limit :: "string option"
  raw_offset :: "string option"

definition parse_usize :: "string \<Rightarrow> usize option" where
  "parse_usize s = map_option of_nat (parse_unsigned (2 ^ 64) s)"

definition MessageDirection_decode :: "string \<Rightarrow> MessageDirection option" where
  "MessageDirection_decode s =
     (if s = ''Both'' then Some Dir_Both
      else if s = ''Inbound'' then Some Dir_Inbound
      else if s = ''Outbound'' then Some Dir_Outbound
      else None)"

definition decode_opt :: "(string \<Rightarrow> 'a option) \<Rightarrow> string option \<Rightarrow> 'a option option" where
  "decode_opt f x = (case x of None \<Rightarrow> Some None | Some raw \<Rightarrow> map_option Some (f raw))"

definition parse_queries :: "raw_query \<Rightarrow> ListMessagesQuery option" where
  "parse_queries q =
     Option.bind (decode_opt MessageDirection_decode (raw_direction q)) (\<lambda>d.
     Option.bind (decode_opt parse_usize (raw_limit q)) (\<lambda>l.
     Option.bind (decode_opt parse_usize (raw_offset q)) (\<lambda>off.
       Some \<lparr>query_direction = d, query_limit = l, query_offset = off\<rparr>)))"

definition ensure_mailbox_exists :: "('s, 'z) toasty_scheme \<Rightarrow> string \<Rightarrow> 's \<Rightarrow> 'a response option" where
  "ensure_mailbox_exists T i s =
     (case Mailbox_get_by_id T (to_lowercase i) s of
        Ok _ \<Rightarrow> None
      | Err _ \<Rightarrow> Some (missing ''mailbox'' i))"

text \<open>Rows in order: the ids met, and for each id the direction of the last row that has it.\<close>

definition note_rows :: "('r \<Rightarrow> row_id) \<Rightarrow> string \<Rightarrow> 'r list \<Rightarrow>
   row_id list \<times> (row_id \<rightharpoonup> string) \<Rightarrow> row_id list \<times> (row_id \<rightharpoonup> string)" where
  "note_rows mid dir rows acc =
     fold (\<lambda>row (ids, dirs). (ids @ [mid row], dirs(mid row \<mapsto> dir))) rows acc"

fun load_messages ::
  "('s, 'z) toasty_scheme \<Rightarrow> (row_id \<rightharpoonup> string) \<Rightarrow> row_id list \<Rightarrow> 's \<Rightarrow> MessageDTO list" where
  "load_messages T dirs [] s = []"
| "load_messages T dirs (i # is) s =
     (case Message_get_by_id T i s of
        Ok m \<Rightarrow> (MessageDTO_from T m)\<lparr>msg_direction := dirs i\<rparr> # load_messages T dirs is s
      | Err _ \<Rightarrow> load_messages T dirs is s)"

definition load_mailbox_messages ::
  "('s, 'z) toasty_scheme \<Rightarrow> string \<Rightarrow> MessageDirection option \<Rightarrow> 's \<Rightarrow>
   (MessageDTO list, db_error) result" where
  "load_mailbox_messages T i direction s =
     (let want_in = (direction \<noteq> Some Dir_Outbound);
          want_out = (direction \<noteq> Some Dir_Inbound);
          key = to_lowercase i
      in case (if want_in then
                 (case Inbound_filter_rcpt T key s of
                    Err e \<Rightarrow> Err e
                  | Ok rows \<Rightarrow> Ok (note_rows inbound_message_id ''inbound'' rows ([], Map.empty)))
               else Ok ([], Map.empty)) of
           Err e \<Rightarrow> Err e
         | Ok acc \<Rightarrow>
             (case (if want_out then
                      (case Outbound_filter_sender T key s of
                         Err e \<Rightarrow> Err e
                       | Ok rows \<Rightarrow> Ok (note_rows outbound_message_id ''outbound'' rows acc))
                    else Ok acc) of
                Err e \<Rightarrow> Err e
              | Ok (ids, dirs) \<Rightarrow> Ok (load_messages T dirs (remdups_adj (sort ids)) s)))"

definition messages_page ::
  "('s, 'z) toasty_scheme \<Rightarrow> string \<Rightarrow> MessageDirection option \<Rightarrow> usize \<Rightarrow> usize \<Rightarrow> 's \<Rightarrow>
   MessageDTO Page response" where
  "messages_page T i direction limit offset s =
     (case ensure_mailbox_exists T i s of
        Some r \<Rightarrow> r
      | None \<Rightarrow>
          (case load_mailbox_messages T i direction s of
             Err e \<Rightarrow> failed e
           | Ok items \<Rightarrow> reply 200 (from_all items limit offset)))"

text \<open>A query that decodes is used as it is; one that does not falls back to the shared reading of the page.\<close>

definition list_mailbox_messages ::
  "('s, 'z) toasty_scheme \<Rightarrow> string option \<Rightarrow> raw_query \<Rightarrow> 's \<Rightarrow> MessageDTO Page response" where
  "list_mailbox_messages T param q s =
     (let i = unwrap_or [] param;
          query = parse_queries q;
          direction = Option.bind query query_direction;
          (limit, offset) =
            (case query of
               Some p \<Rightarrow> (unwrap_or DEFAULT_PAGE_LIMIT (query_limit p), unwrap_or 0 (query_offset p))
             | None \<Rightarrow> page_params (Option.bind (raw_limit q) parse_usize)
                         (Option.bind (raw_offset q) parse_usize))
      in messages_page T i direction limit offset s)"

definition list_mailbox_inbox ::
  "('s, 'z) toasty_scheme \<Rightarrow> string option \<Rightarrow> usize option \<Rightarrow> usize option \<Rightarrow> 's \<Rightarrow>
   MessageDTO Page response" where
  "list_mailbox_inbox T param limit_param offset_param s =
     (case page_params limit_param offset_param of (limit, offset) \<Rightarrow>
        messages_page T (unwrap_or [] param) (Some Dir_Inbound) limit offset s)"

definition list_mailbox_sent ::
  "('s, 'z) toasty_scheme \<Rightarrow> string option \<Rightarrow> usize option \<Rightarrow> usize option \<Rightarrow> 's \<Rightarrow>
   MessageDTO Page response" where
  "list_mailbox_sent T param limit_param offset_param s =
     (case page_params limit_param offset_param of (limit, offset) \<Rightarrow>
        messages_page T (unwrap_or [] param) (Some Dir_Outbound) limit offset s)"

section \<open>One message\<close>

definition get_message ::
  "('s, 'z) toasty_scheme \<Rightarrow> row_id option \<Rightarrow> 's \<Rightarrow> MessageDTO response" where
  "get_message T param s =
     (let i = unwrap_or 0 param
      in case Message_get_by_id T i s of
           Ok m \<Rightarrow> reply 200 (MessageDTO_from T m)
         | Err _ \<Rightarrow> missing ''message'' (dec i))"

definition delete_message ::
  "('s, 'z) toasty_scheme \<Rightarrow> row_id option \<Rightarrow> 's \<Rightarrow> unit response \<times> 's" where
  "delete_message T param s =
     (let i = unwrap_or 0 param
      in if \<not> is_ok (Message_get_by_id T i s) then (missing ''message'' (dec i), s)
         else case Inbound_delete_message T i s of
             (Err e, s1) \<Rightarrow> (failed e, s1)
           | (Ok _, s1) \<Rightarrow>
               (case Outbound_delete_message T i s1 of
                  (Err e, s2) \<Rightarrow> (failed e, s2)
                | (Ok _, s2) \<Rightarrow>
                    (case Message_delete T i s2 of
                       (Ok _, s3) \<Rightarrow> (reply 200 (), s3)
                     | (Err e, s3) \<Rightarrow> (failed e, s3))))"

section \<open>Health\<close>

record HealthInfo =
  health_service :: string
  health_version :: string
  health_status :: string

text \<open>The version is the package's.\<close>

definition health :: "HealthInfo response" where
  "health = reply 200
     \<lparr>health_service = ''zonemail'', health_version = ''0.1.0'', health_status = ''healthy''\<rparr>"

section \<open>Sending: lemmas\<close>

lemma first_seen_set: "set (first_seen seen rs) = set rs - seen"
  by (induction rs arbitrary: seen) auto

lemma first_seen_distinct: "distinct (first_seen seen rs)"
  by (induction rs arbitrary: seen) (auto simp: first_seen_set)

lemma first_seen_subseq: "subseq (first_seen seen rs) rs"
  by (induction rs arbitrary: seen) auto

lemma send_recipients_Nil: "send_recipients b = [] \<longleftrightarrow> send_to_list b @ send_cc b @ send_bcc b = []"
  using first_seen_set [of "{}" "send_to_list b @ send_cc b @ send_bcc b"]
  by (auto simp: send_recipients_def)

text \<open>The rows with the given keys carry the given columns.\<close>

definition jobs_at :: "(row_id \<rightharpoonup> Outbound) \<Rightarrow> row_id list \<Rightarrow> outbound_fields list \<Rightarrow> bool" where
  "jobs_at jobs ids qs \<longleftrightarrow>
     list_all2 (\<lambda>i q. \<exists>j. jobs i = Some j \<and> outbound_id j = i \<and> outbound_fields.truncate j = q) ids qs"

lemma jobs_at_mono: "jobs_at t ids qs \<Longrightarrow> t \<subseteq>\<^sub>m u \<Longrightarrow> jobs_at u ids qs"
  unfolding jobs_at_def
  by (elim list_all2_mono exE) (metis domI map_le_def)

context mta
begin

lemma enqueue_rest_healthy:
  assumes "healthy s"
  shows "\<exists>new jobs s'. enqueue_rest W mid sender rs ids s = (Ok (ids @ new), s') \<and>
    jobs_added (t_outbound (view s)) (map (\<lambda>r. queued_job mid r sender) rs) jobs \<and>
    jobs_at jobs new (map (\<lambda>r. queued_job mid r sender) rs) \<and>
    view s' = (view s)\<lparr>t_outbound := jobs\<rparr> \<and> healthy s'"
  using assms
proof (induction rs arbitrary: s ids)
  case Nil
  then show ?case
    by (intro exI [of _ "[]"] exI [of _ "t_outbound (view s)"] exI [of _ s]) (simp add: jobs_at_def)
next
  case (Cons r rs)
  let ?q = "queued_job mid r sender"
  obtain j s1 where j: "Outbound_create W ?q s = (Ok j, s1)" "outbound_fields.truncate j = ?q"
    "t_outbound (view s) (outbound_id j) = None"
    "view s1 = t_outbound_update (\<lambda>t. t(outbound_id j \<mapsto> j)) (view s)" "healthy s1"
    using outbound.create_success [OF Cons.prems, of ?q] by blast
  from Cons.IH [OF j(5), of "ids @ [outbound_id j]"] obtain new jobs s' where
    n: "enqueue_rest W mid sender rs (ids @ [outbound_id j]) s1 = (Ok ((ids @ [outbound_id j]) @ new), s')"
      "jobs_added (t_outbound (view s1)) (map (\<lambda>r. queued_job mid r sender) rs) jobs"
      "jobs_at jobs new (map (\<lambda>r. queued_job mid r sender) rs)"
      "view s' = (view s1)\<lparr>t_outbound := jobs\<rparr>" "healthy s'" by blast
  have "jobs (outbound_id j) = Some j"
    using rows_added_mono [OF n(2)] j(4) by (auto simp: map_le_def)
  then have at: "jobs_at jobs (outbound_id j # new) (map (\<lambda>r. queued_job mid r sender) (r # rs))"
    using n(3) j(2) by (simp add: jobs_at_def)
  have "jobs_added (t_outbound (view s)) (map (\<lambda>r. queued_job mid r sender) (r # rs)) jobs"
    using n(2) j(2-4) by auto
  moreover have "enqueue_rest W mid sender (r # rs) ids s = (Ok (ids @ outbound_id j # new), s')"
    using j(1) n(1) by (simp add: enqueue_forward_def)
  moreover have "view s' = (view s)\<lparr>t_outbound := jobs\<rparr>" using n(4) j(4) by simp
  ultimately show ?case using at n(5) by blast
qed

lemma enqueue_rest_view:
  assumes "enqueue_rest W mid sender rs ids s = (x, s')"
  shows "\<exists>qs jobs. subseq qs (map (\<lambda>r. queued_job mid r sender) rs) \<and>
    jobs_added (t_outbound (view s)) qs jobs \<and> view s' = (view s)\<lparr>t_outbound := jobs\<rparr>"
  using assms
proof (induction rs arbitrary: s ids)
  case Nil
  then show ?case by (intro exI [of _ "[]"] exI [of _ "t_outbound (view s)"]) simp
next
  case (Cons r rs)
  obtain y s1 where e: "enqueue_forward W mid sender r s = (y, s1)"
    by (cases "enqueue_forward W mid sender r s")
  have "\<exists>q u. subseq q [queued_job mid r sender] \<and> jobs_added (t_outbound (view s)) q u \<and>
      view s1 = (view s)\<lparr>t_outbound := u\<rparr>"
    using enqueue_forward_view [OF e]
  proof (elim disjE exE conjE)
    assume "view s1 = view s"
    then show ?thesis by (intro exI [of _ "[]"] exI [of _ "t_outbound (view s)"]) simp
  next
    fix j
    assume "outbound_fields.truncate j = queued_job mid r sender"
      "t_outbound (view s) (outbound_id j) = None"
      "view s1 = (view s)\<lparr>t_outbound := (t_outbound (view s))(outbound_id j \<mapsto> j)\<rparr>"
    then show ?thesis
      by (intro exI [of _ "[queued_job mid r sender]"]
          exI [of _ "(t_outbound (view s))(outbound_id j \<mapsto> j)"]) auto
  qed
  then obtain q u where q: "subseq q [queued_job mid r sender]" "jobs_added (t_outbound (view s)) q u"
    "view s1 = (view s)\<lparr>t_outbound := u\<rparr>" by blast
  show ?case
  proof (cases y)
    case (Inl f)
    with Cons.prems e q show ?thesis
      by (intro exI [of _ q] exI [of _ u]) (auto intro: subseq_order.trans [OF q(1)])
  next
    case (Inr i)
    with Cons.prems e have "enqueue_rest W mid sender rs (ids @ [i]) s1 = (x, s')" by simp
    from Cons.IH [OF this] obtain qs jobs where "subseq qs (map (\<lambda>r. queued_job mid r sender) rs)"
      "jobs_added (t_outbound (view s1)) qs jobs" "view s' = (view s1)\<lparr>t_outbound := jobs\<rparr>" by blast
    with q show ?thesis
      by (intro exI [of _ "q @ qs"] exI [of _ jobs])
        (auto simp: rows_added_append intro: list_emb_append_mono [OF q(1), of qs, simplified])
  qed
qed

end

context mta
begin

lemma enqueue_outbound_view:
  assumes "enqueue_outbound W sender rc msg s = (x, s')"
  shows "\<exists>msgs qs jobs. t_messages (view s) \<subseteq>\<^sub>m msgs \<and> jobs_added (t_outbound (view s)) qs jobs \<and>
    (\<forall>q \<in> set qs. \<exists>mid. q = queued_job mid rc sender \<and> mid \<in> dom msgs) \<and>
    (\<forall>mid oid. x = Ok (mid, oid) \<longrightarrow> mid \<in> dom msgs) \<and>
    view s' = (view s)\<lparr>t_messages := msgs, t_outbound := jobs\<rparr>"
proof -
  let ?f = "parsed_fields (parse_mail W (lm_formatted msg)) (unwrap_or [] (lm_envelope_from msg))
      (lm_formatted msg)"
  obtain y s1 where c: "Message_create W ?f s = (y, s1)" by (cases "Message_create W ?f s")
  show ?thesis
  proof (cases y)
    case (Inl e)
    with assms c message.create_Err [OF c [unfolded Inl]] show ?thesis
      by (intro exI [of _ "t_messages (view s)"] exI [of _ "[]"] exI [of _ "t_outbound (view s)"])
        (auto simp: enqueue_outbound_def Let_def)
  next
    case (Inr m)
    let ?msgs = "(t_messages (view s))(message_id m \<mapsto> m)"
    from message.create_Ok [OF c [unfolded Inr]]
    have m: "t_messages (view s) \<subseteq>\<^sub>m ?msgs" "view s1 = (view s)\<lparr>t_messages := ?msgs\<rparr>"
      by (cases "view s"; auto simp: map_le_def)+
    let ?q = "queued_job (message_id m) rc sender"
    obtain z s2 where d: "Outbound_create W ?q s1 = (z, s2)" by (cases "Outbound_create W ?q s1")
    show ?thesis
    proof (cases z)
      case z: (Inl e)
      have "view s2 = view s1" by (rule outbound.create_Err [OF d [unfolded z]])
      with assms c Inr d z m show ?thesis
        by (intro exI [of _ ?msgs] exI [of _ "[]"] exI [of _ "t_outbound (view s)"])
          (auto simp: enqueue_outbound_def Let_def)
    next
      case z: (Inr j)
      from outbound.create_Ok [OF d [unfolded z]] m(2)
      have "outbound_fields.truncate j = ?q" "t_outbound (view s) (outbound_id j) = None"
        "view s2 = (view s)\<lparr>t_messages := ?msgs, t_outbound := (t_outbound (view s))(outbound_id j \<mapsto> j)\<rparr>"
        by (cases "view s"; simp)+
      with assms c Inr d z m(1) show ?thesis
        by (intro exI [of _ ?msgs] exI [of _ "[?q]"] exI [of _ "(t_outbound (view s))(outbound_id j \<mapsto> j)"])
          (auto simp: enqueue_outbound_def Let_def)
    qed
  qed
qed

text \<open>A send is refused before it touches the database, or enqueues for the first recipient and then the rest.\<close>

lemma send_email_paths:
  assumes "send_email W L (Some b) s = (r, s')"
  obtains (refused) "s' = s"
  | (unsent) first msg f where "is_ok (Mailbox_get_by_id W (send_from b) s)"
      "enqueue_outbound W (send_from b) first msg s = (Err f, s')"
  | (sent) first rest msg mid oid s1 y where "is_ok (Mailbox_get_by_id W (send_from b) s)"
      "enqueue_outbound W (send_from b) first msg s = (Ok (mid, oid), s1)"
      "enqueue_rest W mid (send_from b) rest [oid] s1 = (y, s')"
proof (cases "\<exists>first rest msg. send_recipients b = first # rest \<and> is_ok (Mailbox_get_by_id W (send_from b) s) \<and>
    build_send_message L (send_from b) (send_to_list b) (send_cc b) (send_bcc b) (send_subject b)
      (send_body b) (send_content_type b) = Ok msg")
  case False
  then show thesis using assms
    by (intro refused) (auto simp: send_email_def Let_def split: list.splits if_splits sum.splits)
next
  case True
  then obtain first rest msg where sr: "send_recipients b = first # rest"
    and mb: "is_ok (Mailbox_get_by_id W (send_from b) s)"
    and bm: "build_send_message L (send_from b) (send_to_list b) (send_cc b) (send_bcc b) (send_subject b)
      (send_body b) (send_content_type b) = Ok msg" by blast
  obtain x s1 where e: "enqueue_outbound W (send_from b) first msg s = (x, s1)"
    by (cases "enqueue_outbound W (send_from b) first msg s")
  show thesis
  proof (cases x)
    case (Inl f)
    with assms sr mb bm e show thesis by (intro unsent [OF mb]) (auto simp: send_email_def)
  next
    case (Inr p)
    obtain mid oid where p: "p = (mid, oid)" by (cases p)
    obtain y s2 where er: "enqueue_rest W mid (send_from b) rest [oid] s1 = (y, s2)"
      by (cases "enqueue_rest W mid (send_from b) rest [oid] s1")
    then have "s' = s2" using assms sr mb bm e Inr p by (auto simp: send_email_def split: sum.splits)
    with e er Inr p show thesis by (intro sent [OF mb]) simp_all
  qed
qed

text \<open>Whatever happens, a send only adds a message and jobs of the sender that point to a message.\<close>

lemma send_email_view:
  assumes "send_email W L (Some b) s = (r, s')"
  shows "\<exists>msgs qs jobs. t_messages (view s) \<subseteq>\<^sub>m msgs \<and> jobs_added (t_outbound (view s)) qs jobs \<and>
    (\<forall>q \<in> set qs. \<exists>mid rc. q = queued_job mid rc (send_from b) \<and> mid \<in> dom msgs \<and>
      send_from b \<in> dom (t_mailboxes (view s))) \<and>
    view s' = (view s)\<lparr>t_messages := msgs, t_outbound := jobs\<rparr>"
  using assms
proof (cases rule: send_email_paths)
  case refused
  then show ?thesis
    by (intro exI [of _ "t_messages (view s)"] exI [of _ "[]"] exI [of _ "t_outbound (view s)"]) simp
next
  case (unsent first msg f)
  have fr: "send_from b \<in> dom (t_mailboxes (view s))" using mailbox.is_ok_getD [OF unsent(1)] by auto
  from enqueue_outbound_view [OF unsent(2)] fr show ?thesis by blast
next
  case (sent first rest msg mid oid s1 y)
  have fr: "send_from b \<in> dom (t_mailboxes (view s))" using mailbox.is_ok_getD [OF sent(1)] by auto
  from enqueue_outbound_view [OF sent(2)] obtain msgs qs jobs where
    v: "t_messages (view s) \<subseteq>\<^sub>m msgs" "jobs_added (t_outbound (view s)) qs jobs"
      "\<forall>q \<in> set qs. \<exists>mid. q = queued_job mid first (send_from b) \<and> mid \<in> dom msgs" "mid \<in> dom msgs"
      "view s1 = (view s)\<lparr>t_messages := msgs, t_outbound := jobs\<rparr>" by blast
  from enqueue_rest_view [OF sent(3)] obtain qs' jobs' where
    q: "subseq qs' (map (\<lambda>r. queued_job mid r (send_from b)) rest)"
      "jobs_added (t_outbound (view s1)) qs' jobs'" "view s' = (view s1)\<lparr>t_outbound := jobs'\<rparr>" by blast
  have "\<forall>q \<in> set qs'. \<exists>rc. q = queued_job mid rc (send_from b)" using subseq_set [OF q(1)] by auto
  then have "\<forall>q \<in> set (qs @ qs'). \<exists>mid rc. q = queued_job mid rc (send_from b) \<and> mid \<in> dom msgs \<and>
      send_from b \<in> dom (t_mailboxes (view s))"
    using v(3,4) fr by (simp only: set_append ball_Un) blast
  with v q show ?thesis
    by (intro exI [of _ msgs] exI [of _ "qs @ qs'"] exI [of _ jobs'])
      (intro conjI; auto simp: rows_added_append)
qed

end

context mta
begin

lemma mailbox_known: "is_ok (Mailbox_get_by_id W a s) \<Longrightarrow> a \<in> dom (t_mailboxes (view s))"
  using mailbox.is_ok_getD by auto

lemma mailbox_found: "healthy s \<Longrightarrow> a \<in> dom (t_mailboxes (view s)) \<Longrightarrow> is_ok (Mailbox_get_by_id W a s)"
  using mailbox.is_ok_get by auto

lemma send_email_healthy:
  assumes "healthy s" and "send_email W L (Some b) s = (r, s')"
    and "send_to_list b @ send_cc b @ send_bcc b \<noteq> []" and "send_from b \<in> dom (t_mailboxes (view s))"
    and "build_send_message L (send_from b) (send_to_list b) (send_cc b) (send_bcc b) (send_subject b)
      (send_body b) (send_content_type b) = Ok msg"
  shows "\<exists>m ids jobs. r = reply 200 \<lparr>sent_message_id = message_id m, sent_outbound_ids = ids\<rparr> \<and>
    t_messages (view s) (message_id m) = None \<and> message_raw m = lm_formatted msg \<and>
    jobs_added (t_outbound (view s))
      (map (\<lambda>rc. queued_job (message_id m) rc (send_from b)) (send_recipients b)) jobs \<and>
    jobs_at jobs ids (map (\<lambda>rc. queued_job (message_id m) rc (send_from b)) (send_recipients b)) \<and>
    view s' = (view s)\<lparr>t_messages := (t_messages (view s))(message_id m \<mapsto> m), t_outbound := jobs\<rparr>"
proof -
  obtain first rest where sr: "send_recipients b = first # rest"
    using assms(3) send_recipients_Nil [of b] by (cases "send_recipients b") auto
  have mb: "is_ok (Mailbox_get_by_id W (send_from b) s)"
    using assms(4) mailbox.is_ok_get [OF assms(1), of "send_from b"] by auto
  from enqueue_outbound_healthy [OF assms(1), of "send_from b" first msg] obtain m j s1 where
    e: "enqueue_outbound W (send_from b) first msg s = (Ok (message_id m, outbound_id j), s1)"
      "t_messages (view s) (message_id m) = None" "t_outbound (view s) (outbound_id j) = None"
      "message_raw m = lm_formatted msg"
      "outbound_fields.truncate j = queued_job (message_id m) first (send_from b)"
      "view s1 = (view s)\<lparr>t_messages := (t_messages (view s))(message_id m \<mapsto> m),
        t_outbound := (t_outbound (view s))(outbound_id j \<mapsto> j)\<rparr>" "healthy s1"
    by (elim exE conjE) (rule that)
  let ?q = "\<lambda>rc. queued_job (message_id m) rc (send_from b)"
  from enqueue_rest_healthy [OF e(7), of "message_id m" "send_from b" rest "[outbound_id j]"]
  obtain new jobs s2 where
    n: "enqueue_rest W (message_id m) (send_from b) rest [outbound_id j] s1 = (Ok ([outbound_id j] @ new), s2)"
      "jobs_added (t_outbound (view s1)) (map ?q rest) jobs" "jobs_at jobs new (map ?q rest)"
      "view s2 = (view s1)\<lparr>t_outbound := jobs\<rparr>" by blast
  have "jobs (outbound_id j) = Some j"
    using rows_added_mono [OF n(2)] e(6) by (auto simp: map_le_def)
  then have "jobs_at jobs (outbound_id j # new) (map ?q (send_recipients b))"
    using n(3) e(5) sr by (simp add: jobs_at_def)
  moreover have "jobs_added (t_outbound (view s)) (map ?q (send_recipients b)) jobs"
    using n(2) e(3,5,6) sr by (simp del: fun_upd_apply) blast
  moreover have "r = reply 200 \<lparr>sent_message_id = message_id m, sent_outbound_ids = outbound_id j # new\<rparr>"
    "s' = s2"
    using assms(2,5) sr mb e(1) n(1) by (simp_all add: send_email_def)
  moreover have "view s2 = (view s)\<lparr>t_messages := (t_messages (view s))(message_id m \<mapsto> m), t_outbound := jobs\<rparr>"
    using n(4) e(6) by simp
  ultimately show ?thesis using e(2,4)
    by (intro exI [of _ m] exI [of _ "outbound_id j # new"] exI [of _ jobs]) simp
qed

end


definition plain_lettre :: "(string, string) lettre" where
  "plain_lettre = \<lparr>LettreMailbox_parse = Ok, ContentType_parse = Ok,
     LettreMessage_build = (\<lambda>d. Ok \<lparr>lm_envelope_from = Some (draft_from d), lm_formatted = [7]\<rparr>)\<rparr>"

definition example_send :: SendEmail where
  "example_send = \<lparr>send_from = ''a@x.org'', send_to_list = [''u@y.org'', ''v@y.org''], send_cc = [''u@y.org''],
     send_bcc = [], send_subject = None, send_body = ''hi'', send_content_type = None\<rparr>"


section \<open>Listing: lemmas\<close>

lemma note_rows_eq:
  "note_rows mid dir rows (ids, dirs) =
     (ids @ map mid rows, \<lambda>x. if x \<in> mid ` set rows then Some dir else dirs x)"
  by (induction rows arbitrary: ids dirs) (auto simp: note_rows_def fun_eq_iff)

lemma sorted_remdups_adj_strict: "sorted xs \<Longrightarrow> sorted_wrt (<) (remdups_adj (xs :: nat list))"
proof (induction xs rule: remdups_adj.induct)
  case (3 x y xs)
  then show ?case by (cases "x = y") auto
qed simp_all

lemma sorted_wrt_map_filter:
  "sorted_wrt R xs \<Longrightarrow> (\<And>x y. f x = Some y \<Longrightarrow> g y = x) \<Longrightarrow> sorted_wrt (\<lambda>a b. R (g a) (g b)) (List.map_filter f xs)"
proof (induction xs)
  case (Cons x xs)
  show ?case
  proof (cases "f x")
    case None
    with Cons show ?thesis by (simp add: map_filter_simps)
  next
    case (Some y)
    have "R (g y) (g z)" if "z \<in> set (List.map_filter f xs)" for z
      using that Cons.prems Some by (auto simp: map_filter_def)
    with Cons Some show ?thesis by (simp add: map_filter_simps)
  qed
qed (simp add: map_filter_simps)

text \<open>Which messages belong to a mailbox, and which way the listing says they went.\<close>

definition received_by :: "tables \<Rightarrow> string \<Rightarrow> row_id \<Rightarrow> bool" where
  "received_by t a mid \<longleftrightarrow> (\<exists>l \<in> ran (t_inbound t). inbound_rcpt_to l = a \<and> inbound_message_id l = mid)"

definition sent_by :: "tables \<Rightarrow> string \<Rightarrow> row_id \<Rightarrow> bool" where
  "sent_by t a mid \<longleftrightarrow> (\<exists>j \<in> ran (t_outbound t). outbound_sender_id j = a \<and> outbound_message_id j = mid)"

definition shown_as :: "tables \<Rightarrow> string \<Rightarrow> MessageDirection option \<Rightarrow> row_id \<Rightarrow> string option" where
  "shown_as t a dir mid =
     (if dir \<noteq> Some Dir_Inbound \<and> sent_by t a mid then Some ''outbound''
      else if dir \<noteq> Some Dir_Outbound \<and> received_by t a mid then Some ''inbound''
      else None)"

lemma in_set_map_filter: "y \<in> set (List.map_filter f xs) \<longleftrightarrow> (\<exists>x \<in> set xs. f x = Some y)"
  by (induction xs) (auto simp: map_filter_simps split: option.splits)

lemma load_messages_eq:
  "load_messages T dirs ids s = List.map_filter (\<lambda>i. map_option
     (\<lambda>m. (MessageDTO_from T m)\<lparr>msg_direction := dirs i\<rparr>) (result_ok (Message_get_by_id T i s))) ids"
  by (induction ids) (auto simp: map_filter_simps split: sum.splits)

context store
begin

lemma collect_links:
  assumes "healthy s"
  shows "\<exists>ids dirs. load_mailbox_messages T i dir s = Ok (load_messages T dirs (remdups_adj (sort ids)) s) \<and>
    (\<forall>x. dirs x = shown_as (view s) (to_lowercase i) dir x) \<and>
    (\<forall>x. x \<in> set ids \<longleftrightarrow> shown_as (view s) (to_lowercase i) dir x \<noteq> None)"
proof -
  let ?k = "to_lowercase i"
  obtain ins where ins: "Inbound_filter_rcpt T ?k s = Ok ins"
    using inbound.query_complete [OF assms, of ?k] by (auto simp: is_ok_iff)
  obtain outs where outs: "Outbound_filter_sender T ?k s = Ok outs"
    using outbound_sender.query_complete [OF assms, of ?k] by (auto simp: is_ok_iff)
  have r: "received_by (view s) ?k x \<longleftrightarrow> x \<in> inbound_message_id ` set ins" for x
    using inbound.query_set [OF ins] by (auto simp: received_by_def)
  have o': "sent_by (view s) ?k x \<longleftrightarrow> x \<in> outbound_message_id ` set outs" for x
    using outbound_sender.query_set [OF outs] by (auto simp: sent_by_def)
  consider "dir = Some Dir_Inbound" | "dir = Some Dir_Outbound"
    | "dir \<noteq> Some Dir_Inbound" "dir \<noteq> Some Dir_Outbound" by blast
  then show ?thesis
  proof cases
    case 1
    then show ?thesis using ins
      by (intro exI conjI) (auto simp: load_mailbox_messages_def note_rows_eq shown_as_def r)
  next
    case 2
    then show ?thesis using outs
      by (intro exI conjI) (auto simp: load_mailbox_messages_def note_rows_eq shown_as_def o')
  next
    case 3
    then show ?thesis using ins outs
      by (intro exI conjI) (auto simp: load_mailbox_messages_def note_rows_eq shown_as_def r o')
  qed
qed

lemma load_mailbox_messages_exact:
  assumes "healthy s"
  shows "\<exists>items. load_mailbox_messages T i dir s = Ok items \<and>
    sorted_wrt (\<lambda>a b. msg_id a < msg_id b) items \<and>
    set items = {(MessageDTO_from T m)\<lparr>msg_direction := shown_as (view s) (to_lowercase i) dir (message_id m)\<rparr> | m.
      m \<in> ran (t_messages (view s)) \<and> shown_as (view s) (to_lowercase i) dir (message_id m) \<noteq> None}"
proof -
  from collect_links [OF assms, of i dir] obtain ids dirs where
    l: "load_mailbox_messages T i dir s = Ok (load_messages T dirs (remdups_adj (sort ids)) s)"
    and dirs: "\<And>x. dirs x = shown_as (view s) (to_lowercase i) dir x"
    and ids: "\<And>x. x \<in> set ids \<longleftrightarrow> shown_as (view s) (to_lowercase i) dir x \<noteq> None" by blast
  let ?f = "\<lambda>x. map_option (\<lambda>m. (MessageDTO_from T m)\<lparr>msg_direction := dirs x\<rparr>) (result_ok (Message_get_by_id T x s))"
  have get: "result_ok (Message_get_by_id T x s) = t_messages (view s) x" for x
    using message.get_sound [of x s] message.get_complete [OF assms, of x] message.get_Err [of s x]
    by (cases "t_messages (view s) x"; cases "Message_get_by_id T x s") auto
  have key: "msg_id y = x" if "?f x = Some y" for x y
    using that message_keyed [of s x] by (auto simp: get MessageDTO_from_def)
  have "sorted_wrt (\<lambda>a b. msg_id a < msg_id b) (load_messages T dirs (remdups_adj (sort ids)) s)"
    unfolding load_messages_eq
    by (rule sorted_wrt_map_filter [OF sorted_remdups_adj_strict key]) simp_all
  moreover have "set (load_messages T dirs (remdups_adj (sort ids)) s) =
      {(MessageDTO_from T m)\<lparr>msg_direction := shown_as (view s) (to_lowercase i) dir (message_id m)\<rparr> | m.
      m \<in> ran (t_messages (view s)) \<and> shown_as (view s) (to_lowercase i) dir (message_id m) \<noteq> None}"
    (is "?L = ?R")
  proof (intro equalityI subsetI)
    fix y assume "y \<in> ?L"
    then obtain x m where x: "x \<in> set ids" "t_messages (view s) x = Some m"
      "y = (MessageDTO_from T m)\<lparr>msg_direction := dirs x\<rparr>"
      unfolding load_messages_eq by (auto simp: in_set_map_filter get)
    with message_keyed [OF x(2)] show "y \<in> ?R" by (auto simp: ids dirs intro!: exI [of _ m] ranI)
  next
    fix y assume "y \<in> ?R"
    then obtain m x where m: "t_messages (view s) x = Some m"
      "shown_as (view s) (to_lowercase i) dir (message_id m) \<noteq> None"
      "y = (MessageDTO_from T m)\<lparr>msg_direction := shown_as (view s) (to_lowercase i) dir (message_id m)\<rparr>"
      by (auto simp: ran_def)
    with message_keyed [OF m(1)] show "y \<in> ?L"
      unfolding load_messages_eq by (auto simp: in_set_map_filter get ids dirs intro!: bexI [of _ x])
  qed
  ultimately show ?thesis using l by blast
qed

lemma messages_page_exact:
  assumes "healthy s"
  shows "if to_lowercase a \<in> dom (t_mailboxes (view s))
    then \<exists>items. (\<forall>limit offset. messages_page T a dir limit offset s = reply 200 (from_all items limit offset)) \<and>
      sorted_wrt (\<lambda>x y. msg_id x < msg_id y) items \<and>
      set items = {(MessageDTO_from T m)\<lparr>msg_direction := shown_as (view s) (to_lowercase a) dir (message_id m)\<rparr> | m.
        m \<in> ran (t_messages (view s)) \<and> shown_as (view s) (to_lowercase a) dir (message_id m) \<noteq> None}
    else \<forall>limit offset. status_code (messages_page T a dir limit offset s) = 404"
proof -
  have read: "is_ok (Mailbox_get_by_id T (to_lowercase a) s) \<longleftrightarrow> to_lowercase a \<in> dom (t_mailboxes (view s))"
    using mailbox_lookup(1) [OF assms] by auto
  show ?thesis
  proof (cases "to_lowercase a \<in> dom (t_mailboxes (view s))")
    case True
    with read have "(ensure_mailbox_exists T a s :: MessageDTO Page response option) = None"
      by (auto simp: ensure_mailbox_exists_def is_ok_iff)
    moreover from load_mailbox_messages_exact [OF assms, of a dir] obtain items where
      "load_mailbox_messages T a dir s = Ok items" "sorted_wrt (\<lambda>x y. msg_id x < msg_id y) items"
      "set items = {(MessageDTO_from T m)\<lparr>msg_direction := shown_as (view s) (to_lowercase a) dir (message_id m)\<rparr> | m.
        m \<in> ran (t_messages (view s)) \<and> shown_as (view s) (to_lowercase a) dir (message_id m) \<noteq> None}" by blast
    ultimately show ?thesis using True
      by (simp only: if_True) (intro exI [of _ items], simp add: messages_page_def)
  next
    case False
    with read obtain e where "Mailbox_get_by_id T (to_lowercase a) s = Err e"
      by (cases "Mailbox_get_by_id T (to_lowercase a) s") auto
    then show ?thesis using False
      by (simp add: messages_page_def ensure_mailbox_exists_def missing_def)
  qed
qed

end

section \<open>Listing: properties\<close>

text \<open>
  C29. The messages of a mailbox: for an address that is provisioned in lower case, a listing pages
  through exactly the stored messages that a link shows as received by it or a job as sent by it, as
  far as the direction asks for them, each once and by ascending id; a message that is both is shown
  as sent. For any other address the answer is 404.
\<close>

theorem mailbox_listing_exact:
  assumes "store T view snapshot healthy" and "healthy s"
  shows "if to_lowercase a \<in> dom (t_mailboxes (view s))
    then \<exists>items. (\<forall>limit offset. messages_page T a dir limit offset s = reply 200 (from_all items limit offset)) \<and>
      sorted_wrt (\<lambda>x y. msg_id x < msg_id y) items \<and>
      set items = {(MessageDTO_from T m)\<lparr>msg_direction := shown_as (view s) (to_lowercase a) dir (message_id m)\<rparr> | m.
        m \<in> ran (t_messages (view s)) \<and> shown_as (view s) (to_lowercase a) dir (message_id m) \<noteq> None}
    else \<forall>limit offset. status_code (messages_page T a dir limit offset s) = 404"
  using assms by (rule store.messages_page_exact)

definition linked_state :: mem where
  "linked_state = mail_state\<lparr>m_messages := [example_message], m_inbound := [
     \<lparr>inbound_message_id = 7, inbound_rcpt_to = ''a@x.org'', inbound_id = 1, inbound_created_at = 0,
      inbound_updated_at = 0\<rparr>]\<rparr>"

lemma linked_state_up [simp]: "mem_up linked_state"
  by (simp add: linked_state_def)

lemma linked_state_mailbox: "''a@x.org'' \<in> dom (t_mailboxes (mem_view linked_state))"
  by (simp add: linked_state_def mail_state_def example_mailbox_def dom_def)

theorem mailbox_listing_exact_witness:
  "\<exists>items. messages_page mem_ops ''A@x.org'' None 50 0 linked_state = reply 200 (from_all items 50 0) \<and>
    (MessageDTO_from mem_ops example_message)\<lparr>msg_direction := Some ''inbound''\<rparr> \<in> set items"
proof -
  have l: "to_lowercase ''A@x.org'' = ''a@x.org''" by code_simp
  have "received_by (mem_view linked_state) ''a@x.org'' 7"
    by (auto simp: received_by_def linked_state_def ran_def intro!: exI [of _ 1])
  moreover have "\<not> sent_by (mem_view linked_state) ''a@x.org'' 7"
    by (auto simp: sent_by_def linked_state_def mail_state_def mem_empty_def mem_tables.defs no_rows_def ran_def)
  ultimately have "shown_as (mem_view linked_state) ''a@x.org'' None 7 = Some ''inbound''"
    by (simp add: shown_as_def)
  moreover have "example_message \<in> ran (t_messages (mem_view linked_state))"
    by (auto simp: linked_state_def example_message_def ran_def intro!: exI [of _ 7])
  moreover have "message_id example_message = 7" by (simp add: example_message_def)
  ultimately have in_set: "(MessageDTO_from mem_ops example_message)\<lparr>msg_direction := Some ''inbound''\<rparr> \<in>
      {(MessageDTO_from mem_ops m)\<lparr>msg_direction := shown_as (mem_view linked_state) ''a@x.org'' None (message_id m)\<rparr> | m.
        m \<in> ran (t_messages (mem_view linked_state)) \<and>
        shown_as (mem_view linked_state) ''a@x.org'' None (message_id m) \<noteq> None}"
    by (intro CollectI exI [of _ example_message]) simp
  from mailbox_listing_exact [OF mem.store_axioms linked_state_up, of "''A@x.org''" None]
  obtain items where "\<forall>limit offset. messages_page mem_ops ''A@x.org'' None limit offset linked_state =
      reply 200 (from_all items limit offset)"
    "set items = {(MessageDTO_from mem_ops m)\<lparr>msg_direction := shown_as (mem_view linked_state) ''a@x.org'' None (message_id m)\<rparr> | m.
        m \<in> ran (t_messages (mem_view linked_state)) \<and>
        shown_as (mem_view linked_state) ''a@x.org'' None (message_id m) \<noteq> None}"
    unfolding l if_P [OF linked_state_mailbox] by blast
  with in_set show ?thesis by (intro exI [of _ items]) (simp only: simp_thms)
qed

text \<open>
  The listing of all messages of a mailbox does not bound the page size, unlike every other
  listing: with a limit of 0 each page is empty and names its own offset as the next one, so a client
  that follows it never gets past the first message; and a limit above 200 is taken as it is.
\<close>

theorem messages_limit_unbounded:
  assumes "to_lowercase a \<in> dom (t_mailboxes (view s))" and "store T view snapshot healthy" and "healthy s"
    and "load_mailbox_messages T a None s = Ok items"
    and "raw_direction q = None" and "raw_offset q = None" and "raw_limit q = Some (dec (unat l))"
  shows "\<exists>p. list_mailbox_messages T (Some a) q s = reply 200 p \<and> page_limit p = l \<and>
    (l = 0 \<and> items \<noteq> [] \<longrightarrow> page_items p = [] \<and> page_next_offset p = Some 0) \<and>
    (length items \<le> unat l \<longrightarrow> page_items p = items)"
proof -
  have "(ensure_mailbox_exists T a s :: MessageDTO Page response option) = None"
    using store.mailbox_lookup(1) [OF assms(2,3), of "to_lowercase a"] assms(1)
    by (auto simp: ensure_mailbox_exists_def is_ok_iff)
  moreover have "unat l < 2 ^ 64" using unsigned_less [of l] by simp
  then have "parse_usize (dec (unat l)) = Some l" by (simp add: parse_usize_def parse_unsigned_dec)
  then have "parse_queries q = Some \<lparr>query_direction = None, query_limit = Some l, query_offset = None\<rparr>"
    using assms(5-7) by (simp add: parse_queries_def decode_opt_def)
  ultimately have "list_mailbox_messages T (Some a) q s = reply 200 (from_all items l 0)"
    using assms(4) by (simp add: list_mailbox_messages_def messages_page_def)
  then show ?thesis
    by (intro exI [of _ "from_all items l 0"]) (auto simp: from_all_def Let_def saturating_add_def)
qed

theorem messages_limit_unbounded_witness:
  "\<exists>p. list_mailbox_messages mem_ops (Some ''a@x.org'')
      \<lparr>raw_direction = None, raw_limit = Some (dec (unat (0 :: usize))), raw_offset = None\<rparr> linked_state = reply 200 p \<and>
    page_items p = [] \<and> page_next_offset p = Some 0"
proof -
  have l: "to_lowercase ''a@x.org'' = ''a@x.org''" by code_simp
  have "(case load_mailbox_messages mem_ops ''a@x.org'' None linked_state of
      Inl e \<Rightarrow> False | Inr items \<Rightarrow> items \<noteq> [])" by code_simp
  then obtain items where i: "load_mailbox_messages mem_ops ''a@x.org'' None linked_state = Ok items" "items \<noteq> []"
    by (cases "load_mailbox_messages mem_ops ''a@x.org'' None linked_state") auto
  have d: "to_lowercase ''a@x.org'' \<in> dom (t_mailboxes (mem_view linked_state))"
    unfolding l by (rule linked_state_mailbox)
  from messages_limit_unbounded [OF d mem.store_axioms linked_state_up i(1),
      of "\<lparr>raw_direction = None, raw_limit = Some (dec (unat (0 :: usize))), raw_offset = None\<rparr>" 0] i(2)
  show ?thesis by auto
qed

text \<open>The documented spellings of the direction do not decode, and then every direction is listed.\<close>

lemma direction_lowercase_ignored:
  assumes "raw_direction q \<in> {Some ''inbound'', Some ''outbound''}"
  shows "\<exists>limit offset. list_mailbox_messages T (Some a) q s = messages_page T a None limit offset s"
proof -
  have "parse_queries q = None"
    using assms by (auto simp: parse_queries_def decode_opt_def MessageDirection_decode_def)
  then show ?thesis by (cases "page_params (Option.bind (raw_limit q) parse_usize)
      (Option.bind (raw_offset q) parse_usize)") (auto simp: list_mailbox_messages_def)
qed

end
