(* ===== verification/Zm_Router.thy ===== *)
theory Zm_Router
  imports Zm_App Zm_Messages
begin

text \<open>
  The routes of the HTTP interface (\<^verbatim>\<open>src/api.rs\<close>, last part, and \<open>Daemon::routes\<close> in
  \<^verbatim>\<open>src/runtime.rs\<close>): the tree of routers, and the endpoint a request selects. The selection is the
  router library's: it is an argument, of which the development relies on one documented law, that
  a selected endpoint stands at the end of a branch of the tree whose segments match those of the
  path, percent-decoded one by one.
\<close>

section \<open>The tree\<close>

datatype endpoint =
    Ep_health
  | Ep_list_domains | Ep_create_domain | Ep_get_domain | Ep_patch_domain | Ep_delete_domain
  | Ep_list_mailboxes | Ep_create_mailbox | Ep_get_mailbox | Ep_patch_mailbox | Ep_delete_mailbox
  | Ep_list_mailbox_messages | Ep_list_mailbox_inbox | Ep_list_mailbox_sent
  | Ep_list_records | Ep_create_record | Ep_get_record | Ep_patch_record | Ep_delete_record
  | Ep_send_email
  | Ep_list_services | Ep_set_mode | Ep_start_service | Ep_stop_service
  | Ep_get_message | Ep_delete_message
  | Ep_openapi | Ep_scalar

datatype segment = Lit string | Param string

datatype router = Router segment "(string \<times> endpoint) list" "router list"

definition create_router :: "router list" where
  "create_router =
     [Router (Lit ''health'') [(''GET'', Ep_health)] [],
      Router (Lit ''domains'') [(''GET'', Ep_list_domains), (''POST'', Ep_create_domain)]
        [Router (Param ''domain_id'')
           [(''GET'', Ep_get_domain), (''PATCH'', Ep_patch_domain), (''DELETE'', Ep_delete_domain)] []],
      Router (Lit ''mailboxes'') [(''GET'', Ep_list_mailboxes), (''POST'', Ep_create_mailbox)]
        [Router (Param ''mailbox_id'')
           [(''GET'', Ep_get_mailbox), (''PATCH'', Ep_patch_mailbox), (''DELETE'', Ep_delete_mailbox)]
           [Router (Lit ''messages'') [(''GET'', Ep_list_mailbox_messages)]
              [Router (Lit ''inbox'') [(''GET'', Ep_list_mailbox_inbox)] [],
               Router (Lit ''sent'') [(''GET'', Ep_list_mailbox_sent)] []]]],
      Router (Lit ''records'') [(''GET'', Ep_list_records), (''POST'', Ep_create_record)]
        [Router (Param ''record_id'')
           [(''GET'', Ep_get_record), (''PATCH'', Ep_patch_record), (''DELETE'', Ep_delete_record)] []],
      Router (Lit ''mail'') [(''POST'', Ep_send_email)] [],
      Router (Lit ''services'') [(''GET'', Ep_list_services)]
        [Router (Lit ''mode'') [(''POST'', Ep_set_mode)] [],
         Router (Param ''service'') []
           [Router (Lit ''start'') [(''POST'', Ep_start_service)] [],
            Router (Lit ''stop'') [(''POST'', Ep_stop_service)] []]],
      Router (Lit ''messages'') []
        [Router (Param ''message_id'') [(''GET'', Ep_get_message), (''DELETE'', Ep_delete_message)] []]]"

definition api_with_doc :: "router list" where
  "api_with_doc =
     [Router (Lit ''doc'') [] [Router (Lit ''openapi.json'') [(''GET'', Ep_openapi)] []],
      Router (Lit ''doc'') [(''GET'', Ep_scalar)] []] @ create_router"

section \<open>Selecting an endpoint\<close>

fun segment_matches :: "segment \<Rightarrow> string \<Rightarrow> bool" where
  "segment_matches (Lit l) s = (s = l)"
| "segment_matches (Param _) s = True"

text \<open>The endpoints at the end of the branches that match a path, for a method.\<close>

fun on_branches :: "router list \<Rightarrow> string list \<Rightarrow> string \<Rightarrow> endpoint list" where
  "on_branches [] path m = []"
| "on_branches (r # rs) [] m = []"
| "on_branches (Router seg hs cs # rs) (p # ps) m =
     (if \<not> segment_matches seg p then []
      else if ps = [] then (case map_of hs m of None \<Rightarrow> [] | Some e \<Rightarrow> [e])
      else on_branches cs ps m) @ on_branches rs (p # ps) m"

text \<open>The segments of a path, without the empty ones.\<close>

definition path_segments :: "(string \<Rightarrow> string) \<Rightarrow> string \<Rightarrow> string list" where
  "path_segments unescape path = map unescape (filter (\<lambda>p. p \<noteq> []) (split_char (CHR ''/'') path))"

type_synonym selector = "router list \<Rightarrow> string \<Rightarrow> string \<Rightarrow> endpoint option"

definition endpoint_for :: "selector \<Rightarrow> request \<Rightarrow> endpoint option" where
  "endpoint_for select req = select api_with_doc (req_path req) (req_method req)"

text \<open>Selection in the order of the tree: the first endpoint on a matching branch.\<close>

definition in_order :: "(string \<Rightarrow> string) \<Rightarrow> selector" where
  "in_order unescape rs path m =
     (case on_branches rs (path_segments unescape path) m of [] \<Rightarrow> None | e # _ \<Rightarrow> Some e)"

text \<open>The endpoints that answer without a token under the default configuration.\<close>

definition open_endpoints :: "endpoint set" where
  "open_endpoints = {Ep_health, Ep_openapi, Ep_scalar}"

section \<open>Branches of the interface\<close>

text \<open>A path that selects an endpoint starts with the literal of a top-level router.\<close>

lemma on_branches_first_literal:
  assumes "e \<in> set (on_branches rs (p # ps) m)" and "\<forall>r \<in> set rs. \<exists>l hs cs. r = Router (Lit l) hs cs"
  shows "\<exists>l hs cs. Router (Lit l) hs cs \<in> set rs \<and> p = l"
  using assms
proof (induction rs)
  case (Cons r rs)
  then obtain l hs cs where r: "r = Router (Lit l) hs cs" by auto
  show ?case
  proof (cases "p = l")
    case True
    with r show ?thesis by auto
  next
    case False
    with Cons.prems r have "e \<in> set (on_branches rs (p # ps) m)" by simp
    with Cons show ?thesis by auto
  qed
qed simp

lemma api_with_doc_literals:
  "\<forall>r \<in> set api_with_doc. \<exists>l hs cs. r = Router (Lit l) hs cs"
  by (simp add: api_with_doc_def create_router_def)

lemma on_branches_health:
  "e \<in> set (on_branches api_with_doc (''health'' # ps) m) \<Longrightarrow> e = Ep_health"
  by (cases ps) (auto simp: api_with_doc_def create_router_def split: if_splits)

lemma on_branches_doc:
  "e \<in> set (on_branches api_with_doc (''doc'' # ps) m) \<Longrightarrow> e \<in> {Ep_openapi, Ep_scalar}"
  by (cases ps; cases "tl ps")
    (auto simp: api_with_doc_def create_router_def split: if_splits option.splits)

lemma first_segment:
  assumes "filter (\<lambda>p. p \<noteq> []) (split_char c path) = p # ps"
  shows "hd (split_char c (trim_start_matches (\<lambda>x. x = c) path)) = p"
  using assms
proof (induction path)
  case (Cons x xs)
  show ?case
  proof (cases "x = c")
    case True
    with Cons show ?thesis by (simp add: split_char_def trim_start_matches_def)
  next
    case False
    obtain q qs where q: "split_char c xs = q # qs" by (cases "split_char c xs") (auto simp: split_char_def)
    with False have "split_char c (x # xs) = (x # q) # qs" by (simp add: split_char_def)
    with Cons.prems False show ?thesis by (simp add: trim_start_matches_def)
  qed
qed (simp add: split_char_def)

section \<open>What the router library promises\<close>

locale router_library =
  fixes unescape :: "string \<Rightarrow> string" and select :: selector
  assumes unescape_plain: "CHR ''%'' \<notin> set x \<Longrightarrow> unescape x = x"
    and select_on_branch:
      "select rs path m = Some e \<Longrightarrow> e \<in> set (on_branches rs (path_segments unescape path) m)"
begin

text \<open>
  The guard looks at the raw path and the router at the decoded one; a path that reaches an endpoint
  that is not open is never one whose resource is open.
\<close>

lemma closed_resource:
  assumes e: "e \<in> set (on_branches api_with_doc (unescape p # ps) m)" and "e \<notin> open_endpoints"
    and w: "w = ''health'' \<or> w = ''doc''"
  shows "to_ascii_lowercase p \<noteq> w"
proof
  assume l: "to_ascii_lowercase p = w"
  have "char_to_lower (CHR ''%'') = CHR ''%''" by code_simp
  then have "CHR ''%'' \<in> set p \<Longrightarrow> CHR ''%'' \<in> set w"
    unfolding l [symmetric] to_ascii_lowercase_def by (metis image_eqI list.set_map)
  with w have d: "unescape p = p" by (intro unescape_plain) auto
  from on_branches_first_literal [OF e api_with_doc_literals] obtain lit hs cs where
    lit: "Router (Lit lit) hs cs \<in> set api_with_doc" "unescape p = lit" by blast
  from lit(1) have "to_ascii_lowercase lit = lit"
    by (auto simp: api_with_doc_def create_router_def to_ascii_lowercase_def char_to_lower_def)
  with lit(2) d l have "unescape p = w" by simp
  with e w on_branches_health on_branches_doc assms(2) show False
    by (fastforce simp: open_endpoints_def)
qed

lemma guarded_resource:
  assumes "endpoint_for select req = Some e" and "e \<notin> open_endpoints"
  obtains target where "route_target (req_path req) (req_method req) = Some target"
    "target_resource target \<notin> {''health'', ''doc''}"
proof -
  let ?segs = "filter (\<lambda>p. p \<noteq> []) (split_char (CHR ''/'') (req_path req))"
  have e: "e \<in> set (on_branches api_with_doc (map unescape ?segs) (req_method req))"
    using select_on_branch assms(1) by (auto simp: endpoint_for_def path_segments_def)
  then obtain p ps where p: "?segs = p # ps"
    by (cases ?segs) (auto simp: api_with_doc_def)
  have ne: "p \<noteq> []" using p by (metis (mono_tags) filter_eq_ConsD)
  from e p have "e \<in> set (on_branches api_with_doc (unescape p # map unescape ps) (req_method req))" by simp
  note closed = closed_resource [OF this assms(2)]
  from first_segment [OF p] ne have "resource_for_path (req_path req) = Some (to_ascii_lowercase p)"
    by (simp add: resource_for_path_def Let_def)
  then show thesis
    using closed by (intro that [of "\<lparr>target_resource = to_ascii_lowercase p, target_verb = Verb_from_method (req_method req)\<rparr>"])
      (auto simp: route_target_def)
qed

end

interpretation plain_router: router_library "\<lambda>x. x" "in_order (\<lambda>x. x)"
  by unfold_locales (auto simp: in_order_def split: list.splits)

end
