(* ===== verification/Zm_System.thy ===== *)
theory Zm_System
  imports Zm_Workers Zm_Dns Zm_Router
begin

text \<open>
  The program as a whole: the requests, the mail sessions and the delivery worker as steps on the
  shared database, each step being one whole handler or one turn of the worker's loop in whatever
  outcome the database gives it, and the relations between the tables that every step keeps.
\<close>

section \<open>Steps\<close>

text \<open>The handlers that only read do not appear: their definitions return no state.\<close>

inductive system_step ::
  "('s, 'z) world_scheme \<Rightarrow> ('mb, 'ct) lettre \<Rightarrow> OutboundWorkerConfig \<Rightarrow> 's \<Rightarrow> 's \<Rightarrow> bool"
  for W :: "('s, 'z) world_scheme" and L :: "('mb, 'ct) lettre" and config where
  create_domain: "create_domain W (\<lambda>x. x) domain_body s = (rd, s') \<Longrightarrow> system_step W L config s s'"
| delete_domain: "delete_domain W param s = (ru, s') \<Longrightarrow> system_step W L config s s'"
| create_mailbox: "create_mailbox W (\<lambda>x. x) mailbox_body s = (rm, s') \<Longrightarrow> system_step W L config s s'"
| patch_mailbox: "patch_mailbox W param mailbox_patch s = (rm, s') \<Longrightarrow> system_step W L config s s'"
| delete_mailbox: "delete_mailbox W param s = (ru, s') \<Longrightarrow> system_step W L config s s'"
| create_record: "create_record W (\<lambda>x. x) record_body s = (rr, s') \<Longrightarrow> system_step W L config s s'"
| patch_record: "patch_record W i record_patch s = (rr, s') \<Longrightarrow> system_step W L config s s'"
| delete_record: "delete_record W i s = (ru, s') \<Longrightarrow> system_step W L config s s'"
| send_email: "send_email W L send_request s = (rs, s') \<Longrightarrow> system_step W L config s s'"
| delete_message: "delete_message W i s = (ru, s') \<Longrightarrow> system_step W L config s s'"
| handle_email: "handle_email W data h s = (x, h', s') \<Longrightarrow> system_step W L config s s'"
| worker_tick: "worker_tick W config s = Some s' \<Longrightarrow> system_step W L config s s'"

text \<open>
  A request to the interface: the router selects the endpoint, the guard decides, the handler runs.
  A request that selects nothing gets the router library's own page.
\<close>

definition Daemon_routes ::
  "'n auth_lib \<Rightarrow> selector \<Rightarrow> 'a response \<Rightarrow>
   (endpoint \<Rightarrow> VerifiedClaims option \<Rightarrow> 'n key_state \<Rightarrow> 'a response \<times> 'n key_state) \<Rightarrow> 'id Daemon \<Rightarrow>
   request \<Rightarrow> 'n key_state \<Rightarrow> 'a response \<times> 'n key_state" where
  "Daemon_routes L select unrouted handler d req k =
     (case endpoint_for select req of
        None \<Rightarrow> (unrouted, k)
      | Some e \<Rightarrow> AuthGuard_handle L (daemon_auth d) req (handler e) k)"

section \<open>Consistency of the tables\<close>

definition links_ok :: "tables \<Rightarrow> bool" where
  "links_ok t \<longleftrightarrow> (\<forall>l \<in> ran (t_inbound t). inbound_message_id l \<in> dom (t_messages t))"

definition jobs_ok :: "tables \<Rightarrow> bool" where
  "jobs_ok t \<longleftrightarrow> (\<forall>j \<in> ran (t_outbound t).
     outbound_message_id j \<in> dom (t_messages t) \<and> outbound_sender_id j \<in> dom (t_mailboxes t))"

definition records_ok :: "tables \<Rightarrow> bool" where
  "records_ok t \<longleftrightarrow> (\<forall>r \<in> ran (t_records t).
     record_domain_id r \<in> dom (t_domains t) \<and> trim (record_value r) \<noteq> [])"

definition mailboxes_ok :: "tables \<Rightarrow> bool" where
  "mailboxes_ok t \<longleftrightarrow> (\<forall>k \<in> dom (t_mailboxes t). to_lowercase k = k)"

definition db_consistent :: "tables \<Rightarrow> bool" where
  "db_consistent t \<longleftrightarrow> links_ok t \<and> jobs_ok t \<and> records_ok t \<and> mailboxes_ok t"

lemmas consistency_defs = db_consistent_def links_ok_def jobs_ok_def records_ok_def mailboxes_ok_def

section \<open>Consistency: what a change of one table needs\<close>

lemma consistent_add_domain:
  "db_consistent t \<Longrightarrow> db_consistent (t_domains_update (\<lambda>x. x(k \<mapsto> d)) t)"
  by (auto simp: consistency_defs)

lemma consistent_set_mailbox:
  "db_consistent t \<Longrightarrow> to_lowercase k = k \<Longrightarrow> db_consistent (t_mailboxes_update (\<lambda>x. x(k \<mapsto> m)) t)"
  by (auto simp: consistency_defs)

lemma ran_upd_sub: "ran (t(k \<mapsto> r)) \<subseteq> insert r (ran t)"
  by (auto simp: ran_def)

lemma consistent_set_record:
  assumes "db_consistent t" and "record_domain_id r \<in> dom (t_domains t)" and "trim (record_value r) \<noteq> []"
  shows "db_consistent (t_records_update (\<lambda>x. x(k \<mapsto> r)) t)"
  using assms ran_upd_sub [of "t_records t" k r] unfolding consistency_defs by auto

lemma consistent_delete_record:
  assumes "db_consistent t"
  shows "db_consistent (t\<lparr>t_records := (t_records t)(k := None)\<rparr>)"
  using assms unfolding consistency_defs by (auto simp: ran_def split: if_splits)

lemma consistent_delete_mailboxes:
  assumes "db_consistent t"
  shows "db_consistent (delete_mailboxes P t)"
proof -
  let ?t = "delete_mailboxes P t"
  have "links_ok ?t"
    using assms by (auto simp: consistency_defs delete_mailboxes_def delete_outbounds_def Let_def ran_without)
  moreover have "jobs_ok ?t"
    unfolding jobs_ok_def
  proof (intro ballI conjI)
    fix j assume "j \<in> ran (t_outbound ?t)"
    then have j: "j \<in> ran (t_outbound t)"
      and stays: "\<not> (\<exists>m. t_mailboxes t (outbound_sender_id j) = Some m \<and> P m)"
      by (auto simp: delete_mailboxes_def delete_outbounds_def Let_def ran_without)
    from j assms have k: "outbound_message_id j \<in> dom (t_messages t)"
      and "outbound_sender_id j \<in> dom (t_mailboxes t)" unfolding consistency_defs by auto
    then obtain m where "t_mailboxes t (outbound_sender_id j) = Some m" by blast
    with stays have "without P (t_mailboxes t) (outbound_sender_id j) = Some m" by auto
    then show "outbound_sender_id j \<in> dom (t_mailboxes ?t)" by (auto simp: delete_mailboxes_def Let_def)
    show "outbound_message_id j \<in> dom (t_messages ?t)"
      using k by (simp add: delete_mailboxes_def delete_outbounds_def Let_def)
  qed
  moreover have "records_ok ?t"
    using assms by (auto simp: consistency_defs delete_mailboxes_def delete_outbounds_def Let_def)
  moreover have "mailboxes_ok ?t"
    using assms by (auto simp: consistency_defs delete_mailboxes_def delete_outbounds_def Let_def)
  ultimately show ?thesis by (simp add: db_consistent_def)
qed

lemma consistent_delete_domains:
  assumes "db_consistent t"
  shows "db_consistent (delete_domains d t)"
proof -
  have "db_consistent (delete_mailboxes (\<lambda>m. mailbox_domain_id m = d) t)"
    by (rule consistent_delete_mailboxes [OF assms])
  moreover have "t_records (delete_mailboxes (\<lambda>m. mailbox_domain_id m = d) t) = t_records t"
    "t_domains (delete_mailboxes (\<lambda>m. mailbox_domain_id m = d) t) = t_domains t"
    by (simp_all add: delete_mailboxes_def delete_outbounds_def Let_def)
  ultimately show ?thesis
    unfolding delete_domains_def consistency_defs by (auto simp: ran_without)
qed

text \<open>Links and jobs first, the message last: after each of the three deletes nothing dangles.\<close>

lemma consistent_delete_links:
  "db_consistent t \<Longrightarrow> db_consistent (t\<lparr>t_inbound := without P (t_inbound t)\<rparr>)"
  by (auto simp: consistency_defs ran_without)

lemma consistent_delete_outbounds:
  "db_consistent t \<Longrightarrow> db_consistent (delete_outbounds P t)"
  by (auto simp: consistency_defs delete_outbounds_def ran_without)

lemma consistent_delete_message:
  assumes "db_consistent t" and "\<forall>l \<in> ran (t_inbound t). inbound_message_id l \<noteq> k"
    and "\<forall>j \<in> ran (t_outbound t). outbound_message_id j \<noteq> k"
  shows "db_consistent (t\<lparr>t_messages := (t_messages t)(k := None)\<rparr>)"
  using assms by (auto simp: consistency_defs)

lemma rows_added_ran:
  "rows_added key columns t fs t' \<Longrightarrow> r \<in> ran t' \<Longrightarrow> r \<in> ran t \<or> columns r \<in> set fs"
  using rows_added_new [of key columns t fs t'] by (auto simp: ran_def)

lemma consistent_add_mail:
  assumes "db_consistent t" and "t_messages t \<subseteq>\<^sub>m msgs"
    and "links_added (t_inbound t) ls links" and "jobs_added (t_outbound t) qs jobs"
    and "\<And>l :: Inbound. inbound_fields.truncate l \<in> set ls \<Longrightarrow> inbound_message_id l \<in> dom msgs"
    and "\<And>j :: Outbound. outbound_fields.truncate j \<in> set qs \<Longrightarrow>
      outbound_message_id j \<in> dom msgs \<and> outbound_sender_id j \<in> dom (t_mailboxes t)"
  shows "db_consistent (t\<lparr>t_messages := msgs, t_inbound := links, t_outbound := jobs\<rparr>)"
proof -
  have d: "dom (t_messages t) \<subseteq> dom msgs" by (rule map_le_implies_dom_le [OF assms(2)])
  have "inbound_message_id l \<in> dom msgs" if "l \<in> ran links" for l
    using rows_added_ran [OF assms(3) that] assms(1,5) d unfolding consistency_defs by blast
  moreover have "outbound_message_id j \<in> dom msgs \<and> outbound_sender_id j \<in> dom (t_mailboxes t)"
    if "j \<in> ran jobs" for j
    using rows_added_ran [OF assms(4) that] assms(1,6) d unfolding consistency_defs by blast
  ultimately show ?thesis using assms(1) unfolding consistency_defs by simp
qed

lemma consistent_queue:
  assumes "queue_evolves config t t'" and "db_consistent t"
  shows "db_consistent t'"
proof -
  note same = queue_evolves_others [OF assms(1)]
  have "outbound_message_id j \<in> dom (t_messages t) \<and> outbound_sender_id j \<in> dom (t_mailboxes t)"
    if j: "j \<in> ran (t_outbound t')" for j
  proof -
    from j obtain i where "t_outbound t' i = Some j" by (auto simp: ran_def)
    from queue_evolves_new_job [OF assms(1) this] obtain j0 where
      "t_outbound t i = Some j0" and steps: "(job_step config)\<^sup>*\<^sup>* j0 j" by blast
    then have "j0 \<in> ran (t_outbound t)" by (auto simp: ran_def)
    with assms(2) job_steps_fixed [OF steps] show ?thesis unfolding consistency_defs by auto
  qed
  with assms(2) same show ?thesis unfolding consistency_defs by simp
qed

section \<open>Every handler keeps consistency, in every outcome\<close>

context mta
begin

lemma create_domain_consistent:
  assumes "create_domain W (\<lambda>x. x) body s = (r, s')" and "db_consistent (view s)"
  shows "db_consistent (view s')"
proof (cases "s' = s")
  case False
  with assms(1) obtain i x where c: "Domain_create W i s = (x, s')"
    by (auto simp: create_domain_def Let_def split: option.splits if_splits sum.splits prod.splits intro: that)
  show ?thesis
  proof (cases x)
    case (Inl e)
    with c domain.create_Err assms(2) show ?thesis by auto
  next
    case (Inr d)
    with domain.create_Ok c have "view s' = t_domains_update (\<lambda>t. t(domain_id d \<mapsto> d)) (view s)" by blast
    with consistent_add_domain [OF assms(2)] show ?thesis by simp
  qed
qed (use assms in simp)

lemma create_mailbox_consistent:
  assumes "create_mailbox W (\<lambda>x. x) body s = (r, s')" and "db_consistent (view s)"
  shows "db_consistent (view s')"
proof (cases "s' = s")
  case False
  with assms(1) obtain b m x where m: "requested_mailbox (Timestamp_now W s) b = Ok m"
    and c: "Mailbox_create W (mailbox_fields.truncate m) s = (x, s')"
    by (auto simp: create_mailbox_def split: option.splits sum.splits prod.splits intro: that)
  show ?thesis
  proof (cases x)
    case (Inl e)
    with c mailbox.create_Err assms(2) show ?thesis by auto
  next
    case (Inr row)
    from mailbox.create_Ok [OF c [unfolded Inr]] have
      "mailbox_fields.truncate row = mailbox_fields.truncate m"
      and v: "view s' = t_mailboxes_update (\<lambda>t. t(mailbox_id row \<mapsto> row)) (view s)" by simp_all
    then have "mailbox_id row = mailbox_id m" by (simp add: mailbox_fields.defs)
    with requested_mailbox_Ok(1) [OF m] v show ?thesis
      using consistent_set_mailbox [OF assms(2), of "mailbox_id row" row] by simp
  qed
qed (use assms in simp)

lemma patch_mailbox_consistent:
  assumes "patch_mailbox W param body s = (r, s')" and "db_consistent (view s)"
  shows "db_consistent (view s')"
proof (cases "s' = s")
  case False
  with assms(1) obtain m x d f where m: "Mailbox_get_by_id W (unwrap_or [] param) s = Ok m"
    and u: "Mailbox_update W (mailbox_id m) (\<lambda>m. m\<lparr>mailbox_domain_id := d, mailbox_forward_to := f\<rparr>) s = (x, s')"
    by (auto simp: patch_mailbox_def Let_def split: option.splits if_splits sum.splits prod.splits intro: that)
  show ?thesis
  proof (cases x)
    case (Inl e)
    with u mailbox.update_Err assms(2) show ?thesis by auto
  next
    case (Inr row)
    from mailbox.get_sound [OF m] have "t_mailboxes (view s) (mailbox_id m) = Some m"
      using mailbox_keyed by metis
    then have "to_lowercase (mailbox_id m) = mailbox_id m"
      using assms(2) unfolding consistency_defs by blast
    moreover from mailbox.update_Ok [OF u [unfolded Inr]] have
      "view s' = t_mailboxes_update (\<lambda>t. t(mailbox_id m \<mapsto> row)) (view s)" by auto
    ultimately show ?thesis using consistent_set_mailbox [OF assms(2)] by simp
  qed
qed (use assms in simp)

lemma validated_record:
  assumes "validate_record_fields W d v s = Ok ()"
  shows "d \<in> dom (t_domains (view s))" "trim v \<noteq> []"
  using assms domain.is_ok_getD [of d s] by (auto simp: validate_record_fields_def split: if_splits)

lemma create_record_consistent:
  assumes "create_record W (\<lambda>x. x) body s = (r, s')" and "db_consistent (view s)"
  shows "db_consistent (view s')"
proof (cases "s' = s")
  case False
  with assms(1) obtain d t v ttl x where ok: "validate_record_fields W d v s = Ok ()"
    and c: "Record_create W \<lparr>record_domain_id = d, record_type = t, record_value = v, record_ttl = ttl\<rparr> s
      = (x, s')"
    by (auto simp: create_record_def Let_def split: option.splits sum.splits prod.splits intro: that)
  show ?thesis
  proof (cases x)
    case (Inl e)
    with c rec.create_Err assms(2) show ?thesis by auto
  next
    case (Inr row)
    from rec.create_Ok [OF c [unfolded Inr]] have
      "record_domain_id row = d" "record_value row = v"
      "view s' = t_records_update (\<lambda>t. t(record_id row \<mapsto> row)) (view s)"
      by (simp_all add: record_fields.defs)
    with validated_record [OF ok] show ?thesis using consistent_set_record [OF assms(2), of row] by simp
  qed
qed (use assms in simp)

lemma patch_record_consistent:
  assumes "patch_record W i body s = (r, s')" and "db_consistent (view s)"
  shows "db_consistent (view s')"
proof (cases "s' = s")
  case False
  with assms(1) obtain d t v ttl x k where ok: "validate_record_fields W d v s = Ok ()"
    and u: "Record_update W k (\<lambda>x. x\<lparr>record_domain_id := d, record_type := t, record_value := v,
      record_ttl := ttl\<rparr>) s = (x, s')"
    by (auto simp: patch_record_def split: option.splits if_splits sum.splits prod.splits intro: that)
  show ?thesis
  proof (cases x)
    case (Inl e)
    with u rec.update_Err assms(2) show ?thesis by auto
  next
    case (Inr row)
    from rec.update_Ok [OF u [unfolded Inr]] have
      "record_domain_id row = d" "record_value row = v"
      "view s' = t_records_update (\<lambda>t. t(k \<mapsto> row)) (view s)" by auto
    with validated_record [OF ok] show ?thesis using consistent_set_record [OF assms(2), of row] by simp
  qed
qed (use assms in simp)

text \<open>A handler that deletes under one filter.\<close>

lemma delete_step_consistent:
  assumes "deletable del effect view healthy" and "del q s = (x, s')"
    and "db_consistent (view s)" and "\<And>t. db_consistent t \<Longrightarrow> db_consistent (effect q t)"
  shows "db_consistent (view s')"
proof (cases x)
  case (Inl e)
  with deletable.delete_Err [OF assms(1)] assms(2,3) show ?thesis by auto
next
  case (Inr u)
  with deletable.delete_Ok [OF assms(1)] assms(2-4) show ?thesis by auto
qed

lemma delete_domain_consistent:
  assumes "delete_domain W param s = (r, s')" and "db_consistent (view s)"
  shows "db_consistent (view s')"
proof (cases "s' = s")
  case False
  with assms(1) obtain x where "Domain_delete W (unwrap_or [] param) s = (x, s')"
    by (auto simp: delete_domain_def Let_def split: if_splits sum.splits prod.splits intro: that)
  then show ?thesis
    by (rule delete_step_consistent [OF domain.deletable_axioms _ assms(2) consistent_delete_domains])
qed (use assms in simp)

lemma delete_mailbox_consistent:
  assumes "delete_mailbox W param s = (r, s')" and "db_consistent (view s)"
  shows "db_consistent (view s')"
proof (cases "s' = s")
  case False
  with assms(1) obtain x where "Mailbox_delete W (unwrap_or [] param) s = (x, s')"
    by (auto simp: delete_mailbox_def Let_def split: if_splits sum.splits prod.splits intro: that)
  then show ?thesis
    by (rule delete_step_consistent [OF mailbox.deletable_axioms _ assms(2) consistent_delete_mailboxes])
qed (use assms in simp)

lemma delete_record_consistent:
  assumes "delete_record W i s = (r, s')" and "db_consistent (view s)"
  shows "db_consistent (view s')"
proof (cases "s' = s")
  case False
  with assms(1) obtain k x where "Record_delete W k s = (x, s')"
    by (auto simp: delete_record_def split: option.splits if_splits sum.splits prod.splits intro: that)
  then show ?thesis
    by (rule delete_step_consistent [OF rec.deletable_axioms _ assms(2) consistent_delete_record])
qed (use assms in simp)

lemma delete_message_consistent:
  assumes "delete_message W i s = (r, s')" and "db_consistent (view s)"
  shows "db_consistent (view s')"
proof (cases "is_ok (Message_get_by_id W (unwrap_or 0 i) s)")
  case False
  with assms show ?thesis by (auto simp: delete_message_def Let_def)
next
  case True
  let ?k = "unwrap_or 0 i"
  obtain x s1 where l: "Inbound_delete_message W ?k s = (x, s1)" by (cases "Inbound_delete_message W ?k s")
  obtain y s2 where o: "Outbound_delete_message W ?k s1 = (y, s2)" by (cases "Outbound_delete_message W ?k s1")
  obtain z s3 where m: "Message_delete W ?k s2 = (z, s3)" by (cases "Message_delete W ?k s2")
  have c1: "db_consistent (view s1)"
    by (rule delete_step_consistent [OF inbound.deletable_axioms l assms(2) consistent_delete_links])
  have c2: "db_consistent (view s2)"
    by (rule delete_step_consistent [OF outbound.deletable_axioms o c1 consistent_delete_outbounds])
  show ?thesis
  proof (cases "is_ok x \<and> is_ok y")
    case False
    then have "s' = s1 \<or> s' = s2"
      using assms(1) True l o by (cases x; cases y) (auto simp: delete_message_def Let_def)
    with c1 c2 show ?thesis by auto
  next
    case ok: True
    then obtain u v where uv: "x = Ok u" "y = Ok v" by (auto simp: is_ok_iff)
    have s': "s' = s3" using assms(1) True l o m uv
      by (cases z) (auto simp: delete_message_def Let_def)
    have v2: "view s2 = delete_outbounds (\<lambda>j. outbound_message_id j = ?k)
        ((view s)\<lparr>t_inbound := without (\<lambda>l. inbound_message_id l = ?k) (t_inbound (view s))\<rparr>)"
      using inbound.delete_Ok [OF l [unfolded uv]] outbound.delete_Ok [OF o [unfolded uv]] by simp
    have "\<forall>l \<in> ran (t_inbound (view s2)). inbound_message_id l \<noteq> ?k"
      "\<forall>j \<in> ran (t_outbound (view s2)). outbound_message_id j \<noteq> ?k"
      unfolding v2 by (simp_all add: delete_outbounds_def ran_without)
    then have "db_consistent ((view s2)\<lparr>t_messages := (t_messages (view s2))(?k := None)\<rparr>)"
      by (rule consistent_delete_message [OF c2])
    with c2 m message.delete_Ok [of ?k s2] message.delete_Err [of ?k s2] s' show ?thesis
      by (cases z) auto
  qed
qed

lemma queued_job_points:
  assumes "outbound_fields.truncate j = queued_job mid rc sender"
  shows "outbound_message_id j = mid" "outbound_sender_id j = sender"
  using queued_job_columns [OF assms] by simp_all

lemma send_email_consistent:
  assumes "send_email W L body s = (r, s')" and "db_consistent (view s)"
  shows "db_consistent (view s')"
proof (cases body)
  case None
  with assms show ?thesis by (simp add: send_email_def)
next
  case (Some b)
  from send_email_view [OF assms(1) [unfolded Some]] obtain msgs qs jobs where
    m: "t_messages (view s) \<subseteq>\<^sub>m msgs" and j: "jobs_added (t_outbound (view s)) qs jobs"
    and q: "\<forall>q \<in> set qs. \<exists>mid rc. q = queued_job mid rc (send_from b) \<and> mid \<in> dom msgs \<and>
      send_from b \<in> dom (t_mailboxes (view s))"
    and v: "view s' = (view s)\<lparr>t_messages := msgs, t_outbound := jobs\<rparr>" by blast
  have "db_consistent ((view s)\<lparr>t_messages := msgs, t_inbound := t_inbound (view s), t_outbound := jobs\<rparr>)"
  proof (rule consistent_add_mail [OF assms(2) m _ j])
    show "links_added (t_inbound (view s)) [] (t_inbound (view s))" by simp
  next
    fix job :: Outbound assume "outbound_fields.truncate job \<in> set qs"
    with q obtain mid rc where "outbound_fields.truncate job = queued_job mid rc (send_from b)"
      "mid \<in> dom msgs" "send_from b \<in> dom (t_mailboxes (view s))" by blast
    with queued_job_points [of job] show "outbound_message_id job \<in> dom msgs \<and>
      outbound_sender_id job \<in> dom (t_mailboxes (view s))" by metis
  qed simp
  with v show ?thesis by simp
qed

lemma handle_email_consistent:
  assumes "handle_email W data h s = (x, h', s')" and "db_consistent (view s)"
  shows "db_consistent (view s')"
proof -
  from handle_email_view [OF assms(1)] obtain mid msgs ls qs links jobs where
    m: "t_messages (view s) \<subseteq>\<^sub>m msgs" and mid: "ls = [] \<and> qs = [] \<or> mid \<in> dom msgs"
    and ls: "set ls \<subseteq> set (link_rows mid (filed_under h))" "links_added (t_inbound (view s)) ls links"
    and qs: "subseq qs (forward_jobs (view s) mid (filed_under h))" "jobs_added (t_outbound (view s)) qs jobs"
    and v: "view s' = (view s)\<lparr>t_messages := msgs, t_inbound := links, t_outbound := jobs\<rparr>" by blast
  show ?thesis
    unfolding v
  proof (rule consistent_add_mail [OF assms(2) m ls(2) qs(2)])
    fix l :: Inbound assume l: "inbound_fields.truncate l \<in> set ls"
    with ls(1) have "inbound_fields.truncate l \<in> set (link_rows mid (filed_under h))" by blast
    then have "inbound_message_id l = mid" by (auto simp: link_rows_def inbound_fields.defs)
    with l mid show "inbound_message_id l \<in> dom msgs" by auto
  next
    fix j :: Outbound assume j: "outbound_fields.truncate j \<in> set qs"
    with subseq_set [OF qs(1)] have "outbound_fields.truncate j \<in> set (forward_jobs (view s) mid (filed_under h))"
      by blast
    from forward_jobs_mem [OF this] obtain r mb f where "t_mailboxes (view s) r = Some mb"
      "outbound_fields.truncate j = queued_job mid f r" by blast
    with queued_job_points [of j] j mid show
      "outbound_message_id j \<in> dom msgs \<and> outbound_sender_id j \<in> dom (t_mailboxes (view s))"
      by (metis domI list.set(1) empty_iff)
  qed
qed

lemmas handler_consistent =
  create_domain_consistent delete_domain_consistent create_mailbox_consistent patch_mailbox_consistent
  delete_mailbox_consistent create_record_consistent patch_record_consistent delete_record_consistent
  send_email_consistent delete_message_consistent handle_email_consistent

lemma system_step_consistent:
  "system_step W L config s s' \<Longrightarrow> db_consistent (view s) \<Longrightarrow> db_consistent (view s')"
  by (induction rule: system_step.induct)
    (blast intro: handler_consistent consistent_queue [OF worker_tick_evolves])+

end

end
