(* ===== verification/Zm_Interleave.thy ===== *)
theory Zm_Interleave
  imports Zm_System
begin

text \<open>
  The mail handler of \<^verbatim>\<open>src/email.rs\<close> one database call at a time. The program is asynchronous: while a
  handler waits for the database, every other task may run. Here the handler is a step relation
  whose steps are its single calls, and between any two of them the environment may change the
  database. The handler as a whole, which the other theories take as one step, is one of its runs;
  the development shows which environments it tolerates and which it does not.
\<close>

section \<open>The handler call by call\<close>

text \<open>
  The phases of \<open>handle_email\<close>: before and after the look-up of a mail with the same \<open>Message-ID\<close>,
  with the recipients still to link, with the recipients still to forward, with a forward looked up
  and not yet queued, and answered.
\<close>

datatype mail_phase =
    Received
  | Unstored
  | Linking row_id "string list"
  | Forwarding row_id "string list"
  | Enqueueing row_id string string "string list"
  | Answered "(Response, SmtpError) result"

inductive mail_step ::
  "('s, 'z) world_scheme \<Rightarrow> ('s \<Rightarrow> 's \<Rightarrow> bool) \<Rightarrow> bytes \<Rightarrow> string list \<Rightarrow>
   mail_phase \<times> 's \<Rightarrow> mail_phase \<times> 's \<Rightarrow> bool"
  for W env data rcpts where
  known: "existing_message W (dedup_key (parse_mail W data)) s = Some mid \<Longrightarrow>
    mail_step W env data rcpts (Received, s) (Linking mid rcpts, s)"
| unknown: "existing_message W (dedup_key (parse_mail W data)) s = None \<Longrightarrow>
    mail_step W env data rcpts (Received, s) (Unstored, s)"
| stored: "Message_create W (email_fields (parse_mail W data) data) s = (Ok m, s') \<Longrightarrow>
    mail_step W env data rcpts (Unstored, s) (Linking (message_id m) rcpts, s')"
| not_stored: "Message_create W (email_fields (parse_mail W data) data) s = (Err e, s') \<Longrightarrow>
    mail_step W env data rcpts (Unstored, s) (Answered (Err Abort), s')"
| linked: "Inbound_create W \<lparr>inbound_message_id = mid, inbound_rcpt_to = r\<rparr> s = (Ok l, s') \<Longrightarrow>
    mail_step W env data rcpts (Linking mid (r # rs), s) (Linking mid rs, s')"
| not_linked: "Inbound_create W \<lparr>inbound_message_id = mid, inbound_rcpt_to = r\<rparr> s = (Err e, s') \<Longrightarrow>
    mail_step W env data rcpts (Linking mid (r # rs), s) (Answered (Err Abort), s')"
| all_linked: "mail_step W env data rcpts (Linking mid [], s) (Forwarding mid rcpts, s)"
| no_mailbox: "Mailbox_get_by_id W r s = Err e \<Longrightarrow>
    mail_step W env data rcpts (Forwarding mid (r # rs), s) (Forwarding mid rs, s)"
| store_only: "Mailbox_get_by_id W r s = Ok mailbox \<Longrightarrow> mailbox_forward_to mailbox = None \<Longrightarrow>
    mail_step W env data rcpts (Forwarding mid (r # rs), s) (Forwarding mid rs, s)"
| forwards: "Mailbox_get_by_id W r s = Ok mailbox \<Longrightarrow> mailbox_forward_to mailbox = Some f \<Longrightarrow>
    mail_step W env data rcpts (Forwarding mid (r # rs), s) (Enqueueing mid r f rs, s)"
| enqueued: "enqueue_forward W mid r f s = (x, s') \<Longrightarrow>
    mail_step W env data rcpts (Enqueueing mid r f rs, s) (Forwarding mid rs, s')"
| answered: "mail_step W env data rcpts (Forwarding mid [], s) (Answered (Ok Response_Default), s)"
| other: "env s s' \<Longrightarrow> mail_step W env data rcpts (p, s) (p, s')"

abbreviation mail_run ::
  "('s, 'z) world_scheme \<Rightarrow> ('s \<Rightarrow> 's \<Rightarrow> bool) \<Rightarrow> bytes \<Rightarrow> string list \<Rightarrow>
   mail_phase \<times> 's \<Rightarrow> mail_phase \<times> 's \<Rightarrow> bool" where
  "mail_run W env data rcpts \<equiv> (mail_step W env data rcpts)\<^sup>*\<^sup>*"

section \<open>The whole handler is a run\<close>

lemmas then_step = converse_rtranclp_into_rtranclp

lemma linking_run:
  "store_links W mid rs s = (Ok u, s') \<Longrightarrow>
   mail_run W env data rcpts (Linking mid rs, s) (Linking mid [], s')"
proof (induction rs arbitrary: s)
  case (Cons r rs)
  obtain x s1 where c: "Inbound_create W \<lparr>inbound_message_id = mid, inbound_rcpt_to = r\<rparr> s = (x, s1)"
    by fastforce
  with Cons.prems obtain l where "x = Ok l" "store_links W mid rs s1 = (Ok u, s')" by (cases x) auto
  with c Cons.IH show ?case by (auto intro: then_step mail_step.linked)
qed simp

lemma not_linking_run:
  "store_links W mid rs s = (Err e, s') \<Longrightarrow>
   mail_run W env data rcpts (Linking mid rs, s) (Answered (Err Abort), s') \<and> e = Abort"
proof (induction rs arbitrary: s)
  case (Cons r rs)
  obtain x s1 where c: "Inbound_create W \<lparr>inbound_message_id = mid, inbound_rcpt_to = r\<rparr> s = (x, s1)"
    by fastforce
  show ?case
  proof (cases x)
    case (Inl f)
    with c Cons.prems show ?thesis by (auto intro: mail_step.not_linked)
  next
    case (Inr l)
    with c Cons.prems have "store_links W mid rs s1 = (Err e, s')" by simp
    from Cons.IH [OF this] c Inr show ?thesis by (auto intro: then_step mail_step.linked)
  qed
qed simp

lemma forwarding_run:
  "mail_run W env data rcpts (Forwarding mid rs, s) (Forwarding mid [], forward_all W mid rs s)"
proof (induction rs arbitrary: s)
  case (Cons r rs)
  show ?case
  proof (cases "Mailbox_get_by_id W r s")
    case (Inl e)
    from then_step [OF mail_step.no_mailbox [OF this] Cons.IH] Inl show ?thesis by simp
  next
    case (Inr mailbox)
    show ?thesis
    proof (cases "mailbox_forward_to mailbox")
      case None
      from then_step [OF mail_step.store_only [OF Inr None] Cons.IH] Inr None show ?thesis by simp
    next
      case (Some f)
      obtain x s1 where q: "enqueue_forward W mid r f s = (x, s1)" by fastforce
      from then_step [OF mail_step.forwards [OF Inr Some] then_step [OF mail_step.enqueued [OF q] Cons.IH]]
        Inr Some q show ?thesis by (cases x) simp_all
    qed
  qed
qed simp

lemma linked_run:
  assumes "store_links W mid rcpts s = (Ok u, s1)"
  shows "mail_run W env data rcpts (Linking mid rcpts, s)
    (Answered (Ok Response_Default), forward_all W mid rcpts s1)"
proof -
  note linking_run [OF assms, of env data rcpts]
  also have "mail_run W env data rcpts (Linking mid [], s1) (Forwarding mid rcpts, s1)"
    by (blast intro: mail_step.all_linked)
  also note forwarding_run
  also have "mail_run W env data rcpts (Forwarding mid [], forward_all W mid rcpts s1)
      (Answered (Ok Response_Default), forward_all W mid rcpts s1)" by (blast intro: mail_step.answered)
  finally show ?thesis .
qed

text \<open>From the stored message on.\<close>

lemma filing_run:
  assumes "store_links W mid rcpts s = (x, s1)"
    and "y = (case x of Err e \<Rightarrow> Err e | Ok _ \<Rightarrow> Ok Response_Default)"
    and "s' = (case x of Err e \<Rightarrow> s1 | Ok _ \<Rightarrow> forward_all W mid rcpts s1)"
  shows "mail_run W env data rcpts (Linking mid rcpts, s) (Answered y, s')"
proof (cases x)
  case (Inl e)
  with not_linking_run [of W mid rcpts s e s1] assms show ?thesis by auto
next
  case (Inr u)
  with linked_run [of W mid rcpts s u s1] assms show ?thesis by simp
qed

lemma handle_email_run:
  assumes "handle_email W data h s = (y, h', s')"
  shows "mail_run W env data (filed_under h) (Received, s) (Answered y, s')"
proof -
  let ?key = "dedup_key (parse_mail W data)" and ?rs = "filed_under h"
  have filed: "mail_run W env data ?rs (Linking mid ?rs, s1) (Answered y, s')"
    if "stored_message W (parse_mail W data) data s = (Ok mid, s1)" for mid s1
  proof -
    obtain x s2 where l: "store_links W mid ?rs s1 = (x, s2)" by fastforce
    then show ?thesis using assms that
      by (intro filing_run [OF l]) (auto simp: handle_email_def Let_def split: sum.splits)
  qed
  show ?thesis
  proof (cases "existing_message W ?key s")
    case (Some mid)
    then have "stored_message W (parse_mail W data) data s = (Ok mid, s)" by (simp add: stored_message_def)
    from then_step [OF mail_step.known [OF Some] filed [OF this]] show ?thesis .
  next
    case None
    obtain x s1 where c: "Message_create W (email_fields (parse_mail W data) data) s = (x, s1)" by fastforce
    note unknown = mail_step.unknown [OF None]
    show ?thesis
    proof (cases x)
      case (Inl e)
      have "y = Err Abort" "s' = s1"
        using assms None c Inl by (auto simp: handle_email_def stored_message_def)
      with c Inl show ?thesis by (blast intro: then_step unknown mail_step.not_stored)
    next
      case (Inr m)
      then have "stored_message W (parse_mail W data) data s = (Ok (message_id m), s1)"
        using None c by (simp add: stored_message_def)
      from then_step [OF unknown then_step [OF mail_step.stored [OF c [unfolded Inr]] filed [OF this]]]
      show ?thesis .
    qed
  qed
qed

section \<open>Environments that delete nothing the mail needs\<close>

definition calm :: "tables \<Rightarrow> tables \<Rightarrow> bool" where
  "calm t t' \<longleftrightarrow> t_messages t \<subseteq>\<^sub>m t_messages t' \<and> t_inbound t \<subseteq>\<^sub>m t_inbound t' \<and>
     dom (t_mailboxes t) \<subseteq> dom (t_mailboxes t') \<and> (db_consistent t \<longrightarrow> db_consistent t')"

lemma calm_refl [simp]: "calm t t"
  by (simp add: calm_def)

text \<open>The mail is stored, or one with its \<open>Message-ID\<close> is; and it is linked to these recipients.\<close>

definition filed :: "parsed_mail option \<Rightarrow> bytes \<Rightarrow> row_id \<Rightarrow> tables \<Rightarrow> bool" where
  "filed parsed data mid t \<longleftrightarrow> (\<exists>m. t_messages t mid = Some m \<and>
     (message_fields.truncate m = email_fields parsed data \<or>
      dedup_key parsed \<noteq> None \<and> message_id_header m = dedup_key parsed))"

definition linked_to :: "row_id \<Rightarrow> string list \<Rightarrow> tables \<Rightarrow> bool" where
  "linked_to mid rs t \<longleftrightarrow>
     (\<forall>r \<in> set rs. \<exists>l \<in> ran (t_inbound t). inbound_message_id l = mid \<and> inbound_rcpt_to l = r)"

lemma filed_calm: "filed parsed data mid t \<Longrightarrow> calm t t' \<Longrightarrow> filed parsed data mid t'"
  unfolding filed_def calm_def by (metis domI map_le_def)

lemma filed_dom: "filed parsed data mid t \<Longrightarrow> mid \<in> dom (t_messages t)"
  by (auto simp: filed_def)

lemma linked_calm: "linked_to mid rs t \<Longrightarrow> calm t t' \<Longrightarrow> linked_to mid rs t'"
proof -
  assume l: "linked_to mid rs t" and "calm t t'"
  then have "t_inbound t' k = Some x" if "t_inbound t k = Some x" for k x
    using that by (force simp: calm_def map_le_def)
  then have "ran (t_inbound t) \<subseteq> ran (t_inbound t')" unfolding ran_def by blast
  with l show ?thesis unfolding linked_to_def by blast
qed

lemma linked_append [simp]: "linked_to mid (rs @ rs') t \<longleftrightarrow> linked_to mid rs t \<and> linked_to mid rs' t"
  by (auto simp: linked_to_def)

text \<open>What holds in each phase.\<close>

fun phase_ok :: "parsed_mail option \<Rightarrow> bytes \<Rightarrow> string list \<Rightarrow> mail_phase \<Rightarrow> tables \<Rightarrow> bool" where
  "phase_ok parsed data rcpts (Linking mid rs) t \<longleftrightarrow>
     filed parsed data mid t \<and> (\<exists>ls. rcpts = ls @ rs \<and> linked_to mid ls t)"
| "phase_ok parsed data rcpts (Forwarding mid rs) t \<longleftrightarrow>
     filed parsed data mid t \<and> linked_to mid rcpts t"
| "phase_ok parsed data rcpts (Enqueueing mid r f rs) t \<longleftrightarrow>
     filed parsed data mid t \<and> linked_to mid rcpts t \<and> r \<in> dom (t_mailboxes t)"
| "phase_ok parsed data rcpts (Answered (Inr _)) t \<longleftrightarrow>
     (\<exists>mid. filed parsed data mid t \<and> linked_to mid rcpts t)"
| "phase_ok parsed data rcpts _ t \<longleftrightarrow> True"

lemma phase_ok_calm:
  assumes "phase_ok parsed data rcpts p t" and c: "calm t t'"
  shows "phase_ok parsed data rcpts p t'"
proof -
  have "dom (t_mailboxes t) \<subseteq> dom (t_mailboxes t')" using c by (simp add: calm_def)
  with assms(1) filed_calm [OF _ c] linked_calm [OF _ c] show ?thesis
    by (cases "(parsed, data, rcpts, p, t)" rule: phase_ok.cases) (simp_all, blast+)
qed

context mta
begin

lemma message_stored_calm:
  assumes "Message_create W f s = (x, s')"
  shows "calm (view s) (view s') \<and>
    (\<forall>m. x = Ok m \<longrightarrow> t_messages (view s') (message_id m) = Some m \<and> message_fields.truncate m = f)"
proof (cases x)
  case (Inl e)
  with message.create_Err assms show ?thesis by auto
next
  case (Inr m)
  from message.create_Ok [OF assms [unfolded Inr]] have
    m: "message_fields.truncate m = f" "t_messages (view s) (message_id m) = None"
      "view s' = (view s)\<lparr>t_messages := (t_messages (view s))(message_id m \<mapsto> m)\<rparr>"
    by (cases "view s"; simp)+
  from m(2) have le: "t_messages (view s) \<subseteq>\<^sub>m (t_messages (view s))(message_id m \<mapsto> m)"
    by (auto simp: map_le_def)
  have "db_consistent (view s')" if "db_consistent (view s)"
    using consistent_add_mail [OF that le, of "[]" "t_inbound (view s)" "[]" "t_outbound (view s)"]
    by (simp add: m(3))
  with Inr m le show ?thesis by (simp add: calm_def)
qed

lemma link_stored_calm:
  assumes "Inbound_create W \<lparr>inbound_message_id = mid, inbound_rcpt_to = r\<rparr> s = (x, s')"
    and "mid \<in> dom (t_messages (view s))"
  shows "calm (view s) (view s') \<and> (is_ok x \<longrightarrow> linked_to mid [r] (view s'))"
proof (cases x)
  case (Inl e)
  with inbound.create_Err assms(1) show ?thesis by auto
next
  case (Inr l)
  let ?f = "\<lparr>inbound_message_id = mid, inbound_rcpt_to = r\<rparr>"
  from inbound.create_Ok [OF assms(1) [unfolded Inr]] have
    l: "inbound_fields.truncate l = ?f" "t_inbound (view s) (inbound_id l) = None"
      "view s' = (view s)\<lparr>t_inbound := (t_inbound (view s))(inbound_id l \<mapsto> l)\<rparr>"
    by (cases "view s"; simp)+
  have cols: "inbound_message_id l = mid \<and> inbound_rcpt_to l = r"
    if "inbound_fields.truncate l = ?f" for l :: Inbound
    using that by (simp add: inbound_fields.defs)
  have "db_consistent (view s')" if "db_consistent (view s)"
    using consistent_add_mail [OF that map_le_refl, of "[?f]" "(t_inbound (view s))(inbound_id l \<mapsto> l)"
        "[]" "t_outbound (view s)"] l assms(2) cols by auto
  moreover have "linked_to mid [r] (view s')" using cols [OF l(1)] by (auto simp: linked_to_def l(3) ran_def)
  ultimately show ?thesis using l by (auto simp: calm_def map_le_def)
qed

lemma forward_stored_calm:
  assumes "enqueue_forward W mid r f s = (x, s')" and "mid \<in> dom (t_messages (view s))"
    and "r \<in> dom (t_mailboxes (view s))"
  shows "calm (view s) (view s')"
proof (cases "view s' = view s")
  case False
  with enqueue_forward_view [OF assms(1)] obtain j where
    j: "outbound_fields.truncate j = queued_job mid f r" "t_outbound (view s) (outbound_id j) = None"
      "view s' = (view s)\<lparr>t_outbound := (t_outbound (view s))(outbound_id j \<mapsto> j)\<rparr>" by blast
  have "db_consistent ((view s)\<lparr>t_messages := t_messages (view s), t_inbound := t_inbound (view s),
      t_outbound := (t_outbound (view s))(outbound_id j \<mapsto> j)\<rparr>)" if "db_consistent (view s)"
  proof (rule consistent_add_mail [OF that map_le_refl])
    show "links_added (t_inbound (view s)) [] (t_inbound (view s))" by simp
    show "jobs_added (t_outbound (view s)) [queued_job mid f r] ((t_outbound (view s))(outbound_id j \<mapsto> j))"
      using j(1,2) by auto
    fix q :: Outbound assume "outbound_fields.truncate q \<in> set [queued_job mid f r]"
    then have "outbound_fields.truncate q = queued_job mid f r" by simp
    with queued_job_points [OF this] assms(2,3)
    show "outbound_message_id q \<in> dom (t_messages (view s)) \<and> outbound_sender_id q \<in> dom (t_mailboxes (view s))"
      by simp
  qed simp
  then have "db_consistent (view s')" if "db_consistent (view s)" using that by (simp add: j(3))
  then show ?thesis by (simp add: calm_def j(3))
qed simp

lemma mail_step_ok:
  assumes "mail_step W env data rcpts (p, s) (p', s')"
    and "\<And>s s'. env s s' \<Longrightarrow> calm (view s) (view s')"
    and "phase_ok (parse_mail W data) data rcpts p (view s)"
  shows "phase_ok (parse_mail W data) data rcpts p' (view s') \<and> calm (view s) (view s')"
  using assms(1)
proof cases
  case (known mid)
  from existing_message_Some [OF known(4)] obtain m where "t_messages (view s) mid = Some m"
    "message_id_header m = dedup_key (parse_mail W data)" "dedup_key (parse_mail W data) \<noteq> None" .
  then have "filed (parse_mail W data) data mid (view s)" by (auto simp: filed_def)
  with known show ?thesis by (simp add: linked_to_def)
next
  case (stored m)
  with message_stored_calm [OF stored(3)] show ?thesis by (auto simp: filed_def linked_to_def)
next
  case (not_stored e)
  with message_stored_calm [OF not_stored(3)] show ?thesis by simp
next
  case (linked mid r l rs)
  with assms(3) have f: "filed (parse_mail W data) data mid (view s)" by simp
  from link_stored_calm [OF linked(3) filed_dom [OF f]] have c: "calm (view s) (view s')"
    "linked_to mid [r] (view s')" by simp_all
  from assms(3) linked obtain ls where "rcpts = (ls @ [r]) @ rs" "linked_to mid ls (view s)" by auto
  with linked filed_calm [OF f c(1)] linked_calm [OF _ c(1)] c show ?thesis by (auto simp del: append_assoc)
next
  case (not_linked mid r e rs)
  with assms(3) link_stored_calm [OF not_linked(3)] filed_dom show ?thesis by fastforce
next
  case (forwards r mailbox f mid rs)
  with assms(3) mailbox.is_ok_getD [of r s] show ?thesis by auto
next
  case (enqueued mid r f x rs)
  with assms(3) have c: "calm (view s) (view s')"
    by (intro forward_stored_calm [OF enqueued(3)]) (auto dest: filed_dom)
  with phase_ok_calm [OF assms(3) c] enqueued show ?thesis by simp
next
  case other
  with assms(2) phase_ok_calm [OF assms(3)] show ?thesis by simp
qed (use assms(3) in auto)

lemma mail_run_ok:
  assumes "mail_run W env data rcpts (Received, s) (p, s')"
    and env: "\<And>s s'. env s s' \<Longrightarrow> calm (view s) (view s')" and "db_consistent (view s)"
  shows "phase_ok (parse_mail W data) data rcpts p (view s') \<and> db_consistent (view s')"
  using assms(1)
proof (induction "(p, s')" arbitrary: p s' rule: rtranclp_induct)
  case base
  with assms(3) show ?case by simp
next
  case (step c)
  obtain p0 s0 where c: "c = (p0, s0)" by fastforce
  with step.hyps(3) have "phase_ok (parse_mail W data) data rcpts p0 (view s0)" "db_consistent (view s0)" by simp_all
  with mail_step_ok [OF step.hyps(2) [unfolded c] env] show ?case by (auto simp: calm_def)
qed

end

text \<open>A step of the rest of the program that deletes no message, no link and no mailbox.\<close>

definition keeps_rows :: "tables \<Rightarrow> tables \<Rightarrow> bool" where
  "keeps_rows t t' \<longleftrightarrow> t_messages t \<subseteq>\<^sub>m t_messages t' \<and> t_inbound t \<subseteq>\<^sub>m t_inbound t' \<and>
     dom (t_mailboxes t) \<subseteq> dom (t_mailboxes t')"

definition keeping_step ::
  "('s, 'z) world_scheme \<Rightarrow> ('mb, 'ct) lettre \<Rightarrow> OutboundWorkerConfig \<Rightarrow> ('s \<Rightarrow> tables) \<Rightarrow> 's \<Rightarrow> 's \<Rightarrow> bool"
where
  "keeping_step W L config view s s' \<longleftrightarrow> system_step W L config s s' \<and> keeps_rows (view s) (view s')"

lemma keeping_step_calm:
  "mta W view snapshot healthy \<Longrightarrow> keeping_step W L config view s s' \<Longrightarrow> calm (view s) (view s')"
  by (auto simp: keeping_step_def keeps_rows_def calm_def dest: mta.system_step_consistent)



section \<open>A deletion at the wrong moment\<close>

context mta
begin

lemma delete_message_healthy:
  assumes "healthy s" and "k \<in> dom (t_messages (view s))"
  obtains s' where "delete_message W (Some k) s = (reply 200 (), s')" "healthy s'"
    "t_messages (view s') = (t_messages (view s))(k := None)"
proof -
  have g: "is_ok (Message_get_by_id W k s)" using message.is_ok_get [OF assms(1), of k] assms(2) by auto
  obtain x s1 where l: "Inbound_delete_message W k s = (x, s1)" by fastforce
  from inbound.delete_complete [OF assms(1) l] obtain u where u: "x = Ok u" by (auto simp: is_ok_iff)
  note h1 = inbound.delete_healthy [OF assms(1) l]
  obtain y s2 where o: "Outbound_delete_message W k s1 = (y, s2)" by fastforce
  from outbound.delete_complete [OF h1 o] obtain v where v: "y = Ok v" by (auto simp: is_ok_iff)
  note h2 = outbound.delete_healthy [OF h1 o]
  obtain z s3 where m: "Message_delete W k s2 = (z, s3)" by fastforce
  from message.delete_complete [OF h2 m] obtain w where w: "z = Ok w" by (auto simp: is_ok_iff)
  note h3 = message.delete_healthy [OF h2 m]
  have "delete_message W (Some k) s = (reply 200 (), s3)"
    using g l o m u v w by (simp add: delete_message_def)
  moreover have "t_messages (view s3) = (t_messages (view s))(k := None)"
    using inbound.delete_Ok [OF l [unfolded u]] outbound.delete_Ok [OF o [unfolded v]]
      message.delete_Ok [OF m [unfolded w]] by (simp add: delete_outbounds_def)
  ultimately show thesis using h3 by (intro that)
qed

lemma message_created:
  assumes "healthy s"
  obtains m s' where "Message_create W f s = (Ok m, s')" "message_fields.truncate m = f" "healthy s'"
    "t_messages (view s) (message_id m) = None"
    "t_messages (view s') = (t_messages (view s))(message_id m \<mapsto> m)"
proof -
  from message.create_success [OF assms, of f] obtain m s' where
    "Message_create W f s = (Ok m, s')" "message_fields.truncate m = f" "healthy s'"
    "t_messages (view s) (message_id m) = None"
    "view s' = t_messages_update (\<lambda>t. t(message_id m \<mapsto> m)) (view s)" by blast
  then show thesis by (intro that) (cases "view s"; simp)+
qed

lemma linking_healthy:
  assumes "healthy s" and "rcpts \<noteq> []"
  obtains s' where "mail_run W env data rcpts (Linking mid rcpts, s) (Answered (Ok Response_Default), s')"
    "t_messages (view s') = t_messages (view s)" "\<exists>l \<in> ran (t_inbound (view s')). inbound_message_id l = mid"
proof -
  obtain s1 where l: "store_links W mid rcpts s = (Ok (), s1)" using store_links_healthy [OF assms(1)] .
  from store_links_view [OF l] obtain u where
    u: "links_added (t_inbound (view s)) (link_rows mid rcpts) u" "view s1 = (view s)\<lparr>t_inbound := u\<rparr>" by auto
  obtain jobs where f: "view (forward_all W mid rcpts s1) = (view s1)\<lparr>t_outbound := jobs\<rparr>"
    using forward_all_view [OF refl, where mid = mid and rs = rcpts and s = s1] by blast
  have "\<lparr>inbound_message_id = mid, inbound_rcpt_to = hd rcpts\<rparr> \<in> set (link_rows mid rcpts)"
    using assms(2) by (cases rcpts) (auto simp: link_rows_def)
  from rows_added_in [OF u(1) this] obtain l :: Inbound where "l \<in> ran u" "inbound_message_id l = mid"
    by (auto simp: inbound_fields.defs ran_def)
  then show thesis
    using that [OF linked_run [OF l]] u(2) f by auto
qed

end

text \<open>
  C18. A mail can be acknowledged and lost. When a mail with its \<open>Message-ID\<close> is stored already and
  that one is deleted through the interface right after the handler has found it, then, with the
  database answering every call, the handler links the recipients to the deleted message and
  acknowledges the mail: no message is stored for it, and its links point nowhere.
\<close>

theorem acknowledged_mail_can_vanish:
  assumes "mta W view snapshot healthy" and "healthy s" and "rcpts \<noteq> []"
    and "existing_message W (dedup_key (parse_mail W data)) s = Some mid"
  shows "\<exists>s'. mail_run W (\<lambda>s s'. delete_message W (Some mid) s = (reply 200 (), s')) data rcpts
      (Received, s) (Answered (Ok Response_Default), s') \<and>
    t_messages (view s') = (t_messages (view s))(mid := None) \<and> \<not> links_ok (view s')"
proof -
  let ?env = "\<lambda>s s'. delete_message W (Some mid) s = (reply 200 (), s')"
  have "mid \<in> dom (t_messages (view s))"
    by (rule mta.existing_message_Some [OF assms(1,4)]) auto
  from mta.delete_message_healthy [OF assms(1,2) this] obtain s1 where
    d: "?env s s1" "healthy s1" "t_messages (view s1) = (t_messages (view s))(mid := None)" .
  from mta.linking_healthy [OF assms(1) d(2) assms(3)] obtain s' where
    run: "mail_run W ?env data rcpts (Linking mid rcpts, s1) (Answered (Ok Response_Default), s')"
    and t: "t_messages (view s') = t_messages (view s1)"
      "\<exists>l \<in> ran (t_inbound (view s')). inbound_message_id l = mid" .
  have "mail_step W ?env data rcpts (Linking mid rcpts, s) (Linking mid rcpts, s1)"
    by (rule mail_step.other) (rule d(1))
  from then_step [OF mail_step.known [OF assms(4)] then_step [OF this run]]
  show ?thesis using t d(3) by (intro exI [of _ s']) (auto simp: links_ok_def)
qed

theorem acknowledged_mail_can_vanish_witness:
  "\<exists>s mid s'. existing_message mail_world (dedup_key (Some example_mail)) s = Some mid \<and>
    mail_run mail_world (\<lambda>s s'. delete_message mail_world (Some mid) s = (reply 200 (), s')) [1]
      [''b@x.org''] (Received, s) (Answered (Ok Response_Default), s') \<and> \<not> links_ok (mem_view s')"
proof -
  let ?run = "handle_email mail_world [2] \<lparr>recipients = [''b@x.org'']\<rparr> mail_state"
  obtain s where "?run = (Ok Response_Default, new_handler, s)" and up: "mem_up s"
    using mta.handle_email_healthy [OF mw.mta_axioms mail_state_up, of example_zone "\<lambda>_. True"
        "\<lambda>_. Some example_mail" "[2]" "\<lparr>recipients = [''b@x.org'']\<rparr>"]
    by (elim exE conjE) (simp add: new_handler_def)
  moreover have "(case ?run of (_, _, s) \<Rightarrow>
      existing_message mail_world (dedup_key (Some example_mail)) s \<noteq> None)" by code_simp
  ultimately obtain mid where mid: "existing_message mail_world (dedup_key (Some example_mail)) s = Some mid"
    by auto
  have p: "parse_mail mail_world [1] = Some example_mail" by simp
  have e: "existing_message mail_world (dedup_key (parse_mail mail_world [1])) s = Some mid"
    unfolding p by (rule mid)
  have "[''b@x.org''] \<noteq> []" by simp
  from acknowledged_mail_can_vanish [OF mw.mta_axioms up this e] mid show ?thesis by blast
qed

text \<open>
  The look-up and the insert are two calls, so de-duplication is not atomic: a mail that arrives a
  second time while the first is between the two is stored twice.
\<close>

lemma concurrent_duplicates_stored:
  assumes "mta W view snapshot healthy" and "healthy s"
    and "existing_message W (dedup_key (parse_mail W data)) s = None"
  shows "\<exists>s' i j m n. mail_run W (\<lambda>s s'. \<exists>x h'. handle_email W data h s = (x, h', s')) data (filed_under h)
      (Received, s) (Answered (Ok Response_Default), s') \<and> i \<noteq> j \<and>
    t_messages (view s') i = Some m \<and> t_messages (view s') j = Some n \<and>
    message_fields.truncate m = message_fields.truncate n"
proof -
  let ?env = "\<lambda>s s'. \<exists>x h'. handle_email W data h s = (x, h', s')" and ?rs = "filed_under h"
  let ?key = "dedup_key (parse_mail W data)" and ?f = "email_fields (parse_mail W data) data"
  from mta.handle_email_healthy [OF assms(1,2), of data h] obtain i msgs links jobs s1 where
    e: "handle_email W data h s = (Ok Response_Default, h\<lparr>recipients := []\<rparr>, s1)"
    and f: "message_filed (view s) ?key ?f i msgs" and h: "healthy s1"
    and v: "view s1 = (view s)\<lparr>t_messages := msgs, t_inbound := links, t_outbound := jobs\<rparr>" by blast
  have "\<not> (\<exists>m \<in> ran (t_messages (view s)). ?key \<noteq> None \<and> message_id_header m = ?key)"
    using mta.existing_message_None [OF assms(1,3,2)] by blast
  with f v obtain m where m: "t_messages (view s1) i = Some m" "message_fields.truncate m = ?f"
    unfolding message_filed_def by (simp only: if_False) auto
  from mta.message_created [OF assms(1) h, of ?f] obtain n s2 where
    n: "Message_create W ?f s1 = (Ok n, s2)" "message_fields.truncate n = ?f" "healthy s2"
      "t_messages (view s1) (message_id n) = None"
      "t_messages (view s2) = (t_messages (view s1))(message_id n \<mapsto> n)" .
  have "?rs \<noteq> []" by (simp add: filed_under_def)
  from mta.linking_healthy [OF assms(1) n(3) this] obtain s' where
    run: "mail_run W ?env data ?rs (Linking (message_id n) ?rs, s2) (Answered (Ok Response_Default), s')"
    and t: "t_messages (view s') = t_messages (view s2)" .
  have "mail_step W ?env data ?rs (Unstored, s) (Unstored, s1)"
    by (rule mail_step.other) (use e in blast)
  from then_step [OF mail_step.unknown [OF assms(3)] then_step [OF this then_step [OF mail_step.stored [OF n(1)] run]]]
  show ?thesis
    using t m n(2,4,5) by (intro exI [of _ s'] exI [of _ i] exI [of _ "message_id n"] exI [of _ m] exI [of _ n]) auto
qed

end
