(* ===== verification/Zm_Repeat.thy ===== *)
theory Zm_Repeat
  imports Zm_Provision
begin

text \<open>
  Provisioning as a client sees it over several requests (\<^verbatim>\<open>src/api.rs\<close>): repeating a create that
  succeeded, reading what it created, and deleting it, for domains, mailboxes and records.
\<close>

section \<open>Creating again and reading back\<close>

lemma reply_inject [simp]: "reply st x = reply st' y \<longleftrightarrow> st = st' \<and> x = y"
  by (auto simp: reply_def ApiResponse_ok_def)

lemma refused_not_success [simp]:
  "Problem st p \<noteq> reply st' x" "unparsed_body \<noteq> reply st' x" "failed e \<noteq> reply st' x"
  "missing what i \<noteq> reply st' x"
  by (simp_all add: reply_def missing_def)

text \<open>The mailbox a body asks for depends on the time only in its stamps.\<close>

lemma requested_mailbox_later:
  assumes "requested_mailbox now b = Ok m"
  shows "requested_mailbox now' b = Ok (m\<lparr>mailbox_created_at := now', mailbox_updated_at := now'\<rparr>)"
  using assms
  by (auto simp: requested_mailbox_def Mailbox_try_from_def Let_def
      split: if_splits option.splits sum.splits MailboxError.splits list.splits)

context store
begin

lemma create_domain_repeats:
  assumes "create_domain T meanwhile (Some b) s = (reply 200 dto, s')"
    and "healthy (meanwhile s)" and "healthy s'"
  shows "create_domain T meanwhile' (Some b) s' = (reply 200 dto, s')"
    "get_domain T (Some (ddto_id dto)) s' = reply 200 dto"
proof -
  have i: "trim (new_domain_id b) \<noteq> []" using assms(1) by (auto simp: create_domain_def)
  have "create_domain T meanwhile (Some \<lparr>new_domain_id = new_domain_id b\<rparr>) s = (reply 200 dto, s')"
    using assms(1) by (cases b) simp
  from create_domain_confirms [of meanwhile s, OF assms(2) i this] obtain d where
    d: "dto = DomainDTO_from T d" "t_domains (view s') (trim (new_domain_id b)) = Some d"
      "domain_id d = trim (new_domain_id b)" by auto
  note g = domain.get_complete [OF assms(3) d(2)]
  with d(1) i show "create_domain T meanwhile' (Some b) s' = (reply 200 dto, s')"
    by (simp add: create_domain_def render_domain_created_def Let_def)
  from g d(1,3) show "get_domain T (Some (ddto_id dto)) s' = reply 200 dto"
    by (simp add: get_domain_def DomainDTO_from_def)
qed

lemma create_record_repeats:
  assumes "create_record T meanwhile (Some b) s = (reply 200 dto, s')"
    and "healthy s" and "healthy (meanwhile s)" and "healthy s'"
    and "to_lowercase (trim (new_record_domain_id b)) \<in> dom (t_domains (view s'))"
    and "inj_on record_triple (ran (t_records (view s')))"
  shows "create_record T meanwhile' (Some b) s' = (reply 200 dto, s')"
    "get_record T (Some (rdto_id dto)) s' = reply 200 dto"
proof -
  let ?d = "to_lowercase (trim (new_record_domain_id b))" and ?v = "trim (new_record_value b)"
  from assms(1) obtain t where t: "parse_record_type (trim (new_record_type b)) = Ok t"
    and val: "validate_record_fields T ?d ?v s = Ok ()"
    by (auto simp: create_record_def Let_def split: sum.splits)
  then have v: "?v \<noteq> []" and "?d \<in> dom (t_domains (view s))"
    by (auto simp: validate_record_healthy [OF assms(2)] trim_idem split: if_splits)
  from create_record_confirms [OF assms(2,3) t refl this(2) refl v assms(1)] obtain row where
    row: "row \<in> ran (t_records (view s'))" "record_triple row = (?d, t, ?v)"
      "record_ttl row = new_record_ttl b" "dto = RecordApiDTO_from T row"
    by (auto simp: confirms_record_def split: if_splits) (auto simp: reply_def)
  obtain rows where rows: "Record_filter_domain T ?d s' = Ok rows"
    using rec.query_complete [OF assms(4), of ?d] by (auto simp: is_ok_iff)
  have "record_resolve T rows t ?v (new_record_ttl b) \<noteq> None"
    using row(1,2) domain_records [OF rows, of row] by (auto simp: record_resolve_None record_triple_def)
  then obtain r where r: "record_resolve T rows t ?v (new_record_ttl b) = Some r" by blast
  from record_resolved [OF rows this] obtain row' where row': "row' \<in> ran (t_records (view s'))"
    "record_triple row' = (?d, t, ?v)" "confirms_record T row' (new_record_ttl b) r" by blast
  have "row' = row" using row' row(1,2) inj_onD [OF assms(6), of row' row] by simp
  with row'(3) row(3,4) have "r = reply 200 dto" by (simp add: confirms_record_def)
  moreover have "validate_record_fields T ?d ?v s' = Ok ()"
    using assms(5) v by (auto simp: validate_record_healthy [OF assms(4)] trim_idem)
  ultimately show "create_record T meanwhile' (Some b) s' = (reply 200 dto, s')"
    using t rows r by (simp add: create_record_def Let_def)
  from row(1) obtain i where i: "t_records (view s') i = Some row" by (auto simp: ran_def)
  from rec.get_complete [OF assms(4) this] record_keyed [OF this] row(4)
  show "get_record T (Some (rdto_id dto)) s' = reply 200 dto"
    by (simp add: get_record_def RecordApiDTO_from_def)
qed

end

context mta
begin

lemma create_mailbox_repeats:
  assumes "create_mailbox W meanwhile (Some b) s = (reply 200 dto, s')"
    and "healthy (meanwhile s)" and "healthy s'"
  shows "create_mailbox W meanwhile' (Some b) s' = (reply 200 dto, s')"
    "get_mailbox W (Some (mdto_id dto)) s' = reply 200 dto"
proof -
  from assms(1) obtain m where m: "requested_mailbox (Timestamp_now W s) b = Ok m"
    by (auto simp: create_mailbox_def split: sum.splits)
  from create_mailbox_confirms [OF assms(2) m assms(1)] obtain row where
    row: "t_mailboxes (view s') (mailbox_id m) = Some row" "reply 200 dto = mailbox_resolve W row m" by blast
  then have same: "same_mailbox row m" "dto = MailboxDTO_from W row"
    by (auto simp: mailbox_resolve_def same_mailbox_def split: if_splits) (auto simp: reply_def)
  note g = mailbox.get_complete [OF assms(3) row(1)]
  with requested_mailbox_later [OF m, of "Timestamp_now W s'"] same show "create_mailbox W meanwhile' (Some b) s' = (reply 200 dto, s')"
    by (simp add: create_mailbox_def mailbox_resolve_same same_mailbox_def)
  from g same(2) mailbox_keyed [OF row(1)] show "get_mailbox W (Some (mdto_id dto)) s' = reply 200 dto"
    by (simp add: get_mailbox_def MailboxDTO_from_def)
qed

end

section \<open>Deleting\<close>

context store
begin

lemma delete_domain_repeats:
  assumes "delete_domain T (Some i) s = (reply 200 (), s')"
  shows "get_domain T (Some i) s' = missing ''domain'' i" "delete_domain T (Some i) s' = (missing ''domain'' i, s')"
proof -
  from assms obtain u where "Domain_delete T i s = (Ok u, s')"
    by (auto simp: delete_domain_def split: if_splits prod.splits sum.splits)
  from domain.delete_Ok [OF this] have "t_domains (view s') i = None" by (simp add: delete_domains_def Let_def)
  from domain.get_Err [OF this] show "get_domain T (Some i) s' = missing ''domain'' i"
    "delete_domain T (Some i) s' = (missing ''domain'' i, s')"
    by (auto simp: get_domain_def delete_domain_def)
qed

lemma delete_mailbox_repeats:
  assumes "delete_mailbox T (Some a) s = (reply 200 (), s')"
  shows "get_mailbox T (Some a) s' = missing ''mailbox'' a" "delete_mailbox T (Some a) s' = (missing ''mailbox'' a, s')"
proof -
  from assms have k: "is_ok (Mailbox_get_by_id T a s)"
    and "\<exists>u. Mailbox_delete T a s = (Ok u, s')"
    by (auto simp: delete_mailbox_def split: if_splits prod.splits sum.splits)
  then obtain u where "Mailbox_delete T a s = (Ok u, s')" by blast
  from mailbox.delete_Ok [OF this] have v: "view s' = delete_mailboxes (\<lambda>m. mailbox_id m = a) (view s)" .
  have "t_mailboxes (view s') a = None"
    using mailbox_keyed [of s a] by (auto simp: v delete_mailboxes_def without_def Let_def split: option.splits)
  from mailbox.get_Err [OF this] show "get_mailbox T (Some a) s' = missing ''mailbox'' a"
    "delete_mailbox T (Some a) s' = (missing ''mailbox'' a, s')"
    by (auto simp: get_mailbox_def delete_mailbox_def)
qed

lemma delete_record_repeats:
  assumes "delete_record T (Some k) s = (reply 200 (), s')"
  shows "get_record T (Some k) s' = missing ''record'' (dec k)"
    "delete_record T (Some k) s' = (missing ''record'' (dec k), s')"
proof -
  from assms obtain u where "Record_delete T k s = (Ok u, s')"
    by (auto simp: delete_record_def split: if_splits prod.splits sum.splits)
  from rec.delete_Ok [OF this] have "t_records (view s') k = None" by simp
  from rec.get_Err [OF this] show "get_record T (Some k) s' = missing ''record'' (dec k)"
    "delete_record T (Some k) s' = (missing ''record'' (dec k), s')"
    by (auto simp: get_record_def delete_record_def)
qed

end

section \<open>The cycle\<close>

text \<open>
  C25. Provisioning can be repeated safely, as the interface documents. When a create of a domain, a
  mailbox or a record is answered 200, a second, identical create is answered with the same document
  and changes nothing, and reading the identifier of that document gives the same document again; for
  a record this needs its domain still there and the triple of domain, type and value unique, which
  the database enforces. When a delete is answered 200, reading and deleting again answer 404 and
  change nothing.
\<close>

theorem provisioning_repeats:
  assumes "mta W view snapshot healthy" and "healthy s" and "healthy (meanwhile s)" and "healthy s'"
  shows "(create_domain W meanwhile (Some nd) s = (reply 200 ddto, s') \<longrightarrow>
      create_domain W meanwhile' (Some nd) s' = (reply 200 ddto, s') \<and>
      get_domain W (Some (ddto_id ddto)) s' = reply 200 ddto) \<and>
    (create_mailbox W meanwhile (Some nm) s = (reply 200 mdto, s') \<longrightarrow>
      create_mailbox W meanwhile' (Some nm) s' = (reply 200 mdto, s') \<and>
      get_mailbox W (Some (mdto_id mdto)) s' = reply 200 mdto) \<and>
    (create_record W meanwhile (Some nr) s = (reply 200 rdto, s') \<longrightarrow>
      to_lowercase (trim (new_record_domain_id nr)) \<in> dom (t_domains (view s')) \<longrightarrow>
      inj_on record_triple (ran (t_records (view s'))) \<longrightarrow>
      create_record W meanwhile' (Some nr) s' = (reply 200 rdto, s') \<and>
      get_record W (Some (rdto_id rdto)) s' = reply 200 rdto) \<and>
    (delete_domain W (Some i) s = (reply 200 (), s') \<longrightarrow>
      get_domain W (Some i) s' = missing ''domain'' i \<and>
      delete_domain W (Some i) s' = (missing ''domain'' i, s')) \<and>
    (delete_mailbox W (Some i) s = (reply 200 (), s') \<longrightarrow>
      get_mailbox W (Some i) s' = missing ''mailbox'' i \<and>
      delete_mailbox W (Some i) s' = (missing ''mailbox'' i, s')) \<and>
    (delete_record W (Some k) s = (reply 200 (), s') \<longrightarrow>
      get_record W (Some k) s' = missing ''record'' (dec k) \<and>
      delete_record W (Some k) s' = (missing ''record'' (dec k), s'))"
  using mta.axioms(1) [OF assms(1)] assms
  by (blast intro: mta.create_mailbox_repeats store.create_domain_repeats store.create_record_repeats
      store.delete_domain_repeats store.delete_mailbox_repeats store.delete_record_repeats)

text \<open>A response that is a success of the interface, and its payload.\<close>

definition succeeds :: "'a response \<Rightarrow> bool" where
  "succeeds r \<longleftrightarrow> (case r of Success st b \<Rightarrow> st = 200 \<and> response_ok b | _ \<Rightarrow> False)"

lemma succeedsE:
  assumes "succeeds (fst x)"
  obtains d where "x = (reply 200 d, snd x)"
proof -
  from assms obtain b where b: "fst x = Success 200 b" "response_ok b"
    by (auto simp: succeeds_def split: response.splits)
  then have "fst x = reply 200 (response_data b)" by (cases b) (simp add: reply_def ApiResponse_ok_def)
  then show thesis by (metis prod.collapse that)
qed

theorem provisioning_repeats_witness:
  "(\<exists>dto s'. create_domain (example_world (\<lambda>_. True)) other_creates (Some \<lparr>new_domain_id = '' x.org''\<rparr>) mem_empty
        = (reply 200 dto, s') \<and>
      create_domain (example_world (\<lambda>_. True)) id (Some \<lparr>new_domain_id = '' x.org''\<rparr>) s' = (reply 200 dto, s') \<and>
      get_domain (example_world (\<lambda>_. True)) (Some (ddto_id dto)) s' = reply 200 dto) \<and>
   (\<exists>s'. delete_domain (example_world (\<lambda>_. True)) (Some ''x.org'') zone_db = (reply 200 (), s') \<and>
      delete_domain (example_world (\<lambda>_. True)) (Some ''x.org'') s' = (missing ''domain'' ''x.org'', s'))"
proof
  let ?W = "example_world (\<lambda>_. True)"
  let ?x = "create_domain ?W other_creates (Some \<lparr>new_domain_id = '' x.org''\<rparr>) mem_empty"
  have x: "succeeds (fst ?x)" "mem_up (other_creates mem_empty)" "mem_up (snd ?x)" by code_simp+
  then obtain dto where d: "?x = (reply 200 dto, snd ?x)" by (auto elim: succeedsE)
  with provisioning_repeats [of ?W mem_view mem_snapshot mem_up mem_empty other_creates "snd ?x"
      "\<lparr>new_domain_id = '' x.org''\<rparr>" dto id, OF mw.mta_axioms mem_empty_up x(2,3)]
  show "\<exists>dto s'. ?x = (reply 200 dto, s') \<and>
      create_domain ?W id (Some \<lparr>new_domain_id = '' x.org''\<rparr>) s' = (reply 200 dto, s') \<and>
      get_domain ?W (Some (ddto_id dto)) s' = reply 200 dto" by blast
  let ?y = "delete_domain ?W (Some ''x.org'') zone_db"
  have y: "succeeds (fst ?y)" "mem_up (id zone_db)" "mem_up (snd ?y)" by code_simp+
  then have "?y = (reply 200 (), snd ?y)" by (auto elim: succeedsE)
  with provisioning_repeats [of ?W mem_view mem_snapshot mem_up zone_db id "snd ?y" _ _ _ _ _ _ _ "''x.org''",
      OF mw.mta_axioms zone_db_up y(2,3)]
  show "\<exists>s'. ?y = (reply 200 (), s') \<and> delete_domain ?W (Some ''x.org'') s' = (missing ''domain'' ''x.org'', s')"
    by blast
qed

end
