(* ===== verification/Zm_Replies.thy ===== *)
theory Zm_Replies
  imports Zm_Router
begin

text \<open>
  The shape of the answers of the HTTP interface: what a client can rely on in the response of any
  handler, whatever the request and whatever the database does, handler by handler with the statuses
  it can have.
\<close>

section \<open>Well-formed responses\<close>

text \<open>
  A success is a 200 with an envelope that says so; a failure is a problem document with a detail,
  under one of the given statuses, which the document repeats, except that an unreadable body is
  answered with 400 and a document that says 422.
\<close>

definition problem_for :: "StatusCode \<Rightarrow> ApiProblem \<Rightarrow> bool" where
  "problem_for st p \<longleftrightarrow>
     problem_detail p \<noteq> None \<and> (problem_status p = st \<or> st = 400 \<and> problem_status p = 422)"

fun well_formed :: "StatusCode list \<Rightarrow> 'a response \<Rightarrow> bool" where
  "well_formed sts (Success st b) \<longleftrightarrow> st = 200 \<and> response_ok b"
| "well_formed sts (Problem st p) \<longleftrightarrow> st \<in> set sts \<and> problem_for st p"
| "well_formed sts (NoContent st) \<longleftrightarrow> False"

lemmas problem_defs = bad_request_def not_found_def validation_error_def conflict_def
  server_error_def missing_def no_record_id_def no_manager_def unknown_service_def
  write_rejection_def problem_for_def

lemma well_formed_reply [simp]: "well_formed sts (reply 200 d)"
  by (simp add: reply_def ApiResponse_ok_def)

lemma well_formed_mono: "well_formed sts r \<Longrightarrow> set sts \<subseteq> set sts' \<Longrightarrow> well_formed sts' r"
  by (cases r) auto

text \<open>The problems of the two validators, which handlers render with a status of their own.\<close>

definition refusal :: "ApiProblem \<Rightarrow> bool" where
  "refusal p \<longleftrightarrow> problem_status p = 400 \<and> problem_detail p \<noteq> None"

lemma requested_mailbox_refusal: "requested_mailbox now b = Err p \<Longrightarrow> refusal p"
  by (auto simp: requested_mailbox_def Let_def refusal_def bad_request_def
      split: if_splits sum.splits option.splits MailboxError.splits)

lemma validate_record_refusal: "validate_record_fields T d v s = Err p \<Longrightarrow> refusal p"
  by (auto simp: validate_record_fields_def refusal_def bad_request_def split: if_splits)

lemma parse_record_type_refusal: "parse_record_type x = Err p \<Longrightarrow> refusal p"
  by (auto simp: parse_record_type_def refusal_def bad_request_def split: option.splits)

lemma patched_record_refusal: "patched_record b r = Err p \<Longrightarrow> refusal p"
  by (auto simp: patched_record_def Let_def split: option.splits sum.splits
      dest: parse_record_type_refusal)

lemmas refusals = requested_mailbox_refusal validate_record_refusal parse_record_type_refusal
  patched_record_refusal

section \<open>Handler by handler\<close>

lemma domain_replies:
  "well_formed [500] (list_domains T l off s)" "well_formed [400, 500] (fst (create_domain T f nd s))"
  "well_formed [404] (get_domain T i s)" "well_formed [400, 404] (patch_domain T i pd s)"
  "well_formed [404, 500] (fst (delete_domain T i s))"
  by (auto simp: list_domains_def create_domain_def get_domain_def patch_domain_def delete_domain_def
      render_domain_created_def Let_def problem_defs split: option.splits sum.splits prod.splits)

lemma mailbox_resolve_reply: "well_formed [409] (mailbox_resolve T m m')"
  by (simp add: mailbox_resolve_def problem_defs)

lemma mailbox_replies:
  "well_formed [500] (list_mailboxes T l off d s)" "well_formed [400, 409, 500] (fst (create_mailbox W f nm s'))"
  "well_formed [404] (get_mailbox T i s)" "well_formed [400, 404, 500] (fst (patch_mailbox T i pm s))"
  "well_formed [404, 500] (fst (delete_mailbox T i s))"
  subgoal by (auto simp: list_mailboxes_def problem_defs split: option.splits sum.splits prod.splits)
  subgoal by (auto simp: create_mailbox_def problem_defs
        split: option.splits sum.splits prod.splits dest!: refusals simp: refusal_def
        intro: well_formed_mono [OF mailbox_resolve_reply])
  subgoal by (auto simp: get_mailbox_def Let_def problem_defs split: sum.splits)
  subgoal by (auto simp: patch_mailbox_def Let_def problem_defs split: option.splits sum.splits prod.splits)
  subgoal by (auto simp: delete_mailbox_def Let_def problem_defs split: sum.splits prod.splits)
  done

lemma record_resolve_reply: "record_resolve T rows t v ttl = Some r \<Longrightarrow> well_formed [400, 409, 500] r"
  by (auto simp: record_resolve_def problem_defs split: option.splits if_splits)

lemma record_replies:
  "well_formed [400, 500] (list_records T l off d t s)"
  "well_formed [400, 409, 500] (fst (create_record T f nr s))"
  "well_formed [404] (get_record T k s)" "well_formed [400, 404, 409, 500] (fst (patch_record T k pr s))"
  "well_formed [404, 500] (fst (delete_record T k s))"
  subgoal by (auto simp: list_records_def Let_def problem_defs
        split: option.splits sum.splits prod.splits dest!: refusals simp: refusal_def)
  subgoal by (auto simp: create_record_def Let_def problem_defs
        split: option.splits sum.splits prod.splits dest!: refusals record_resolve_reply simp: refusal_def)
  subgoal by (auto simp: get_record_def problem_defs split: option.splits sum.splits)
  subgoal by (auto simp: patch_record_def Let_def problem_defs
        split: option.splits sum.splits prod.splits dest!: refusals simp: refusal_def)
  subgoal by (auto simp: delete_record_def problem_defs split: option.splits sum.splits prod.splits)
  done

lemma messages_page_reply: "well_formed [404, 500] (messages_page T i d l off s)"
  by (auto simp: messages_page_def ensure_mailbox_exists_def problem_defs split: option.splits sum.splits)

lemma message_replies:
  "well_formed [400, 409, 500] (fst (send_email W L body s'))"
  "well_formed [404, 500] (list_mailbox_messages T i q s)"
  "well_formed [404, 500] (list_mailbox_inbox T i l off s)"
  "well_formed [404, 500] (list_mailbox_sent T i l off s)" "well_formed [404] (get_message T k s)"
  "well_formed [404, 500] (fst (delete_message T k s))" "well_formed [] health"
  subgoal by (auto simp: send_email_def Let_def problem_defs
        split: option.splits sum.splits prod.splits list.splits)
  subgoal by (auto simp: list_mailbox_messages_def Let_def messages_page_reply split: prod.splits)
  subgoal by (auto simp: list_mailbox_inbox_def messages_page_reply split: prod.splits)
  subgoal by (auto simp: list_mailbox_sent_def messages_page_reply split: prod.splits)
  subgoal by (auto simp: get_message_def Let_def problem_defs split: sum.splits)
  subgoal by (auto simp: delete_message_def Let_def problem_defs split: sum.splits prod.splits)
  subgoal by (simp add: health_def)
  done

lemma service_replies:
  "well_formed [500] (list_services m)" "well_formed [400, 500] (fst (start_service spawn i m))"
  "well_formed [400, 500] (fst (stop_service i m))" "well_formed [400, 500] (fst (set_mode spawn sb m))"
  by (auto simp: list_services_def start_service_def stop_service_def set_mode_def Let_def problem_defs
      split: option.splits sum.splits prod.splits)

lemma rejection_reply: "st \<in> {401, 403} \<Longrightarrow> well_formed [401, 403] (write_rejection st detail)"
  by (auto simp: write_rejection_def problem_for_def)

lemmas replies = domain_replies mailbox_replies record_replies message_replies service_replies

end
