(* ===== verification/Zm_Wire.thy ===== *)
theory Zm_Wire
  imports Zm_Replies
begin

text \<open>
  What the HTTP interface puts on the wire (\<^verbatim>\<open>src/api.rs\<close>, \<^verbatim>\<open>src/services.rs\<close>): the conversion of
  request bodies from JSON and of responses to and from JSON, as the \<open>derive(Serialize)\<close> and
  \<open>derive(Deserialize)\<close> of the structures and their \<open>serde\<close> attributes prescribe. Reading reuses
  the data formats of \<open>Zm_Load\<close>; turning JSON values into text and back is the JSON library's.
\<close>

section \<open>Request bodies\<close>

definition NewDomain_deserialize :: "'v deserializer \<Rightarrow> 'v \<Rightarrow> (NewDomain, de_error) result" where
  "NewDomain_deserialize D =
     deserialize_struct D [(''id'', field (de_string D) (\<lambda>x r. r\<lparr>new_domain_id := x\<rparr>))]
       {''id''} \<lparr>new_domain_id = []\<rparr>"

definition PatchDomain_deserialize :: "'v deserializer \<Rightarrow> 'v \<Rightarrow> (PatchDomain, de_error) result" where
  "PatchDomain_deserialize D =
     deserialize_struct D
       [(''note'', field (de_opt D (de_string D)) (\<lambda>x r. r\<lparr>patch_domain_note := x\<rparr>))]
       {} \<lparr>patch_domain_note = None\<rparr>"

definition NewMailbox_deserialize :: "'v deserializer \<Rightarrow> 'v \<Rightarrow> (NewMailbox, de_error) result" where
  "NewMailbox_deserialize D =
     deserialize_struct D
       [(''id'', field (de_string D) (\<lambda>x r. r\<lparr>new_mailbox_id := x\<rparr>)),
        (''domain_id'', field (de_opt D (de_string D)) (\<lambda>x r. r\<lparr>new_mailbox_domain_id := x\<rparr>)),
        (''forward_to'', field (de_opt D (de_string D)) (\<lambda>x r. r\<lparr>new_mailbox_forward_to := x\<rparr>))]
       {''id''}
       \<lparr>new_mailbox_id = [], new_mailbox_domain_id = None, new_mailbox_forward_to = None\<rparr>"

definition PatchMailbox_deserialize :: "'v deserializer \<Rightarrow> 'v \<Rightarrow> (PatchMailbox, de_error) result" where
  "PatchMailbox_deserialize D =
     deserialize_struct D
       [(''domain_id'', field (de_opt D (de_string D)) (\<lambda>x r. r\<lparr>patch_mailbox_domain_id := x\<rparr>)),
        (''note'', field (de_opt D (de_string D)) (\<lambda>x r. r\<lparr>patch_mailbox_note := x\<rparr>)),
        (''forward_to'', field (de_opt D (de_string D)) (\<lambda>x r. r\<lparr>patch_mailbox_forward_to := x\<rparr>))]
       {} \<lparr>patch_mailbox_domain_id = None, patch_mailbox_note = None, patch_mailbox_forward_to = None\<rparr>"

definition NewRecord_deserialize :: "'v deserializer \<Rightarrow> 'v \<Rightarrow> (NewRecord, de_error) result" where
  "NewRecord_deserialize D =
     deserialize_struct D
       [(''domain_id'', field (de_string D) (\<lambda>x r. r\<lparr>new_record_domain_id := x\<rparr>)),
        (''record_type'', field (de_string D) (\<lambda>x r. r\<lparr>new_record_type := x\<rparr>)),
        (''value'', field (de_string D) (\<lambda>x r. r\<lparr>new_record_value := x\<rparr>)),
        (''ttl'', field (de_u32 D) (\<lambda>x r. r\<lparr>new_record_ttl := x\<rparr>))]
       {''domain_id'', ''record_type'', ''value''}
       \<lparr>new_record_domain_id = [], new_record_type = [], new_record_value = [],
        new_record_ttl = default_record_ttl\<rparr>"

definition PatchRecord_deserialize :: "'v deserializer \<Rightarrow> 'v \<Rightarrow> (PatchRecord, de_error) result" where
  "PatchRecord_deserialize D =
     deserialize_struct D
       [(''domain_id'', field (de_opt D (de_string D)) (\<lambda>x r. r\<lparr>patch_record_domain_id := x\<rparr>)),
        (''record_type'', field (de_opt D (de_string D)) (\<lambda>x r. r\<lparr>patch_record_type := x\<rparr>)),
        (''value'', field (de_opt D (de_string D)) (\<lambda>x r. r\<lparr>patch_record_value := x\<rparr>)),
        (''ttl'', field (de_opt D (de_u32 D)) (\<lambda>x r. r\<lparr>patch_record_ttl := x\<rparr>))]
       {} \<lparr>patch_record_domain_id = None, patch_record_type = None, patch_record_value = None,
           patch_record_ttl = None\<rparr>"

definition SendEmail_deserialize :: "'v deserializer \<Rightarrow> 'v \<Rightarrow> (SendEmail, de_error) result" where
  "SendEmail_deserialize D =
     deserialize_struct D
       [(''from'', field (de_string D) (\<lambda>x r. r\<lparr>send_from := x\<rparr>)),
        (''to'', field (de_vec D (de_string D)) (\<lambda>x r. r\<lparr>send_to_list := x\<rparr>)),
        (''cc'', field (de_vec D (de_string D)) (\<lambda>x r. r\<lparr>send_cc := x\<rparr>)),
        (''bcc'', field (de_vec D (de_string D)) (\<lambda>x r. r\<lparr>send_bcc := x\<rparr>)),
        (''subject'', field (de_opt D (de_string D)) (\<lambda>x r. r\<lparr>send_subject := x\<rparr>)),
        (''body'', field (de_string D) (\<lambda>x r. r\<lparr>send_body := x\<rparr>)),
        (''content_type'', field (de_opt D (de_string D)) (\<lambda>x r. r\<lparr>send_content_type := x\<rparr>))]
       {''from'', ''to'', ''body''}
       \<lparr>send_from = [], send_to_list = [], send_cc = [], send_bcc = [], send_subject = None,
        send_body = [], send_content_type = None\<rparr>"

definition SetModeBody_deserialize :: "'v deserializer \<Rightarrow> 'v \<Rightarrow> (SetModeBody, de_error) result" where
  "SetModeBody_deserialize D =
     deserialize_struct D [(''mode'', field (BootMode_deserialize D) (\<lambda>x r. r\<lparr>body_mode := x\<rparr>))]
       {''mode''} \<lparr>body_mode = Mode_Full\<rparr>"

section \<open>Writing responses\<close>

definition ser_num :: "nat \<Rightarrow> json" where "ser_num n = JNumber (dec n)"

definition ser_word :: "'a::len word \<Rightarrow> json" where "ser_word w = ser_num (unat w)"

definition ser_opt :: "('a \<Rightarrow> json) \<Rightarrow> 'a option \<Rightarrow> json" where
  "ser_opt f x = (case x of None \<Rightarrow> JNull | Some y \<Rightarrow> f y)"

definition ser_strings :: "string list \<Rightarrow> json" where "ser_strings xs = JArray (map JString xs)"

text \<open>A field under \<open>skip_serializing_if = "Option::is_none"\<close>.\<close>

definition unless_none :: "string \<Rightarrow> ('a \<Rightarrow> json) \<Rightarrow> 'a option \<Rightarrow> (string \<times> json) list" where
  "unless_none k f x = (case x of None \<Rightarrow> [] | Some y \<Rightarrow> [(k, f y)])"

definition ApiProblem_serialize :: "ApiProblem \<Rightarrow> json" where
  "ApiProblem_serialize p =
     JObject ([(''status'', ser_word (problem_status p)), (''type'', JString (problem_type p))]
       @ unless_none ''detail'' JString (problem_detail p))"

definition ApiResponse_serialize :: "('a \<Rightarrow> json) \<Rightarrow> 'a ApiResponse \<Rightarrow> json" where
  "ApiResponse_serialize f r =
     JObject [(''ok'', JBool (response_ok r)), (''data'', f (response_data r))]"

definition Page_serialize :: "('a \<Rightarrow> json) \<Rightarrow> 'a Page \<Rightarrow> json" where
  "Page_serialize f p =
     JObject ([(''items'', JArray (map f (page_items p))), (''limit'', ser_word (page_limit p)),
               (''offset'', ser_word (page_offset p))]
       @ unless_none ''next_offset'' ser_word (page_next_offset p))"

definition DomainDTO_serialize :: "DomainDTO \<Rightarrow> json" where
  "DomainDTO_serialize d =
     JObject [(''id'', JString (ddto_id d)), (''created_at'', JString (ddto_created_at d)),
              (''updated_at'', JString (ddto_updated_at d))]"

definition MailboxDTO_serialize :: "MailboxDTO \<Rightarrow> json" where
  "MailboxDTO_serialize m =
     JObject [(''id'', JString (mdto_id m)), (''domain_id'', JString (mdto_domain_id m)),
              (''created_at'', JString (mdto_created_at m)),
              (''updated_at'', JString (mdto_updated_at m)),
              (''forward_to'', ser_opt JString (mdto_forward_to m))]"

definition RecordApiDTO_serialize :: "RecordApiDTO \<Rightarrow> json" where
  "RecordApiDTO_serialize r =
     JObject [(''id'', ser_num (rdto_id r)), (''domain_id'', JString (rdto_domain_id r)),
              (''record_type'', JString (rdto_record_type r)), (''value'', JString (rdto_value r)),
              (''ttl'', ser_word (rdto_ttl r)), (''created_at'', JString (rdto_created_at r)),
              (''updated_at'', JString (rdto_updated_at r))]"

definition SendResult_serialize :: "SendResult \<Rightarrow> json" where
  "SendResult_serialize r =
     JObject [(''message_id'', ser_num (sent_message_id r)),
              (''outbound_ids'', JArray (map ser_num (sent_outbound_ids r)))]"

definition MessageDTO_serialize :: "MessageDTO \<Rightarrow> json" where
  "MessageDTO_serialize m =
     JObject ([(''id'', ser_num (msg_id m))]
       @ unless_none ''direction'' JString (msg_direction m)
       @ [(''mail_from'', JString (msg_mail_from m))]
       @ unless_none ''subject'' JString (msg_subject m)
       @ unless_none ''message_id_header'' JString (msg_message_id_header m)
       @ unless_none ''content_type'' JString (msg_content_type m)
       @ unless_none ''from_address'' JString (msg_from_address m)
       @ [(''to'', ser_strings (msg_to m)), (''cc'', ser_strings (msg_cc m)),
          (''bcc'', ser_strings (msg_bcc m)), (''created_at'', JString (msg_created_at m)),
          (''updated_at'', JString (msg_updated_at m))])"

definition HealthInfo_serialize :: "HealthInfo \<Rightarrow> json" where
  "HealthInfo_serialize h =
     JObject [(''service'', JString (health_service h)), (''version'', JString (health_version h)),
              (''status'', JString (health_status h))]"

fun Service_serialize :: "Service \<Rightarrow> json" where
  "Service_serialize Api = JString ''api''"
| "Service_serialize Smtp = JString ''smtp''"
| "Service_serialize Smtps = JString ''smtps''"
| "Service_serialize Dns = JString ''dns''"

fun Status_serialize :: "Status \<Rightarrow> json" where
  "Status_serialize Idle = JString ''idle''"
| "Status_serialize Running = JString ''running''"

definition ServiceReport_serialize :: "ServiceReport \<Rightarrow> json" where
  "ServiceReport_serialize r =
     JObject [(''service'', Service_serialize (report_service r)),
              (''status'', Status_serialize (report_status r))]"

definition ServiceResult_serialize :: "ServiceResult \<Rightarrow> json" where
  "ServiceResult_serialize r =
     JObject [(''service'', Service_serialize (result_service r)),
              (''status'', Status_serialize (result_status r)),
              (''changed'', JBool (result_changed r))]"

text \<open>Records of the configuration; the name of a type on the wire is that of its variant.\<close>

definition RecordDTO_serialize :: "RecordDTO \<Rightarrow> json" where
  "RecordDTO_serialize r =
     JObject [(''domain_id'', JString (dto_domain_id r)),
              (''record_type'', JString (record_type_to_string (dto_record_type r))),
              (''value'', JString (dto_value r)), (''ttl'', ser_word (dto_ttl r))]"

section \<open>Reading responses\<close>

text \<open>The response structures derive \<open>Deserialize\<close> as well, for clients written against the library.\<close>

definition de_row_id :: "'v deserializer \<Rightarrow> 'v \<Rightarrow> (row_id, de_error) result" where
  "de_row_id D v = and_then (de_u64 D v) (\<lambda>w. Ok (unat w))"

definition ApiProblem_deserialize :: "'v deserializer \<Rightarrow> 'v \<Rightarrow> (ApiProblem, de_error) result" where
  "ApiProblem_deserialize D =
     deserialize_struct D
       [(''status'', field (de_u16 D) (\<lambda>x r. r\<lparr>problem_status := x\<rparr>)),
        (''type'', field (de_string D) (\<lambda>x r. r\<lparr>problem_type := x\<rparr>)),
        (''detail'', field (de_opt D (de_string D)) (\<lambda>x r. r\<lparr>problem_detail := x\<rparr>))]
       {''status'', ''type''} \<lparr>problem_status = 0, problem_type = [], problem_detail = None\<rparr>"

text \<open>The envelope and the page are generic; \<open>z\<close> stands in for the payload until it is read.\<close>

definition ApiResponse_deserialize ::
  "'v deserializer \<Rightarrow> ('v \<Rightarrow> ('a, de_error) result) \<Rightarrow> 'a \<Rightarrow> 'v \<Rightarrow> ('a ApiResponse, de_error) result" where
  "ApiResponse_deserialize D f z =
     deserialize_struct D
       [(''ok'', field (de_bool D) (\<lambda>x r. r\<lparr>response_ok := x\<rparr>)),
        (''data'', field f (\<lambda>x r. r\<lparr>response_data := x\<rparr>))]
       {''ok'', ''data''} \<lparr>response_ok = False, response_data = z\<rparr>"

definition Page_deserialize ::
  "'v deserializer \<Rightarrow> ('v \<Rightarrow> ('a, de_error) result) \<Rightarrow> 'v \<Rightarrow> ('a Page, de_error) result" where
  "Page_deserialize D f =
     deserialize_struct D
       [(''items'', field (de_vec D f) (\<lambda>x r. r\<lparr>page_items := x\<rparr>)),
        (''limit'', field (de_u64 D) (\<lambda>x r. r\<lparr>page_limit := x\<rparr>)),
        (''offset'', field (de_u64 D) (\<lambda>x r. r\<lparr>page_offset := x\<rparr>)),
        (''next_offset'', field (de_opt D (de_u64 D)) (\<lambda>x r. r\<lparr>page_next_offset := x\<rparr>))]
       {''items'', ''limit'', ''offset''}
       \<lparr>page_items = [], page_limit = 0, page_offset = 0, page_next_offset = None\<rparr>"

definition DomainDTO_deserialize :: "'v deserializer \<Rightarrow> 'v \<Rightarrow> (DomainDTO, de_error) result" where
  "DomainDTO_deserialize D =
     deserialize_struct D
       [(''id'', field (de_string D) (\<lambda>x r. r\<lparr>ddto_id := x\<rparr>)),
        (''created_at'', field (de_string D) (\<lambda>x r. r\<lparr>ddto_created_at := x\<rparr>)),
        (''updated_at'', field (de_string D) (\<lambda>x r. r\<lparr>ddto_updated_at := x\<rparr>))]
       {''id'', ''created_at'', ''updated_at''}
       \<lparr>ddto_id = [], ddto_created_at = [], ddto_updated_at = []\<rparr>"

definition MailboxDTO_deserialize :: "'v deserializer \<Rightarrow> 'v \<Rightarrow> (MailboxDTO, de_error) result" where
  "MailboxDTO_deserialize D =
     deserialize_struct D
       [(''id'', field (de_string D) (\<lambda>x r. r\<lparr>mdto_id := x\<rparr>)),
        (''domain_id'', field (de_string D) (\<lambda>x r. r\<lparr>mdto_domain_id := x\<rparr>)),
        (''created_at'', field (de_string D) (\<lambda>x r. r\<lparr>mdto_created_at := x\<rparr>)),
        (''updated_at'', field (de_string D) (\<lambda>x r. r\<lparr>mdto_updated_at := x\<rparr>)),
        (''forward_to'', field (de_opt D (de_string D)) (\<lambda>x r. r\<lparr>mdto_forward_to := x\<rparr>))]
       {''id'', ''domain_id'', ''created_at'', ''updated_at''}
       \<lparr>mdto_id = [], mdto_domain_id = [], mdto_created_at = [], mdto_updated_at = [],
        mdto_forward_to = None\<rparr>"

definition RecordApiDTO_deserialize :: "'v deserializer \<Rightarrow> 'v \<Rightarrow> (RecordApiDTO, de_error) result" where
  "RecordApiDTO_deserialize D =
     deserialize_struct D
       [(''id'', field (de_row_id D) (\<lambda>x r. r\<lparr>rdto_id := x\<rparr>)),
        (''domain_id'', field (de_string D) (\<lambda>x r. r\<lparr>rdto_domain_id := x\<rparr>)),
        (''record_type'', field (de_string D) (\<lambda>x r. r\<lparr>rdto_record_type := x\<rparr>)),
        (''value'', field (de_string D) (\<lambda>x r. r\<lparr>rdto_value := x\<rparr>)),
        (''ttl'', field (de_u32 D) (\<lambda>x r. r\<lparr>rdto_ttl := x\<rparr>)),
        (''created_at'', field (de_string D) (\<lambda>x r. r\<lparr>rdto_created_at := x\<rparr>)),
        (''updated_at'', field (de_string D) (\<lambda>x r. r\<lparr>rdto_updated_at := x\<rparr>))]
       {''id'', ''domain_id'', ''record_type'', ''value'', ''ttl'', ''created_at'', ''updated_at''}
       \<lparr>rdto_id = 0, rdto_domain_id = [], rdto_record_type = [], rdto_value = [], rdto_ttl = 0,
        rdto_created_at = [], rdto_updated_at = []\<rparr>"

definition SendResult_deserialize :: "'v deserializer \<Rightarrow> 'v \<Rightarrow> (SendResult, de_error) result" where
  "SendResult_deserialize D =
     deserialize_struct D
       [(''message_id'', field (de_row_id D) (\<lambda>x r. r\<lparr>sent_message_id := x\<rparr>)),
        (''outbound_ids'', field (de_vec D (de_row_id D)) (\<lambda>x r. r\<lparr>sent_outbound_ids := x\<rparr>))]
       {''message_id'', ''outbound_ids''} \<lparr>sent_message_id = 0, sent_outbound_ids = []\<rparr>"

definition MessageDTO_deserialize :: "'v deserializer \<Rightarrow> 'v \<Rightarrow> (MessageDTO, de_error) result" where
  "MessageDTO_deserialize D =
     deserialize_struct D
       [(''id'', field (de_row_id D) (\<lambda>x r. r\<lparr>msg_id := x\<rparr>)),
        (''direction'', field (de_opt D (de_string D)) (\<lambda>x r. r\<lparr>msg_direction := x\<rparr>)),
        (''mail_from'', field (de_string D) (\<lambda>x r. r\<lparr>msg_mail_from := x\<rparr>)),
        (''subject'', field (de_opt D (de_string D)) (\<lambda>x r. r\<lparr>msg_subject := x\<rparr>)),
        (''message_id_header'', field (de_opt D (de_string D)) (\<lambda>x r. r\<lparr>msg_message_id_header := x\<rparr>)),
        (''content_type'', field (de_opt D (de_string D)) (\<lambda>x r. r\<lparr>msg_content_type := x\<rparr>)),
        (''from_address'', field (de_opt D (de_string D)) (\<lambda>x r. r\<lparr>msg_from_address := x\<rparr>)),
        (''to'', field (de_vec D (de_string D)) (\<lambda>x r. r\<lparr>msg_to := x\<rparr>)),
        (''cc'', field (de_vec D (de_string D)) (\<lambda>x r. r\<lparr>msg_cc := x\<rparr>)),
        (''bcc'', field (de_vec D (de_string D)) (\<lambda>x r. r\<lparr>msg_bcc := x\<rparr>)),
        (''created_at'', field (de_string D) (\<lambda>x r. r\<lparr>msg_created_at := x\<rparr>)),
        (''updated_at'', field (de_string D) (\<lambda>x r. r\<lparr>msg_updated_at := x\<rparr>))]
       {''id'', ''mail_from'', ''created_at'', ''updated_at''}
       \<lparr>msg_id = 0, msg_direction = None, msg_mail_from = [], msg_subject = None,
        msg_message_id_header = None, msg_content_type = None, msg_from_address = None, msg_to = [],
        msg_cc = [], msg_bcc = [], msg_created_at = [], msg_updated_at = []\<rparr>"

definition HealthInfo_deserialize :: "'v deserializer \<Rightarrow> 'v \<Rightarrow> (HealthInfo, de_error) result" where
  "HealthInfo_deserialize D =
     deserialize_struct D
       [(''service'', field (de_string D) (\<lambda>x r. r\<lparr>health_service := x\<rparr>)),
        (''version'', field (de_string D) (\<lambda>x r. r\<lparr>health_version := x\<rparr>)),
        (''status'', field (de_string D) (\<lambda>x r. r\<lparr>health_status := x\<rparr>))]
       {''service'', ''version'', ''status''}
       \<lparr>health_service = [], health_version = [], health_status = []\<rparr>"

definition Service_deserialize :: "'v deserializer \<Rightarrow> 'v \<Rightarrow> (Service, de_error) result" where
  "Service_deserialize D =
     de_unit_variant D [(''api'', Api), (''smtp'', Smtp), (''smtps'', Smtps), (''dns'', Dns)]"

definition Status_deserialize :: "'v deserializer \<Rightarrow> 'v \<Rightarrow> (Status, de_error) result" where
  "Status_deserialize D = de_unit_variant D [(''idle'', Idle), (''running'', Running)]"

definition ServiceReport_deserialize :: "'v deserializer \<Rightarrow> 'v \<Rightarrow> (ServiceReport, de_error) result" where
  "ServiceReport_deserialize D =
     deserialize_struct D
       [(''service'', field (Service_deserialize D) (\<lambda>x r. r\<lparr>report_service := x\<rparr>)),
        (''status'', field (Status_deserialize D) (\<lambda>x r. r\<lparr>report_status := x\<rparr>))]
       {''service'', ''status''} \<lparr>report_service = Api, report_status = Idle\<rparr>"

definition ServiceResult_deserialize :: "'v deserializer \<Rightarrow> 'v \<Rightarrow> (ServiceResult, de_error) result" where
  "ServiceResult_deserialize D =
     deserialize_struct D
       [(''service'', field (Service_deserialize D) (\<lambda>x r. r\<lparr>result_service := x\<rparr>)),
        (''status'', field (Status_deserialize D) (\<lambda>x r. r\<lparr>result_status := x\<rparr>)),
        (''changed'', field (de_bool D) (\<lambda>x r. r\<lparr>result_changed := x\<rparr>))]
       {''service'', ''status'', ''changed''}
       \<lparr>result_service = Api, result_status = Idle, result_changed = False\<rparr>"

section \<open>Round trips\<close>

text \<open>A conversion reads back what another one writes, for the values of a set.\<close>

definition reads_back :: "(json \<Rightarrow> ('a, de_error) result) \<Rightarrow> ('a \<Rightarrow> json) \<Rightarrow> 'a set \<Rightarrow> bool" where
  "reads_back de ser A \<longleftrightarrow> (\<forall>x \<in> A. de (ser x) = Ok x)"

lemma reads_backD [dest]: "reads_back de ser A \<Longrightarrow> x \<in> A \<Longrightarrow> de (ser x) = Ok x"
  by (simp add: reads_back_def)

lemma traverse_map:
  "\<forall>x \<in> set xs. f (g x) = Ok x \<Longrightarrow> traverse f (map g xs) = Ok xs"
  by (induction xs) simp_all

lemma json_word_ser [simp]: "json_word (ser_word w) = Ok (w :: 'a::len word)"
  by (simp add: json_word_def json_unsigned_def ser_word_def ser_num_def parse_unsigned_dec
      ok_or_def unsigned_less)

lemma de_row_id_ser [simp]: "n < 2 ^ 64 \<Longrightarrow> de_row_id json_format (ser_num n) = Ok n"
  by (simp add: de_row_id_def json_format_simps json_word_def json_unsigned_def ser_num_def
      parse_unsigned_dec ok_or_def unsigned_of_nat take_bit_nat_eq_self)

lemma de_option_json [simp]:
  "de_option json_format (JString s) = Some (JString s)" "de_option json_format JNull = None"
  "de_option json_format (ser_word w) = Some (ser_word w)"
  by (simp_all add: json_format_def ser_word_def ser_num_def)

lemma de_strings_ser [simp]: "de_vec json_format (de_string json_format) (ser_strings xs) = Ok xs"
  by (simp add: de_vec_def json_format_simps ser_strings_def traverse_map)

lemma de_opt_ser [simp]:
  "de_opt json_format (de_string json_format) (ser_opt JString x) = Ok x"
  "de_opt json_format (de_string json_format) (JString s) = Ok (Some s)"
  "de_opt json_format (de_u64 json_format) (ser_word w) = Ok (Some w)"
  by (cases x) (simp_all add: de_opt_def ser_opt_def json_format_simps)

lemma de_variant_ser [simp]:
  "Service_deserialize json_format (Service_serialize svc) = Ok svc"
  "Status_deserialize json_format (Status_serialize st) = Ok st"
  by (cases svc; simp add: Service_deserialize_def de_unit_variant_def json_format_simps ok_or_def)
    (cases st; simp add: Status_deserialize_def de_unit_variant_def json_format_simps ok_or_def)

lemmas read_struct = deserialize_struct_def visit_struct_def field_def json_format_simps

lemma flat_structs_read_back:
  "reads_back (DomainDTO_deserialize json_format) DomainDTO_serialize UNIV"
  "reads_back (MailboxDTO_deserialize json_format) MailboxDTO_serialize UNIV"
  "reads_back (HealthInfo_deserialize json_format) HealthInfo_serialize UNIV"
  "reads_back (ServiceReport_deserialize json_format) ServiceReport_serialize UNIV"
  "reads_back (ServiceResult_deserialize json_format) ServiceResult_serialize UNIV"
  by (simp_all add: reads_back_def read_struct DomainDTO_deserialize_def DomainDTO_serialize_def
      MailboxDTO_deserialize_def MailboxDTO_serialize_def HealthInfo_deserialize_def
      HealthInfo_serialize_def ServiceReport_deserialize_def ServiceReport_serialize_def
      ServiceResult_deserialize_def ServiceResult_serialize_def)

lemma ApiProblem_reads_back: "reads_back (ApiProblem_deserialize json_format) ApiProblem_serialize UNIV"
  unfolding reads_back_def
proof
  fix p
  show "ApiProblem_deserialize json_format (ApiProblem_serialize p) = Ok p"
    by (cases "problem_detail p")
      (simp_all add: read_struct ApiProblem_deserialize_def ApiProblem_serialize_def unless_none_def)
qed

lemma RecordApiDTO_reads_back:
  "reads_back (RecordApiDTO_deserialize json_format) RecordApiDTO_serialize {r. rdto_id r < 2 ^ 64}"
  by (simp add: reads_back_def read_struct RecordApiDTO_deserialize_def RecordApiDTO_serialize_def)

lemma SendResult_reads_back:
  "reads_back (SendResult_deserialize json_format) SendResult_serialize
     {r. sent_message_id r < 2 ^ 64 \<and> set (sent_outbound_ids r) \<subseteq> {..<2 ^ 64}}"
  by (auto simp: reads_back_def read_struct de_vec_def traverse_map subset_iff SendResult_deserialize_def
      SendResult_serialize_def)

lemmas read_message = read_struct MessageDTO_deserialize_def MessageDTO_serialize_def unless_none_def

lemma MessageDTO_reads_back:
  "reads_back (MessageDTO_deserialize json_format) MessageDTO_serialize {m. msg_id m < 2 ^ 64}"
  unfolding reads_back_def
proof
  fix m :: MessageDTO assume "m \<in> {m. msg_id m < 2 ^ 64}"
  then have i: "msg_id m < 2 ^ 64" by simp
  consider "msg_direction m = None" "msg_subject m = None" | d where "msg_direction m = Some d" "msg_subject m = None"
    | x where "msg_direction m = None" "msg_subject m = Some x"
    | d x where "msg_direction m = Some d" "msg_subject m = Some x"
    by (cases "msg_direction m"; cases "msg_subject m") simp_all
  then show "MessageDTO_deserialize json_format (MessageDTO_serialize m) = Ok m"
  proof cases
    case 1
    with i show ?thesis by (cases "msg_message_id_header m"; cases "msg_content_type m"; cases "msg_from_address m")
      (simp_all add: read_message)
  next
    case 2
    with i show ?thesis by (cases "msg_message_id_header m"; cases "msg_content_type m"; cases "msg_from_address m")
      (simp_all add: read_message)
  next
    case 3
    with i show ?thesis by (cases "msg_message_id_header m"; cases "msg_content_type m"; cases "msg_from_address m")
      (simp_all add: read_message)
  next
    case 4
    with i show ?thesis by (cases "msg_message_id_header m"; cases "msg_content_type m"; cases "msg_from_address m")
      (simp_all add: read_message)
  qed
qed

lemma ApiResponse_reads_back:
  "reads_back de ser A \<Longrightarrow>
    reads_back (ApiResponse_deserialize json_format de z) (ApiResponse_serialize ser)
      {r. response_data r \<in> A}"
  by (auto simp: reads_back_def read_struct ApiResponse_deserialize_def ApiResponse_serialize_def)

lemma Page_reads_back:
  assumes "reads_back de ser A"
  shows "reads_back (Page_deserialize json_format de) (Page_serialize ser) {p. set (page_items p) \<subseteq> A}"
  unfolding reads_back_def
proof
  fix p :: "'a Page" assume "p \<in> {p. set (page_items p) \<subseteq> A}"
  with assms have "traverse de (map ser (page_items p)) = Ok (page_items p)"
    by (intro traverse_map) auto
  then show "Page_deserialize json_format de (Page_serialize ser p) = Ok p"
    by (cases "page_next_offset p")
      (simp_all add: read_struct Page_deserialize_def Page_serialize_def unless_none_def de_vec_def)
qed

lemma RecordType_reads_back [simp]:
  "RecordType_deserialize json_format (JString (record_type_to_string t)) = Ok t"
  by (cases t) (simp_all add: RecordType_deserialize_def de_unit_variant_def json_format_simps ok_or_def)

lemma RecordDTO_reads_back: "reads_back (RecordDTO_deserialize json_format) RecordDTO_serialize UNIV"
  by (simp add: reads_back_def read_struct RecordDTO_deserialize_def RecordDTO_serialize_def)

text \<open>A payload that survives the way to a client, in the success envelope.\<close>

definition travels :: "(json deserializer \<Rightarrow> json \<Rightarrow> ('a, de_error) result) \<Rightarrow> ('a \<Rightarrow> json) \<Rightarrow> 'a set \<Rightarrow> bool"
where
  "travels de ser A \<longleftrightarrow>
     (\<forall>z. reads_back (ApiResponse_deserialize json_format (de json_format) z) (ApiResponse_serialize ser)
            {r. response_data r \<in> A})"

lemma travelsI: "reads_back (de json_format) ser A \<Longrightarrow> travels de ser A"
  by (simp add: travels_def ApiResponse_reads_back)

lemma page_travels:
  "reads_back (de json_format) ser A \<Longrightarrow>
    travels (\<lambda>D. Page_deserialize D (de D)) (Page_serialize ser) {p. set (page_items p) \<subseteq> A}"
  by (rule travelsI) (rule Page_reads_back)

lemma every_page_travels:
  "reads_back (de json_format) ser UNIV \<Longrightarrow>
    travels (\<lambda>D. Page_deserialize D (de D)) (Page_serialize ser) UNIV"
  using page_travels [of de ser UNIV] by simp

lemma reports_travel:
  "travels (\<lambda>D. de_vec D (ServiceReport_deserialize D)) (\<lambda>rs. JArray (map ServiceReport_serialize rs)) UNIV"
  by (rule travelsI) (use flat_structs_read_back(4) in
    \<open>auto simp: reads_back_def de_vec_def json_format_simps intro: traverse_map\<close>)


end
