(* ===== verification/Zm_Serve.thy ===== *)
theory Zm_Serve
  imports Zm_Wire Zm_System
begin

text \<open>
  A whole HTTP request (\<open>Daemon::routes\<close> in \<^verbatim>\<open>src/runtime.rs\<close>, the handlers of \<^verbatim>\<open>src/api.rs\<close>):
  the router selects an endpoint and captures the parameters of the path, the guard decides, the
  handler reads its parameters and its JSON body, acts on the database and the service manager, and
  renders a status and a JSON document. The router library (selection, captures) and the
  documentation pages are arguments.
\<close>

section \<open>Requests and responses\<close>

text \<open>The body is \<^const>\<open>None\<close> when there is none, it is not announced as JSON or it is not JSON.\<close>

record http_request =
  http_head :: request
  http_query :: "(string \<times> string) list"
  http_body :: "json option"

type_synonym http_response = "StatusCode \<times> json option"

fun render :: "('a \<Rightarrow> json) \<Rightarrow> 'a response \<Rightarrow> http_response" where
  "render f (Problem st p) = (st, Some (ApiProblem_serialize p))"
| "render f (Success st r) = (st, Some (ApiResponse_serialize f r))"
| "render f (NoContent st) = (st, None)"

text \<open>What the router library hands to a handler: the captures of the path.\<close>

type_synonym capture = "router list \<Rightarrow> string \<Rightarrow> string \<Rightarrow> (string \<times> string) list"

definition param :: "capture \<Rightarrow> http_request \<Rightarrow> string \<Rightarrow> string option" where
  "param capture req name =
     map_of (capture api_with_doc (req_path (http_head req)) (req_method (http_head req))) name"

definition param_u64 :: "capture \<Rightarrow> http_request \<Rightarrow> string \<Rightarrow> row_id option" where
  "param_u64 capture req name = Option.bind (param capture req name) (parse_unsigned (2 ^ 64))"

definition query :: "http_request \<Rightarrow> string \<Rightarrow> string option" where
  "query req name = map_of (http_query req) name"

definition query_usize :: "http_request \<Rightarrow> string \<Rightarrow> usize option" where
  "query_usize req name = Option.bind (query req name) parse_usize"

definition parse_json :: "(json deserializer \<Rightarrow> json \<Rightarrow> ('a, de_error) result) \<Rightarrow> http_request \<Rightarrow> 'a option"
where
  "parse_json de req =
     Option.bind (http_body req) (\<lambda>v. case de json_format v of Ok x \<Rightarrow> Some x | Err _ \<Rightarrow> None)"

section \<open>The handlers behind the endpoints\<close>

text \<open>A handler's answer and the database and manager it leaves.\<close>

definition with_db :: "('a \<Rightarrow> json) \<Rightarrow> 'a response \<times> 's \<Rightarrow> 'm \<Rightarrow> http_response \<times> 's \<times> 'm" where
  "with_db f x m = (render f (fst x), snd x, m)"

definition with_manager :: "('a \<Rightarrow> json) \<Rightarrow> 'a response \<times> 'm \<Rightarrow> 's \<Rightarrow> http_response \<times> 's \<times> 'm" where
  "with_manager f x s = (render f (fst x), s, snd x)"

definition reads_only :: "('a \<Rightarrow> json) \<Rightarrow> 'a response \<Rightarrow> 's \<Rightarrow> 'm \<Rightarrow> http_response \<times> 's \<times> 'm" where
  "reads_only f x s m = (render f x, s, m)"

abbreviation ser_unit :: "unit \<Rightarrow> json" where "ser_unit \<equiv> (\<lambda>_. JNull)"

abbreviation ser_reports :: "ServiceReport list \<Rightarrow> json" where
  "ser_reports \<equiv> (\<lambda>rs. JArray (map ServiceReport_serialize rs))"

fun api_handler ::
  "('s, 'z) world_scheme \<Rightarrow> ('mb, 'ct) lettre \<Rightarrow> 'id spawn_fn \<Rightarrow> capture \<Rightarrow> (endpoint \<Rightarrow> http_response) \<Rightarrow>
   http_request \<Rightarrow> endpoint \<Rightarrow> 's \<Rightarrow> 'id Inner option \<Rightarrow> http_response \<times> 's \<times> 'id Inner option" where
  "api_handler W L spawn cap doc req Ep_health s m = reads_only HealthInfo_serialize health s m"
| "api_handler W L spawn cap doc req Ep_list_domains s m =
     reads_only (Page_serialize DomainDTO_serialize)
       (list_domains W (query_usize req ''limit'') (query_usize req ''offset'') s) s m"
| "api_handler W L spawn cap doc req Ep_create_domain s m =
     with_db DomainDTO_serialize (create_domain W (\<lambda>x. x) (parse_json NewDomain_deserialize req) s) m"
| "api_handler W L spawn cap doc req Ep_get_domain s m =
     reads_only DomainDTO_serialize (get_domain W (param cap req ''domain_id'') s) s m"
| "api_handler W L spawn cap doc req Ep_patch_domain s m =
     reads_only DomainDTO_serialize
       (patch_domain W (param cap req ''domain_id'') (parse_json PatchDomain_deserialize req) s) s m"
| "api_handler W L spawn cap doc req Ep_delete_domain s m =
     with_db ser_unit (delete_domain W (param cap req ''domain_id'') s) m"
| "api_handler W L spawn cap doc req Ep_list_mailboxes s m =
     reads_only (Page_serialize MailboxDTO_serialize)
       (list_mailboxes W (query_usize req ''limit'') (query_usize req ''offset'')
         (query req ''domain_id'') s) s m"
| "api_handler W L spawn cap doc req Ep_create_mailbox s m =
     with_db MailboxDTO_serialize (create_mailbox W (\<lambda>x. x) (parse_json NewMailbox_deserialize req) s) m"
| "api_handler W L spawn cap doc req Ep_get_mailbox s m =
     reads_only MailboxDTO_serialize (get_mailbox W (param cap req ''mailbox_id'') s) s m"
| "api_handler W L spawn cap doc req Ep_patch_mailbox s m =
     with_db MailboxDTO_serialize
       (patch_mailbox W (param cap req ''mailbox_id'') (parse_json PatchMailbox_deserialize req) s) m"
| "api_handler W L spawn cap doc req Ep_delete_mailbox s m =
     with_db ser_unit (delete_mailbox W (param cap req ''mailbox_id'') s) m"
| "api_handler W L spawn cap doc req Ep_list_mailbox_messages s m =
     reads_only (Page_serialize MessageDTO_serialize)
       (list_mailbox_messages W (param cap req ''mailbox_id'')
         \<lparr>raw_direction = query req ''direction'', raw_limit = query req ''limit'',
          raw_offset = query req ''offset''\<rparr> s) s m"
| "api_handler W L spawn cap doc req Ep_list_mailbox_inbox s m =
     reads_only (Page_serialize MessageDTO_serialize)
       (list_mailbox_inbox W (param cap req ''mailbox_id'') (query_usize req ''limit'')
         (query_usize req ''offset'') s) s m"
| "api_handler W L spawn cap doc req Ep_list_mailbox_sent s m =
     reads_only (Page_serialize MessageDTO_serialize)
       (list_mailbox_sent W (param cap req ''mailbox_id'') (query_usize req ''limit'')
         (query_usize req ''offset'') s) s m"
| "api_handler W L spawn cap doc req Ep_list_records s m =
     reads_only (Page_serialize RecordApiDTO_serialize)
       (list_records W (query_usize req ''limit'') (query_usize req ''offset'')
         (query req ''domain_id'') (query req ''record_type'') s) s m"
| "api_handler W L spawn cap doc req Ep_create_record s m =
     with_db RecordApiDTO_serialize (create_record W (\<lambda>x. x) (parse_json NewRecord_deserialize req) s) m"
| "api_handler W L spawn cap doc req Ep_get_record s m =
     reads_only RecordApiDTO_serialize (get_record W (param_u64 cap req ''record_id'') s) s m"
| "api_handler W L spawn cap doc req Ep_patch_record s m =
     with_db RecordApiDTO_serialize
       (patch_record W (param_u64 cap req ''record_id'') (parse_json PatchRecord_deserialize req) s) m"
| "api_handler W L spawn cap doc req Ep_delete_record s m =
     with_db ser_unit (delete_record W (param_u64 cap req ''record_id'') s) m"
| "api_handler W L spawn cap doc req Ep_send_email s m =
     with_db SendResult_serialize (send_email W L (parse_json SendEmail_deserialize req) s) m"
| "api_handler W L spawn cap doc req Ep_list_services s m =
     reads_only ser_reports (list_services m) s m"
| "api_handler W L spawn cap doc req Ep_set_mode s m =
     with_manager ser_reports (set_mode spawn (parse_json SetModeBody_deserialize req) m) s"
| "api_handler W L spawn cap doc req Ep_start_service s m =
     with_manager ServiceResult_serialize (start_service spawn (param cap req ''service'') m) s"
| "api_handler W L spawn cap doc req Ep_stop_service s m =
     with_manager ServiceResult_serialize (stop_service (param cap req ''service'') m) s"
| "api_handler W L spawn cap doc req Ep_get_message s m =
     reads_only MessageDTO_serialize (get_message W (param_u64 cap req ''message_id'') s) s m"
| "api_handler W L spawn cap doc req Ep_delete_message s m =
     with_db ser_unit (delete_message W (param_u64 cap req ''message_id'') s) m"
| "api_handler W L spawn cap doc req Ep_openapi s m = (doc Ep_openapi, s, m)"
| "api_handler W L spawn cap doc req Ep_scalar s m = (doc Ep_scalar, s, m)"

section \<open>The guarded interface\<close>

text \<open>
  The guard runs first and hands on to the handler or answers itself; \<open>unrouted\<close> is the router
  library's answer to a request that selects nothing.
\<close>

definition serve ::
  "('s, 'z) world_scheme \<Rightarrow> ('mb, 'ct) lettre \<Rightarrow> 'n auth_lib \<Rightarrow> selector \<Rightarrow> capture \<Rightarrow>
   (endpoint \<Rightarrow> http_response) \<Rightarrow> http_response \<Rightarrow> 'id Daemon \<Rightarrow> http_request \<Rightarrow>
   'n key_state \<times> 's \<times> 'id Inner option \<Rightarrow> http_response \<times> 'n key_state \<times> 's \<times> 'id Inner option" where
  "serve W L A select cap doc unrouted d req st =
     (case st of (k, s, m) \<Rightarrow>
        (case endpoint_for select (http_head req) of
           None \<Rightarrow> (unrouted, k, s, m)
         | Some e \<Rightarrow>
             (case AuthGuard_handle A (daemon_auth d) (http_head req) (\<lambda>_ k. (NoContent 200, k)) k of
                (NoContent _, k1) \<Rightarrow>
                  (case api_handler W L (daemon_spawn d) cap doc req e s m of
                     (r, s1, m1) \<Rightarrow> (r, k1, s1, m1))
              | (rejection, k1) \<Rightarrow> (render ser_unit rejection, k1, s, m))))"

section \<open>What a handler can do\<close>

lemmas handler_effects = with_db_def with_manager_def reads_only_def

text \<open>The endpoints whose handlers may change the database or the services.\<close>

definition changing_endpoints :: "endpoint set" where
  "changing_endpoints =
     {Ep_create_domain, Ep_delete_domain, Ep_create_mailbox, Ep_patch_mailbox, Ep_delete_mailbox,
      Ep_create_record, Ep_patch_record, Ep_delete_record, Ep_send_email, Ep_delete_message,
      Ep_set_mode, Ep_start_service, Ep_stop_service}"

lemma api_handler_reads:
  "e \<notin> changing_endpoints \<Longrightarrow> snd (api_handler W L spawn cap doc req e s m) = (s, m)"
  by (cases e) (simp_all add: changing_endpoints_def handler_effects)

lemma api_handler_system_step:
  assumes "api_handler W L spawn cap doc req e s m = (r, s', m')"
  shows "s' = s \<or> system_step W L config s s'"
  using assms
  by (cases e)
    (auto simp: handler_effects intro: system_step.intros(1-10) [OF prod.collapse [symmetric]])

text \<open>A service request is a command of the manager, or nothing.\<close>

lemma commands_step:
  "start spawn svc m = (r, m') \<Longrightarrow> manager_step spawn m m'"
  "stop svc m = (r, m') \<Longrightarrow> manager_step spawn m m'"
  "apply_mode spawn mode m = (rs, m') \<Longrightarrow> manager_step spawn m m'"
  using manager_step.started [of spawn m svc] manager_step.stopped [of spawn m svc]
    manager_step.moded [of spawn m mode] by simp_all

lemma api_handler_manager_step:
  assumes "api_handler W L spawn cap doc req e s (Some m) = (r, s', m')"
  shows "\<exists>m1. m' = Some m1 \<and> (m1 = m \<or> manager_step spawn m m1)"
  using assms
  by (cases e)
    (auto simp: handler_effects start_service_def stop_service_def set_mode_def Let_def commands_step
      split: option.splits prod.splits sum.splits)

lemma serve_changes:
  assumes "serve W L A select cap doc unrouted d req (k, s, m) = (r, k', s', m')" and "(s', m') \<noteq> (s, m)"
  obtains e st k2 where "endpoint_for select (http_head req) = Some e" "e \<in> changing_endpoints"
    "AuthGuard_handle A (daemon_auth d) (http_head req) (\<lambda>_ k. (NoContent 200 :: unit response, k)) k
      = (NoContent st, k2)"
    "api_handler W L (daemon_spawn d) cap doc req e s m = (r, s', m')"
proof -
  from assms obtain e st k2 where e: "endpoint_for select (http_head req) = Some e"
    "AuthGuard_handle A (daemon_auth d) (http_head req) (\<lambda>_ k. (NoContent 200 :: unit response, k)) k
      = (NoContent st, k2)"
    "api_handler W L (daemon_spawn d) cap doc req e s m = (r, s', m')"
    by (auto simp: serve_def split: option.splits prod.splits response.splits)
  moreover have "e \<in> changing_endpoints"
    using api_handler_reads [of e W L "daemon_spawn d" cap doc req s m] e(3) assms(2) by auto
  ultimately show thesis using that by blast
qed

section \<open>Which methods change anything\<close>

fun handlers_of :: "router \<Rightarrow> (string \<times> endpoint) set" where
  "handlers_of (Router seg hs cs) = set hs \<union> (\<Union>c \<in> set cs. handlers_of c)"

lemma on_branches_handler:
  "e \<in> set (on_branches rs ps m) \<Longrightarrow> \<exists>r \<in> set rs. (m, e) \<in> handlers_of r"
proof (induction rs ps m rule: on_branches.induct)
  case (3 seg hs cs rs p ps m)
  then show ?case
    by (auto split: if_splits option.splits dest: map_of_SomeD map_of_SomeD [OF sym])
qed simp_all

lemma changing_methods:
  assumes "r \<in> set api_with_doc" and "(m, e) \<in> handlers_of r" and "e \<in> changing_endpoints"
  shows "m \<in> {''POST'', ''PATCH'', ''DELETE''}"
  using assms by (auto simp: api_with_doc_def create_router_def changing_endpoints_def)

context router_library
begin

lemma changing_verb:
  assumes "endpoint_for select req = Some e" and "e \<in> changing_endpoints"
    and "route_target (req_path req) (req_method req) = Some target"
  shows "target_verb target \<noteq> Read"
proof -
  from assms(1) have "e \<in> set (on_branches api_with_doc (path_segments unescape (req_path req)) (req_method req))"
    by (simp add: endpoint_for_def select_on_branch)
  from on_branches_handler [OF this] changing_methods assms(2)
  have "req_method req \<in> {''POST'', ''PATCH'', ''DELETE''}" by blast
  with assms(3) show ?thesis by (auto simp: route_target_def Verb_from_method_def)
qed

end

section \<open>Captures\<close>

text \<open>The endpoints on the branches that match a path, each with the segments its parameters match.\<close>

fun bindings :: "router list \<Rightarrow> string list \<Rightarrow> string \<Rightarrow> (endpoint \<times> (string \<times> string) list) list" where
  "bindings [] path m = []"
| "bindings (r # rs) [] m = []"
| "bindings (Router seg hs cs # rs) (p # ps) m =
     (if \<not> segment_matches seg p then []
      else map (\<lambda>(e, bs). (e, case seg of Lit _ \<Rightarrow> bs | Param n \<Rightarrow> (n, p) # bs))
        (if ps = [] then (case map_of hs m of None \<Rightarrow> [] | Some e \<Rightarrow> [(e, [])]) else bindings cs ps m))
     @ bindings rs (p # ps) m"

lemma bindings_on_branches: "map fst (bindings rs ps m) = on_branches rs ps m"
  by (induction rs ps m rule: bindings.induct) (auto simp: comp_def split_def split: option.splits)

lemma bindings_handler:
  "(e, bs) \<in> set (bindings rs ps m) \<Longrightarrow> \<exists>r \<in> set rs. (m, e) \<in> handlers_of r"
  by (rule on_branches_handler) (force simp flip: bindings_on_branches)

lemma bindings_cases:
  assumes "(e, bs) \<in> set (bindings rs (p # ps) m)"
  obtains seg hs cs bs' where "Router seg hs cs \<in> set rs"
    "bs = (case seg of Lit _ \<Rightarrow> bs' | Param n \<Rightarrow> (n, p) # bs')"
    "(ps = [] \<and> map_of hs m = Some e) \<or> (ps \<noteq> [] \<and> (e, bs') \<in> set (bindings cs ps m))"
  using assms
proof (induction rs arbitrary: thesis)
  case (Cons r rs)
  obtain seg hs cs where r: "r = Router seg hs cs" by (cases r)
  show ?case
  proof (cases "(e, bs) \<in> set (bindings rs (p # ps) m)")
    case True
    from Cons.IH [OF _ True] Cons.prems(1) show ?thesis by (metis list.set_intros(2))
  next
    case False
    with Cons.prems(2) r show ?thesis
      by (auto intro!: Cons.prems(1) [of seg hs cs] split: if_splits option.splits segment.splits)
  qed
qed simp

text \<open>The endpoints with an identifier, the name of its parameter, and where they stand in the tree.\<close>

definition identified :: "(endpoint \<times> string) list" where
  "identified =
    [(Ep_get_domain, ''domain_id''), (Ep_patch_domain, ''domain_id''), (Ep_delete_domain, ''domain_id''),
     (Ep_get_mailbox, ''mailbox_id''), (Ep_patch_mailbox, ''mailbox_id''), (Ep_delete_mailbox, ''mailbox_id''),
     (Ep_list_mailbox_messages, ''mailbox_id''), (Ep_list_mailbox_inbox, ''mailbox_id''),
     (Ep_list_mailbox_sent, ''mailbox_id''), (Ep_get_record, ''record_id''),
     (Ep_patch_record, ''record_id''), (Ep_delete_record, ''record_id''), (Ep_start_service, ''service''),
     (Ep_stop_service, ''service''), (Ep_get_message, ''message_id''), (Ep_delete_message, ''message_id'')]"

lemma identified_position:
  assumes "Router seg hs cs \<in> set api_with_doc" and "(e, n) \<in> set identified"
  shows "\<exists>l. seg = Lit l" "(m, e) \<notin> set hs"
    "c \<in> set cs \<Longrightarrow> (m, e) \<in> handlers_of c \<Longrightarrow> \<exists>hs' cs'. c = Router (Param n) hs' cs'"
  using assms by (auto simp: api_with_doc_def create_router_def identified_def)

definition captures_in_order :: "(string \<Rightarrow> string) \<Rightarrow> capture" where
  "captures_in_order unescape rs path m =
     (case bindings rs (path_segments unescape path) m of [] \<Rightarrow> [] | (_, bs) # _ \<Rightarrow> bs)"

locale capturing_library = router_library +
  fixes cap :: capture
  assumes captured:
    "select rs path m = Some e \<Longrightarrow>
      (e, cap rs path m) \<in> set (bindings rs (path_segments unescape path) m)"
begin

text \<open>The identifier a handler reads is the second segment of the path, percent-decoded.\<close>

lemma captured_identifier:
  assumes "endpoint_for select (http_head req) = Some e" and n: "(e, n) \<in> set identified"
  obtains w i ws where "path_segments unescape (req_path (http_head req)) = w # i # ws"
    "param cap req n = Some i"
proof -
  let ?ps = "path_segments unescape (req_path (http_head req))" and ?m = "req_method (http_head req)"
  let ?bs = "cap api_with_doc (req_path (http_head req)) ?m"
  have c: "(e, ?bs) \<in> set (bindings api_with_doc ?ps ?m)"
    using captured assms(1) by (simp add: endpoint_for_def)
  then obtain w ps where w: "?ps = w # ps" by (cases ?ps) (auto simp: api_with_doc_def)
  from c [unfolded w] show thesis
  proof (rule bindings_cases)
    fix seg hs cs bs'
    assume r: "Router seg hs cs \<in> set api_with_doc"
      and bs: "?bs = (case seg of Lit _ \<Rightarrow> bs' | Param n \<Rightarrow> (n, w) # bs')"
      and rest: "(ps = [] \<and> map_of hs ?m = Some e) \<or> (ps \<noteq> [] \<and> (e, bs') \<in> set (bindings cs ps ?m))"
    note pos = identified_position [OF r n]
    from rest pos(2) have "ps \<noteq> []" and b: "(e, bs') \<in> set (bindings cs ps ?m)" by (auto dest: map_of_SomeD)
    then obtain i ws where i: "ps = i # ws" by (cases ps) auto
    from b [unfolded i] show thesis
    proof (rule bindings_cases)
      fix seg' hs' cs' bs''
      assume c': "Router seg' hs' cs' \<in> set cs"
        and bs': "bs' = (case seg' of Lit _ \<Rightarrow> bs'' | Param n \<Rightarrow> (n, i) # bs'')"
        and rest': "(ws = [] \<and> map_of hs' ?m = Some e) \<or> (ws \<noteq> [] \<and> (e, bs'') \<in> set (bindings cs' ws ?m))"
      have "(?m, e) \<in> handlers_of (Router seg' hs' cs')"
        using rest' bindings_handler [of e bs'' cs' ws ?m] by (auto dest: map_of_SomeD)
      from pos(3) [OF c' this] pos(1) bs bs' have "param cap req n = Some i" by (auto simp: param_def)
      with w i that show thesis by blast
    qed
  qed
qed

end

interpretation plain_capture: capturing_library "\<lambda>x. x" "in_order (\<lambda>x. x)" "captures_in_order (\<lambda>x. x)"
proof
  fix rs path m e assume "in_order (\<lambda>x. x) rs path m = Some e"
  then show "(e, captures_in_order (\<lambda>x. x) rs path m) \<in> set (bindings rs (path_segments (\<lambda>x. x) path) m)"
    by (cases "bindings rs (path_segments (\<lambda>x. x) path) m")
      (auto simp: in_order_def captures_in_order_def simp flip: bindings_on_branches)
qed

end
