(* ===== verification/Zm_Contract.thy ===== *)
theory Zm_Contract
  imports Zm_Serve
begin

text \<open>
  The interface as it documents itself: the \<open>endpoint\<close> attributes of the handlers of
  \<^verbatim>\<open>src/api.rs\<close>, from which the OpenAPI document at \<open>/doc/openapi.json\<close> is generated, and the
  handlers against them: which statuses and bodies an endpoint answers with, and on which
  inputs its answer depends.
\<close>

section \<open>The vocabulary of the attributes\<close>

datatype request_type =
    Rq_NewDomain | Rq_PatchDomain | Rq_NewMailbox | Rq_PatchMailbox | Rq_NewRecord | Rq_PatchRecord
  | Rq_SendEmail | Rq_SetModeBody

datatype parameter_type = P_String | P_u64 | P_opt_usize | P_opt_String

datatype parameter_place = In_path | In_query

datatype response_type =
    D_ApiProblem | D_ApiResponse response_type | D_Page response_type | D_Vec response_type | D_unit
  | D_DomainDTO | D_MailboxDTO | D_RecordApiDTO | D_MessageDTO | D_SendResult | D_HealthInfo
  | D_ServiceReport | D_ServiceResult

record operation =
  op_summary :: string
  op_request_body :: "request_type option"
  op_parameters :: "(string \<times> parameter_type \<times> parameter_place \<times> string) list"
  op_responses :: "(StatusCode \<times> string \<times> response_type) list"

section \<open>The attributes\<close>

definition list_domains_operation :: operation where
  "list_domains_operation =
    \<lparr>op_summary = ''List all domains'',
     op_request_body = None,
     op_parameters =
       [(''limit'', P_opt_usize, In_query, ''Max items per page (server-enforced default and cap)''),
        (''offset'', P_opt_usize, In_query, ''Number of items to skip'')],
     op_responses =
       [(200, ''All domains'', D_ApiResponse (D_Page D_DomainDTO)),
        (400, ''Bad request'', D_ApiProblem)]\<rparr>"

definition create_domain_operation :: operation where
  "create_domain_operation =
    \<lparr>op_summary = ''Create a new domain'',
     op_request_body = Some Rq_NewDomain,
     op_parameters = [],
     op_responses =
       [(200, ''Domain created, or confirmed if it already exists (idempotent)'', D_ApiResponse D_DomainDTO),
        (400, ''Bad request'', D_ApiProblem),
        (409, ''Domain already exists'', D_ApiProblem)]\<rparr>"

definition get_domain_operation :: operation where
  "get_domain_operation =
    \<lparr>op_summary = ''Get a single domain'',
     op_request_body = None,
     op_parameters =
       [(''domain_id'', P_String, In_path, ''Domain name, e.g. example.com'')],
     op_responses =
       [(200, ''The domain'', D_ApiResponse D_DomainDTO),
        (404, ''Domain not found'', D_ApiProblem)]\<rparr>"

definition patch_domain_operation :: operation where
  "patch_domain_operation =
    \<lparr>op_summary = ''Update a domain'',
     op_request_body = Some Rq_PatchDomain,
     op_parameters =
       [(''domain_id'', P_String, In_path, ''Domain name, e.g. example.com'')],
     op_responses =
       [(200, ''Domain updated'', D_ApiResponse D_DomainDTO),
        (400, ''Bad request'', D_ApiProblem),
        (404, ''Domain not found'', D_ApiProblem)]\<rparr>"

definition delete_domain_operation :: operation where
  "delete_domain_operation =
    \<lparr>op_summary = ''Delete a domain'',
     op_request_body = None,
     op_parameters =
       [(''domain_id'', P_String, In_path, ''Domain name, e.g. example.com'')],
     op_responses =
       [(200, ''Domain deleted successfully'', D_ApiResponse D_unit),
        (404, ''Domain not found'', D_ApiProblem)]\<rparr>"

definition list_mailboxes_operation :: operation where
  "list_mailboxes_operation =
    \<lparr>op_summary = ''List all mailboxes'',
     op_request_body = None,
     op_parameters =
       [(''limit'', P_opt_usize, In_query, ''Max items per page (server-enforced default and cap)''),
        (''offset'', P_opt_usize, In_query, ''Number of items to skip''),
        (''domain_id'', P_opt_String, In_query, ''Optional filter by owning domain'')],
     op_responses =
       [(200, ''All mailboxes'', D_ApiResponse (D_Page D_MailboxDTO)),
        (400, ''Bad request'', D_ApiProblem)]\<rparr>"

definition create_mailbox_operation :: operation where
  "create_mailbox_operation =
    \<lparr>op_summary = ''Create a new mailbox (email address)'',
     op_request_body = Some Rq_NewMailbox,
     op_parameters = [],
     op_responses =
       [(200, ''Mailbox created, or confirmed with identical config (idempotent)'', D_ApiResponse D_MailboxDTO),
        (400, ''Bad request'', D_ApiProblem),
        (409, ''Mailbox already exists'', D_ApiProblem)]\<rparr>"

definition get_mailbox_operation :: operation where
  "get_mailbox_operation =
    \<lparr>op_summary = ''Get a single mailbox'',
     op_request_body = None,
     op_parameters =
       [(''mailbox_id'', P_String, In_path, ''Full address, e.g. user@example.com, URL-encoded'')],
     op_responses =
       [(200, ''The mailbox'', D_ApiResponse D_MailboxDTO),
        (404, ''Mailbox not found'', D_ApiProblem)]\<rparr>"

definition patch_mailbox_operation :: operation where
  "patch_mailbox_operation =
    \<lparr>op_summary = ''Update a mailbox'',
     op_request_body = Some Rq_PatchMailbox,
     op_parameters =
       [(''mailbox_id'', P_String, In_path, ''Full address, e.g. user@example.com, URL-encoded'')],
     op_responses =
       [(200, ''Mailbox updated'', D_ApiResponse D_MailboxDTO),
        (400, ''Bad request'', D_ApiProblem),
        (404, ''Mailbox not found'', D_ApiProblem)]\<rparr>"

definition delete_mailbox_operation :: operation where
  "delete_mailbox_operation =
    \<lparr>op_summary = ''Delete a mailbox'',
     op_request_body = None,
     op_parameters =
       [(''mailbox_id'', P_String, In_path, ''Full address, e.g. user@example.com, URL-encoded'')],
     op_responses =
       [(200, ''Mailbox deleted successfully'', D_ApiResponse D_unit),
        (404, ''Mailbox not found'', D_ApiProblem)]\<rparr>"

definition list_records_operation :: operation where
  "list_records_operation =
    \<lparr>op_summary = ''List all DNS records'',
     op_request_body = None,
     op_parameters =
       [(''limit'', P_opt_usize, In_query, ''Max items per page (server-enforced default and cap)''),
        (''offset'', P_opt_usize, In_query, ''Number of items to skip''),
        (''domain_id'', P_opt_String, In_query, ''Optional filter by owning domain''),
        (''record_type'', P_opt_String, In_query, ''Optional filter by record type'')],
     op_responses =
       [(200, ''All DNS records'', D_ApiResponse (D_Page D_RecordApiDTO)),
        (400, ''Bad request'', D_ApiProblem)]\<rparr>"

definition create_record_operation :: operation where
  "create_record_operation =
    \<lparr>op_summary = ''Create a new DNS record'',
     op_request_body = Some Rq_NewRecord,
     op_parameters = [],
     op_responses =
       [(200, ''DNS record created, or confirmed with identical tuple (idempotent)'', D_ApiResponse D_RecordApiDTO),
        (400, ''Bad request'', D_ApiProblem),
        (409, ''An equivalent record already exists'', D_ApiProblem)]\<rparr>"

definition get_record_operation :: operation where
  "get_record_operation =
    \<lparr>op_summary = ''Get a single DNS record'',
     op_request_body = None,
     op_parameters =
       [(''record_id'', P_u64, In_path, ''Record primary key'')],
     op_responses =
       [(200, ''The DNS record'', D_ApiResponse D_RecordApiDTO),
        (404, ''Record not found'', D_ApiProblem)]\<rparr>"

definition patch_record_operation :: operation where
  "patch_record_operation =
    \<lparr>op_summary = ''Update a DNS record'',
     op_request_body = Some Rq_PatchRecord,
     op_parameters =
       [(''record_id'', P_u64, In_path, ''Record primary key'')],
     op_responses =
       [(200, ''DNS record updated'', D_ApiResponse D_RecordApiDTO),
        (400, ''Bad request'', D_ApiProblem),
        (404, ''Record not found'', D_ApiProblem),
        (409, ''An equivalent record already exists'', D_ApiProblem)]\<rparr>"

definition delete_record_operation :: operation where
  "delete_record_operation =
    \<lparr>op_summary = ''Delete a DNS record'',
     op_request_body = None,
     op_parameters =
       [(''record_id'', P_u64, In_path, ''Record primary key'')],
     op_responses =
       [(200, ''DNS record deleted successfully'', D_ApiResponse D_unit),
        (404, ''Record not found'', D_ApiProblem)]\<rparr>"

definition send_email_operation :: operation where
  "send_email_operation =
    \<lparr>op_summary = ''Send an email'',
     op_request_body = Some Rq_SendEmail,
     op_parameters = [],
     op_responses =
       [(200, ''Message enqueued for delivery'', D_ApiResponse D_SendResult),
        (400, ''Bad request'', D_ApiProblem),
        (409, ''Sender is not a provisioned mailbox'', D_ApiProblem),
        (500, ''Internal server error'', D_ApiProblem)]\<rparr>"

definition list_mailbox_messages_operation :: operation where
  "list_mailbox_messages_operation =
    \<lparr>op_summary = ''List messages of a mailbox (sent and/or received)'',
     op_request_body = None,
     op_parameters =
       [(''mailbox_id'', P_String, In_path, ''Full address, e.g. user@example.com, URL-encoded''),
        (''direction'', P_opt_String, In_query, ''both | inbound | outbound (default: both)''),
        (''limit'', P_opt_usize, In_query, ''Max items per page (server-enforced default and cap)''),
        (''offset'', P_opt_usize, In_query, ''Number of items to skip'')],
     op_responses =
       [(200, ''Messages of the mailbox'', D_ApiResponse (D_Page D_MessageDTO)),
        (400, ''Bad request'', D_ApiProblem),
        (404, ''Mailbox not found'', D_ApiProblem)]\<rparr>"

definition list_mailbox_inbox_operation :: operation where
  "list_mailbox_inbox_operation =
    \<lparr>op_summary = ''List received messages of a mailbox'',
     op_request_body = None,
     op_parameters =
       [(''mailbox_id'', P_String, In_path, ''Full address, e.g. user@example.com, URL-encoded''),
        (''limit'', P_opt_usize, In_query, ''Max items per page (server-enforced default and cap)''),
        (''offset'', P_opt_usize, In_query, ''Number of items to skip'')],
     op_responses =
       [(200, ''Inbound messages of the mailbox'', D_ApiResponse (D_Page D_MessageDTO)),
        (400, ''Bad request'', D_ApiProblem),
        (404, ''Mailbox not found'', D_ApiProblem)]\<rparr>"

definition list_mailbox_sent_operation :: operation where
  "list_mailbox_sent_operation =
    \<lparr>op_summary = ''List sent messages of a mailbox'',
     op_request_body = None,
     op_parameters =
       [(''mailbox_id'', P_String, In_path, ''Full address, e.g. user@example.com, URL-encoded''),
        (''limit'', P_opt_usize, In_query, ''Max items per page (server-enforced default and cap)''),
        (''offset'', P_opt_usize, In_query, ''Number of items to skip'')],
     op_responses =
       [(200, ''Outbound messages of the mailbox'', D_ApiResponse (D_Page D_MessageDTO)),
        (400, ''Bad request'', D_ApiProblem),
        (404, ''Mailbox not found'', D_ApiProblem)]\<rparr>"

definition get_message_operation :: operation where
  "get_message_operation =
    \<lparr>op_summary = ''Get a single message'',
     op_request_body = None,
     op_parameters =
       [(''message_id'', P_u64, In_path, ''Numeric message id'')],
     op_responses =
       [(200, ''The message'', D_ApiResponse D_MessageDTO),
        (404, ''Message not found'', D_ApiProblem)]\<rparr>"

definition delete_message_operation :: operation where
  "delete_message_operation =
    \<lparr>op_summary = ''Delete a message'',
     op_request_body = None,
     op_parameters =
       [(''message_id'', P_u64, In_path, ''Numeric message id'')],
     op_responses =
       [(200, ''Message deleted successfully'', D_ApiResponse D_unit),
        (404, ''Message not found'', D_ApiProblem)]\<rparr>"

definition health_operation :: operation where
  "health_operation =
    \<lparr>op_summary = ''Health check'',
     op_request_body = None,
     op_parameters = [],
     op_responses =
       [(200, ''API is running'', D_ApiResponse D_HealthInfo)]\<rparr>"

definition list_services_operation :: operation where
  "list_services_operation =
    \<lparr>op_summary = ''List controllable services and their status'',
     op_request_body = None,
     op_parameters = [],
     op_responses =
       [(200, ''Service status'', D_ApiResponse (D_Vec D_ServiceReport)),
        (500, ''Server error'', D_ApiProblem)]\<rparr>"

definition start_service_operation :: operation where
  "start_service_operation =
    \<lparr>op_summary = ''Start a controllable service (idempotent)'',
     op_request_body = None,
     op_parameters = [],
     op_responses =
       [(200, ''Service start result'', D_ApiResponse D_ServiceResult),
        (400, ''Unknown service'', D_ApiProblem),
        (500, ''Server error / bind failure'', D_ApiProblem)]\<rparr>"

definition stop_service_operation :: operation where
  "stop_service_operation =
    \<lparr>op_summary = ''Stop a controllable service (idempotent)'',
     op_request_body = None,
     op_parameters = [],
     op_responses =
       [(200, ''Service stop result'', D_ApiResponse D_ServiceResult),
        (400, ''Unknown service'', D_ApiProblem),
        (500, ''Server error'', D_ApiProblem)]\<rparr>"

definition set_mode_operation :: operation where
  "set_mode_operation =
    \<lparr>op_summary = ''Switch the optional services to a named mode'',
     op_request_body = Some Rq_SetModeBody,
     op_parameters = [],
     op_responses =
       [(200, ''Resulting service statuses'', D_ApiResponse (D_Vec D_ServiceReport)),
        (400, ''Bad request / unknown mode'', D_ApiProblem),
        (500, ''Server error'', D_ApiProblem)]\<rparr>"

text \<open>The documentation pages have no attribute of this repository.\<close>

fun operation_of :: "endpoint \<Rightarrow> operation option" where
  "operation_of Ep_list_domains = Some list_domains_operation"
| "operation_of Ep_create_domain = Some create_domain_operation"
| "operation_of Ep_get_domain = Some get_domain_operation"
| "operation_of Ep_patch_domain = Some patch_domain_operation"
| "operation_of Ep_delete_domain = Some delete_domain_operation"
| "operation_of Ep_list_mailboxes = Some list_mailboxes_operation"
| "operation_of Ep_create_mailbox = Some create_mailbox_operation"
| "operation_of Ep_get_mailbox = Some get_mailbox_operation"
| "operation_of Ep_patch_mailbox = Some patch_mailbox_operation"
| "operation_of Ep_delete_mailbox = Some delete_mailbox_operation"
| "operation_of Ep_list_records = Some list_records_operation"
| "operation_of Ep_create_record = Some create_record_operation"
| "operation_of Ep_get_record = Some get_record_operation"
| "operation_of Ep_patch_record = Some patch_record_operation"
| "operation_of Ep_delete_record = Some delete_record_operation"
| "operation_of Ep_send_email = Some send_email_operation"
| "operation_of Ep_list_mailbox_messages = Some list_mailbox_messages_operation"
| "operation_of Ep_list_mailbox_inbox = Some list_mailbox_inbox_operation"
| "operation_of Ep_list_mailbox_sent = Some list_mailbox_sent_operation"
| "operation_of Ep_get_message = Some get_message_operation"
| "operation_of Ep_delete_message = Some delete_message_operation"
| "operation_of Ep_health = Some health_operation"
| "operation_of Ep_list_services = Some list_services_operation"
| "operation_of Ep_start_service = Some start_service_operation"
| "operation_of Ep_stop_service = Some stop_service_operation"
| "operation_of Ep_set_mode = Some set_mode_operation"
| "operation_of Ep_openapi = None"
| "operation_of Ep_scalar = None"

section \<open>Reading an attribute\<close>

definition declared :: "operation \<Rightarrow> StatusCode \<Rightarrow> response_type option" where
  "declared op st = map_of (map (\<lambda>(st, _, t). (st, t)) (op_responses op)) st"

definition parameters_in :: "parameter_place \<Rightarrow> operation \<Rightarrow> string list" where
  "parameters_in pl op = [n. (n, _, pl', _) \<leftarrow> op_parameters op, pl' = pl]"

lemmas operation_defs =
  list_domains_operation_def create_domain_operation_def get_domain_operation_def
  patch_domain_operation_def delete_domain_operation_def list_mailboxes_operation_def
  create_mailbox_operation_def get_mailbox_operation_def patch_mailbox_operation_def
  delete_mailbox_operation_def list_records_operation_def create_record_operation_def
  get_record_operation_def patch_record_operation_def delete_record_operation_def
  send_email_operation_def list_mailbox_messages_operation_def list_mailbox_inbox_operation_def
  list_mailbox_sent_operation_def get_message_operation_def delete_message_operation_def
  health_operation_def list_services_operation_def start_service_operation_def
  stop_service_operation_def set_mode_operation_def

text \<open>The JSON documents that are renderings of a value of a response type.\<close>

inductive renders :: "response_type \<Rightarrow> json \<Rightarrow> bool" where
  problem: "renders D_ApiProblem (ApiProblem_serialize p)"
| envelope: "renders t v \<Longrightarrow> renders (D_ApiResponse t) (ApiResponse_serialize (\<lambda>v. v) (ApiResponse_ok v))"
| page: "\<forall>v \<in> set (page_items p). renders t v \<Longrightarrow> renders (D_Page t) (Page_serialize (\<lambda>v. v) p)"
| vec: "\<forall>v \<in> set vs. renders t v \<Longrightarrow> renders (D_Vec t) (JArray vs)"
| unit_value: "renders D_unit JNull"
| domain: "renders D_DomainDTO (DomainDTO_serialize d)"
| mailbox: "renders D_MailboxDTO (MailboxDTO_serialize mb)"
| dns_record: "renders D_RecordApiDTO (RecordApiDTO_serialize rec)"
| message: "renders D_MessageDTO (MessageDTO_serialize msg)"
| send_result: "renders D_SendResult (SendResult_serialize sr)"
| health_info: "renders D_HealthInfo (HealthInfo_serialize hi)"
| service_report: "renders D_ServiceReport (ServiceReport_serialize rep)"
| service_result: "renders D_ServiceResult (ServiceResult_serialize res)"

inductive_cases renders_problemE: "renders D_ApiProblem v"
inductive_cases renders_envelopeE: "renders (D_ApiResponse t) v"

lemma renders_envelope:
  "renders t (f (response_data r)) \<Longrightarrow> response_ok r \<Longrightarrow> renders (D_ApiResponse t) (ApiResponse_serialize f r)"
  using renders.envelope [of t "f (response_data r)"]
  by (simp add: ApiResponse_serialize_def ApiResponse_ok_def)

lemma renders_page [intro]: "(\<And>x. renders t (f x)) \<Longrightarrow> renders (D_Page t) (Page_serialize f p)"
  using renders.page [of "\<lparr>page_items = map f (page_items p), page_limit = page_limit p,
    page_offset = page_offset p, page_next_offset = page_next_offset p\<rparr>" t]
  by (simp add: Page_serialize_def)

lemma renders_reports [intro]: "renders (D_Vec D_ServiceReport) (ser_reports rs)"
  by (auto intro!: renders.vec renders.service_report)

section \<open>Answers\<close>

text \<open>
  An answer: a 200 with a payload of the given type in its envelope, or a problem document under one
  of the given statuses.
\<close>

definition answer_of :: "response_type \<Rightarrow> StatusCode list \<Rightarrow> http_response \<Rightarrow> bool" where
  "answer_of t sts a \<longleftrightarrow>
     (\<exists>v. a = (200, Some v) \<and> renders (D_ApiResponse t) v) \<or>
     (\<exists>st p. a = (st, Some (ApiProblem_serialize p)) \<and> st \<in> set sts \<and> problem_for st p)"

lemma render_answer:
  "well_formed sts r \<Longrightarrow> (\<And>x. renders t (f x)) \<Longrightarrow> answer_of t sts (render f r)"
  by (cases r) (auto simp: answer_of_def intro: renders_envelope)

text \<open>The statuses of the failures of an endpoint.\<close>

fun failures :: "endpoint \<Rightarrow> StatusCode list" where
  "failures Ep_list_domains = [500]"
| "failures Ep_create_domain = [400, 500]"
| "failures Ep_get_domain = [404]"
| "failures Ep_patch_domain = [400, 404]"
| "failures Ep_delete_domain = [404, 500]"
| "failures Ep_list_mailboxes = [500]"
| "failures Ep_create_mailbox = [400, 409, 500]"
| "failures Ep_get_mailbox = [404]"
| "failures Ep_patch_mailbox = [400, 404, 500]"
| "failures Ep_delete_mailbox = [404, 500]"
| "failures Ep_list_records = [400, 500]"
| "failures Ep_create_record = [400, 409, 500]"
| "failures Ep_get_record = [404]"
| "failures Ep_patch_record = [400, 404, 409, 500]"
| "failures Ep_delete_record = [404, 500]"
| "failures Ep_send_email = [400, 409, 500]"
| "failures Ep_list_mailbox_messages = [404, 500]"
| "failures Ep_list_mailbox_inbox = [404, 500]"
| "failures Ep_list_mailbox_sent = [404, 500]"
| "failures Ep_get_message = [404]"
| "failures Ep_delete_message = [404, 500]"
| "failures Ep_health = []"
| "failures Ep_list_services = [500]"
| "failures Ep_start_service = [400, 500]"
| "failures Ep_stop_service = [400, 500]"
| "failures Ep_set_mode = [400, 500]"
| "failures Ep_openapi = []"
| "failures Ep_scalar = []"

text \<open>The payload an endpoint promises with a 200.\<close>

definition payload_of :: "operation \<Rightarrow> response_type option" where
  "payload_of op = (case declared op 200 of Some (D_ApiResponse t) \<Rightarrow> Some t | _ \<Rightarrow> None)"

lemma payload_declared: "payload_of op = Some t \<longleftrightarrow> declared op 200 = Some (D_ApiResponse t)"
  by (auto simp: payload_of_def split: option.splits response_type.splits)

lemmas payload_intros = renders.intros(5-) renders_page renders_reports

lemma api_handler_answer:
  assumes "operation_of e = Some op" and "payload_of op = Some t"
  shows "answer_of t (failures e) (fst (api_handler W L spawn cap doc req e s m))"
  using assms
  by (cases e)
    (auto simp: handler_effects payload_of_def declared_def operation_defs
      intro!: render_answer replies payload_intros)

text \<open>Every attribute declares a payload, and every failure but the 500 of some endpoints.\<close>

definition silent_500 :: "endpoint list" where
  "silent_500 =
     [Ep_list_domains, Ep_create_domain, Ep_delete_domain, Ep_list_mailboxes, Ep_create_mailbox,
      Ep_patch_mailbox, Ep_delete_mailbox, Ep_list_mailbox_messages, Ep_list_mailbox_inbox,
      Ep_list_mailbox_sent, Ep_list_records, Ep_create_record, Ep_patch_record, Ep_delete_record,
      Ep_delete_message]"

lemma every_payload_declared: "operation_of e = Some op \<Longrightarrow> payload_of op \<noteq> None"
  by (cases e) (auto simp: payload_of_def declared_def operation_defs)

lemma failure_declared:
  "operation_of e = Some op \<Longrightarrow> st \<in> set (failures e) \<Longrightarrow>
     declared op st = Some D_ApiProblem \<or> st = 500 \<and> e \<in> set silent_500"
  by (cases e) (auto simp: declared_def operation_defs silent_500_def)

section \<open>Whole requests\<close>

text \<open>The statuses an endpoint can answer with although its attribute does not declare them.\<close>

definition undeclared :: "endpoint \<Rightarrow> StatusCode list" where
  "undeclared e = [401, 403] @ (if e \<in> set silent_500 then [500] else [])"

lemma guard_cases:
  obtains st k1 where "AuthGuard_handle A a req (\<lambda>_ k. (NoContent 200 :: unit response, k)) k = (NoContent st, k1)"
  | st p k1 where "AuthGuard_handle A a req (\<lambda>_ k. (NoContent 200 :: unit response, k)) k = (Problem st p, k1)"
    "st \<in> {401, 403}" "problem_for st p"
  by (cases "enforce A a req k"; cases "fst (enforce A a req k)")
    (auto simp: AuthGuard_handle_def write_rejection_def problem_for_def)

lemma serve_answer:
  assumes "serve W L A select cap doc unrouted d req (k, s, m) = (a, k', s', m')"
    and "endpoint_for select (http_head req) = Some e"
    and "operation_of e = Some op" and "payload_of op = Some t"
  shows "answer_of t ([401, 403] @ failures e) a"
proof (rule guard_cases [of A "daemon_auth d" "http_head req" k])
  fix st k1
  assume "AuthGuard_handle A (daemon_auth d) (http_head req) (\<lambda>_ k. (NoContent 200 :: unit response, k)) k
    = (NoContent st, k1)"
  with assms(1,2) have "a = fst (api_handler W L (daemon_spawn d) cap doc req e s m)"
    by (auto simp: serve_def split: prod.splits)
  with api_handler_answer [OF assms(3,4), of W L "daemon_spawn d" cap doc req s m] show ?thesis
    by (auto simp: answer_of_def)
next
  fix st p k1
  assume "AuthGuard_handle A (daemon_auth d) (http_head req) (\<lambda>_ k. (NoContent 200 :: unit response, k)) k
    = (Problem st p, k1)" "st \<in> {401, 403}" "problem_for st p"
  with assms(1,2) show ?thesis by (auto simp: serve_def answer_of_def)
qed


text \<open>A daemon and a request for the examples: listing the domains while the database is away.\<close>

definition example_daemon :: "unit Daemon" where
  "example_daemon = \<lparr>daemon_cfg = Config_default, daemon_auth = AuthService_disabled,
     daemon_services = fst for_test, daemon_spawn = snd for_test\<rparr>"

definition example_get :: "string \<Rightarrow> (string \<times> string) list \<Rightarrow> http_request" where
  "example_get path qs =
     \<lparr>http_head = \<lparr>req_path = path, req_method = ''GET'', req_authorization = None\<rparr>,
      http_query = qs, http_body = None\<rparr>"

definition example_serve :: "mem \<Rightarrow> http_request \<Rightarrow> http_response \<times> unit key_state \<times> mem \<times> unit Inner option" where
  "example_serve s req =
     serve mail_world plain_lettre example_lib (in_order (\<lambda>x. x)) (captures_in_order (\<lambda>x. x))
       (\<lambda>_. (200, None)) (404, None) example_daemon req (no_keys, s, None)"


section \<open>The declared inputs\<close>

text \<open>
  Two requests that agree on what an attribute declares: the parameters of the path and of the query
  it lists, and the body when it lists one.
\<close>

definition same_inputs :: "operation \<Rightarrow> capture \<Rightarrow> http_request \<Rightarrow> capture \<Rightarrow> http_request \<Rightarrow> bool" where
  "same_inputs op cap req cap' req' \<longleftrightarrow>
     (\<forall>n \<in> set (parameters_in In_path op). param cap req n = param cap' req' n) \<and>
     (\<forall>n \<in> set (parameters_in In_query op). query req n = query req' n) \<and>
     (op_request_body op \<noteq> None \<longrightarrow> http_body req = http_body req')"

lemmas input_defs = same_inputs_def parameters_in_def param_u64_def query_usize_def parse_json_def



text \<open>
  Every parameter in the path of a route is declared by the attribute of its endpoint, and no other,
  but for the name of a service.
\<close>

fun routes :: "router \<Rightarrow> (segment list \<times> string \<times> endpoint) list" where
  "routes (Router seg hs cs) =
     map (\<lambda>(m, e). ([seg], m, e)) hs @ map (\<lambda>(p, m, e). (seg # p, m, e)) (concat (map routes cs))"

definition path_parameters :: "segment list \<Rightarrow> string list" where
  "path_parameters p = concat (map (\<lambda>seg. case seg of Lit _ \<Rightarrow> [] | Param n \<Rightarrow> [n]) p)"

lemma path_parameters_declared:
  assumes "(p, m, e) \<in> set (concat (map routes create_router))"
    and "e \<notin> {Ep_start_service, Ep_stop_service}" and "operation_of e = Some op"
  shows "parameters_in In_path op = path_parameters p"
  using assms
  by (auto simp: create_router_def parameters_in_def path_parameters_def operation_defs)

lemma service_name_undeclared:
  "parameters_in In_path start_service_operation = []" "parameters_in In_path stop_service_operation = []"
  by (simp_all add: parameters_in_def operation_defs)

end
