(* ===== verification/Zm_Eval.thy ===== *)
theory Zm_Eval
  imports Zm_Serve
begin

text \<open>
  Code equations for evaluation in the kernel: numbers are read and printed, and words added, by way
  of binary integers. Each is a theorem about the definitions of the model.
\<close>

function dec_int :: "int \<Rightarrow> string" where
  "dec_int n = (if n < 10 then [digit_char (nat n)] else dec_int (n div 10) @ [digit_char (nat (n mod 10))])"
  by auto
termination by (relation "measure nat") auto

declare dec_int.simps [simp del]

lemma dec_int_nat: "dec_int (int n) = dec n"
proof (induction n rule: less_induct)
  case (less n)
  show ?case
  proof (cases "n < 10")
    case False
    then have "dec_int (int (n div 10)) = dec (n div 10)" by (intro less) simp
    with False show ?thesis
      by (subst dec_int.simps, subst dec.simps) (simp add: zdiv_int nat_mod_distrib)
  qed (simp add: dec_int.simps dec.simps)
qed

lemma ser_word_code [code]: "ser_word w = JNumber (dec_int (uint w))"
  by (simp add: ser_word_def ser_num_def flip: dec_int_nat)

lemma host_port_code [code]: "host_port h p = h @ '':'' @ dec_int (uint p)"
  by (simp add: host_port_def flip: dec_int_nat)

fun parse_digits_int :: "int \<Rightarrow> string \<Rightarrow> int option" where
  "parse_digits_int acc [] = Some acc"
| "parse_digits_int acc (c # cs) =
     (case digit_val c of None \<Rightarrow> None | Some d \<Rightarrow> parse_digits_int (10 * acc + int d) cs)"

lemma parse_digits_int_nat: "parse_digits_int (int acc) s = map_option int (parse_digits acc s)"
proof (induction s arbitrary: acc)
  case (Cons c cs)
  then show ?case using Cons [of "10 * acc + the (digit_val c)"] by (auto split: option.splits)
qed simp

definition parse_unsigned_int :: "int \<Rightarrow> string \<Rightarrow> int option" where
  "parse_unsigned_int bound s =
     (let ds = (case s of c # cs \<Rightarrow> (if c = CHR ''+'' then cs else s) | [] \<Rightarrow> [])
      in if ds = [] then None
         else case parse_digits_int 0 ds of
             None \<Rightarrow> None
           | Some n \<Rightarrow> if n < bound then Some n else None)"

lemma parse_unsigned_int_nat:
  "parse_unsigned_int (int bound) s = map_option int (parse_unsigned bound s)"
  using parse_digits_int_nat [of 0]
  by (auto simp: parse_unsigned_int_def parse_unsigned_def Let_def split: option.splits list.splits)

lemma parse_unsigned_of_int: "parse_unsigned bound s = map_option nat (parse_unsigned_int (int bound) s)"
  by (simp add: parse_unsigned_int_nat option.map_comp comp_def option.map_ident)

lemma json_word_code [code]:
  "(json_word v :: ('a::len word, de_error) result) =
     (case v of
        JNumber n \<Rightarrow>
          (case parse_unsigned_int (2 ^ LENGTH('a)) n of
             None \<Rightarrow> Err (Format ''invalid value'') | Some i \<Rightarrow> Ok (word_of_int i))
      | _ \<Rightarrow> Err (Format ''invalid type''))"
  using parse_unsigned_int_nat [of "2 ^ LENGTH('a)"]
  by (auto simp: json_word_def json_unsigned_def ok_or_def split: json.splits option.splits)

lemma parse_usize_code [code]: "parse_usize s = map_option word_of_int (parse_unsigned_int (2 ^ 64) s)"
  using parse_unsigned_int_nat [of "2 ^ 64" s]
  by (simp add: parse_usize_def option.map_comp comp_def)

lemma parse_u16_code [code]: "parse_u16 s = map_option word_of_int (parse_unsigned_int (2 ^ 16) s)"
  using parse_unsigned_int_nat [of "2 ^ 16" s]
  by (simp add: parse_u16_def option.map_comp comp_def)

lemma param_u64_code [code]:
  "param_u64 cap req name = Option.bind (param cap req name) (\<lambda>s. map_option nat (parse_unsigned_int (2 ^ 64) s))"
  using parse_unsigned_int_nat [of "2 ^ 64"]
  by (cases "param cap req name") (simp_all add: param_u64_def option.map_comp comp_def option.map_ident)

lemma saturating_add_code [code]:
  "saturating_add a b = (if uint a + uint b < 2 ^ LENGTH('a) then a + b else - 1)" for a b :: "'a::len word"
proof -
  have "unat a + unat b < 2 ^ LENGTH('a) \<longleftrightarrow> uint a + uint b < 2 ^ LENGTH('a)"
    by (simp flip: of_nat_less_iff [where 'a = int])
  then show ?thesis by (simp add: saturating_add_def)
qed

lemma saturating_mul_code [code]:
  "saturating_mul a b = (if uint a * uint b < 2 ^ LENGTH('a) then a * b else - 1)" for a b :: "'a::len word"
proof -
  have "unat a * unat b < 2 ^ LENGTH('a) \<longleftrightarrow> uint a * uint b < 2 ^ LENGTH('a)"
    by (simp flip: of_nat_less_iff [where 'a = int])
  then show ?thesis by (simp add: saturating_mul_def)
qed

end
