(* ===== verification/Zm_Contract_Gaps.thy ===== *)
theory Zm_Contract_Gaps
  imports Zm_Contract Zm_Eval
begin

text \<open>
  Where the attributes of the HTTP interface and its handlers part, on concrete runs: the 500s that
  no attribute mentions, an outage reported as a missing row, and declared statuses that no
  handler answers with.
\<close>

section \<open>Failures no attribute mentions\<close>

text \<open>A database whose look-ups by key answer and whose other statements fail.\<close>

definition failing_world :: "mem world" where
  "failing_world = mail_world
     \<lparr>Domain_all := (\<lambda>_. Err ''disk I/O error''), Domain_create := (\<lambda>_ s. (Err ''disk I/O error'', s)),
      Domain_delete := (\<lambda>_ s. (Err ''disk I/O error'', s)),
      Mailbox_all := (\<lambda>_. Err ''disk I/O error''), Mailbox_create := (\<lambda>_ s. (Err ''disk I/O error'', s)),
      Mailbox_update := (\<lambda>_ _ s. (Err ''disk I/O error'', s)),
      Mailbox_delete := (\<lambda>_ s. (Err ''disk I/O error'', s)),
      Record_all := (\<lambda>_. Err ''disk I/O error''), Record_create := (\<lambda>_ s. (Err ''disk I/O error'', s)),
      Record_update := (\<lambda>_ _ s. (Err ''disk I/O error'', s)),
      Record_delete := (\<lambda>_ s. (Err ''disk I/O error'', s)),
      Message_delete := (\<lambda>_ s. (Err ''disk I/O error'', s)),
      Inbound_filter_rcpt := (\<lambda>_ _. Err ''disk I/O error''),
      Outbound_filter_sender := (\<lambda>_ _. Err ''disk I/O error'')\<rparr>"

definition stocked :: mem where
  "stocked = mem_empty
     \<lparr>m_domains := [\<lparr>domain_id = ''x.org'', domain_created_at = 0, domain_updated_at = 0\<rparr>],
      m_mailboxes := [\<lparr>mailbox_id = ''a@x.org'', mailbox_domain_id = ''x.org'', mailbox_forward_to = None,
        mailbox_created_at = 0, mailbox_updated_at = 0\<rparr>],
      m_records := [\<lparr>record_domain_id = ''x.org'', record_type = RT_A, record_value = ''10.0.0.1'',
        record_ttl = 300, record_id = 1, record_created_at = 0, record_updated_at = 0\<rparr>],
      m_messages := [\<lparr>message_mail_from = ''a@x.org'', message_raw = [], message_subject = None,
        message_id_header = None, message_content_type = None, message_from_address = None,
        message_to = [], message_cc = [], message_bcc = [], message_id = 1,
        message_created_at = 0, message_updated_at = 0\<rparr>]\<rparr>"

definition failing_request :: http_request where
  "failing_request = (example_get [] [])\<lparr>http_body := Some (JObject
     [(''id'', JString ''b@x.org''), (''domain_id'', JString ''x.org''), (''record_type'', JString ''A''),
      (''value'', JString ''10.0.0.2'')])\<rparr>"

definition failing_status :: "endpoint \<Rightarrow> StatusCode" where
  "failing_status e =
     fst (fst (api_handler failing_world plain_lettre (snd for_test)
       (\<lambda>_ _ _. [(''domain_id'', ''x.org''), (''mailbox_id'', ''a@x.org''), (''record_id'', ''1''),
          (''message_id'', ''1'')])
       (\<lambda>_. (200, None)) failing_request e stocked (None :: unit Inner option)))"

lemma failing_listings:
  "failing_status Ep_list_domains = 500" "failing_status Ep_list_mailboxes = 500"
  "failing_status Ep_list_records = 500"
  by code_simp+

lemma failing_message_listings:
  "failing_status Ep_list_mailbox_messages = 500" "failing_status Ep_list_mailbox_inbox = 500"
  "failing_status Ep_list_mailbox_sent = 500"
  by code_simp+

lemma failing_creates:
  "failing_status Ep_create_domain = 500" "failing_status Ep_create_mailbox = 500"
  "failing_status Ep_create_record = 500"
  by code_simp+

lemma failing_patches: "failing_status Ep_patch_mailbox = 500" "failing_status Ep_patch_record = 500"
  by code_simp+

lemma failing_deletes:
  "failing_status Ep_delete_domain = 500" "failing_status Ep_delete_mailbox = 500"
  "failing_status Ep_delete_record = 500" "failing_status Ep_delete_message = 500"
  by code_simp+

text \<open>Each of the undeclared 500s does occur.\<close>

lemma undeclared_500_occurs: "e \<in> set silent_500 \<Longrightarrow> failing_status e = 500"
  by (auto simp: silent_500_def failing_listings failing_message_listings failing_creates
      failing_patches failing_deletes)

section \<open>Statuses that mislead\<close>

text \<open>
  The look-ups by key answer 404 for every error of the database, so a stored row is reported missing
  while the database is away.
\<close>

lemma outage_reported_as_missing:
  "fst (fst (example_serve stocked (example_get ''/domains/x.org'' []))) = 200"
  "fst (fst (example_serve (stocked\<lparr>mem_up := False\<rparr>) (example_get ''/domains/x.org'' []))) = 404"
  by code_simp+

text \<open>The statuses that attributes declare and no handler answers with.\<close>

definition unused :: "endpoint \<Rightarrow> StatusCode list" where
  "unused e =
     (case operation_of e of None \<Rightarrow> []
      | Some op \<Rightarrow> filter (\<lambda>st. st \<noteq> 200 \<and> st \<notin> set (failures e)) (map fst (op_responses op)))"

lemma unused_statuses:
  "unused Ep_list_domains = [400]" "unused Ep_create_domain = [409]" "unused Ep_list_mailboxes = [400]"
  "unused Ep_list_mailbox_messages = [400]" "unused Ep_list_mailbox_inbox = [400]"
  "unused Ep_list_mailbox_sent = [400]"
  by (simp_all add: unused_def operation_defs)

end
