(* ===== verification/Zm_Tests.thy ===== *)
theory Zm_Tests
  imports Zm_Eval
begin

text \<open>
  The unit tests at the end of the source files (\<^verbatim>\<open>db.rs\<close>, \<^verbatim>\<open>services.rs\<close>, \<^verbatim>\<open>auth/policy.rs\<close>,
  \<^verbatim>\<open>config.rs\<close>, \<^verbatim>\<open>email.rs\<close>, \<^verbatim>\<open>dns.rs\<close>), replayed on the model: each is a Boolean-valued definition
  with the inputs and the assertions of the test, and is shown to hold by evaluation.
\<close>

section \<open>Conversions of the data model\<close>

definition test_recordtype_roundtrips_through_hickory :: bool where
  "test_recordtype_roundtrips_through_hickory =
     list_all (\<lambda>rt. RecordType_from_hickory (hickory_from_RecordType rt) = Some rt)
       [RT_A, RT_AAAA, RT_CNAME, RT_MX, RT_NS, RT_SOA, RT_TXT, RT_CAA, RT_SRV, RT_PTR, RT_SVCB, RT_HTTPS]"

definition test_recordtype_maps_unknown_codes_to_placeholder :: bool where
  "test_recordtype_maps_unknown_codes_to_placeholder =
     (RecordType_from_hickory (H_Unknown 0x1234) = Some RT_Unknown \<and>
      hickory_from_RecordType RT_Unknown = H_Unknown 0xFFFF \<and>
      hickory_from_RecordType RT_CERT = H_Unknown 0x000A \<and>
      hickory_from_RecordType RT_SMIMEA = H_Unknown 0x0041 \<and>
      hickory_from_RecordType RT_DNAME = H_Unknown 0x0027)"

definition test_domain_conversions_roundtrip :: bool where
  "test_domain_conversions_roundtrip =
     (let domain = Domain_from_String 0 ''example.com''
      in domain_id domain = ''example.com'' \<and> String_from_Domain domain = ''example.com'' \<and>
         domain_id (Domain_from_String 0 ''other.com'') = ''other.com'')"

definition test_record_dto_maps_to_record_with_zeroed_id :: bool where
  "test_record_dto_maps_to_record_with_zeroed_id =
     (let dto = \<lparr>dto_domain_id = ''example.com'', dto_record_type = RT_A, dto_value = ''93.184.216.34'',
                 dto_ttl = 3600\<rparr>;
          rec = Record_from_RecordDTO 0 dto;
          back = RecordDTO_from_Record rec
      in record_id rec = 0 \<and> record_domain_id rec = ''example.com'' \<and> record_type rec = RT_A \<and>
         record_value rec = ''93.184.216.34'' \<and> record_ttl rec = 3600 \<and>
         dto_domain_id back = dto_domain_id dto \<and> dto_record_type back = dto_record_type dto \<and>
         dto_value back = dto_value dto \<and> dto_ttl back = dto_ttl dto)"

definition test_record_dto_serde_roundtrips :: bool where
  "test_record_dto_serde_roundtrips =
     (let dto = \<lparr>dto_domain_id = ''example.com'', dto_record_type = RT_MX, dto_value = ''mail.example.com'',
                 dto_ttl = 60\<rparr>
      in case RecordDTO_deserialize json_format (RecordDTO_serialize dto) of
           Err _ \<Rightarrow> False
         | Ok back \<Rightarrow> dto_domain_id back = dto_domain_id dto \<and> dto_record_type back = dto_record_type dto \<and>
             dto_value back = dto_value dto \<and> dto_ttl back = dto_ttl dto)"

definition test_mailbox_try_from_splits_out_domain :: bool where
  "test_mailbox_try_from_splits_out_domain =
     (case Mailbox_try_from 0 ''user@example.com'' of
        Err _ \<Rightarrow> False
      | Ok m \<Rightarrow> mailbox_id m = ''user@example.com'' \<and> mailbox_domain_id m = ''example.com'' \<and>
          mailbox_forward_to m = None)"

definition test_mailbox_try_from_rejects_missing_or_empty_domain :: bool where
  "test_mailbox_try_from_rejects_missing_or_empty_domain =
     ((case Mailbox_try_from 0 ''no-domain'' of Err InvalidFormat \<Rightarrow> True | _ \<Rightarrow> False) \<and>
      (case Mailbox_try_from 0 ''user@'' of Err InvalidFormat \<Rightarrow> True | _ \<Rightarrow> False))"

definition test_mailbox_try_from_takes_first_domain_part :: bool where
  "test_mailbox_try_from_takes_first_domain_part =
     (case Mailbox_try_from 0 ''a@b@c.com'' of
        Err _ \<Rightarrow> False
      | Ok m \<Rightarrow> mailbox_domain_id m = ''b'' \<and> mailbox_id m = ''a@b@c.com'')"

lemma db_tests:
  test_recordtype_roundtrips_through_hickory
  test_recordtype_maps_unknown_codes_to_placeholder
  test_domain_conversions_roundtrip
  test_record_dto_maps_to_record_with_zeroed_id
  test_record_dto_serde_roundtrips
  test_mailbox_try_from_splits_out_domain
  test_mailbox_try_from_rejects_missing_or_empty_domain
  test_mailbox_try_from_takes_first_domain_part
  by code_simp+

section \<open>The service manager\<close>

abbreviation test_manager :: "unit Inner" where "test_manager \<equiv> fst for_test"
abbreviation test_spawn :: "unit spawn_fn" where "test_spawn \<equiv> snd for_test"

definition test_smtps_starts_only_when_configured :: bool where
  "test_smtps_starts_only_when_configured =
     (let (err, m1) = start test_spawn Smtps test_manager;
          (stopped, m2) = stop Smtps m1
      in \<not> is_ok err \<and> status_of m1 Smtps = Idle \<and>
         (case stopped of Ok r \<Rightarrow> \<not> result_changed r | Err _ \<Rightarrow> False) \<and> status_of m2 Smtps = Idle)"

definition test_boot_mode_services_map_correctly :: bool where
  "test_boot_mode_services_map_correctly =
     (BootMode_services Mode_Full = {Api, Smtp, Dns} \<and> BootMode_services Mode_Api = {Api} \<and>
      BootMode_services Mode_Smtp = {Smtp} \<and> BootMode_services Mode_Dns = {Dns} \<and>
      BootMode_services Mode_Off = {} \<and> BootMode_default = Mode_Full)"

definition test_service_parse_is_case_insensitive_and_rejects_unknown :: bool where
  "test_service_parse_is_case_insensitive_and_rejects_unknown =
     (Service_parse ''api'' = Some Api \<and> Service_parse ''dns'' = Some Dns \<and>
      Service_parse '' SMTP '' = Some Smtp \<and> Service_parse ''smtps'' = Some Smtps \<and>
      Service_parse ''bogus'' = None)"

definition test_start_is_idempotent_and_reflects_status :: bool where
  "test_start_is_idempotent_and_reflects_status =
     (let (first, m1) = start test_spawn Smtp test_manager;
          (second, m2) = start test_spawn Smtp m1
      in status_of test_manager Smtp = Idle \<and>
         (case first of Ok r \<Rightarrow> result_changed r \<and> result_status r = Running | Err _ \<Rightarrow> False) \<and>
         status_of m1 Smtp = Running \<and>
         (case second of Ok r \<Rightarrow> \<not> result_changed r | Err _ \<Rightarrow> False) \<and> status_of m2 Smtp = Running)"

definition test_stop_is_idempotent :: bool where
  "test_stop_is_idempotent =
     (let (_, m0) = start test_spawn Dns test_manager;
          (first, m1) = stop Dns m0;
          (second, m2) = stop Dns m1
      in (case first of Ok r \<Rightarrow> result_changed r \<and> result_status r = Idle | Err _ \<Rightarrow> False) \<and>
         status_of m1 Dns = Idle \<and>
         (case second of Ok r \<Rightarrow> \<not> result_changed r | Err _ \<Rightarrow> False))"

text \<open>Booting goes through the services of the mode in the order of a hash set, here an arbitrary one.\<close>

definition test_apply_mode_starts_wanted_and_stops_rest :: "Service list \<Rightarrow> bool" where
  "test_apply_mode_starts_wanted_and_stops_rest order =
     (let m1 = boot test_spawn order Mode_Full test_manager;
          (reports, m2) = apply_mode test_spawn Mode_Dns m1
      in status_of m1 Api = Running \<and> status_of m1 Smtp = Running \<and> status_of m1 Dns = Running \<and>
         status_of m2 Api = Idle \<and> status_of m2 Smtp = Idle \<and> status_of m2 Dns = Running \<and>
         length reports = 4)"

definition test_list_reports_all_services :: bool where
  "test_list_reports_all_services =
     (let (_, m) = start test_spawn Smtp test_manager;
          reports = list_all_services m
      in length reports = 4 \<and>
         list_ex (\<lambda>r. report_service r = Smtp \<and> report_status r = Running) reports \<and>
         list_ex (\<lambda>r. report_service r = Dns \<and> report_status r = Idle) reports \<and>
         list_ex (\<lambda>r. report_service r = Api \<and> report_status r = Idle) reports \<and>
         list_ex (\<lambda>r. report_service r = Smtps \<and> report_status r = Idle) reports)"

lemma service_manager_tests:
  test_smtps_starts_only_when_configured
  test_boot_mode_services_map_correctly
  test_service_parse_is_case_insensitive_and_rejects_unknown
  test_start_is_idempotent_and_reflects_status
  test_stop_is_idempotent
  test_list_reports_all_services
  by code_simp+

lemma apply_mode_test:
  "list_all test_apply_mode_starts_wanted_and_stops_rest
     [[Api, Smtp, Dns], [Api, Dns, Smtp], [Smtp, Api, Dns], [Smtp, Dns, Api], [Dns, Api, Smtp], [Dns, Smtp, Api]]"
  by code_simp

section \<open>Role policies\<close>

definition test_target :: "string \<Rightarrow> Verb \<Rightarrow> RouteTarget" where
  "test_target resource verb = \<lparr>target_resource = resource, target_verb = verb\<rparr>"

definition test_role :: "string list \<Rightarrow> string list \<Rightarrow> RoleConfig" where
  "test_role grants extends = \<lparr>role_grants = grants, role_extends = extends\<rparr>"

definition test_empty_policy_is_deny_default :: bool where
  "test_empty_policy_is_deny_default =
     (let p = AuthPolicy_build [] [''health'', ''doc'']
      in \<not> allows p [] (test_target ''domains'' Read) \<and> \<not> allows p [] (test_target ''domains'' Write) \<and>
         \<not> allows p [''nobody''] (test_target ''domains'' Read))"

definition test_exact_grant_matches_only_its_pair :: bool where
  "test_exact_grant_matches_only_its_pair =
     (let p = AuthPolicy_build [(''viewer'', test_role [''domains:read'', ''mailboxes:read''] [])] []
      in allows p [''viewer''] (test_target ''domains'' Read) \<and> allows p [''viewer''] (test_target ''mailboxes'' Read) \<and>
         \<not> allows p [''viewer''] (test_target ''domains'' Write) \<and> \<not> allows p [''viewer''] (test_target ''records'' Read))"

definition test_star_and_resource_wildcards :: bool where
  "test_star_and_resource_wildcards =
     (let p = AuthPolicy_build
            [(''admin'', test_role [''*''] []), (''editor'', test_role [''domains:*'', ''*:read''] [])] []
      in allows p [''admin''] (test_target ''anything'' Delete) \<and> allows p [''editor''] (test_target ''domains'' Write) \<and>
         allows p [''editor''] (test_target ''services'' Read) \<and> \<not> allows p [''editor''] (test_target ''services'' Write))"

definition test_extends_inherits_grants :: bool where
  "test_extends_inherits_grants =
     (let p = AuthPolicy_build
            [(''base'', test_role [''domains:read''] []), (''child'', test_role [''domains:write''] [''base''])] []
      in allows p [''child''] (test_target ''domains'' Read) \<and> allows p [''child''] (test_target ''domains'' Write) \<and>
         \<not> allows p [''base''] (test_target ''domains'' Write))"

definition test_unknown_grant_verb_is_ignored_not_broadened :: bool where
  "test_unknown_grant_verb_is_ignored_not_broadened =
     (let p = AuthPolicy_build [(''x'', test_role [''domains:banana''] [])] []
      in \<not> allows p [''x''] (test_target ''domains'' Read))"

definition test_public_resources_bypass_roles :: bool where
  "test_public_resources_bypass_roles =
     (let p = AuthPolicy_build [] [''health'', ''doc'']
      in allows p [] (test_target ''health'' Read) \<and> allows p [] (test_target ''doc'' Read) \<and>
         \<not> allows p [] (test_target ''domains'' Read))"

definition test_extends_cycle_does_not_hang :: bool where
  "test_extends_cycle_does_not_hang =
     (let p = AuthPolicy_build
            [(''a'', test_role [''records:read''] [''b'']), (''b'', test_role [''domains:read''] [''a''])] []
      in allows p [''a''] (test_target ''records'' Read) \<and> allows p [''a''] (test_target ''domains'' Read) \<and>
         allows p [''b''] (test_target ''records'' Read))"

definition test_method_to_verb_classification :: bool where
  "test_method_to_verb_classification =
     (Verb_from_method ''GET'' = Read \<and> Verb_from_method ''HEAD'' = Read \<and>
      Verb_from_method ''OPTIONS'' = Read \<and> Verb_from_method ''POST'' = Write \<and>
      Verb_from_method ''PATCH'' = Write \<and> Verb_from_method ''PUT'' = Write \<and>
      Verb_from_method ''DELETE'' = Delete)"

definition test_resource_for_path_and_target :: bool where
  "test_resource_for_path_and_target =
     (resource_for_path ''/domains/abc'' = Some ''domains'' \<and>
      resource_for_path ''/services/smtp/start'' = Some ''services'' \<and>
      resource_for_path ''/messages/9'' = Some ''messages'' \<and>
      resource_for_path ''/'' = None \<and> resource_for_path [] = None \<and>
      route_target ''/domains/abc'' ''GET'' = Some (test_target ''domains'' Read) \<and>
      route_target ''/domains'' ''POST'' = Some (test_target ''domains'' Write))"

definition test_case_insensitive_role_and_resource :: bool where
  "test_case_insensitive_role_and_resource =
     (let p = AuthPolicy_build [(''Admin'', test_role [''Domains:read''] [])] []
      in allows p [''admin''] (test_target ''domains'' Read) \<and> allows p [''ADMIN''] (test_target ''DOMAINS'' Read))"

lemma policy_tests:
  test_empty_policy_is_deny_default
  test_exact_grant_matches_only_its_pair
  test_star_and_resource_wildcards
  test_extends_inherits_grants
  test_unknown_grant_verb_is_ignored_not_broadened
  test_public_resources_bypass_roles
  test_method_to_verb_classification
  test_resource_for_path_and_target
  test_case_insensitive_role_and_resource
  by code_simp+

lemma policy_cycle_test: test_extends_cycle_does_not_hang
  by code_simp

section \<open>Configuration\<close>

definition test_mailbox_entry_simple_has_no_forward :: bool where
  "test_mailbox_entry_simple_has_no_forward =
     (let entry = Simple ''user@example.com''
      in MailboxEntry_address entry = ''user@example.com'' \<and> MailboxEntry_forward_to entry = None)"

definition test_mailbox_entry_detailed_carries_forward :: bool where
  "test_mailbox_entry_detailed_carries_forward =
     (let entry = Detailed ''user@example.com'' (Some ''user@gmail.com'')
      in MailboxEntry_address entry = ''user@example.com'' \<and>
         MailboxEntry_forward_to entry = Some ''user@gmail.com'')"

definition test_mailbox_entry_detailed_defaults_to_no_forward :: bool where
  "test_mailbox_entry_detailed_defaults_to_no_forward =
     (case MailboxEntry_deserialize json_format (JObject [(''id'', JString ''user@example.com'')]) of
        Ok (Detailed _ f) \<Rightarrow> f = None | _ \<Rightarrow> False)"

definition test_mailbox_entry_untagged_json_picks_variant_by_shape :: bool where
  "test_mailbox_entry_untagged_json_picks_variant_by_shape =
     ((case de_vec json_format (MailboxEntry_deserialize json_format) (JArray [JString ''a@example.com'']) of
         Ok (Simple a # _) \<Rightarrow> MailboxEntry_address (Simple a) = ''a@example.com'' | _ \<Rightarrow> False) \<and>
      (case de_vec json_format (MailboxEntry_deserialize json_format)
          (JArray [JObject [(''id'', JString ''b@example.com''), (''forward_to'', JString ''b@ext.com'')]]) of
         Ok (Detailed i f # _) \<Rightarrow> i = ''b@example.com'' \<and> f = Some ''b@ext.com'' | _ \<Rightarrow> False))"

definition default_ports_and_host :: "Config \<Rightarrow> bool" where
  "default_ports_and_host cfg \<longleftrightarrow>
     cfg_host cfg = ''0.0.0.0'' \<and> cfg_dns cfg = 53 \<and> cfg_smtp cfg = 25 \<and> cfg_api cfg = 8081 \<and>
     cfg_domains cfg = [] \<and> cfg_records cfg = [] \<and> cfg_mailboxes cfg = []"

definition test_config_default_ports_and_host :: bool where
  "test_config_default_ports_and_host =
     (default_ports_and_host Config_default \<and> cfg_database_url Config_default = ''turso:zonemail.db'')"

definition test_resolved_mode_defaults_to_full :: bool where
  "test_resolved_mode_defaults_to_full =
     (let mode = resolved_mode Config_default
      in mode = Mode_Full \<and> Smtp \<in> BootMode_services mode \<and> Dns \<in> BootMode_services mode)"

definition parsed :: "(string \<times> json) list \<Rightarrow> (Config \<Rightarrow> bool) \<Rightarrow> bool" where
  "parsed es P = (case Config_deserialize json_format (JObject es) of Ok cfg \<Rightarrow> P cfg | Err _ \<Rightarrow> False)"

definition test_resolved_mode_honors_explicit_choice_via_json :: bool where
  "test_resolved_mode_honors_explicit_choice_via_json =
     (parsed [(''mode'', JString ''dns'')] (\<lambda>cfg. resolved_mode cfg = Mode_Dns \<and>
        Dns \<in> BootMode_services (resolved_mode cfg) \<and> Smtp \<notin> BootMode_services (resolved_mode cfg)) \<and>
      parsed [(''mode'', JString ''off'')] (\<lambda>cfg. resolved_mode cfg = Mode_Off \<and>
        BootMode_services (resolved_mode cfg) = {}))"

definition test_config_addr_helpers_join_host_and_port :: bool where
  "test_config_addr_helpers_join_host_and_port =
     (let cfg = Config_default\<lparr>cfg_host := ''127.0.0.1'', cfg_dns := 5353, cfg_smtp := 1025, cfg_api := 8080\<rparr>
      in dns_addr cfg = parse_SocketAddr ''127.0.0.1:5353'' \<and> dns_addr cfg \<noteq> None \<and>
         smtp_addr cfg = parse_SocketAddr ''127.0.0.1:1025'' \<and> smtp_addr cfg \<noteq> None \<and>
         api_addr cfg = parse_SocketAddr ''127.0.0.1:8080'' \<and> api_addr cfg \<noteq> None)"

definition test_config_addr_helpers_reject_bad_host :: bool where
  "test_config_addr_helpers_reject_bad_host =
     (api_addr (Config_default\<lparr>cfg_host := ''not a valid host''\<rparr>) = None)"

definition test_config_deserializes_with_all_defaults :: bool where
  "test_config_deserializes_with_all_defaults = parsed [] default_ports_and_host"

definition test_auth_section_defaults_to_disabled :: bool where
  "test_auth_section_defaults_to_disabled =
     parsed [] (\<lambda>cfg. \<not> auth_enabled (cfg_auth cfg) \<and> auth_roles (cfg_auth cfg) = [])"

definition test_auth_issuer_source_with_roles_deserializes :: bool where
  "test_auth_issuer_source_with_roles_deserializes =
     parsed
       [(''auth'', JObject
          [(''enabled'', JBool True), (''issuer'', JString ''https://janux.example.com''),
           (''audience'', JArray [JString ''zonemail-api'']),
           (''role_claims'', JArray [JString ''role'', JString ''roles'']),
           (''public'', JArray [JString ''health'', JString ''doc'']),
           (''keys'', JObject
              [(''kind'', JString ''issuer''), (''issuer'', JString ''https://janux.example.com''),
               (''algorithms'', JArray [JString ''RS256'']), (''fail_closed'', JBool True)]),
           (''roles'', JObject
              [(''admin'', JObject [(''grants'', JArray [JString ''*''])]),
               (''viewer'', JObject [(''grants'', JArray [JString ''domains:read'', JString ''records:read''])]),
               (''ops'', JObject [(''extends'', JArray [JString ''viewer'']),
                                (''grants'', JArray [JString ''mailboxes:*''])])])])]
       (\<lambda>cfg. let a = cfg_auth cfg
         in auth_enabled a \<and> key_kind (auth_keys a) = Issuer \<and>
            key_issuer (auth_keys a) = Some ''https://janux.example.com'' \<and>
            key_algorithms (auth_keys a) = [''RS256''] \<and> key_fail_closed (auth_keys a) \<and>
            length (auth_roles a) = 3 \<and>
            map_option role_grants (map_of (auth_roles a) ''admin'') = Some [''*''] \<and>
            map_option role_extends (map_of (auth_roles a) ''ops'') = Some [''viewer''])"

lemma config_tests:
  test_mailbox_entry_simple_has_no_forward
  test_mailbox_entry_detailed_carries_forward
  test_mailbox_entry_detailed_defaults_to_no_forward
  test_mailbox_entry_untagged_json_picks_variant_by_shape
  test_config_default_ports_and_host
  test_resolved_mode_defaults_to_full
  test_resolved_mode_honors_explicit_choice_via_json
  by code_simp+

lemma config_parse_tests:
  test_config_deserializes_with_all_defaults
  test_auth_section_defaults_to_disabled
  by code_simp+

lemma auth_config_test: test_auth_issuer_source_with_roles_deserializes
  by code_simp

lemma config_bad_host_test: test_config_addr_helpers_reject_bad_host
  by code_simp

lemma localhost_addr:
  "host_port ''127.0.0.1'' p = ''127.0.0.1:'' @ dec (unat p)" "parse_SocketAddr (host_port ''127.0.0.1'' p) \<noteq> None"
proof -
  have "show_ipv4 127 0 0 1 = ''127.0.0.1''"
    by (simp add: show_ipv4_def dec.simps digit_char_def) code_simp
  from parse_SocketAddr_ipv4 [of 127 0 0 1 p, unfolded this]
  show "host_port ''127.0.0.1'' p = ''127.0.0.1:'' @ dec (unat p)"
    "parse_SocketAddr (host_port ''127.0.0.1'' p) \<noteq> None" by (simp_all add: host_port_def)
qed

lemma config_addr_test: test_config_addr_helpers_join_host_and_port
proof -
  have "dec_int 5353 = ''5353''" "dec_int 1025 = ''1025''" "dec_int 8080 = ''8080''" by code_simp+
  with dec_int_nat [of 5353] dec_int_nat [of 1025] dec_int_nat [of 8080] show ?thesis
    using localhost_addr(2) [of 5353] localhost_addr(2) [of 1025] localhost_addr(2) [of 8080]
    by (simp add: test_config_addr_helpers_join_host_and_port_def dns_addr_def smtp_addr_def api_addr_def
        localhost_addr(1))
qed

section \<open>Transport security settings\<close>

text \<open>A file system with one readable file, and a decoder that accepts what it is given.\<close>

definition test_fs :: "string \<Rightarrow> (bytes, string) result" where
  "test_fs path = (if path = ''/tmp/cert.pem'' then Ok [1] else Err ''No such file or directory'')"

definition test_pkcs8 :: "bytes \<Rightarrow> bytes \<Rightarrow> (unit, string) result" where
  "test_pkcs8 cert key = Ok ()"

definition test_smtp_tls_defaults_to_plain :: bool where
  "test_smtp_tls_defaults_to_plain =
     (let t = SmtpTlsConfig_default
      in starttls_mode t = Tls_None \<and> smtps_port t = 0 \<and> cert_source t = None \<and> \<not> needs_cert t \<and>
         \<not> smtps_enabled t \<and> is_ok (identity test_fs test_pkcs8 t))"

definition test_smtp_tls_smtps_port_computes_addr :: bool where
  "test_smtp_tls_smtps_port_computes_addr =
     (let t = SmtpTlsConfig_default\<lparr>smtps_port := 465\<rparr>;
          t0 = t\<lparr>smtps_port := 0\<rparr>
      in smtps_enabled t \<and> needs_cert t \<and>
         smtps_addr t ''192.168.1.10'' = parse_SocketAddr ''192.168.1.10:465'' \<and>
         smtps_addr t ''192.168.1.10'' \<noteq> None \<and>
         \<not> smtps_enabled t0 \<and> smtps_addr t0 ''192.168.1.10'' = None)"

definition test_smtp_tls_acme_source_fails_fast :: bool where
  "test_smtp_tls_acme_source_fails_fast =
     (let t = SmtpTlsConfig_default\<lparr>starttls_mode := Tls_Optional,
            cert_source := Some (Acme (Some ''https://acme-v02.api.letsencrypt.org/directory'') None
              (Some ''mail.example.com''))\<rparr>
      in needs_cert t \<and> \<not> is_ok (identity test_fs test_pkcs8 t))"

definition test_smtp_tls_files_missing_key_fails_fast :: bool where
  "test_smtp_tls_files_missing_key_fails_fast =
     (let no_source = SmtpTlsConfig_default\<lparr>starttls_mode := Tls_Optional\<rparr>;
          files = \<lparr>starttls_mode = Tls_Required, smtps_port = 465,
                   cert_source = Some (Files ''/tmp/cert.pem'' ''/tmp/key.pem'')\<rparr>
      in \<not> is_ok (identity test_fs test_pkcs8 no_source) \<and> \<not> is_ok (identity test_fs test_pkcs8 files))"

definition test_smtp_tls_parses_from_json :: bool where
  "test_smtp_tls_parses_from_json =
     (parsed
        [(''mailbox'', JArray [JObject [(''domain'', JString ''example.com''), (''kind'', JString ''internal''),
            (''email'', JString ''a@example.com'')]]),
         (''smtp_tls'', JObject [(''mode'', JString ''required''), (''smtps_port'', JNumber ''465''),
            (''cert_source'', JObject [(''kind'', JString ''files''), (''cert_path'', JString ''/tmp/c.pem''),
               (''key_path'', JString ''/tmp/k.pem'')])])]
        (\<lambda>cfg. starttls_mode (cfg_smtp_tls cfg) = Tls_Required \<and> smtps_port (cfg_smtp_tls cfg) = 465 \<and>
           (case cert_source (cfg_smtp_tls cfg) of Some (Files _ _) \<Rightarrow> True | _ \<Rightarrow> False)) \<and>
      parsed
        [(''smtp_tls'', JObject [(''mode'', JString ''optional''),
            (''cert_source'', JObject [(''kind'', JString ''acme''),
               (''acme_server'', JString ''https://ca/directory''), (''dns_domain'', JString ''m.example.com'')])])]
        (\<lambda>cfg. needs_cert (cfg_smtp_tls cfg) \<and>
           (case cert_source (cfg_smtp_tls cfg) of Some (Acme _ _ _) \<Rightarrow> True | _ \<Rightarrow> False)))"

definition test_outbound_transport_defaults_to_plain_no_relay :: bool where
  "test_outbound_transport_defaults_to_plain_no_relay =
     parsed [] (\<lambda>cfg. \<not> tls_enabled (cfg_outbound cfg) \<and> \<not> relay_configured (cfg_outbound cfg) \<and>
       transport_tls (cfg_outbound cfg) = Plain \<and> transport_relay (cfg_outbound cfg) = None)"

definition test_outbound_transport_parses_tls_and_relay :: bool where
  "test_outbound_transport_parses_tls_and_relay =
     parsed
       [(''outbound'', JObject
          [(''tls'', JString ''required''), (''insecure'', JBool True),
           (''relay'', JObject [(''host'', JString ''smtp.example.com''), (''port'', JNumber ''587''),
              (''user'', JString ''postmaster''), (''password_env'', JString ''ZONEMAIL_OUT_PASS'')])])]
       (\<lambda>cfg. transport_tls (cfg_outbound cfg) = Required \<and> tls_enabled (cfg_outbound cfg) \<and>
          relay_configured (cfg_outbound cfg) \<and>
          (case transport_relay (cfg_outbound cfg) of
             None \<Rightarrow> False
           | Some relay \<Rightarrow> relay_host relay = Some ''smtp.example.com'' \<and> relay_port relay = 587 \<and>
               relay_user relay = Some ''postmaster'' \<and> relay_password_env relay = Some ''ZONEMAIL_OUT_PASS''))"

definition test_outbound_relay_without_port_defaults_to_submission_port :: bool where
  "test_outbound_relay_without_port_defaults_to_submission_port =
     parsed
       [(''outbound'', JObject [(''tls'', JString ''implicit''),
          (''relay'', JObject [(''host'', JString ''smtp.provider.net''), (''user'', JString ''me'')])])]
       (\<lambda>cfg. relay_configured (cfg_outbound cfg) \<and>
          (case transport_relay (cfg_outbound cfg) of
             None \<Rightarrow> False
           | Some relay \<Rightarrow> relay_host relay = Some ''smtp.provider.net'' \<and> relay_port relay = 0))"

definition test_outbound_with_only_relay_defaults_to_plain_tls :: bool where
  "test_outbound_with_only_relay_defaults_to_plain_tls =
     parsed [(''outbound'', JObject [(''relay'', JObject [(''host'', JString ''smtp.example.com'')])])]
       (\<lambda>cfg. transport_tls (cfg_outbound cfg) = Plain \<and> \<not> tls_enabled (cfg_outbound cfg) \<and>
          relay_configured (cfg_outbound cfg))"

definition test_outbound_transport_parses_all_modes :: bool where
  "test_outbound_transport_parses_all_modes =
     list_all (\<lambda>(val, want).
         parsed [(''outbound'', JObject [(''tls'', JString val)])]
           (\<lambda>c. transport_tls (cfg_outbound c) = want \<and> tls_enabled (cfg_outbound c) = (want \<noteq> Plain)))
       [(''plain'', Plain), (''opportunistic'', Opportunistic), (''required'', Required),
        (''implicit'', Implicit)]"

definition test_outbound_relay_credentials_env_then_none :: bool where
  "test_outbound_relay_credentials_env_then_none =
     (let env = (\<lambda>v. if v = ''ZONE_OUT_PASS_TEST'' then Some ''s3cret'' else None);
          none = OutboundRelay_default\<lparr>relay_user := None\<rparr>;
          via_env = OutboundRelay_default\<lparr>relay_host := Some ''r'', relay_user := Some ''u'',
            relay_password_env := Some ''ZONE_OUT_PASS_TEST''\<rparr>;
          no_env = OutboundRelay_default\<lparr>relay_user := Some ''u'',
            relay_password_env := Some ''ZONE_OUT_DOES_NOT_EXIST''\<rparr>
      in credentials env none = None \<and> \<not> is_configured none \<and>
         credentials env via_env = Some (''u'', ''s3cret'') \<and> is_configured via_env \<and>
         credentials env no_env = None)"

definition test_outbound_relay_credentials_inline_password :: bool where
  "test_outbound_relay_credentials_inline_password =
     (let relay = OutboundRelay_default\<lparr>relay_host := Some ''smtp.example.com'', relay_user := Some ''u'',
            relay_password := Some ''p''\<rparr>
      in credentials (\<lambda>_. None) relay = Some (''u'', ''p'') \<and> is_configured relay)"

lemma transport_tests:
  test_smtp_tls_defaults_to_plain
  test_smtp_tls_acme_source_fails_fast
  test_smtp_tls_files_missing_key_fails_fast
  test_outbound_relay_credentials_env_then_none
  test_outbound_relay_credentials_inline_password
  by code_simp+

lemma smtp_tls_parse_test: test_smtp_tls_parses_from_json
  by code_simp

lemma outbound_parse_tests:
  test_outbound_transport_defaults_to_plain_no_relay
  test_outbound_transport_parses_tls_and_relay
  by code_simp+

lemma outbound_mode_tests:
  test_outbound_relay_without_port_defaults_to_submission_port
  test_outbound_with_only_relay_defaults_to_plain_tls
  test_outbound_transport_parses_all_modes
  by code_simp+

lemma smtps_addr_test: test_smtp_tls_smtps_port_computes_addr
proof -
  have h: "show_ipv4 192 168 1 10 = ''192.168.1.10''" by code_simp
  have "dec_int 465 = ''465''" by code_simp
  with dec_int_nat [of 465] parse_SocketAddr_ipv4 [of 192 168 1 10 465, unfolded h] show ?thesis
    by (simp add: test_smtp_tls_smtps_port_computes_addr_def smtps_addr_def smtps_enabled_def needs_cert_def)
qed

end
