(* ===== verification/Zm_Tests_Net.thy ===== *)
theory Zm_Tests_Net
  imports Zm_Eval
begin

text \<open>
  The unit tests of authentication, mail, DNS and delivery (\<^verbatim>\<open>auth/keys.rs\<close>, \<^verbatim>\<open>auth/mod.rs\<close>,
  \<^verbatim>\<open>email.rs\<close>, \<^verbatim>\<open>dns.rs\<close>, \<^verbatim>\<open>send.rs\<close>), replayed on the model by evaluation. The token library of the
  tests is an example of the one the model takes as an argument: a token stands for the header,
  secret and claims it was minted from, and is checked against them.
\<close>

section \<open>Minted tokens\<close>

record minted =
  minted_header :: Header
  minted_secret :: bytes
  minted_claims :: json

fun key_bytes :: "DecodingKey \<Rightarrow> bytes" where
  "key_bytes (From_secret bs) = bs"
| "key_bytes (From_jwk k) = str_bytes (jwk_material k)"

definition claim_exp :: "json \<Rightarrow> int option" where
  "claim_exp c = (case json_get ''exp'' c of Some (JNumber n) \<Rightarrow> parse_unsigned_int (2 ^ 63) n | _ \<Rightarrow> None)"

text \<open>Signature, algorithm and expiry; issuer and audience where the token names them.\<close>

definition jwt_decode ::
  "(string \<times> minted) list \<Rightarrow> int \<Rightarrow> string \<Rightarrow> DecodingKey \<Rightarrow> Validation \<Rightarrow> unit \<Rightarrow> (json, jwt_error) result" where
  "jwt_decode ms now t key v n =
     (case map_of ms t of
        None \<Rightarrow> Err ''InvalidToken''
      | Some m \<Rightarrow>
          if key_bytes key \<noteq> minted_secret m then Err ''InvalidSignature''
          else if header_alg (minted_header m) \<notin> set (validation_algorithms v) then Err ''InvalidAlgorithm''
          else case claim_exp (minted_claims m) of
              None \<Rightarrow> Err ''MissingRequiredClaim''
            | Some e \<Rightarrow>
                if e < now - uint (validation_leeway v) then Err ''ExpiredSignature''
                else if (case (validation_issuer v, json_get ''iss'' (minted_claims m)) of
                           (Some is, Some (JString i)) \<Rightarrow> i \<notin> set is | _ \<Rightarrow> False) then Err ''InvalidIssuer''
                else if (case (validation_audience v, json_get ''aud'' (minted_claims m)) of
                           (Some as, Some (JArray [JString a])) \<Rightarrow> a \<notin> set as | _ \<Rightarrow> False)
                then Err ''InvalidAudience''
                else Ok (minted_claims m))"

definition test_jwt :: "(string \<times> minted) list \<Rightarrow> unit auth_lib" where
  "test_jwt ms = example_lib
     \<lparr>decode_header := (\<lambda>t. case map_of ms t of Some m \<Rightarrow> Ok (minted_header m) | None \<Rightarrow> Err ''InvalidToken''),
      decode := jwt_decode ms 1700000000,
      header_name := (\<lambda>n. Some (to_ascii_lowercase n))\<rparr>"

section \<open>Verification keys\<close>

definition in_memory_jwks :: "string \<Rightarrow> JwkSet" where
  "in_memory_jwks kid = [\<lparr>jwk_key_id = Some kid, jwk_material = ''BBBBBBBBBBBBBBBBBBBBBBBBBBBBBBBB''\<rparr>]"

definition make_hs256 :: "(string \<times> json) list \<Rightarrow> string option \<Rightarrow> minted" where
  "make_hs256 claims kid =
     \<lparr>minted_header = \<lparr>header_alg = HS256, header_kid = kid\<rparr>, minted_secret = str_bytes ''BBBBBBBBBBBBBBBBBBBBBBBBBBBBBBBB'',
      minted_claims = JObject claims\<rparr>"

definition test_inline_set_resolves_by_kid :: bool where
  "test_inline_set_resolves_by_kid =
     (let L = test_jwt [(''token'', make_hs256
            [(''sub'', JString ''u''), (''role'', JArray [JString ''admin'']), (''exp'', JNumber ''9999999999'')]
            (Some ''test-key''))];
          (ks, s) = static_set L (in_memory_jwks ''test-key'') no_keys
      in case decode_header L ''token'' of
           Err _ \<Rightarrow> False
         | Ok header \<Rightarrow>
             (case resolve L ks header s of
                (Ok key, _) \<Rightarrow>
                  (case decode L ''token'' key \<lparr>validation_algorithms = [HS256], validation_leeway = 60,
                      validation_issuer = None, validation_audience = None\<rparr> () of
                     Ok claims \<Rightarrow> Option.bind (json_get ''sub'' claims) json_as_str = Some ''u''
                   | Err _ \<Rightarrow> False)
              | _ \<Rightarrow> False))"

definition resolved_with :: "KeySet \<Rightarrow> unit key_state \<Rightarrow> unit auth_lib \<Rightarrow> string option \<Rightarrow>
   (DecodingKey, AuthError) result" where
  "resolved_with ks s L kid = fst (resolve L ks \<lparr>header_alg = HS256, header_kid = kid\<rparr> s)"

definition test_unknown_and_kidless_kinds_fail_at_resolution :: bool where
  "test_unknown_and_kidless_kinds_fail_at_resolution =
     (let L = test_jwt [];
          (ks, s) = static_set L (in_memory_jwks ''test-key'') no_keys
      in is_ok (resolved_with ks s L (Some ''test-key'')) \<and>
         (case resolved_with ks s L (Some ''nope'') of Err UnknownKid \<Rightarrow> True | _ \<Rightarrow> False) \<and>
         (case resolved_with ks s L None of Err UnknownKid \<Rightarrow> True | _ \<Rightarrow> False))"

text \<open>The fetchers of the tests: one that always gets the set, and one that never gets through.\<close>

definition fetching :: "JwkSet option \<Rightarrow> unit auth_lib" where
  "fetching ks = (test_jwt [])
     \<lparr>http_send := (\<lambda>_ _ n. (case ks of None \<Rightarrow> Err ''down'' | Some _ \<Rightarrow> Ok (Ok ''jwks''), n)),
      serde_jwks := (\<lambda>_. ok_or ''down'' ks)\<rparr>"

definition test_fetcher :: HttpKeysFetcher where
  "test_fetcher = HttpKeysFetcher_jwks (test_jwt []) ''https://j.example.com/jwks'' None None True"

definition test_remote_set_serves_on_demand :: bool where
  "test_remote_set_serves_on_demand =
     (let (ks, s) = remote test_fetcher (3600 * SECOND) no_keys
      in is_remote ks \<and> is_ok (resolved_with ks s (fetching (Some (in_memory_jwks ''test-key''))) (Some ''test-key'')))"

definition test_remote_set_reports_source_unavailable_when_unreachable :: bool where
  "test_remote_set_reports_source_unavailable_when_unreachable =
     (let (ks, s) = remote test_fetcher (3600 * SECOND) no_keys
      in case resolved_with ks s (fetching None) (Some ''test-key'') of Err SourceUnavailable \<Rightarrow> True | _ \<Rightarrow> False)"

definition test_join_url_semantics :: bool where
  "test_join_url_semantics =
     (join_url ''https://j.example.com/'' ''/.well-known/jwks.json'' = ''https://j.example.com/.well-known/jwks.json'' \<and>
      join_url ''https://j.example.com'' ''.well-known/jwks.json'' = ''https://j.example.com/.well-known/jwks.json'' \<and>
      join_url ''https://j.example.com'' ''https://o.example/jwks'' = ''https://o.example/jwks'' \<and>
      join_url ''https://j.example.com/'' [] = ''https://j.example.com'')"

definition test_janux_credential_bearer_and_named :: bool where
  "test_janux_credential_bearer_and_named =
     (let L = test_jwt []
      in janux_credential L (Some ''abc'') None True \<noteq> None \<and>
         janux_credential L (Some ''abc'') (Some ''X-Token'') False = Some (''x-token'', ''abc'') \<and>
         janux_credential L (Some ''    '') None True = None \<and> janux_credential L None None True = None)"

lemma key_tests:
  test_inline_set_resolves_by_kid
  test_unknown_and_kidless_kinds_fail_at_resolution
  test_remote_set_serves_on_demand
  test_remote_set_reports_source_unavailable_when_unreachable
  test_join_url_semantics
  test_janux_credential_bearer_and_named
  by code_simp+

section \<open>Authentication\<close>

definition permissive_config :: AuthConfig where
  "permissive_config = AuthConfig_default
     \<lparr>auth_enabled := True, auth_issuer := Some ''https://janux.example/auth'',
      auth_audience := [''zonemail-api''], auth_clock_skew_secs := 30, auth_subject_claim := ''sub'',
      auth_role_claims := [''role'', ''roles''], auth_public := [''health'', ''doc''],
      auth_keys := KeyConfig_default\<lparr>key_kind := Secret\<rparr>,
      auth_roles := [(''admin'', \<lparr>role_grants = [''*''], role_extends = []\<rparr>),
                     (''read'', \<lparr>role_grants = [''mailboxes:read''], role_extends = []\<rparr>)]\<rparr>"

definition hs256 :: "string \<Rightarrow> (string \<times> json) list \<Rightarrow> string option \<Rightarrow> string option \<Rightarrow> string option \<Rightarrow> minted"
where
  "hs256 secret claims iss aud kid =
     \<lparr>minted_header = \<lparr>header_alg = HS256, header_kid = kid\<rparr>, minted_secret = str_bytes secret,
      minted_claims = JObject (claims
        @ (case iss of None \<Rightarrow> [] | Some i \<Rightarrow> [(''iss'', JString i)])
        @ (case aud of None \<Rightarrow> [] | Some a \<Rightarrow> [(''aud'', JArray [JString a])]))\<rparr>"

definition secret_config :: "string \<Rightarrow> AuthConfig" where
  "secret_config secret = permissive_config\<lparr>auth_keys := (auth_keys permissive_config)\<lparr>key_secret := Some secret\<rparr>\<rparr>"

definition built :: "AuthConfig \<Rightarrow> (AuthService \<Rightarrow> bool) \<Rightarrow> bool" where
  "built cfg P = (case fst (AuthService_build (test_jwt []) cfg no_keys) of Ok svc \<Rightarrow> P svc | Err _ \<Rightarrow> False)"

definition verified :: "AuthService \<Rightarrow> minted \<Rightarrow> (VerifiedClaims, AuthError) result" where
  "verified svc m = fst (verify (test_jwt [(''token'', m)]) svc ''token'' no_keys)"

definition test_parse_algorithm_is_case_insensitive_including_eddsa :: bool where
  "test_parse_algorithm_is_case_insensitive_including_eddsa =
     (parse_algorithm ''hs256'' = Some HS256 \<and> parse_algorithm ''RS256'' = Some RS256 \<and>
      parse_algorithm ''eddsa'' = Some EdDSA \<and> parse_algorithm ''EDDSA'' = Some EdDSA \<and>
      parse_algorithm ''nonsense'' = None)"

definition test_verification_roundtrip_with_subject_and_roles :: bool where
  "test_verification_roundtrip_with_subject_and_roles =
     built (secret_config ''0123456789abcdefsecretstuff!'') (\<lambda>svc.
       case verified svc (hs256 ''0123456789abcdefsecretstuff!''
           [(''sub'', JString ''alice''), (''role'', JString ''admin''), (''roles'', JArray [JString ''ops'']),
            (''exp'', JNumber ''9999999999'')]
           (Some ''https://janux.example/auth'') (Some ''zonemail-api'') None) of
         Err _ \<Rightarrow> False
       | Ok v \<Rightarrow> claims_subject v = Some ''alice'' \<and> claims_roles v = [''admin'', ''ops''])"

definition test_disabled_config_builds_without_secret :: bool where
  "test_disabled_config_builds_without_secret = built AuthConfig_default (\<lambda>svc. \<not> svc_enabled svc)"

definition test_wrong_alg_is_rejected :: bool where
  "test_wrong_alg_is_rejected =
     (let cfg = secret_config ''secret-value!!''
      in built (cfg\<lparr>auth_keys := (auth_keys cfg)\<lparr>key_algorithms := [''HS512'']\<rparr>\<rparr>) (\<lambda>svc.
           case verified svc (hs256 ''secret-value!!'' [(''sub'', JString ''x'')] None None None) of
             Err (AlgorithmDisallowed _) \<Rightarrow> True | _ \<Rightarrow> False))"

definition test_mismatched_secret_is_rejected :: bool where
  "test_mismatched_secret_is_rejected =
     built (secret_config ''right-secret-value'') (\<lambda>svc.
       case verified svc (hs256 ''wrong-secret-value!!'' [(''sub'', JString ''x'')] None None None) of
         Err (Verify _) \<Rightarrow> True | _ \<Rightarrow> False)"

definition test_expired_token_is_rejected :: bool where
  "test_expired_token_is_rejected =
     built (secret_config ''s3cr3t-value!!'') (\<lambda>svc. \<not> is_ok (verified svc (hs256 ''s3cr3t-value!!''
       [(''sub'', JString ''x''), (''role'', JString ''admin''), (''exp'', JNumber ''0'')] None None None)))"

definition test_role_policy_denies_unauthorized_target :: bool where
  "test_role_policy_denies_unauthorized_target =
     built (secret_config ''secret-value!!'') (\<lambda>svc.
       (case route_target ''/mailboxes'' ''GET'' of Some t \<Rightarrow> authorize svc [''read''] t | None \<Rightarrow> False) \<and>
       (case route_target ''/mail'' ''GET'' of Some t \<Rightarrow> \<not> authorize svc [''read''] t | None \<Rightarrow> False))"

definition matrix_decision :: "AuthService \<Rightarrow> string \<Rightarrow> minted option \<Rightarrow> Decision" where
  "matrix_decision svc path m =
     fst (enforce (test_jwt (case m of None \<Rightarrow> [] | Some x \<Rightarrow> [(''token'', x)])) svc
       \<lparr>req_path = path, req_method = ''GET'',
        req_authorization = map_option (\<lambda>_. ''Bearer token'') m\<rparr> no_keys)"

definition matrix_token :: "string \<Rightarrow> string \<Rightarrow> string \<Rightarrow> string \<Rightarrow> minted" where
  "matrix_token secret sub role_name expiry =
     hs256 secret [(''sub'', JString sub), (''role'', JString role_name), (''exp'', JNumber expiry)]
       (Some ''https://janux.example/auth'') (Some ''zonemail-api'') None"

definition test_enforce_decision_matrix :: bool where
  "test_enforce_decision_matrix =
     built (secret_config ''s3cr3t-value!!'') (\<lambda>svc.
       (case matrix_decision svc ''/domains'' None of Unauthenticated _ \<Rightarrow> True | _ \<Rightarrow> False) \<and>
       (case matrix_decision svc ''/health'' None of Continue None \<Rightarrow> True | _ \<Rightarrow> False) \<and>
       (case matrix_decision svc ''/domains'' (Some (matrix_token ''s3cr3t-value!!'' ''a'' ''admin'' ''32503680000'')) of
          Continue (Some _) \<Rightarrow> True | _ \<Rightarrow> False) \<and>
       (case matrix_decision svc ''/domains'' (Some (matrix_token ''s3cr3t-value!!'' ''r'' ''read'' ''32503680000'')) of
          Forbidden _ \<Rightarrow> True | _ \<Rightarrow> False) \<and>
       (case matrix_decision svc ''/mailboxes'' (Some (matrix_token ''s3cr3t-value!!'' ''r'' ''read'' ''32503680000'')) of
          Continue _ \<Rightarrow> True | _ \<Rightarrow> False) \<and>
       (case matrix_decision svc ''/domains'' (Some (matrix_token ''s3cr3t-value!!'' ''x'' ''admin'' ''1'')) of
          Unauthenticated _ \<Rightarrow> True | _ \<Rightarrow> False) \<and>
       (case matrix_decision AuthService_disabled ''/domains'' None of Continue _ \<Rightarrow> True | _ \<Rightarrow> False) \<and>
       (case matrix_decision svc ''/domains''
            (Some (matrix_token ''some-other-secret-value!!'' ''x'' ''admin'' ''32503680000'')) of
          Unauthenticated _ \<Rightarrow> True | _ \<Rightarrow> False))"

lemma auth_tests:
  test_parse_algorithm_is_case_insensitive_including_eddsa
  test_verification_roundtrip_with_subject_and_roles
  test_disabled_config_builds_without_secret
  by code_simp+

lemma auth_rejection_tests:
  test_wrong_alg_is_rejected
  test_mismatched_secret_is_rejected
  test_expired_token_is_rejected
  test_role_policy_denies_unauthorized_target
  by code_simp+

lemma enforce_matrix_test: test_enforce_decision_matrix
  by code_simp

section \<open>Addresses of a received mail\<close>

definition test_address_to_string_is_empty_when_only_a_display_name :: bool where
  "test_address_to_string_is_empty_when_only_a_display_name =
     (let address = List [\<lparr>pa_address = None\<rparr>]
      in address_to_string address = [] \<and> address_list_to_strings address = [])"

definition test_address_list_flattens_groups :: bool where
  "test_address_list_flattens_groups =
     (let address = Group [\<lparr>pg_addresses = [\<lparr>pa_address = Some ''m1@team.com''\<rparr>, \<lparr>pa_address = Some ''m2@team.com''\<rparr>]\<rparr>]
      in address_list_to_strings address = [''m1@team.com'', ''m2@team.com''] \<and>
         address_to_string address = ''m1@team.com'')"

definition test_empty_list_yields_no_addresses :: bool where
  "test_empty_list_yields_no_addresses =
     (address_list_to_strings (List []) = [] \<and> address_to_string (List []) = [])"

lemma email_tests:
  test_address_to_string_is_empty_when_only_a_display_name
  test_address_list_flattens_groups
  test_empty_list_yields_no_addresses
  by code_simp+

section \<open>Record data\<close>

text \<open>Names are kept as their text.\<close>

abbreviation test_rdata :: "HickoryRecordType \<Rightarrow> string \<Rightarrow> string RData option" where
  "test_rdata \<equiv> parse_rdata (\<lambda>n. Ok n)"

definition test_parse_a_record_yields_ipv4 :: bool where
  "test_parse_a_record_yields_ipv4 = (test_rdata H_A ''93.184.216.34'' = Some (RData_A 93 184 216 34))"

definition test_parse_txt_record_roundtrips_text :: bool where
  "test_parse_txt_record_roundtrips_text =
     (test_rdata H_TXT ''v=spf1 include:_simplelogin.com ~all'' =
        Some (RData_TXT [''v=spf1 include:_simplelogin.com ~all'']))"

definition test_parse_mx_record_keeps_preference_and_exchange :: bool where
  "test_parse_mx_record_keeps_preference_and_exchange =
     (case test_rdata H_MX ''10 mail.example.com'' of
        Some (RData_MX p x) \<Rightarrow> p = 10 \<and> starts_with ''mail.example.com'' x | _ \<Rightarrow> False)"

definition test_parse_mx_defaults_preference_malformed_but_keeps_value :: bool where
  "test_parse_mx_defaults_preference_malformed_but_keeps_value =
     (case test_rdata H_MX ''pref mail.example.com'' of Some (RData_MX p _) \<Rightarrow> p = 10 | _ \<Rightarrow> False)"

definition test_parse_ptr_record_yields_pointer :: bool where
  "test_parse_ptr_record_yields_pointer =
     (case test_rdata H_PTR ''target.example.com'' of Some (RData_PTR _) \<Rightarrow> True | _ \<Rightarrow> False)"

definition test_parse_rdata_unsupported_type_returns_none :: bool where
  "test_parse_rdata_unsupported_type_returns_none = 
     (test_rdata H_CAA (''0 '' @ [CHR 0x22] @ ''issue'' @ [CHR 0x22, CHR 0x20, CHR 0x22] @ ''example.com'' @ [CHR 0x22]) = None)"

definition test_parse_a_rejects_non_ip_value :: bool where
  "test_parse_a_rejects_non_ip_value = (test_rdata H_A ''not-an-ip-address'' = None)"

definition test_parse_mx_rejects_wrong_token_count :: bool where
  "test_parse_mx_rejects_wrong_token_count =
     (test_rdata H_MX ''onlyone'' = None \<and> test_rdata H_MX ''10 a.example b.example'' = None)"

definition test_query_records_matches_domain_and_type_exactly :: bool where
  "test_query_records_matches_domain_and_type_exactly =
     (let insert_record = (\<lambda>d t v s. snd (Record_create mail_world
            \<lparr>record_domain_id = d, record_type = t, record_value = v, record_ttl = 3600\<rparr> s));
          s = insert_record ''other.com'' RT_A ''5.6.7.8''
                (insert_record ''example.com'' RT_MX ''10 mail.example.com''
                  (insert_record ''example.com'' RT_A ''1.2.3.4'' mem_empty));
          values = (\<lambda>d t. map_option (map record_value) (query_records mail_world d t s))
      in values ''example.com'' H_A = Some [''1.2.3.4''] \<and>
         values ''example.com'' H_MX = Some [''10 mail.example.com''] \<and>
         values ''other.com'' H_A = Some [''5.6.7.8''] \<and> values ''absent.com'' H_A = Some [])"

lemma dns_tests:
  test_parse_a_record_yields_ipv4
  test_parse_txt_record_roundtrips_text
  test_parse_mx_record_keeps_preference_and_exchange
  test_parse_mx_defaults_preference_malformed_but_keeps_value
  by code_simp+

lemma dns_text_tests:
  test_parse_ptr_record_yields_pointer
  test_parse_rdata_unsupported_type_returns_none
  test_parse_a_rejects_non_ip_value
  test_parse_mx_rejects_wrong_token_count
  by code_simp+

lemma dns_query_test: test_query_records_matches_domain_and_type_exactly
  by code_simp

section \<open>Delivery\<close>

text \<open>The world of the delivery tests: a network in which some hosts accept a message.\<close>

definition test_world :: "bool \<Rightarrow> mem world" where
  "test_world up = mem_world example_zone (\<lambda>_. up) (\<lambda>_. Some example_mail)"

definition load_outbound :: "row_id \<Rightarrow> mem \<Rightarrow> Outbound option" where
  "load_outbound i s = find (\<lambda>j. outbound_id j = i) (m_outbound s)"

definition fresh_message_and_job :: "string \<Rightarrow> string \<Rightarrow> mem \<times> row_id \<times> row_id" where
  "fresh_message_and_job sender recipient =
     (case enqueue_outbound (test_world True) sender recipient
         \<lparr>lm_envelope_from = Some sender, lm_formatted = str_bytes ''Hello, test world!''\<rparr> mem_empty of
        (Ok (mid, oid), s) \<Rightarrow> (s, mid, oid)
      | (Err _, s) \<Rightarrow> (s, 0, 0))"

definition test_backoff_delay_doubles_and_caps :: bool where
  "test_backoff_delay_doubles_and_caps =
     (let cfg = OutboundWorkerConfig_default
      in backoff_delay cfg 1 = 60 \<and> backoff_delay cfg 2 = 120 \<and> backoff_delay cfg 4 = 480 \<and>
         backoff_delay cfg 64 = 3600)"

definition test_submission_port_defaults_to_25_and_is_overridable :: bool where
  "test_submission_port_defaults_to_25_and_is_overridable =
     (submission_port OutboundWorkerConfig_default = 25 \<and>
      submission_port (with_submission_port 1025 OutboundWorkerConfig_default) = 1025)"

definition test_fail_or_requeue_requeues_before_cap :: bool where
  "test_fail_or_requeue_requeues_before_cap =
     (case fresh_message_and_job ''alice@example.com'' ''bob@other.example'' of (s, _, oid) \<Rightarrow>
        (case load_outbound oid s of
           None \<Rightarrow> False
         | Some job \<Rightarrow>
             (case fail_or_requeue (test_world True) OutboundWorkerConfig_default 0 ''transient'' job s of
                (r, s') \<Rightarrow> is_ok r \<and>
                  (case load_outbound oid s' of
                     None \<Rightarrow> False
                   | Some reread \<Rightarrow> outbound_status reread = Queued \<and> outbound_attempts reread = 1 \<and>
                       outbound_next_attempt_at reread \<noteq> None \<and>
                       outbound_last_error reread = Some ''transient''))))"

definition test_fail_or_requeue_marks_failed_at_cap :: bool where
  "test_fail_or_requeue_marks_failed_at_cap =
     (case fresh_message_and_job ''a@x.example'' ''b@y.example'' of (s, _, oid) \<Rightarrow>
        (case load_outbound oid s of
           None \<Rightarrow> False
         | Some job \<Rightarrow>
             (case fail_or_requeue (test_world True) OutboundWorkerConfig_default 0 ''exhausted''
                 (job\<lparr>outbound_attempts := max_attempts OutboundWorkerConfig_default\<rparr>) s of
                (r, s') \<Rightarrow> is_ok r \<and>
                  (case load_outbound oid s' of
                     None \<Rightarrow> False
                   | Some reread \<Rightarrow> outbound_status reread = Failed \<and>
                       outbound_next_attempt_at reread = None))))"

definition test_reclaim_in_progress_requeues_stale_jobs :: bool where
  "test_reclaim_in_progress_requeues_stale_jobs =
     (case Outbound_create (test_world True)
         \<lparr>outbound_message_id = 0, outbound_rcpt_to = ''stale@x.example'', outbound_sender_id = ''s@x.example'',
          outbound_status = InProgress, outbound_attempts = 0, outbound_next_attempt_at = None,
          outbound_last_error = Some ''crash''\<rparr> mem_empty of
        (Err _, _) \<Rightarrow> False
      | (Ok job, s) \<Rightarrow>
          (case load_outbound (outbound_id job) (reclaim_in_progress (test_world True) s) of
             None \<Rightarrow> False
           | Some reread \<Rightarrow> outbound_status reread = Queued \<and> outbound_next_attempt_at reread = None))"

text \<open>A fresh job handed to one host of a network that accepts or refuses it.\<close>

definition delivered_job ::
  "bool \<Rightarrow> OutboundWorkerConfig \<Rightarrow> string \<Rightarrow> string \<Rightarrow> (Outbound \<Rightarrow> DeliveryStatus list \<Rightarrow> bool) \<Rightarrow> bool" where
  "delivered_job up cfg sender recipient P =
     (case fresh_message_and_job sender recipient of (s, mid, oid) \<Rightarrow>
        (case (load_outbound oid s, Message_get_by_id (test_world up) mid s) of
           (Some job, Ok stored) \<Rightarrow>
             (case build_envelope (test_world up) (message_mail_from stored) (outbound_rcpt_to job) of
                Err _ \<Rightarrow> False
              | Ok envelope \<Rightarrow>
                  (case deliver_hosts (test_world up) cfg 0 [''127.0.0.1''] stored envelope job s of
                     (r, s') \<Rightarrow> is_ok r \<and>
                       (case load_outbound oid s' of
                          None \<Rightarrow> False
                        | Some j \<Rightarrow> P j (filter (\<lambda>d. delivery_outbound_id d = oid) (m_delivery s')))))
         | _ \<Rightarrow> False))"

definition test_deliver_hosts_delivers_to_local_sink :: bool where
  "test_deliver_hosts_delivers_to_local_sink =
     delivered_job True (with_submission_port 2525 OutboundWorkerConfig_default) ''alice@example.com''
       ''bob@other.example'' (\<lambda>job statuses. outbound_status job = Delivered \<and> outbound_attempts job = 1 \<and>
         map delivery_code statuses = [Some 250])"

definition test_deliver_hosts_smtps_implicit_tls_delivers :: bool where
  "test_deliver_hosts_smtps_implicit_tls_delivers =
     delivered_job True
       (OutboundWorkerConfig_default\<lparr>worker_transport := OutboundTransport_default
          \<lparr>transport_tls := Implicit, transport_insecure := True,
           transport_relay := Some \<lparr>relay_host = Some ''127.0.0.1'', relay_port = 4650, relay_user = None,
             relay_password = None, relay_password_env = None\<rparr>\<rparr>\<rparr>)
       ''alice@example.com'' ''bob@example.com''
       (\<lambda>job _. outbound_status job = Delivered \<and> outbound_attempts job = 1)"

definition test_deliver_hosts_requeues_when_port_refused :: bool where
  "test_deliver_hosts_requeues_when_port_refused =
     delivered_job False (with_submission_port 2525 OutboundWorkerConfig_default) ''alice@example.com''
       ''bob@no.example'' (\<lambda>job _. outbound_status job = Queued \<and> outbound_attempts job = 1 \<and>
         outbound_next_attempt_at job \<noteq> None \<and> outbound_last_error job \<noteq> None)"

definition test_build_outbound_tls_plain_is_none :: bool where
  "test_build_outbound_tls_plain_is_none =
     (let t = OutboundTransport_default
      in \<not> tls_enabled t \<and> \<not> relay_configured t \<and>
         (case build_outbound_tls (test_world True) t ''mx.example.com'' of Ok No_Tls \<Rightarrow> True | _ \<Rightarrow> False))"

definition test_build_outbound_tls_maps_enabled_modes :: bool where
  "test_build_outbound_tls_maps_enabled_modes =
     list_all (\<lambda>mode.
         case build_outbound_tls (test_world True)
             (OutboundTransport_default\<lparr>transport_tls := mode, transport_insecure := True\<rparr>) ''smtp.example.com'' of
           Ok No_Tls \<Rightarrow> False | Ok _ \<Rightarrow> True | Err _ \<Rightarrow> False)
       [Opportunistic, Required, Implicit]"

lemma delivery_unit_tests:
  test_backoff_delay_doubles_and_caps
  test_submission_port_defaults_to_25_and_is_overridable
  test_build_outbound_tls_plain_is_none
  test_build_outbound_tls_maps_enabled_modes
  by code_simp+

lemma delivery_queue_tests:
  test_fail_or_requeue_requeues_before_cap
  test_fail_or_requeue_marks_failed_at_cap
  test_reclaim_in_progress_requeues_stale_jobs
  by code_simp+

lemma delivery_hosts_tests:
  test_deliver_hosts_delivers_to_local_sink
  test_deliver_hosts_smtps_implicit_tls_delivers
  test_deliver_hosts_requeues_when_port_refused
  by code_simp+

section \<open>The SMTP sink of the delivery tests\<close>

text \<open>
  One session of the in-process SMTP server, as a function of the lines it receives, each with its
  line end. A line is appended to the buffer of the session, which nothing clears; the command is
  looked up at the front of the whole buffer. \<open>sink_data\<close> absorbs the message after \<open>DATA\<close>.
\<close>

fun sink_loop :: "string \<Rightarrow> string list \<Rightarrow> string list" and sink_data :: "string \<Rightarrow> string list \<Rightarrow> string list"
where
  "sink_loop buf [] = []"
| "sink_loop buf (l # ls) =
     (let buf = buf @ l;
          cmd = to_ascii_uppercase (trim_end_matches is_whitespace buf)
      in if starts_with ''EHLO'' cmd \<or> starts_with ''HELO'' cmd then ''250 sink'' # sink_loop buf ls
         else if starts_with ''MAIL'' cmd \<or> starts_with ''RCPT'' cmd then ''250 OK'' # sink_loop buf ls
         else if cmd = ''DATA'' then ''354 Go ahead'' # sink_data buf ls
         else if starts_with ''QUIT'' cmd then [''221 bye'']
         else ''250 OK'' # sink_loop buf ls)"
| "sink_data buf [] = [''250 2.0.0 OK queued'']"
| "sink_data buf (l # ls) =
     (let buf = buf @ l
      in if trim_end_matches is_whitespace buf = ''.'' then ''250 2.0.0 OK queued'' # sink_loop buf ls
         else sink_data buf ls)"

definition handle_sink_session :: "string list \<Rightarrow> string list" where
  "handle_sink_session ls = ''220 sink ESMTP'' # sink_loop [] ls"

text \<open>The server of the implicit TLS test has the same dialogue, over the stream the TLS library hands it.\<close>

definition handle_smtps_session :: "string list \<Rightarrow> string list" where
  "handle_smtps_session ls = ''220 sink ESMTP'' # sink_loop [] ls"

lemma trim_end_append:
  "\<exists>r. trim_end_matches P (b @ l) = trim_end_matches P b @ r"
proof (cases "\<forall>c \<in> set l. P c")
  case True
  then have "dropWhile P (rev l @ rev b) = dropWhile P (rev b)" by (intro dropWhile_append2) auto
  then show ?thesis by (simp add: trim_end_matches_def)
next
  case False
  then obtain c where "c \<in> set (rev l)" "\<not> P c" by auto
  then have "dropWhile P (rev l @ rev b) = dropWhile P (rev l) @ rev b" by (rule dropWhile_append1)
  then have "trim_end_matches P (b @ l) = b @ rev (dropWhile P (rev l))" by (simp add: trim_end_matches_def)
  moreover have "b = trim_end_matches P b @ rev (takeWhile P (rev b))"
    unfolding trim_end_matches_def by (metis rev_append rev_rev_ident takeWhile_dropWhile_id)
  ultimately show ?thesis by (metis append.assoc)
qed

lemma starts_with_append: "starts_with p s \<Longrightarrow> starts_with p (s @ r)"
  by (metis append_eq_conv_conj append_take_drop_id append_assoc starts_with_def)

text \<open>
  Once it has seen a greeting the sink answers every line with the answer to the greeting: a message
  is taken for delivered, but \<open>DATA\<close> is never told to go ahead and \<open>QUIT\<close> does not end the session.
\<close>

lemma sink_repeats_greeting:
  assumes "starts_with ''EHLO'' (to_ascii_uppercase (trim_end_matches is_whitespace buf))"
  shows "sink_loop buf ls = map (\<lambda>_. ''250 sink'') ls"
  using assms
proof (induction ls arbitrary: buf)
  case (Cons l ls)
  from trim_end_append obtain r where
    "trim_end_matches is_whitespace (buf @ l) = trim_end_matches is_whitespace buf @ r" by blast
  with Cons.prems have "starts_with ''EHLO'' (to_ascii_uppercase (trim_end_matches is_whitespace (buf @ l)))"
    by (simp add: to_ascii_uppercase_def starts_with_append)
  with Cons.IH show ?case by (simp add: Let_def)
qed simp

lemma sink_session_example:
  "handle_sink_session [''EHLO me'' @ [CHR 0x0D, CHR 0x0A], ''DATA'' @ [CHR 0x0D, CHR 0x0A], ''QUIT'' @ [CHR 0x0D, CHR 0x0A]] =
     [''220 sink ESMTP'', ''250 sink'', ''250 sink'', ''250 sink'']"
  by code_simp

lemma smtps_session_after_greeting:
  assumes "starts_with ''EHLO'' (to_ascii_uppercase (trim_end_matches is_whitespace l))"
  shows "handle_smtps_session (l # ls) = ''220 sink ESMTP'' # ''250 sink'' # map (\<lambda>_. ''250 sink'') ls"
  using sink_repeats_greeting [OF assms] assms by (simp add: handle_smtps_session_def Let_def)

end
