(* ===== verification/Zm_Tests_Api.thy ===== *)
theory Zm_Tests_Api
  imports Zm_Eval
begin

text \<open>
  The unit tests of the HTTP interface (\<^verbatim>\<open>src/api.rs\<close>, the module \<open>tests\<close>), replayed on the model:
  each is a Boolean-valued definition that sends the requests of the test through the router, the
  handlers and the JSON conversions to an empty in-memory database, and is shown to hold by
  evaluation. They tie the model to behaviour the authors of the program check themselves.
\<close>

section \<open>The client\<close>

text \<open>
  The in-process client drives a request through the router. The message library of the tests
  accepts addresses with an at sign; the services run no real listener.
\<close>

definition test_lettre :: "(string, string) lettre" where
  "test_lettre = plain_lettre
     \<lparr>LettreMailbox_parse := (\<lambda>a. if CHR ''@'' \<in> set a then Ok a else Err ''Missing domain or user'')\<rparr>"

type_synonym service = "mem \<times> unit Inner option"

definition api_service :: service where
  "api_service = (mem_empty, None)"

definition service_api_service :: service where
  "service_api_service = (mem_empty, Some (fst for_test))"

definition client_send ::
  "string \<Rightarrow> string \<Rightarrow> (string \<times> string) list \<Rightarrow> json option \<Rightarrow> service \<Rightarrow> http_response \<times> service" where
  "client_send meth path qs body service =
     (case in_order (\<lambda>x. x) create_router path meth of
        None \<Rightarrow> ((404, None), service)
      | Some e \<Rightarrow>
          api_handler mail_world test_lettre (snd for_test) (captures_in_order (\<lambda>x. x)) (\<lambda>_. (200, None))
            \<lparr>http_head = \<lparr>req_path = path, req_method = meth, req_authorization = None\<rparr>,
             http_query = qs, http_body = body\<rparr> e (fst service) (snd service))"

definition client_get :: "string \<Rightarrow> service \<Rightarrow> http_response \<times> service" where
  "client_get path = client_send ''GET'' path [] None"

definition client_query :: "string \<Rightarrow> (string \<times> string) list \<Rightarrow> service \<Rightarrow> http_response \<times> service" where
  "client_query path qs = client_send ''GET'' path qs None"

definition client_post :: "string \<Rightarrow> (string \<times> json) list \<Rightarrow> service \<Rightarrow> http_response \<times> service" where
  "client_post path body = client_send ''POST'' path [] (Some (JObject body))"

definition client_command :: "string \<Rightarrow> service \<Rightarrow> http_response \<times> service" where
  "client_command path = client_send ''POST'' path [] None"

definition client_patch :: "string \<Rightarrow> (string \<times> json) list \<Rightarrow> service \<Rightarrow> http_response \<times> service" where
  "client_patch path body = client_send ''PATCH'' path [] (Some (JObject body))"

definition client_delete :: "string \<Rightarrow> service \<Rightarrow> http_response \<times> service" where
  "client_delete path = client_send ''DELETE'' path [] None"

text \<open>\<open>take_json\<close>: the response body read as an envelope whose payload satisfies a check.\<close>

definition take_json ::
  "(json deserializer \<Rightarrow> json \<Rightarrow> ('a, de_error) result) \<Rightarrow> 'a \<Rightarrow> http_response \<Rightarrow> 'a ApiResponse option" where
  "take_json de z r =
     Option.bind (snd r) (\<lambda>v.
       case ApiResponse_deserialize json_format (de json_format) z v of Ok x \<Rightarrow> Some x | Err _ \<Rightarrow> None)"

definition answers :: "('a \<Rightarrow> bool) \<Rightarrow> 'a ApiResponse option \<Rightarrow> bool" where
  "answers P r = (case r of None \<Rightarrow> False | Some x \<Rightarrow> response_ok x \<and> P (response_data x))"

definition blank_domain :: DomainDTO where
  "blank_domain = \<lparr>ddto_id = [], ddto_created_at = [], ddto_updated_at = []\<rparr>"

definition blank_mailbox :: MailboxDTO where
  "blank_mailbox = \<lparr>mdto_id = [], mdto_domain_id = [], mdto_created_at = [], mdto_updated_at = [],
     mdto_forward_to = None\<rparr>"

definition blank_record :: RecordApiDTO where
  "blank_record = \<lparr>rdto_id = 0, rdto_domain_id = [], rdto_record_type = [], rdto_value = [], rdto_ttl = 0,
     rdto_created_at = [], rdto_updated_at = []\<rparr>"

definition blank_message :: MessageDTO where
  "blank_message = \<lparr>msg_id = 0, msg_direction = None, msg_mail_from = [], msg_subject = None,
     msg_message_id_header = None, msg_content_type = None, msg_from_address = None, msg_to = [],
     msg_cc = [], msg_bcc = [], msg_created_at = [], msg_updated_at = []\<rparr>"

definition blank_page :: "'a Page" where
  "blank_page = \<lparr>page_items = [], page_limit = 0, page_offset = 0, page_next_offset = None\<rparr>"

definition blank_result :: ServiceResult where
  "blank_result = \<lparr>result_service = Api, result_status = Idle, result_changed = False\<rparr>"

definition blank_sent :: SendResult where
  "blank_sent = \<lparr>sent_message_id = 0, sent_outbound_ids = []\<rparr>"

section \<open>The envelope\<close>

definition test_api_problem_constructions_carry_status_and_detail :: bool where
  "test_api_problem_constructions_carry_status_and_detail =
     (let bad = bad_request ''nope''
      in problem_status bad = 400 \<and> problem_type bad = ''bad request'' \<and> problem_detail bad = Some ''nope'' \<and>
         problem_status (not_found ''x'') = 404 \<and> problem_status unauthorized = 401 \<and>
         problem_status forbidden = 403 \<and> problem_status (conflict ''x'') = 409 \<and>
         problem_status (server_error ''x'') = 500 \<and> problem_status (validation_error ''x'') = 422 \<and>
         problem_detail unauthorized = None \<and> problem_detail forbidden = None \<and>
         problem_detail (conflict ''x'') \<noteq> None)"

definition test_api_response_ok_envelope :: bool where
  "test_api_response_ok_envelope =
     (let resp = ApiResponse_ok (42 :: int) in response_ok resp \<and> response_data resp = 42)"

definition test_page_from_all_slices_and_marks_more :: bool where
  "test_page_from_all_slices_and_marks_more =
     (let items = [1, 2, 3, 4, 5 :: int];
          page = from_all items 2 1;
          full = from_all items 10 0;
          empty = from_all items 10 100
      in page_items page = [2, 3] \<and> page_limit page = 2 \<and> page_offset page = 1 \<and>
         page_next_offset page = Some 3 \<and>
         length (page_items full) = 5 \<and> page_next_offset full = None \<and>
         page_items empty = [])"

definition test_health_probe_and_missing_route :: bool where
  "test_health_probe_and_missing_route =
     (fst (fst (client_get ''/health'' api_service)) = 200 \<and>
      fst (fst (client_get ''/nope'' api_service)) = 404)"

lemma envelope_tests:
  test_api_problem_constructions_carry_status_and_detail
  test_api_response_ok_envelope
  test_page_from_all_slices_and_marks_more
  test_health_probe_and_missing_route
  by code_simp+

section \<open>Domains, mailboxes and records\<close>

definition test_domain_crud_roundtrip :: bool where
  "test_domain_crud_roundtrip =
     (let (r1, s1) = client_post ''/domains'' [(''id'', JString ''example.com'')] api_service;
          (r2, s2) = client_get ''/domains/example.com'' s1;
          (r3, s3) = client_get ''/domains/gone.example'' s2;
          (r4, s4) = client_post ''/domains'' [(''id'', JString ''example.com'')] s3;
          (r5, s5) = client_delete ''/domains/example.com'' s4;
          (r6, s6) = client_get ''/domains/example.com'' s5;
          (r7, s7) = client_delete ''/domains/example.com'' s6
      in fst r1 = 200 \<and>
         answers (\<lambda>created. ddto_id created = ''example.com'' \<and> ddto_created_at created \<noteq> [] \<and>
           ddto_updated_at created \<noteq> []) (take_json DomainDTO_deserialize blank_domain r1) \<and>
         fst r2 = 200 \<and> fst r3 = 404 \<and> fst r4 = 200 \<and> fst r5 = 200 \<and> fst r6 = 404 \<and> fst r7 = 404)"

definition test_mailbox_crud_roundtrip_normalizes_case :: bool where
  "test_mailbox_crud_roundtrip_normalizes_case =
     (let (r1, s1) = client_post ''/mailboxes'' [(''id'', JString ''alice@example.com'')] api_service;
          (r2, s2) = client_get ''/mailboxes/alice@example.com'' s1;
          (r3, s3) = client_post ''/mailboxes'' [(''id'', JString ''alice@example.com'')] s2;
          (r4, s4) = client_patch ''/mailboxes/alice@example.com''
                       [(''forward_to'', JString ''external@host.com'')] s3;
          (r5, s5) = client_delete ''/mailboxes/alice@example.com'' s4;
          (r6, s6) = client_get ''/mailboxes/alice@example.com'' s5
      in fst r1 = 200 \<and>
         answers (\<lambda>m. mdto_id m = ''alice@example.com'') (take_json MailboxDTO_deserialize blank_mailbox r1) \<and>
         fst r2 = 200 \<and> fst r3 = 200 \<and> fst r4 = 200 \<and> fst r5 = 200 \<and> fst r6 = 404)"

definition test_create_mailbox_rejects_address_without_domain :: bool where
  "test_create_mailbox_rejects_address_without_domain =
     (fst (fst (client_post ''/mailboxes'' [(''id'', JString ''no-domain-part'')] api_service)) = 400)"

lemma domain_test: test_domain_crud_roundtrip
  by code_simp

lemma mailbox_tests:
  test_mailbox_crud_roundtrip_normalizes_case
  test_create_mailbox_rejects_address_without_domain
  by code_simp+

definition example_record_body :: "(string \<times> json) list" where
  "example_record_body =
     [(''domain_id'', JString ''example.com''), (''record_type'', JString ''MX''),
      (''value'', JString ''10 mail.example.com'')]"

definition record_path :: "http_response \<Rightarrow> string" where
  "record_path r =
     ''/records/'' @ (case take_json RecordApiDTO_deserialize blank_record r of
        None \<Rightarrow> [] | Some body \<Rightarrow> dec (rdto_id (response_data body)))"

definition record_created :: "http_response \<times> http_response \<times> service" where
  "record_created =
     (let (r0, s0) = client_post ''/records'' (example_record_body @ [(''ttl'', JNumber ''300'')]) api_service;
          (_, s1) = client_post ''/domains'' [(''id'', JString ''example.com'')] s0;
          (r2, s2) = client_post ''/records''
             [(''domain_id'', JString ''Example.COM''), (''record_type'', JString ''MX''),
              (''value'', JString ''10 mail.example.com'')] s1
      in (r0, r2, s2))"

definition record_read :: "string \<Rightarrow> service \<Rightarrow> bool \<times> service" where
  "record_read path s2 =
     (let (r3, s3) = client_get path s2;
          (r4, s4) = client_query ''/records'' [(''domain_id'', ''example.com''), (''record_type'', ''MX'')] s3
      in (fst r3 = 200 \<and> fst r4 = 200 \<and>
          answers (\<lambda>page. map (\<lambda>x. ''/records/'' @ dec (rdto_id x)) (page_items page) = [path])
            (take_json (\<lambda>D. Page_deserialize D (RecordApiDTO_deserialize D)) blank_page r4), s4))"

definition record_refused :: "service \<Rightarrow> bool \<times> service" where
  "record_refused s4 =
     (let (r5, s5) = client_post ''/records''
             [(''domain_id'', JString ''example.com''), (''record_type'', JString ''NOTATYPE''),
              (''value'', JString ''x'')] s4;
          (r6, s6) = client_post ''/records''
             [(''domain_id'', JString ''example.com''), (''record_type'', JString ''TXT''),
              (''value'', JString ''    '')] s5;
          (r7, s7) = client_post ''/records'' example_record_body s6
      in (fst r5 = 400 \<and> fst r6 = 400 \<and> fst r7 = 200, s7))"

definition record_patched_and_deleted :: "string \<Rightarrow> service \<Rightarrow> bool" where
  "record_patched_and_deleted path s7 =
     (let (r8, s8) = client_patch path [(''value'', JString ''10 mx2.example.com'')] s7;
          (r9, s9) = client_delete path s8;
          (r10, s10) = client_get path s9;
          (r11, s11) = client_delete path s10
      in fst r8 = 200 \<and>
         answers (\<lambda>x. rdto_value x = ''10 mx2.example.com'')
           (take_json RecordApiDTO_deserialize blank_record r8) \<and>
         fst r9 = 200 \<and> fst r10 = 404 \<and> fst r11 = 404)"

definition test_record_crud_roundtrip :: bool where
  "test_record_crud_roundtrip =
     (let (r0, r2, s2) = record_created;
          (read_ok, s4) = record_read (record_path r2) s2;
          (refused_ok, s7) = record_refused s4
      in fst r0 = 400 \<and> fst r2 = 200 \<and>
         answers (\<lambda>created. rdto_domain_id created = ''example.com'' \<and> rdto_record_type created = ''MX'' \<and>
           rdto_value created = ''10 mail.example.com'' \<and> rdto_ttl created = DEFAULT_RECORD_TTL \<and>
           rdto_created_at created \<noteq> [] \<and> rdto_updated_at created \<noteq> [])
           (take_json RecordApiDTO_deserialize blank_record r2) \<and>
         read_ok \<and> refused_ok \<and> record_patched_and_deleted (record_path r2) s7)"

text \<open>The database between the stages of the test.\<close>

definition record_zone :: mem where
  "record_zone = mem_empty
     \<lparr>m_domains := [\<lparr>domain_id = ''example.com'', domain_created_at = 0, domain_updated_at = 0\<rparr>],
      m_records := [\<lparr>record_domain_id = ''example.com'', record_type = RT_MX,
        record_value = ''10 mail.example.com'', record_ttl = 3600, record_id = 1, record_created_at = 0,
        record_updated_at = 0\<rparr>]\<rparr>"

definition stage :: "service \<Rightarrow> bool" where
  "stage s \<longleftrightarrow> fst s = record_zone \<and> Option.is_none (snd s)"

lemma stageD: "stage s \<Longrightarrow> s = (record_zone, None)"
  by (cases s; cases "snd s") (auto simp: stage_def)

lemma record_stage1:
  "case record_created of (r0, r2, s2) \<Rightarrow> fst r0 = 400 \<and> fst r2 = 200 \<and>
     answers (\<lambda>created. rdto_domain_id created = ''example.com'' \<and> rdto_record_type created = ''MX'' \<and>
       rdto_value created = ''10 mail.example.com'' \<and> rdto_ttl created = DEFAULT_RECORD_TTL \<and>
       rdto_created_at created \<noteq> [] \<and> rdto_updated_at created \<noteq> [])
       (take_json RecordApiDTO_deserialize blank_record r2) \<and>
     record_path r2 = ''/records/1'' \<and> stage s2"
  by code_simp

lemma record_stage2: "case record_read ''/records/1'' (record_zone, None) of (b, s) \<Rightarrow> b \<and> stage s"
  by code_simp

lemma record_stage3: "case record_refused (record_zone, None) of (b, s) \<Rightarrow> b \<and> stage s"
  by code_simp

lemma record_stage4: "record_patched_and_deleted ''/records/1'' (record_zone, None)"
  by code_simp

lemma stage_result: "(case x of (b, s) \<Rightarrow> b \<and> stage s) \<Longrightarrow> x = (True, record_zone, None)"
  by (cases x) (auto dest: stageD)

lemma record_tests: test_record_crud_roundtrip
proof -
  obtain r0 r2 s2 where c: "record_created = (r0, r2, s2)" by (cases record_created)
  note first = record_stage1 [unfolded c prod.case]
  then have "s2 = (record_zone, None)" by (blast dest: stageD)
  with first show ?thesis
    unfolding test_record_crud_roundtrip_def c
    by (simp add: stage_result [OF record_stage2] stage_result [OF record_stage3] record_stage4)
qed

section \<open>Sending and listing\<close>

definition provision_sender :: "service \<Rightarrow> string \<Rightarrow> http_response \<times> service" where
  "provision_sender service sender = client_post ''/mailboxes'' [(''id'', JString sender)] service"

definition test_send_email_enqueues_one_job_per_recipient :: bool where
  "test_send_email_enqueues_one_job_per_recipient =
     (let (r0, s0) = provision_sender api_service ''sender@example.com'';
          (r1, s1) = client_post ''/mail''
             [(''from'', JString ''sender@example.com''), (''to'', JArray [JString ''bob@ext.com'']),
              (''cc'', JArray [JString ''carol@ext.com'']), (''subject'', JString ''Hi there''),
              (''body'', JString ''Hello world'')] s0;
          sent = take_json SendResult_deserialize blank_sent r1;
          (r2, s2) = client_get (''/messages/'' @
             (case sent of None \<Rightarrow> [] | Some x \<Rightarrow> dec (sent_message_id (response_data x)))) s1
      in fst r0 = 200 \<and> fst r1 = 200 \<and> answers (\<lambda>x. length (sent_outbound_ids x) = 2) sent \<and>
         fst r2 = 200 \<and>
         answers (\<lambda>m. msg_mail_from m = ''sender@example.com'')
           (take_json MessageDTO_deserialize blank_message r2))"

definition test_send_email_requires_a_provisioned_sender :: bool where
  "test_send_email_requires_a_provisioned_sender =
     (fst (fst (client_post ''/mail''
        [(''from'', JString ''ghost@example.com''), (''to'', JArray [JString ''bob@ext.com'']),
         (''body'', JString ''x'')] api_service)) = 409)"

definition test_send_email_rejects_missing_recipients :: bool where
  "test_send_email_rejects_missing_recipients =
     (fst (fst (client_post ''/mail''
        [(''from'', JString ''sender@example.com''), (''to'', JArray []), (''body'', JString ''x'')]
        api_service)) = 400)"

definition test_send_email_rejects_malformed_recipient :: bool where
  "test_send_email_rejects_malformed_recipient =
     (let (r0, s0) = provision_sender api_service ''sender@example.com'';
          (r1, s1) = client_post ''/mail''
             [(''from'', JString ''sender@example.com''), (''to'', JArray [JString ''not-an-email'']),
              (''body'', JString ''x'')] s0
      in fst r0 = 200 \<and> fst r1 = 400)"

definition test_pagination_limit_query_param_is_honored :: bool where
  "test_pagination_limit_query_param_is_honored =
     (let (r, s) = client_query ''/domains'' [(''limit'', ''5'')] api_service
      in fst r = 200 \<and>
         answers (\<lambda>page. page_limit page = 5)
           (take_json (\<lambda>D. Page_deserialize D (DomainDTO_deserialize D)) blank_page r))"

definition test_pagination_limit_is_capped_at_max :: bool where
  "test_pagination_limit_is_capped_at_max =
     (let (r, s) = client_query ''/domains'' [(''limit'', dec_int (uint (MAX_PAGE_LIMIT + 500)))] api_service
      in fst r = 200 \<and>
         answers (\<lambda>page. page_limit page = MAX_PAGE_LIMIT)
           (take_json (\<lambda>D. Page_deserialize D (DomainDTO_deserialize D)) blank_page r))"

lemma sending_test: test_send_email_enqueues_one_job_per_recipient
  by code_simp

lemma refused_send_tests:
  test_send_email_requires_a_provisioned_sender
  test_send_email_rejects_missing_recipients
  test_send_email_rejects_malformed_recipient
  by code_simp+

lemma pagination_limit_test: test_pagination_limit_query_param_is_honored
  by code_simp

lemma pagination_cap_test: test_pagination_limit_is_capped_at_max
  by code_simp

definition lifecycle_sent :: "http_response \<times> service" where
  "lifecycle_sent =
     client_post ''/mail''
       [(''from'', JString ''sender@example.com''), (''to'', JArray [JString ''bob@ext.com'']),
        (''subject'', JString ''Lifecycle''), (''body'', JString ''hello'')]
       (snd (provision_sender api_service ''sender@example.com''))"

definition message_path :: "http_response \<Rightarrow> string" where
  "message_path r =
     ''/messages/'' @ (case take_json SendResult_deserialize blank_sent r of
        None \<Rightarrow> [] | Some x \<Rightarrow> dec (sent_message_id (response_data x)))"

definition test_message_lifecycle_get_and_delete_by_id :: bool where
  "test_message_lifecycle_get_and_delete_by_id =
     (let (r1, s1) = lifecycle_sent;
          path = message_path r1;
          (r2, s2) = client_get path s1;
          (r3, s3) = client_get ''/messages/999999'' s2;
          (r4, s4) = client_delete path s3;
          (r5, s5) = client_get path s4
      in fst r1 = 200 \<and> fst r2 = 200 \<and> fst r3 = 404 \<and> fst r4 = 200 \<and> fst r5 = 404)"

text \<open>A request for a message that does not exist reads only.\<close>

lemma get_unknown_message:
  assumes "list_all (\<lambda>m. message_id m < 10) (m_messages (fst s))"
  obtains r where "client_get ''/messages/999999'' s = (r, s)" "fst r = 404"
proof -
  have e: "in_order (\<lambda>x. x) create_router ''/messages/999999'' ''GET'' = Some Ep_get_message"
    by code_simp
  have c: "map_of (captures_in_order (\<lambda>x. x) api_with_doc ''/messages/999999'' ''GET'') ''message_id'' =
      Some ''999999''" by code_simp
  have p: "parse_unsigned 18446744073709551616 ''999999'' = Some 999999"
    by (simp add: parse_unsigned_def digit_val_def)
  have "lookup_row message_id (m_messages (fst s)) 999999 = None"
    using assms by (auto simp: lookup_row_def list_all_iff map_of_eq_None_iff)
  then have "\<exists>x. Message_get_by_id mail_world 999999 (fst s) = Err x"
    by (auto simp: mem_world_def toasty.defs mem_ops_def mem_get_def)
  then show thesis
    by (intro that [of "fst (client_get ''/messages/999999'' s)"])
      (auto simp: client_get_def client_send_def e reads_only_def param_u64_def param_def c p get_message_def
        missing_def)
qed

lemma lifecycle_without_unknown:
  "let (r1, s1) = lifecycle_sent;
       path = message_path r1;
       (r2, s2) = client_get path s1;
       (r4, s4) = client_delete path s2;
       (r5, s5) = client_get path s4
   in fst r1 = 200 \<and> fst r2 = 200 \<and> fst r4 = 200 \<and> fst r5 = 404 \<and>
      list_all (\<lambda>m. message_id m < 10) (m_messages (fst s2))"
  by code_simp

lemma lifecycle_test: test_message_lifecycle_get_and_delete_by_id
proof -
  obtain r1 s1 where c1: "lifecycle_sent = (r1, s1)" by (cases lifecycle_sent)
  obtain r2 s2 where c2: "client_get (message_path r1) s1 = (r2, s2)"
    by (cases "client_get (message_path r1) s1")
  have "list_all (\<lambda>m. message_id m < 10) (m_messages (fst s2))"
    using lifecycle_without_unknown by (simp add: c1 c2 Let_def split: prod.splits)
  then obtain r3 where "client_get ''/messages/999999'' s2 = (r3, s2)" "fst r3 = 404"
    by (rule get_unknown_message)
  with lifecycle_without_unknown show ?thesis
    by (auto simp: test_message_lifecycle_get_and_delete_by_id_def c1 c2 Let_def split: prod.splits)
qed

section \<open>Service control\<close>

definition test_service_list_defaults_to_idle :: bool where
  "test_service_list_defaults_to_idle =
     (let (r, s) = client_get ''/services'' service_api_service
      in fst r = 200 \<and>
         answers (\<lambda>reports. length reports = 4 \<and>
           list_all (\<lambda>x. report_status x = Idle \<and> report_service x \<in> {Api, Dns, Smtp, Smtps}) reports)
           (take_json (\<lambda>D. de_vec D (ServiceReport_deserialize D)) [] r))"

definition service_answer :: "http_response \<Rightarrow> (ServiceResult \<Rightarrow> bool) \<Rightarrow> bool" where
  "service_answer r P \<longleftrightarrow> fst r = 200 \<and> answers P (take_json ServiceResult_deserialize blank_result r)"

definition test_service_start_stop_is_idempotent :: bool where
  "test_service_start_stop_is_idempotent =
     (let (r1, s1) = client_command ''/services/smtp/start'' service_api_service;
          (r2, s2) = client_command ''/services/smtp/start'' s1;
          (r3, s3) = client_command ''/services/outbound/start'' s2;
          (r4, s4) = client_command ''/services/smtp/stop'' s3;
          (r5, s5) = client_command ''/services/smtp/stop'' s4
      in service_answer r1 (\<lambda>x. result_changed x \<and> result_status x = Running) \<and>
         service_answer r2 (\<lambda>x. \<not> result_changed x) \<and>
         fst r3 = 400 \<and>
         service_answer r4 (\<lambda>x. result_changed x \<and> result_status x = Idle) \<and>
         service_answer r5 (\<lambda>x. \<not> result_changed x))"

definition status_in :: "ServiceReport list \<Rightarrow> Service \<Rightarrow> Status option" where
  "status_in reports svc = map_option report_status (find (\<lambda>x. report_service x = svc) reports)"

definition test_service_mode_switches_all_services :: bool where
  "test_service_mode_switches_all_services =
     (let (r1, s1) = client_post ''/services/mode'' [(''mode'', JString ''dns'')] service_api_service;
          (r2, s2) = client_post ''/services/mode'' [(''mode'', JString ''full'')] s1;
          (r3, s3) = client_post ''/services/mode'' [(''mode'', JString ''banana'')] s2
      in fst r1 = 200 \<and>
         answers (\<lambda>reports. status_in reports Dns = Some Running \<and> status_in reports Smtp = Some Idle)
           (take_json (\<lambda>D. de_vec D (ServiceReport_deserialize D)) [] r1) \<and>
         fst r2 = 200 \<and>
         answers (\<lambda>reports. length reports = 4 \<and>
           list_all (\<lambda>x. report_status x = Running) (filter (\<lambda>x. report_service x \<noteq> Smtps) reports) \<and>
           status_in reports Smtps = Some Idle)
           (take_json (\<lambda>D. de_vec D (ServiceReport_deserialize D)) [] r2) \<and>
         fst r3 = 400)"

lemma service_command_tests:
  test_service_list_defaults_to_idle
  test_service_start_stop_is_idempotent
  by code_simp+

lemma service_mode_test: test_service_mode_switches_all_services
  by code_simp

end
