(* ===== verification/Spec2Isabelle.thy ===== *)
theory Spec2Isabelle
  imports Zm_Interleave Zm_Repeat Zm_Contract_Gaps Zm_Tests Zm_Tests_Net Zm_Tests_Api
begin

text \<open>
  A verification library for zonemail, a self-contained mail and DNS daemon: an HTTP interface to
  provision domains, mailboxes and DNS records and to send and read messages, an SMTP listener that
  stores and forwards mail for the provisioned mailboxes, a DNS server for the provisioned records, and
  a worker that delivers the queue of outgoing mail. All parts share one database.

  \<^bold>\<open>Layout.\<close> Each theory models one part; paths are relative to \<^verbatim>\<open>src/src\<close>.

  \<^item> \<open>Zm_Prelude\<close>: results, strings, numbers and saturating words, as the sources use the standard
    library. Strings are lists of bytes; letter case and white space are those of ASCII.
  \<^item> \<open>Zm_Db\<close> (\<^verbatim>\<open>db.rs\<close>): the rows of the seven tables, split into the columns an insert supplies and
    those the database adds, and the conversions.
  \<^item> \<open>Zm_Net\<close>: addresses of the standard library, their parsing and printing.
  \<^item> \<open>Zm_Config\<close>, \<open>Zm_Load\<close> (\<^verbatim>\<open>config.rs\<close>): the configuration, its defaults and derived values; and
    loading it, with the derived decoding of every type written out over a record for the data format.
  \<^item> \<open>Zm_Store\<close>, \<open>Zm_Memory\<close>: the database as the sources see it. The mapper library is a record of
    operations and its promises are the locales \<open>keyed_read\<close>, \<open>filtered_read\<close>, \<open>insertable\<close>,
    \<open>updatable\<close>, \<open>deletable\<close> and \<open>store\<close>, over a view of the state as tables; an executable in-memory
    database built from the schema attributes of \<^verbatim>\<open>db.rs\<close> interprets them.
  \<^item> \<open>Zm_Send\<close> (\<^verbatim>\<open>send.rs\<close>): producers, claim, delivery attempt, retry and the poll loop.
    \<open>Zm_Queue\<close> has the abstract state machine of a job and the locale \<open>mta\<close> (store and network), in
    which every operation of the worker refines that machine; \<open>Zm_Delivery\<close> the behaviour when the
    database answers; \<open>Zm_Outbound\<close> the executable world and the properties; \<open>Zm_Workers\<close> several
    workers on one database as interleaved steps.
  \<^item> \<open>Zm_Email\<close> (\<^verbatim>\<open>email.rs\<close>): recipients, received mail, forwards, listener settings.
  \<^item> \<open>Zm_Dns\<close> (\<^verbatim>\<open>dns.rs\<close>): answering a query and the receive loop.
  \<^item> \<open>Zm_Policy\<close>, \<open>Zm_Keys\<close>, \<open>Zm_Auth\<close> (\<^verbatim>\<open>auth/policy.rs\<close>, \<^verbatim>\<open>auth/keys.rs\<close>, \<^verbatim>\<open>auth/mod.rs\<close>,
    \<^verbatim>\<open>auth/guard.rs\<close>): grants and roles, verification keys and their cache, tokens and the guard.
  \<^item> \<open>Zm_Http\<close>, \<open>Zm_Provision\<close>, \<open>Zm_Messages\<close>, \<open>Zm_Router\<close> (\<^verbatim>\<open>api.rs\<close>): problem documents and
    pages; domains, mailboxes and records; sending and listing; the tree of routes, with the locale
    \<open>router_library\<close> for what the router library promises. \<open>Zm_Repeat\<close>: provisioning over
    several requests. \<open>Zm_Replies\<close>: the shape and the statuses of every answer;
    \<open>Zm_Wire\<close>: JSON bodies and responses, as the derived conversions read and write them.
  \<^item> \<open>Zm_Services\<close> (\<^verbatim>\<open>services.rs\<close>, and the service requests of \<^verbatim>\<open>api.rs\<close>): the manager of the
    listeners and its step relation.
  \<^item> \<open>Zm_App\<close> (\<^verbatim>\<open>app.rs\<close>, \<^verbatim>\<open>runtime.rs\<close>, \<^verbatim>\<open>main.rs\<close>): opening and seeding the database, building,
    booting and stopping the daemon, from the configuration files on.
  \<^item> \<open>Zm_System\<close>: all handlers and the worker as steps on the shared database, and the invariant of
    the tables. \<open>Zm_Interleave\<close>: the mail handler cut at its database calls, with any of those steps in
    between. \<open>Zm_Serve\<close>: a whole request, from path, query and JSON body through
    router, guard and handler to a status and a JSON document, with the locale \<open>capturing_library\<close> for
    what the router hands to a handler. \<open>Zm_Contract\<close>: the \<open>endpoint\<close> attributes of \<^verbatim>\<open>api.rs\<close>, the
    interface as it documents itself, with the handlers held against them; \<open>Zm_Contract_Gaps\<close>: where
    the two part, on concrete runs. This theory has the properties that span components.
  \<^item> \<open>Zm_Eval\<close>, \<open>Zm_Tests\<close>, \<open>Zm_Tests_Net\<close>, \<open>Zm_Tests_Api\<close>: the unit tests of the sources, replayed on
    the model by evaluation in the kernel.

  \<^bold>\<open>Conventions.\<close> A handler is a function of its decoded request and the state it may change, returning
  its response and the new state; errors are values (\<open>Err\<close>, a problem document, \<^const>\<open>None\<close> for a
  panic). Code outside the repository is an argument: the database, the clock and the network in one
  record (\<open>world\<close>), the token library (\<open>auth_lib\<close>), the DNS wire format (\<open>hickory\<close>), the message
  builder (\<open>lettre\<close>), the database driver, the router. Widths matter where the code computes with them:
  attempt counters, delays, limits and offsets are machine words.

  \<^bold>\<open>What the theorems show.\<close> The queue: every tick refines the state machine of a job in every outcome,
  a claim is exclusive, attempts are counted and capped without wrap-around, every attemptable job is
  delivered or failed in a bounded number of ticks, and two workers that re-queue each other's jobs can
  deliver twice. Access: the policy compiler reaches its fixpoint and computes inheritance, a handler behind the guard runs only
  for a verified and permitted token, and with the default configuration this covers every route but the
  health probe and the documentation; no raw request changes anything without permission to write or
  delete. Mail: only provisioned recipients, complete filing, reuse of a
  message with a known identifier, no relaying; filing survives any interleaving without deletions, and
  a deletion at the wrong moment loses an acknowledged mail. DNS: exactly the stored records. Interface: each
  create, patch, delete, send and listing request does what it answers, races included, creates and
  deletes can be repeated, every answer has a status and a body the endpoint declares, but for the
  listed failures, and survives its way through JSON, and no endpoint looks at an input it does not declare. Start-up: the loaded configuration is exactly what its sources
  say, exactly the configured services run, and seeding is complete. Services: no task is lost or doubled, a mode is exact. Together: the tables stay
  consistent under every sequence of steps, a created record is served, a deleted domain is gone from
  every listener, and a received mail is listed and forwarded.

  \<^bold>\<open>Bounds and fuel.\<close> Loops are structural recursion over what they iterate. The fixpoint loop of the
  role policy counts its passes as the code does. The worker's endless loop takes the number of ticks;
  the liveness theorems say how many are enough. The delays are shown exact for every value of the
  attempt counter. No other definition has fuel.

  \<^bold>\<open>Atomicity.\<close> The steps of \<open>Zm_System\<close> are whole handlers. Where the code looks before it inserts,
  the create handlers take what other tasks do in between as an argument, for the delivery worker \<open>Zm_Workers\<close>
  cuts the loop at its suspension points, and for received mail \<open>Zm_Interleave\<close> cuts the handler at its.

  \<^bold>\<open>Not modelled.\<close> How the configuration library reads and merges the file and the environment (an
  argument of \<open>Config_load\<close>), logging, the form of the generated OpenAPI document and its pages, the SMTP and HTTP
  protocols and TLS themselves, the text form of JSON, and the few unit tests that only exercise other
  libraries (the mail parser, the certificate tools).
\<close>

section \<open>The database stays consistent\<close>

text \<open>
  C1. Whatever requests, mails and worker turns follow one another, and whatever the database answers
  to any of them, the tables stay consistent: every link and every job points to a stored message,
  every job was queued for a provisioned mailbox, every record belongs to a provisioned domain and has
  a value, and every mailbox is filed under a lower-case address.
\<close>

theorem system_keeps_consistency:
  assumes "mta W view snapshot healthy" and "(system_step W L config)\<^sup>*\<^sup>* s s'" and "db_consistent (view s)"
  shows "db_consistent (view s')"
  using assms(2,3)
  by (induction rule: rtranclp_induct) (blast intro: mta.system_step_consistent [OF assms(1)])+

lemma mem_empty_consistent: "db_consistent (mem_view mem_empty)"
  by (auto simp: consistency_defs mem_empty_def mem_tables.defs no_rows_def ran_def)

theorem system_keeps_consistency_witness:
  "\<exists>s. (system_step mail_world plain_lettre default_config)\<^sup>*\<^sup>* mem_empty s \<and>
    map record_value (m_records s) = [''10 mx.x.org''] \<and> map inbound_rcpt_to (m_inbound s) = [''unknown''] \<and>
    db_consistent (mem_view s)"
proof -
  let ?W = mail_world
  let ?s1 = "snd (create_domain ?W (\<lambda>x. x) (Some \<lparr>new_domain_id = ''x.org''\<rparr>) mem_empty)"
  let ?s2 = "snd (create_record ?W (\<lambda>x. x) (Some example_new_record) ?s1)"
  let ?s3 = "snd (snd (handle_email ?W [1] new_handler ?s2))"
  have "system_step ?W plain_lettre default_config mem_empty ?s1"
    by (rule system_step.create_domain [OF prod.collapse [symmetric]])
  moreover have "system_step ?W plain_lettre default_config ?s1 ?s2"
    by (rule system_step.create_record [OF prod.collapse [symmetric]])
  moreover have "system_step ?W plain_lettre default_config ?s2 ?s3"
    by (rule system_step.handle_email [where data = "[1]" and h = new_handler
          and x = "fst (handle_email ?W [1] new_handler ?s2)"
          and h' = "fst (snd (handle_email ?W [1] new_handler ?s2))"]) (simp only: prod.collapse)
  ultimately have run: "(system_step ?W plain_lettre default_config)\<^sup>*\<^sup>* mem_empty ?s3"
    by (meson converse_rtranclp_into_rtranclp rtranclp.rtrancl_refl)
  moreover have "map record_value (m_records ?s3) = [''10 mx.x.org''] \<and>
      map inbound_rcpt_to (m_inbound ?s3) = [''unknown'']" by code_simp
  ultimately show ?thesis
    using system_keeps_consistency [OF mw.mta_axioms run mem_empty_consistent]
    by (intro exI [of _ ?s3]) (simp only: simp_thms)
qed

section \<open>The interface is guarded\<close>

lemma default_public_only:
  assumes "target_resource target \<notin> {''health'', ''doc''}" and "route_target p m = Some target"
  shows "\<not> is_public (AuthPolicy_build roles default_public) (target_resource target)"
proof -
  have "to_ascii_lowercase (target_resource target) = target_resource target"
    using assms(2) by (auto simp: route_target_def resource_for_path_def Let_def split: if_splits)
  moreover have "to_ascii_lowercase ` set default_public = {''health'', ''doc''}" by code_simp
  moreover have "policy_public (AuthPolicy_build roles default_public) = to_ascii_lowercase ` set default_public"
    by (simp add: AuthPolicy_build_def split_def Let_def)
  ultimately show ?thesis using assms(1) by (simp add: is_public_def)
qed

lemma AuthService_build_policy:
  assumes "AuthService_build L cfg k = (Ok a, k')" and "auth_enabled cfg"
  shows "svc_enabled a" "svc_fail_closed a = key_fail_closed (auth_keys cfg)"
    "svc_policy a = AuthPolicy_build (auth_roles cfg) (auth_public cfg)"
  using assms by (auto simp: AuthService_build_def split: sum.splits prod.splits)

lemma Daemon_build_auth:
  assumes "Daemon_build D T L show_error fs_read from_pkcs8 now c k = (Some (Ok (d, s)), k')"
  obtains k1 where "AuthService_build L (cfg_auth c) k = (Ok (daemon_auth d), k1)"
proof -
  from assms obtain k1 where "AppState_init D T L show_error now c k = (Ok (daemon_auth d, s), k1)"
    by (auto simp: Daemon_build_def split: sum.splits prod.splits option.splits)
  then show thesis using that by (auto simp: AppState_init_def split: sum.splits prod.splits)
qed

text \<open>The guard of a daemon that is configured to protect its interface.\<close>

lemma guard_of_daemon:
  assumes "router_library unescape select"
    and "Daemon_build D T L show_error fs_read from_pkcs8 now c k0 = (Some (Ok (d, s)), k1)"
    and "auth_enabled (cfg_auth c)" and "key_fail_closed (auth_keys (cfg_auth c))"
    and "auth_public (cfg_auth c) = default_public"
    and "endpoint_for select req = Some e" and "e \<notin> open_endpoints"
  shows "(\<exists>token header key raw claims target k2. extract_bearer req = Some token \<and>
      decode_header L token = Ok header \<and> header_alg header \<in> set (svc_algorithms (daemon_auth d)) \<and>
      signing_key L (daemon_auth d) header k = (Ok key, k2) \<and>
      decode L token key (validation_for (daemon_auth d)) (net k2) = Ok raw \<and>
      claims = extract_claims raw (svc_subject_claim (daemon_auth d)) (svc_role_claims (daemon_auth d)) \<and>
      route_target (req_path req) (req_method req) = Some target \<and>
      allows (AuthPolicy_build (auth_roles (cfg_auth c)) default_public) (claims_roles claims) target \<and>
      AuthGuard_handle L (daemon_auth d) req handler k = handler (Some claims) k2) \<or>
    (\<exists>st p k2. st \<in> {401, 403} \<and> AuthGuard_handle L (daemon_auth d) req handler k = (Problem st p, k2))"
proof -
  obtain target where t: "route_target (req_path req) (req_method req) = Some target"
    "target_resource target \<notin> {''health'', ''doc''}"
    using router_library.guarded_resource [OF assms(1,6,7)] by blast
  obtain k' where b: "AuthService_build L (cfg_auth c) k0 = (Ok (daemon_auth d), k')"
    by (rule Daemon_build_auth [OF assms(2)])
  note a = AuthService_build_policy [OF b assms(3)]
  have p: "\<not> is_public (svc_policy (daemon_auth d)) (target_resource target)"
    using default_public_only [OF t(2,1)] a(3) assms(5) by simp
  have fc: "svc_fail_closed (daemon_auth d)" using a(2) assms(4) by simp
  from guard_outcome [OF a(1) fc t(1) p, of L k handler] show ?thesis
    unfolding a(3) assms(5) using t(1) by blast
qed

text \<open>
  C2. The interface of a daemon whose configuration enables authentication, fails closed and keeps the
  default public resources: whatever path and method a request has, and however the path is escaped,
  the handler of an endpoint other than the health probe and the documentation runs only for a
  verified token whose roles permit the route; every other request is answered 401 or 403.
\<close>

theorem api_guarded:
  assumes "router_library unescape select"
    and "Daemon_build D T L show_error fs_read from_pkcs8 now c k0 = (Some (Ok (d, s)), k1)"
    and "auth_enabled (cfg_auth c)" and "key_fail_closed (auth_keys (cfg_auth c))"
    and "auth_public (cfg_auth c) = default_public"
    and "endpoint_for select req = Some e" and "e \<notin> open_endpoints"
  shows "(\<exists>token header key raw claims target k2. extract_bearer req = Some token \<and>
      decode_header L token = Ok header \<and> header_alg header \<in> set (svc_algorithms (daemon_auth d)) \<and>
      signing_key L (daemon_auth d) header k = (Ok key, k2) \<and>
      decode L token key (validation_for (daemon_auth d)) (net k2) = Ok raw \<and>
      claims = extract_claims raw (svc_subject_claim (daemon_auth d)) (svc_role_claims (daemon_auth d)) \<and>
      route_target (req_path req) (req_method req) = Some target \<and>
      allows (AuthPolicy_build (auth_roles (cfg_auth c)) default_public) (claims_roles claims) target \<and>
      Daemon_routes L select unrouted handler d req k = handler e (Some claims) k2) \<or>
    (\<exists>st p k2. st \<in> {401, 403} \<and> Daemon_routes L select unrouted handler d req k = (Problem st p, k2))"
proof -
  have r: "Daemon_routes L select unrouted handler d req k = AuthGuard_handle L (daemon_auth d) req (handler e) k"
    by (simp add: Daemon_routes_def assms(6))
  show ?thesis unfolding r by (rule guard_of_daemon [OF assms])
qed

definition guarded_config :: Config where
  "guarded_config = seed_config\<lparr>cfg_auth := example_auth\<rparr>"

lemma guarded_daemon:
  obtains d :: "unit Daemon" and s k1 where
    "Daemon_build mem_driver mem_ops example_lib (\<lambda>_. []) (\<lambda>_. Err []) (\<lambda>_ _. Err []) 0 guarded_config no_keys
      = (Some (Ok (d, s)), k1)"
proof -
  have "is_ok (fst (AppState_init mem_driver mem_ops example_lib (\<lambda>_. []) 0 guarded_config no_keys))"
    by code_simp
  then obtain a s k1 where
    i: "AppState_init mem_driver mem_ops example_lib (\<lambda>_. []) 0 guarded_config no_keys = (Ok (a, s), k1)"
    by (cases "AppState_init mem_driver mem_ops example_lib (\<lambda>_. []) 0 guarded_config no_keys")
      (auto simp: is_ok_iff)
  have t: "identity (\<lambda>_. Err []) (\<lambda>_ _. Err []) (cfg_smtp_tls guarded_config) = Ok (None :: unit option)"
    by code_simp
  have "cfg_host guarded_config = show_ipv4 0 0 0 0"
    by (simp add: guarded_config_def seed_config_def Config_default_def show_ipv4_def dec.simps digit_char_def)
      code_simp
  then have "dns_addr guarded_config \<noteq> None" "smtp_addr guarded_config \<noteq> None" "api_addr guarded_config \<noteq> None"
    by (simp_all add: api_addr_def smtp_addr_def dns_addr_def host_port_def parse_SocketAddr_ipv4)
  then obtain m spawn where "ServiceManager_new guarded_config (None :: unit option) = Some (m, spawn)"
    by (auto simp: ServiceManager_new_def)
  with i t show thesis
    by (intro that [of "\<lparr>daemon_cfg = guarded_config, daemon_auth = a, daemon_services = m,
        daemon_spawn = spawn\<rparr>" s k1]) (simp add: Daemon_build_def)
qed

theorem api_guarded_witness:
  "\<exists>d :: unit Daemon. (\<exists>s k1. Daemon_build mem_driver mem_ops example_lib (\<lambda>_. []) (\<lambda>_. Err []) (\<lambda>_ _. Err []) 0
      guarded_config no_keys = (Some (Ok (d, s)), k1)) \<and>
    (\<exists>st p k2. st \<in> {401, 403} \<and>
      Daemon_routes example_lib (in_order (\<lambda>x. x)) (reply 404 ()) (\<lambda>e c k. (reply 200 (), k)) d
        (example_request ''DELETE'') no_keys = (Problem st p, k2))"
proof -
  let ?b = "Daemon_build mem_driver mem_ops example_lib (\<lambda>_. []) (\<lambda>_. Err []) (\<lambda>_ _. Err []) 0
    guarded_config no_keys :: (unit Daemon \<times> mem, string) result option \<times> unit key_state"
  obtain d s k1 where b: "?b = (Some (Ok (d, s)), k1)" by (rule guarded_daemon)
  obtain k' where "AuthService_build example_lib example_auth no_keys = (Ok (daemon_auth d), k')"
    by (rule Daemon_build_auth [OF b]) (simp add: guarded_config_def)
  then have a: "daemon_auth d = example_service" by (simp add: example_service_def)
  have c: "auth_enabled (cfg_auth guarded_config)" "key_fail_closed (auth_keys (cfg_auth guarded_config))"
    "auth_public (cfg_auth guarded_config) = default_public"
    "endpoint_for (in_order (\<lambda>x. x)) (example_request ''DELETE'') = Some Ep_delete_domain"
    "Ep_delete_domain \<notin> open_endpoints"
    by code_simp+
  have n: "\<not> is_success (fst (AuthGuard_handle example_lib example_service (example_request ''DELETE'')
      (\<lambda>c k. (reply (200 :: StatusCode) (), k)) no_keys))" by code_simp
  from api_guarded [OF plain_router.router_library_axioms b c, where k = no_keys and unrouted = "reply 404 ()"
      and handler = "\<lambda>e c k. (reply 200 (), k)"] n b show ?thesis
    by (auto simp: is_success_def reply_def Daemon_routes_def c(4) a)
qed

text \<open>
  C3. Nothing changes without permission. Take any raw request to a daemon that protects its
  interface: if the database or the state of a service is different afterwards, then the request
  carried a token that verifies, whose roles permit to write or to delete on the resource of the path
  (permission to read never suffices), and all that happened is one step of the program: one whole
  handler on the database and one command of the service manager.
\<close>

theorem changes_need_permission:
  assumes "router_library unescape select"
    and "Daemon_build D T A show_error fs_read from_pkcs8 now c k0 = (Some (Ok (d, s0)), k1)"
    and "auth_enabled (cfg_auth c)" and "key_fail_closed (auth_keys (cfg_auth c))"
    and "auth_public (cfg_auth c) = default_public"
    and "serve W L A select cap doc unrouted d req (k, s, Some m) = (r, k', s', m')"
    and "(s', m') \<noteq> (s, Some m)"
  shows "(\<exists>token header key raw target k2. extract_bearer (http_head req) = Some token \<and>
      decode_header A token = Ok header \<and> header_alg header \<in> set (svc_algorithms (daemon_auth d)) \<and>
      signing_key A (daemon_auth d) header k = (Ok key, k2) \<and>
      decode A token key (validation_for (daemon_auth d)) (net k2) = Ok raw \<and>
      route_target (req_path (http_head req)) (req_method (http_head req)) = Some target \<and>
      target_verb target \<noteq> Read \<and>
      allows (AuthPolicy_build (auth_roles (cfg_auth c)) default_public)
        (claims_roles (extract_claims raw (svc_subject_claim (daemon_auth d))
          (svc_role_claims (daemon_auth d)))) target) \<and>
    (s' = s \<or> system_step W L config s s') \<and>
    (\<exists>m1. m' = Some m1 \<and> (m1 = m \<or> manager_step (daemon_spawn d) m m1))"
proof -
  from serve_changes [OF assms(6,7)] obtain e st k2 where
    e: "endpoint_for select (http_head req) = Some e" "e \<in> changing_endpoints"
    and g: "AuthGuard_handle A (daemon_auth d) (http_head req) (\<lambda>_ k. (NoContent 200 :: unit response, k)) k
      = (NoContent st, k2)"
    and h: "api_handler W L (daemon_spawn d) cap doc req e s (Some m) = (r, s', m')" .
  have "e \<notin> open_endpoints" using e(2) by (auto simp: changing_endpoints_def open_endpoints_def)
  from guard_of_daemon [OF assms(1-5) e(1) this, of k "\<lambda>_ k. (NoContent 200 :: unit response, k)"]
    router_library.changing_verb [OF assms(1) e] g
    api_handler_system_step [OF h, of config] api_handler_manager_step [OF h]
  show ?thesis by (elim disjE exE conjE) (simp, blast | simp)+
qed

definition example_post :: http_request where
  "example_post =
     \<lparr>http_head = \<lparr>req_path = ''/domains'', req_method = ''POST'', req_authorization = Some ''Bearer tok''\<rparr>,
      http_query = [], http_body = Some (JObject [(''id'', JString ''y.org'')])\<rparr>"

theorem changes_need_permission_witness:
  "\<exists>(d :: unit Daemon) s k1 r k' s' m'. Daemon_build mem_driver mem_ops example_lib (\<lambda>_. []) (\<lambda>_. Err [])
      (\<lambda>_ _. Err []) 0 guarded_config no_keys = (Some (Ok (d, s)), k1) \<and>
    serve mail_world plain_lettre example_lib (in_order (\<lambda>x. x)) (captures_in_order (\<lambda>x. x)) (\<lambda>_. (200, None))
      (404, None) d example_post (no_keys, mem_empty, Some (daemon_services d)) = (r, k', s', m') \<and>
    s' \<noteq> mem_empty \<and> system_step mail_world plain_lettre default_config mem_empty s'"
proof -
  let ?b = "Daemon_build mem_driver mem_ops example_lib (\<lambda>_. []) (\<lambda>_. Err []) (\<lambda>_ _. Err []) 0
    guarded_config no_keys :: (unit Daemon \<times> mem, string) result option \<times> unit key_state"
  obtain d s k1 where b: "?b = (Some (Ok (d, s)), k1)" by (rule guarded_daemon)
  obtain k' where "AuthService_build example_lib example_auth no_keys = (Ok (daemon_auth d), k')"
    by (rule Daemon_build_auth [OF b]) (simp add: guarded_config_def)
  then have a: "daemon_auth d = example_service" by (simp add: example_service_def)
  have c: "auth_enabled (cfg_auth guarded_config)" "key_fail_closed (auth_keys (cfg_auth guarded_config))"
    "auth_public (cfg_auth guarded_config) = default_public" by code_simp+
  have e: "endpoint_for (in_order (\<lambda>x. x)) (http_head example_post) = Some Ep_create_domain"
    by code_simp
  have g: "AuthGuard_handle example_lib example_service (http_head example_post)
      (\<lambda>_ k. (NoContent 200 :: unit response, k)) no_keys = (NoContent 200, no_keys)" by code_simp
  let ?x = "create_domain mail_world (\<lambda>x. x) (parse_json NewDomain_deserialize example_post) mem_empty"
  have n: "m_domains (snd ?x) \<noteq> m_domains mem_empty" by code_simp
  have s: "serve mail_world plain_lettre example_lib (in_order (\<lambda>x. x)) (captures_in_order (\<lambda>x. x)) (\<lambda>_. (200, None))
      (404, None) d example_post (no_keys, mem_empty, Some (daemon_services d)) =
      (render DomainDTO_serialize (fst ?x), no_keys, snd ?x, Some (daemon_services d))"
    by (simp add: serve_def e a g with_db_def)
  from n have "snd ?x \<noteq> mem_empty" by metis
  with changes_need_permission [OF plain_router.router_library_axioms b c s, of default_config] b s
  show ?thesis by blast
qed

section \<open>From the interface to the listeners\<close>


definition address_record :: NewRecord where
  "address_record = decode_NewRecord '' X.org '' ''A'' ''10.0.0.1'' (Some 300)"

lemma address_record_facts:
  "parse_record_type (trim (new_record_type address_record)) = Ok RT_A"
  "to_lowercase (trim (new_record_domain_id address_record)) = ''x.org''"
  "trim (new_record_value address_record) = ''10.0.0.1''" "new_record_ttl address_record = 300"
  by code_simp+


text \<open>
  C5. Removing a domain takes effect everywhere at once: the request is answered 200, every recipient
  at a mailbox of the domain is refused from then on, no query for its name finds a record, and no job
  of its mailboxes is left in the queue; the stored messages stay.
\<close>

theorem removed_domain_is_gone:
  assumes "mta W view snapshot healthy" and "healthy s" and "d \<in> dom (t_domains (view s))"
    and "delete_domain W (Some d) s = (r, s1)"
  shows "r = reply 200 () \<and> d \<notin> dom (t_domains (view s1)) \<and>
    (\<forall>to m h. t_mailboxes (view s) (clean_email to) = Some m \<and> mailbox_domain_id m = d \<longrightarrow>
      handle_rcpt W to h s1 = (Err Abort, h)) \<and>
    (\<forall>q. clean_name L (query_name q) = d \<longrightarrow> zone_rows L (view s1) q = {}) \<and>
    (\<forall>j \<in> ran (t_outbound (view s1)). \<forall>m. t_mailboxes (view s) (outbound_sender_id j) = Some m \<longrightarrow>
      mailbox_domain_id m \<noteq> d) \<and>
    t_messages (view s1) = t_messages (view s)"
proof -
  have st: "store W view snapshot healthy" by (rule mta.axioms(1) [OF assms(1)])
  have v: "r = reply 200 ()" "view s1 = delete_domains d (view s)"
    using store.delete_domain_exact [OF st assms(2,4)] assms(3) by simp_all
  note eff = delete_domains_def delete_mailboxes_def delete_outbounds_def Let_def
  have gone: "t_mailboxes (view s1) a = None"
    if "t_mailboxes (view s) a = Some m" "mailbox_domain_id m = d" for a m
    using that unfolding v(2) by (simp add: eff without_def)
  have "handle_rcpt W to h s1 = (Err Abort, h)"
    if "t_mailboxes (view s) (clean_email to) = Some m" "mailbox_domain_id m = d" for to m h
    using store.mailbox_lookup(2) [OF st, of "clean_email to" s1] gone [OF that] by (auto simp: handle_rcpt_def)
  moreover have "zone_rows L (view s1) q = {}" if "clean_name L (query_name q) = d" for q
    using that unfolding v(2) by (auto simp: zone_rows_def eff ran_without)
  moreover have "mailbox_domain_id m \<noteq> d"
    if "j \<in> ran (t_outbound (view s1))" "t_mailboxes (view s) (outbound_sender_id j) = Some m" for j m
    using that unfolding v(2) by (auto simp: eff ran_without)
  moreover have "d \<notin> dom (t_domains (view s1))" "t_messages (view s1) = t_messages (view s)"
    unfolding v(2) by (simp_all add: eff)
  ultimately show ?thesis using v(1) by blast
qed

definition live_domain :: mem where
  "live_domain = zone_db\<lparr>m_mailboxes := [example_mailbox ''a@x.org'' None]\<rparr>"

theorem removed_domain_is_gone_witness:
  "handle_rcpt mail_world ''<A@x.org>'' new_handler live_domain =
     (Ok Response_Default, \<lparr>recipients = [''a@x.org'']\<rparr>) \<and>
   (\<exists>s1. delete_domain mail_world (Some ''x.org'') live_domain = (reply 200 (), s1) \<and>
     handle_rcpt mail_world ''<A@x.org>'' new_handler s1 = (Err Abort, new_handler))"
proof -
  obtain r s1 where d: "delete_domain mail_world (Some ''x.org'') live_domain = (r, s1)"
    by (cases "delete_domain mail_world (Some ''x.org'') live_domain")
  have up: "mem_up live_domain" by (simp add: live_domain_def)
  have m: "t_mailboxes (mem_view live_domain) (clean_email ''<A@x.org>'') = Some (example_mailbox ''a@x.org'' None)"
    "mailbox_domain_id (example_mailbox ''a@x.org'' None) = ''x.org''" by code_simp+
  have dom: "''x.org'' \<in> dom (t_domains (mem_view live_domain))" by (simp add: live_domain_def zone_db_def dom_def)
  have "handle_rcpt mail_world ''<A@x.org>'' new_handler live_domain =
     (Ok Response_Default, \<lparr>recipients = [''a@x.org'']\<rparr>)" by code_simp
  with removed_domain_is_gone [OF mw.mta_axioms up dom d, of plain_hickory] m d show ?thesis by blast
qed

section \<open>From a received mail to its readers\<close>

lemma forward_job_in:
  "r \<in> set rs \<Longrightarrow> t_mailboxes t r = Some m \<Longrightarrow> mailbox_forward_to m = Some f \<Longrightarrow>
   queued_job mid f r \<in> set (forward_jobs t mid rs)"
  by (induction rs) (auto simp: forward_jobs_Cons split: option.splits)

lemma message_filed_at:
  assumes "message_filed t key f mid msgs"
  shows "\<exists>m. msgs mid = Some m \<and>
    ((\<forall>y \<in> ran (t_messages t). key = None \<or> message_id_header y \<noteq> key) \<longrightarrow> message_fields.truncate m = f)"
proof (cases "\<exists>m \<in> ran (t_messages t). key \<noteq> None \<and> message_id_header m = key")
  case True
  with assms show ?thesis by (auto simp: message_filed_def)
next
  case False
  with assms show ?thesis by (auto simp: message_filed_def)
qed


lemma mail_state_no_messages: "ran (t_messages (mem_view mail_state)) = {}"
  by (auto simp: mail_state_def mem_empty_def mem_tables.defs no_rows_def ran_def)




end
